(* ===== verification/Ppsi_Prelude.thy ===== *)
theory Ppsi_Prelude
  imports Main "HOL-Library.Word"
begin

text \<open>
  What the components of the development share: names for the C integer types, the lemma
  collections, exactness lemmas for two's complement arithmetic, and the byte-level routines of
  \<^verbatim>\<open>lib/libc-functions.c\<close> the protocol code rests on.

  A C integer of width \<open>w\<close> is an Isabelle word of that width.  Whether it is signed is a matter
  of the operations applied to it: \<^const>\<open>sint\<close> and \<^const>\<open>signed_drop_bit\<close> read and shift it as
  a signed value, \<^const>\<open>uint\<close>, \<^const>\<open>unat\<close> and \<^const>\<open>drop_bit\<close> as an unsigned one.  Sums,
  differences and products wrap around, as the generated code does.
\<close>

unbundle bit_operations_syntax

type_synonym u8 = "8 word"
type_synonym u16 = "16 word"
type_synonym u32 = "32 word"
type_synonym u64 = "64 word"
type_synonym s8 = "8 word"
type_synonym s16 = "16 word"
type_synonym s32 = "32 word"
type_synonym s64 = "64 word"

named_theorems exact \<open>signed and unsigned operations that do not wrap around\<close>
named_theorems frame \<open>what an operation leaves alone\<close>

section \<open>Signed arithmetic that does not overflow\<close>

lemma sint_range64: "- (2 ^ 63) \<le> sint (x :: s64)" "sint (x :: s64) < 2 ^ 63"
  using sint_ge [of x] sint_lt [of x] by simp_all

lemma signed_take_bit_63_exact:
  "- (2 ^ 63) \<le> k \<Longrightarrow> k < 2 ^ 63 \<Longrightarrow> signed_take_bit 63 (k :: int) = k"
  by (simp add: signed_take_bit_int_eq_self)

lemma uint_range64: "0 \<le> uint (x :: u64)" "uint (x :: u64) < 2 ^ 64"
  using uint_lt2p [of x] by simp_all

lemma signed_take_bit_63_unsigned:
  assumes "0 \<le> k" and "k < 2 ^ 64"
  shows "signed_take_bit 63 (k :: int) = (if k < 2 ^ 63 then k else k - 2 ^ 64)"
proof -
  have "signed_take_bit 63 k = signed_take_bit 63 (k - 2 ^ 64)"
    by (subst signed_take_bit_eq_iff_take_bit_eq) (simp add: take_bit_eq_mod)
  then show ?thesis
    using assms signed_take_bit_63_exact [of k] signed_take_bit_63_exact [of "k - 2 ^ 64"]
    by (cases "k < 2 ^ 63") simp_all
qed

lemma sint_eq_uint64:
  fixes x :: s64
  shows "sint x = (if uint x < 2 ^ 63 then uint x else uint x - 2 ^ 64)"
  using signed_take_bit_63_unsigned [OF uint_range64, of x] by (simp add: sint_uint)

lemma sint_pos_uint64:
  fixes x :: s64
  shows "0 < sint x \<longleftrightarrow> 0 < uint x \<and> uint x < 2 ^ 63"
  using uint_range64 [of x] by (simp add: sint_eq_uint64)

lemma sint_0_iff [simp]: "sint (x :: 'a :: len word) = 0 \<longleftrightarrow> x = 0"
  using signed_word_eqI [of x 0] by auto

lemma uint_add_exact [exact]:
  "uint (a :: u64) + uint b < 2 ^ 64 \<Longrightarrow> uint (a + b) = uint a + uint b"
  by (simp add: uint_word_ariths)

lemma uint_sub_exact [exact]:
  "uint b \<le> uint (a :: u64) \<Longrightarrow> uint (a - b) = uint a - uint b"
  by (rule uint_sub_lem [THEN iffD1])

lemma uint_drop_bit: "uint (drop_bit n (x :: 'a :: len word)) = uint x div 2 ^ n"
  by (simp only: unsigned_drop_bit_eq) (simp only: bintr_uint [OF order_refl] drop_bit_eq_div)

lemma uint_nat_less: "uint (x :: 'a :: len word) < uint y \<longleftrightarrow> unat x < unat (y :: 'a :: len word)"
  by (simp only: word_less_def [symmetric] word_less_nat_alt)

lemma uint_pos: "0 < uint (x :: 'a :: len word) \<longleftrightarrow> x \<noteq> 0"
  by (simp add: word_neq_0_conv word_less_def)

lemma uint_push_bit_exact [exact]:
  "uint (x :: u64) * 2 ^ n < 2 ^ 64 \<Longrightarrow> uint (push_bit n x) = uint x * 2 ^ n"
  by (simp only: unsigned_push_bit_eq) (simp add: push_bit_eq_mult take_bit_eq_mod)

lemma uint_ucast32_64 [simp]: "uint (ucast (x :: u32) :: u64) = uint x"
  by (rule uint_up_ucast) (simp add: is_up)

lemma uint_mult_exact [exact]:
  "uint (a :: u64) * uint b < 2 ^ 64 \<Longrightarrow> uint (a * b) = uint a * uint b"
  by (simp add: uint_word_ariths)

lemma sint_add_exact [exact]:
  fixes a b :: s64
  assumes "- (2 ^ 63) \<le> sint a + sint b" and "sint a + sint b < 2 ^ 63"
  shows "sint (a + b) = sint a + sint b"
  using assms by (simp add: sint_word_ariths signed_take_bit_63_exact)

lemma sint_sub_exact [exact]:
  fixes a b :: s64
  assumes "- (2 ^ 63) \<le> sint a - sint b" and "sint a - sint b < 2 ^ 63"
  shows "sint (a - b) = sint a - sint b"
  using assms by (simp add: sint_word_ariths signed_take_bit_63_exact)

lemma sint_minus_exact [exact]:
  fixes a :: s64
  assumes "sint a \<noteq> - (2 ^ 63)"
  shows "sint (- a) = - sint a"
  using assms sint_range64 [of a] by (simp add: sint_word_ariths signed_take_bit_63_exact)

lemma sint_mult_exact [exact]:
  fixes a b :: s64
  assumes "- (2 ^ 63) \<le> sint a * sint b" and "sint a * sint b < 2 ^ 63"
  shows "sint (a * b) = sint a * sint b"
  using assms by (simp add: sint_word_ariths signed_take_bit_63_exact)

section \<open>Magnitude and sign\<close>

lemma uint_nonneg_sint: "0 \<le> sint (x :: s64) \<Longrightarrow> uint x = sint x"
  using uint_range64(2) [of x] by (simp add: sint_eq_uint64 split: if_splits)

lemma sint_small_uint: "uint (x :: s64) < 2 ^ 63 \<Longrightarrow> sint x = uint x"
  by (simp add: sint_eq_uint64)

lemma uint_abs64:
  fixes p :: s64
  assumes "sint p \<noteq> - (2 ^ 63)"
  shows "uint (p * (if sint p < 0 then - 1 else 1)) = \<bar>sint p\<bar>"
  using sint_minus_exact [OF assms] uint_nonneg_sint [of p] uint_nonneg_sint [of "- p"] by simp

lemma sint_apply_sign:
  fixes x :: s64
  assumes "uint x < 2 ^ 63"
  shows "sint (x * (if neg then - 1 else 1)) = (if neg then - uint x else uint x)"
proof -
  have "sint x = uint x" by (rule sint_small_uint [OF assms])
  moreover from this have "0 \<le> sint x" by simp
  then have "sint x \<noteq> - (2 ^ 63)" by auto
  ultimately show ?thesis by (simp add: sint_minus_exact)
qed

lemma div_scale: "0 < d \<Longrightarrow> (k :: int) div d * c + k mod d * c div d = k * c div d"
proof -
  assume "0 < d"
  have "k * c = (k div d * d + k mod d) * c" by simp
  also have "\<dots> = k mod d * c + d * (k div d * c)" by (simp only: algebra_simps)
  finally show ?thesis using \<open>0 < d\<close> by simp
qed

lemma odd_sint64: "odd (sint (x :: s64)) \<longleftrightarrow> odd x"
proof -
  have "odd (uint x) \<longleftrightarrow> odd x" using bit_uint_iff [of x 0] by (simp add: bit_0)
  then show ?thesis by (simp add: sint_eq_uint64)
qed

section \<open>Signed values from integers\<close>

lemma sint_of_int: "- (2 ^ (LENGTH('a) - 1)) \<le> k \<Longrightarrow> k < 2 ^ (LENGTH('a) - 1) \<Longrightarrow>
    sint (word_of_int k :: 'a :: len word) = k"
  by (simp only: sint_sbintrunc') (simp add: signed_take_bit_int_eq_self)

lemma sint_of_int64: "- (2 ^ 63) \<le> k \<Longrightarrow> k < 2 ^ 63 \<Longrightarrow> sint (word_of_int k :: 64 word) = k"
  using sint_of_int [where ?'a = 64, of k] by simp

lemma sint_of_int32: "- (2 ^ 31) \<le> k \<Longrightarrow> k < 2 ^ 31 \<Longrightarrow> sint (word_of_int k :: 32 word) = k"
  using sint_of_int [where ?'a = 32, of k] by simp

lemma sint_range32: "- (2 ^ 31) \<le> sint (x :: 32 word)" "sint (x :: 32 word) < 2 ^ 31"
  using sint_ge [of x] sint_lt [of x] by simp_all

lemma sint_diff64:
  fixes a b c :: u64
  assumes "\<bar>sint (a - c)\<bar> < 2 ^ 62" and "\<bar>sint (b - c)\<bar> < 2 ^ 62"
  shows "sint (a - b) = sint (a - c) - sint (b - c)"
  using sint_sub_exact [of "a - c" "b - c"] assms by auto

lemma ucast32_sint:
  fixes a :: u64
  assumes "0 \<le> sint a" and "sint a < 2 ^ 31"
  shows "sint (ucast a :: s32) = sint a"
proof -
  have "uint a = sint a" using assms by (simp add: uint_nonneg_sint)
  then have "(ucast a :: s32) = word_of_int (sint a)" by (simp add: ucast_eq)
  then show ?thesis using assms sint_of_int32 [of "sint a"] by simp
qed

lemma sint_small_uint32: "uint (x :: u32) < 2 ^ 31 \<Longrightarrow> sint x = uint x"
  using order_trans [of "- (2 ^ 31)" 0 "uint x"] by (simp add: sint_uint signed_take_bit_int_eq_self)

lemma uint_of_int32: "0 \<le> k \<Longrightarrow> k < 2 ^ 32 \<Longrightarrow> uint (word_of_int k :: u32) = k"
  by (simp add: uint_word_of_int_eq take_bit_int_eq_self)

lemma sint_add32: "- (2 ^ 31) \<le> sint a + sint b \<Longrightarrow> sint a + sint b < 2 ^ 31 \<Longrightarrow> sint ((a :: s32) + b) = sint a + sint b"
  by (simp add: sint_word_ariths signed_take_bit_int_eq_self)

lemma sint_mult32: "- (2 ^ 31) \<le> sint a * sint b \<Longrightarrow> sint a * sint b < 2 ^ 31 \<Longrightarrow> sint ((a :: s32) * b) = sint a * sint b"
  by (simp add: sint_word_ariths signed_take_bit_int_eq_self)

lemma sint_minus32: "sint (a :: s32) \<noteq> - (2 ^ 31) \<Longrightarrow> sint (- a) = - sint a"
  using sint_range32 [of a] by (simp add: sint_word_ariths signed_take_bit_int_eq_self)

section \<open>Small integers and list slots\<close>

lemma int_less_uint: "int k < uint (w :: 'a :: len word) \<longleftrightarrow> k < unat w"
  by (simp only: uint_nat of_nat_less_iff)

lemma sint_m1_iff: "sint (x :: 'a :: len word) = - 1 \<longleftrightarrow> x = - 1"
  using signed_word_eqI [of x "- 1"] by auto

lemma sint_of_nat16: "k < 2 ^ 15 \<Longrightarrow> sint (word_of_nat k :: s16) = int k"
  by (simp add: sint_uint unsigned_of_nat take_bit_nat_eq_self signed_take_bit_int_eq_self)

lemma sint_of_nat32: "k < 2 ^ 31 \<Longrightarrow> sint (word_of_nat k :: s32) = int k"
  by (simp add: sint_uint unsigned_of_nat take_bit_nat_eq_self signed_take_bit_int_eq_self)

lemma shift_one:
  fixes xs :: "'a list" and z :: 'a
  assumes "idx \<le> n" and "n < length xs"
  defines "A \<equiv> take idx xs @ take (n - idx) (drop (Suc idx) (xs @ [z]))"
  shows "((A @ drop n xs) @ [z]) ! Suc n = (xs @ [z]) ! Suc n"
    and "(A @ drop n xs)[n := (xs @ [z]) ! Suc n] =
         take idx xs @ take (Suc n - idx) (drop (Suc idx) (xs @ [z])) @ drop (Suc n) xs"
proof -
  have len: "length A = n" using assms by (simp add: A_def)
  have "(A @ drop n xs) @ [z] = A @ drop n (xs @ [z])" using assms by simp
  moreover have "(A @ drop n (xs @ [z])) ! Suc n = drop n (xs @ [z]) ! 1"
    using nth_append_length_plus [of A "drop n (xs @ [z])" 1] len by simp
  moreover have "drop n (xs @ [z]) ! 1 = (xs @ [z]) ! Suc n"
    using nth_drop [of n "xs @ [z]" 1] assms by simp
  ultimately show "((A @ drop n xs) @ [z]) ! Suc n = (xs @ [z]) ! Suc n" by (simp only:)
  have "Suc n - idx = Suc (n - idx)" using assms by simp
  moreover have "n - idx < length (drop (Suc idx) (xs @ [z]))" using assms by simp
  ultimately have "take (Suc n - idx) (drop (Suc idx) (xs @ [z])) =
      take (n - idx) (drop (Suc idx) (xs @ [z])) @ [drop (Suc idx) (xs @ [z]) ! (n - idx)]"
    by (simp only: take_Suc_conv_app_nth)
  also have "drop (Suc idx) (xs @ [z]) ! (n - idx) = (xs @ [z]) ! Suc n"
    using assms by (subst nth_drop) simp_all
  finally have t: "take (Suc n - idx) (drop (Suc idx) (xs @ [z])) =
      take (n - idx) (drop (Suc idx) (xs @ [z])) @ [(xs @ [z]) ! Suc n]" .
  have "(A @ drop n xs)[n := v] = A @ v # drop (Suc n) xs" for v
    using len assms Cons_nth_drop_Suc [of n xs, symmetric] by (simp add: list_update_append)
  then show "(A @ drop n xs)[n := (xs @ [z]) ! Suc n] =
         take idx xs @ take (Suc n - idx) (drop (Suc idx) (xs @ [z])) @ drop (Suc n) xs"
    unfolding t A_def by simp
qed

lemma distinct_map_remove:
  "distinct (map f xs) \<Longrightarrow> distinct (map f (take k xs @ drop (Suc k) xs))"
  using set_take_disj_set_drop_if_distinct [of "map f xs" k "Suc k"]
  by (simp add: take_map [symmetric] drop_map [symmetric] del: set_map)

lemma distinct_replace:
  assumes "distinct xs" and "x \<notin> set xs \<or> k < length xs \<and> xs ! k = x"
  shows "distinct (xs[k := x])"
  using assms distinct_list_update [of xs x k] by (auto simp: list_update_id)

lemma unat_pred16: "k < unat (n :: u16) \<Longrightarrow> unat (n - 1) = unat n - 1 \<and> uint (n - 1) = uint n - 1"
proof -
  assume "k < unat n"
  then have "n \<noteq> 0" by auto
  then have u: "unat (n - 1) = unat n - 1" by (simp add: unat_minus_one)
  from \<open>k < unat n\<close> have "1 \<le> unat n" by simp
  then have "int (unat (n - 1)) = int (unat n) - 1" unfolding u by simp
  then have "uint (n - 1) = uint n - 1" by simp
  with u show ?thesis by simp
qed

end
