(* ===== verification/Div64.thy ===== *)
theory Div64
  imports Ppsi_Prelude
begin

text \<open>
  The 64 by 32 bit division of \<^verbatim>\<open>lib/div64.c\<close>: \<^verbatim>\<open>__div64_32\<close> divides a 64-bit number by a
  32-bit base with shifts, additions and comparisons only, and returns quotient and remainder.
  The model follows the routine loop by loop; \<open>div64_32_correct\<close> is its contract, under which
  the rest of the development uses it.
\<close>

section \<open>The routine\<close>

function div64_up :: "u64 \<Rightarrow> u64 \<Rightarrow> u64 \<Rightarrow> u64 \<times> u64" where
  "div64_up b d rem = (if 0 < sint b \<and> b < rem then div64_up (b + b) (d + d) rem else (b, d))"
  by pat_completeness auto
termination
proof (relation "measure (\<lambda>(b, d, rem). nat (2 ^ 64 - uint b))", goal_cases)
  case 1
  show ?case by simp
next
  case (2 b d rem)
  then have "0 < uint b" "uint b < 2 ^ 63" by (simp_all add: sint_pos_uint64)
  then show ?case by (simp add: exact)
qed

function div64_down :: "u64 \<Rightarrow> u64 \<Rightarrow> u64 \<Rightarrow> u64 \<Rightarrow> u64 \<times> u64" where
  "div64_down b d rem res =
     (let (rem', res') = (if b \<le> rem then (rem - b, res + d) else (rem, res));
          b' = drop_bit 1 b; d' = drop_bit 1 d
      in if d' \<noteq> 0 then div64_down b' d' rem' res' else (rem', res'))"
  by pat_completeness auto
termination
proof (relation "measure (\<lambda>(b, d, rem, res). nat (uint d))", goal_cases)
  case 1
  show ?case by simp
next
  case (2 b d rem res x xa y xb xc)
  then have "d \<noteq> 0" by auto
  then have "0 < uint d" by (simp add: word_neq_0_conv word_less_def)
  then have "uint (drop_bit 1 d) < uint d" by (simp only: uint_drop_bit) simp
  with 2 show ?case by (simp add: uint_nat_less)
qed

declare div64_up.simps [simp del] div64_down.simps [simp del]

definition div64_32 :: "u64 \<Rightarrow> u32 \<Rightarrow> (u64 \<times> u32) option" where
  "div64_32 n base =
     (if base = 0 then None
      else let rem = n; b = ucast base; high = ucast (drop_bit 32 rem) :: u32;
               (res, rem) = (if base \<le> high
                 then (push_bit 32 (ucast (high div base)),
                       rem - push_bit 32 (ucast (high div base * base)))
                 else (0, rem));
               (b, d) = div64_up b 1 rem;
               (rem, res) = div64_down b d rem res
           in Some (res, ucast rem))"

section \<open>Correctness\<close>

text \<open>
  The first loop doubles base and weight together until the base reaches the remainder or its
  top bit is set; either way the remainder is below twice the base when it stops.
\<close>

lemma div64_up_result:
  assumes "div64_up b d rem = (b', d')"
    and "0 < uint b" and "uint b = c * uint d" and "uint d = 2 ^ k" and "0 < c"
  shows "uint b' = c * uint d' \<and> (\<exists>k'. uint d' = 2 ^ k') \<and> uint rem < 2 * uint b'"
  using assms
proof (induction b d rem arbitrary: k rule: div64_up.induct)
  case (1 b d rem)
  show ?case
  proof (cases "0 < sint b \<and> b < rem")
    case True
    then have b: "uint b < 2 ^ 63" by (simp add: sint_pos_uint64)
    have "uint d \<le> uint b" using 1(4,5,6) by (simp add: mult_le_cancel_right1)
    with b have dd: "uint (b + b) = 2 * uint b" "uint (d + d) = 2 * uint d" by (simp_all add: exact)
    show ?thesis
      by (rule 1(1) [OF True, of "Suc k"])
        (use 1(2,3,4,5,6) True dd in \<open>simp_all add: div64_up.simps [of b d rem]\<close>)
  next
    case False
    then have "b' = b" "d' = d" using 1(2) by (auto simp: div64_up.simps [of b d rem])
    moreover have "uint rem < 2 * uint b"
    proof (cases "0 < sint b")
      case True
      with False have "uint rem \<le> uint b" by (simp add: word_less_def)
      with 1(3) show ?thesis by simp
    next
      case False
      then have "2 ^ 63 \<le> uint b" using 1(3) by (simp add: sint_pos_uint64)
      with uint_range64 [of rem] show ?thesis by simp
    qed
    ultimately show ?thesis using 1 by auto
  qed
qed

text \<open>The second loop is long division: the value \<open>res * c + rem\<close> does not change.\<close>

lemma div64_down_result:
  assumes "div64_down b d rem res = (rem', res')"
    and "uint b = c * uint d" and "uint d = 2 ^ k" and "uint rem < 2 * uint b" and "0 < c"
    and "uint res * c + uint rem < 2 ^ 64"
  shows "uint rem' < c \<and> uint res' * c + uint rem' = uint res * c + uint rem"
  using assms
proof (induction b d rem res arbitrary: k rule: div64_down.induct)
  case (1 b d rem res)
  define r where "r = (if b \<le> rem then (rem - b, res + d) else (rem, res))"
  have r: "uint (fst r) < uint b"
    "uint (snd r) * c + uint (fst r) = uint res * c + uint rem"
  proof -
    have "uint (rem - b) = uint rem - uint b" if "b \<le> rem"
      using that by (simp add: exact word_le_def)
    moreover have "uint (res + d) = uint res + uint d" if "b \<le> rem"
    proof -
      have "uint res * c + uint d * c \<le> uint res * c + uint rem"
        using that 1(3) by (simp add: word_le_def mult.commute)
      then have "(uint res + uint d) * c < 2 ^ 64" using 1(7) by (simp add: algebra_simps)
      moreover have "(uint res + uint d) * 1 \<le> (uint res + uint d) * c"
        using 1(6) by (intro mult_left_mono add_nonneg_nonneg) simp_all
      ultimately show ?thesis by (simp add: exact)
    qed
    ultimately show "uint (fst r) < uint b"
      "uint (snd r) * c + uint (fst r) = uint res * c + uint rem"
      using 1(3,5) by (auto simp: r_def word_le_def algebra_simps)
  qed
  have step: "div64_down b d rem res =
     (if drop_bit 1 d \<noteq> 0 then div64_down (drop_bit 1 b) (drop_bit 1 d) (fst r) (snd r) else r)"
    by (subst div64_down.simps) (simp add: r_def Let_def split: prod.split)
  show ?case
  proof (cases "drop_bit 1 d = 0")
    case True
    then have "uint (drop_bit 1 d) = 0" by simp
    then have "uint d < 2" by (simp only: uint_drop_bit) (use uint_range64 [of d] in simp)
    with 1(4) have "(2::int) ^ k < 2 ^ 1" by simp
    then have "k < 1" by (rule power_less_imp_less_exp [rotated]) simp
    with 1(4) have "uint d = 1" by simp
    moreover have "(rem', res') = r" using True 1(2) step by simp
    ultimately show ?thesis using r 1(3) by (cases r) auto
  next
    case False
    then have "k \<noteq> 0" 
    proof -
      have "uint (drop_bit 1 d) \<noteq> 0" using False by (simp add: word_uint_eq_iff)
      then show ?thesis unfolding uint_drop_bit using 1(4) by (cases k) simp_all
    qed
    then obtain j where j: "k = Suc j" by (cases k) auto
    have d: "uint (drop_bit 1 d) = 2 ^ j" by (simp only: uint_drop_bit 1(4) j) simp
    have b: "uint (drop_bit 1 b) = c * uint (drop_bit 1 d)"
      by (simp only: uint_drop_bit 1(3) 1(4) j) simp
    have "uint b = 2 * uint (drop_bit 1 b)" using 1(3,4) j d b by simp
    then have "uint (fst r) < 2 * uint (drop_bit 1 b)" using r by simp
    then show ?thesis
      using 1(1) [OF r_def _ refl refl False, of "fst r" "snd r" j] 1(2,6,7) step r b d False
      by simp
  qed
qed

text \<open>
  The reduction before the loops takes the high half out when it holds at least one multiple of
  the base, so that \<open>res * base + rem\<close> is the dividend when the loops start.
\<close>

lemma div64_32_reduce:
  fixes n :: u64 and base :: u32
  defines "high \<equiv> ucast (drop_bit 32 n) :: u32"
  assumes "base \<noteq> 0"
  shows "uint (push_bit 32 (ucast (high div base)) :: u64) * uint base +
         uint (n - push_bit 32 (ucast (high div base * base))) = uint n"
proof -
  have h: "uint high = uint n div 2 ^ 32"
  proof -
    have "uint n div 2 ^ 32 < 2 ^ 32" using uint_range64 [of n] by simp
    then show ?thesis unfolding high_def
      by (simp only: unsigned_ucast_eq uint_drop_bit take_bit_eq_mod)
        (simp add: pos_imp_zdiv_nonneg_iff)
  qed
  define q where "q = uint high div uint base"
  have b: "0 < uint base" using assms(2) by (simp add: uint_pos)
  have hq: "uint (high div base) = q" unfolding q_def by (rule uint_div)
  have "0 \<le> q" using b by (simp add: q_def pos_imp_zdiv_nonneg_iff)
  have "q * uint base \<le> uint high" using b unfolding q_def by (simp add: minus_mod_eq_div_mult [symmetric])
  moreover have "uint high < 2 ^ 32" using uint_lt2p [of high] by simp
  ultimately have qb: "uint (high div base * base) = q * uint base"
    using b \<open>0 \<le> q\<close> by (simp add: uint_word_ariths hq)
  have hn: "uint high * 2 ^ 32 \<le> uint n" unfolding h by simp
  then have le: "q * uint base * 2 ^ 32 \<le> uint n"
    using \<open>q * uint base \<le> uint high\<close> by simp
  have p1: "uint (push_bit 32 (ucast (high div base * base)) :: u64) = q * uint base * 2 ^ 32"
    using le uint_range64(2) [of n] by (subst uint_push_bit_exact) (simp_all add: qb)
  have "q * 1 \<le> q * uint base" using b by (intro mult_left_mono) (simp_all add: \<open>0 \<le> q\<close>)
  then have p2: "uint (push_bit 32 (ucast (high div base)) :: u64) = q * 2 ^ 32"
    using le uint_range64(2) [of n] by (subst uint_push_bit_exact) (simp_all add: hq)
  show ?thesis using le by (simp add: p1 p2 uint_sub_exact)
qed

lemma div64_loops:
  assumes "div64_up (ucast base) 1 rem = (b, d)" and "div64_down b d rem res = (rem', res')"
    and "base \<noteq> (0 :: u32)" and "uint res * uint base + uint rem = uint n"
  shows "uint rem' < uint base \<and> uint res' * uint base + uint rem' = uint (n :: u64)"
proof -
  have b: "0 < uint base" using assms(3) by (simp add: uint_pos)
  have "uint b = uint base * uint d \<and> (\<exists>k'. uint d = 2 ^ k') \<and> uint rem < 2 * uint b"
    by (rule div64_up_result [OF assms(1), where k = 0]) (simp_all add: b)
  then show ?thesis
    using div64_down_result [OF assms(2) _ _ _ b] assms(4) uint_range64(2) [of n] by force
qed

text \<open>
  The contract of \<^verbatim>\<open>__div64_32\<close>, for the users of the routine: for every dividend and every non-zero base it returns the
  quotient and the remainder; a zero base is the division trap of \<open>high / base\<close>.
\<close>

lemma div64_32_correct:
  "div64_32 n base =
     (if base = 0 then None else Some (n div ucast base, ucast (n mod ucast base)))"
proof (cases "base = 0")
  case False
  define high where "high = (ucast (drop_bit 32 n) :: u32)"
  define rr where "rr = (if base \<le> high
    then (push_bit 32 (ucast (high div base)), n - push_bit 32 (ucast (high div base * base)))
    else (0 :: u64, n))"
  obtain b d where up: "div64_up (ucast base) 1 (snd rr) = (b, d)" by fastforce
  obtain rem res where down: "div64_down b d (snd rr) (fst rr) = (rem, res)" by fastforce
  have "uint (fst rr) * uint base + uint (snd rr) = uint n"
    using div64_32_reduce [OF False, of n] by (simp add: rr_def high_def)
  note r = div64_loops [OF up down False this]
  have "div64_32 n base = Some (res, ucast rem)"
    using False up down by (auto simp: div64_32_def Let_def rr_def high_def split: prod.splits)
  moreover have "uint n div uint base = uint res" "uint n mod uint base = uint rem"
    using r by (metis int_div_pos_eq int_mod_pos_eq unsigned_greater_eq add.commute mult.commute)+
  then have "n div ucast base = res" "n mod ucast base = rem"
    by (simp_all add: word_uint_eq_iff uint_div uint_mod)
  ultimately show ?thesis using False by simp
qed (simp add: div64_32_def)

section \<open>Properties\<close>

text \<open>
  C30: The shift-and-subtract division returns the quotient and the remainder of the 64-bit division
  for every dividend and every non-zero 32-bit base, and both of its loops end; a zero base traps.
\<close>

theorem div64_32_quotient_remainder:
  "div64_32 n base =
     (if base = 0 then None else Some (n div ucast base, ucast (n mod ucast base)))"
  by (rule div64_32_correct)

end
