(* ===== verification/Pp_Time.thy ===== *)
theory Pp_Time
  imports Div64
begin

text \<open>
  The time arithmetic of \<^verbatim>\<open>lib/time-arith.c\<close> over the time format of
  \<^verbatim>\<open>include/ppsi/pp-time.h\<close>.  A \<^verbatim>\<open>struct pp_time\<close> is a pair of signed 64-bit integers, seconds
  and nanoseconds scaled by \<open>2 ^ 16\<close>; \<open>time_val\<close> below is the time it denotes, as an integer number
  of scaled nanoseconds, and the operations are specified against it.
\<close>

section \<open>The time format\<close>

record pp_time =
  secs :: s64
  scaled_nsecs :: s64

definition is_incorrect :: "pp_time \<Rightarrow> bool" where
  "is_incorrect t = (signed_drop_bit 56 (secs t) AND 0xc0 = 0x80)"

definition mark_incorrect :: "pp_time \<Rightarrow> pp_time" where
  "mark_incorrect t =
     t\<lparr> secs := (secs t AND NOT (push_bit 56 0xc0)) OR push_bit 56 0x8f \<rparr>"

definition clear_time :: "pp_time \<Rightarrow> pp_time" where
  "clear_time t = \<lparr> secs = 0, scaled_nsecs = 0 \<rparr>"

definition TIME_FRACBITS :: nat where "TIME_FRACBITS = 16"
definition TIME_ROUNDING_VALUE :: u64 where "TIME_ROUNDING_VALUE = push_bit (TIME_FRACBITS - 1) 1"
definition TIME_INTERVAL_FRACBITS :: nat where "TIME_INTERVAL_FRACBITS = 16"
definition TIME_INTERVAL_ROUNDING_VALUE :: u64 where
  "TIME_INTERVAL_ROUNDING_VALUE = push_bit (TIME_INTERVAL_FRACBITS - 1) 1"
definition TIME_INTERVAL_MIN_PICOS_VALUE_AS_INT64 :: s64 where
  "TIME_INTERVAL_MIN_PICOS_VALUE_AS_INT64 = 0xFE0C000000000000"
definition TIME_INTERVAL_MAX_PICOS_VALUE_AS_INT64 :: s64 where
  "TIME_INTERVAL_MAX_PICOS_VALUE_AS_INT64 = 0x1F3FFFFFFFFFC18"
definition PP_NSEC_PER_SEC :: "'a :: len word" where "PP_NSEC_PER_SEC = 1000 * 1000 * 1000"
definition PP_PSEC_PER_SEC :: s64 where "PP_PSEC_PER_SEC = 1000000000000"

type_synonym TimeInterval = s64

record FixedDelta =
  fd_msb :: u32
  fd_lsb :: u32

section \<open>Normalization, sum and difference\<close>

definition SNS_PER_S :: s64 where "SNS_PER_S = push_bit 16 (1000 * 1000 * 1000)"

lemma SNS_PER_S_eq: "SNS_PER_S = 65536000000000"
  unfolding SNS_PER_S_def by code_simp

lemma sint_SNS [simp]: "sint SNS_PER_S = 65536000000000"
  by (simp add: SNS_PER_S_eq)

function normalize_borrow :: "s64 \<Rightarrow> s64 \<Rightarrow> s64 \<times> s64" where
  "normalize_borrow s n =
     (if sint n < 0 then normalize_borrow (s - 1) (n + SNS_PER_S) else (s, n))"
  by pat_completeness auto
termination
proof (relation "measure (\<lambda>(s, n). nat (2 ^ 63 - sint n))", goal_cases)
  case (2 s n)
  then show ?case using sint_range64 [of n] by (simp add: exact)
qed simp

function normalize_carry :: "s64 \<Rightarrow> s64 \<Rightarrow> s64 \<times> s64" where
  "normalize_carry s n =
     (if sint n > sint SNS_PER_S then normalize_carry (s + 1) (n - SNS_PER_S) else (s, n))"
  by pat_completeness auto
termination
proof (relation "measure (\<lambda>(s, n). nat (2 ^ 63 + sint n))", goal_cases)
  case (2 s n)
  then show ?case using sint_range64 [of n] by (simp add: exact)
qed simp

declare normalize_borrow.simps [simp del] normalize_carry.simps [simp del]

definition normalize_pp_time :: "pp_time \<Rightarrow> pp_time" where
  "normalize_pp_time t =
     (let sign = (if (sint (secs t) < 0 \<and> \<not> is_incorrect t) \<or>
                     (secs t = 0 \<and> sint (scaled_nsecs t) < 0) then - 1 else 1);
          s = secs t * sign; n = scaled_nsecs t * sign;
          (s, n) = normalize_borrow s n;
          (s, n) = normalize_carry s n
      in t\<lparr> secs := s * sign, scaled_nsecs := n * sign \<rparr>)"

definition pp_time_add :: "pp_time \<Rightarrow> pp_time \<Rightarrow> pp_time" where
  "pp_time_add t1 t2 = normalize_pp_time
     (t1\<lparr> secs := secs t1 + secs t2, scaled_nsecs := scaled_nsecs t1 + scaled_nsecs t2 \<rparr>)"

definition pp_time_sub :: "pp_time \<Rightarrow> pp_time \<Rightarrow> pp_time" where
  "pp_time_sub t1 t2 = normalize_pp_time
     (t1\<lparr> secs := secs t1 - secs t2, scaled_nsecs := scaled_nsecs t1 - scaled_nsecs t2 \<rparr>)"

definition pp_time_add_interval :: "pp_time \<Rightarrow> TimeInterval \<Rightarrow> pp_time" where
  "pp_time_add_interval t1 t2 =
     pp_time_add t1 (normalize_pp_time \<lparr> secs = 0, scaled_nsecs = t2 \<rparr>)"

definition pp_time_sub_interval :: "pp_time \<Rightarrow> TimeInterval \<Rightarrow> pp_time" where
  "pp_time_sub_interval t1 t2 =
     pp_time_sub t1 (normalize_pp_time \<lparr> secs = 0, scaled_nsecs = t2 \<rparr>)"

section \<open>Halving and conversions\<close>

definition pp_time_div2 :: "pp_time \<Rightarrow> pp_time" where
  "pp_time_div2 t =
     (let half = (if sint (secs t) < 0 then - 32768000000000 else 32768000000000);
          n = signed_drop_bit 1 (scaled_nsecs t);
          n = (if secs t AND 1 \<noteq> 0 then n + half else n)
      in t\<lparr> secs := signed_drop_bit 1 (secs t), scaled_nsecs := n \<rparr>)"

definition pp_time_to_picos :: "pp_time \<Rightarrow> s64" where
  "pp_time_to_picos t =
     (let neg = sint (secs t) < 0 \<or> (secs t = 0 \<and> sint (scaled_nsecs t) < 0);
          (us, un, ret) = (if neg then (- secs t, - scaled_nsecs t, - 1)
                           else (secs t, scaled_nsecs t, 1))
      in ret * (us * PP_PSEC_PER_SEC +
                drop_bit TIME_FRACBITS (un * 1000 + TIME_ROUNDING_VALUE)))"

text \<open>
  \<^verbatim>\<open>__div64_32\<close> is called with non-zero bases, constants or gains: \<open>quot64\<close> and \<open>rem64\<close> are the two results
  of such a call.
\<close>

definition quot64 :: "u64 \<Rightarrow> u32 \<Rightarrow> u64" where
  "quot64 n base = fst (the (div64_32 n base))"

definition rem64 :: "u64 \<Rightarrow> u32 \<Rightarrow> u32" where
  "rem64 n base = snd (the (div64_32 n base))"

definition fixedDelta_to_pp_time :: "FixedDelta \<Rightarrow> pp_time" where
  "fixedDelta_to_pp_time fd =
     (let v = push_bit 32 (ucast (fd_msb fd)) OR ucast (fd_lsb fd)
      in normalize_pp_time \<lparr> secs = 0, scaled_nsecs = quot64 v 1000 \<rparr>)"

definition picos_to_pp_time :: "s64 \<Rightarrow> pp_time" where
  "picos_to_pp_time picos =
     (let sign = (if sint picos < 0 then - 1 else 1);
          picos_u = picos * sign;
          nsec = quot64 picos_u 1000; picos_u = rem64 picos_u 1000;
          sec = quot64 nsec PP_NSEC_PER_SEC; nsec = rem64 nsec PP_NSEC_PER_SEC;
          n = push_bit TIME_FRACBITS (ucast nsec);
          t = push_bit TIME_FRACBITS (ucast picos_u) + TIME_ROUNDING_VALUE;
          n = n + quot64 t 1000
      in \<lparr> secs = sec * sign, scaled_nsecs = n * sign \<rparr>)"

text \<open>
  An invalid clock period leaves the two results of \<^verbatim>\<open>pp_time_hardwarize\<close> unset: \<^const>\<open>None\<close>.
\<close>

definition pp_time_hardwarize :: "pp_time \<Rightarrow> s32 \<Rightarrow> (s32 \<times> s32) option" where
  "pp_time_hardwarize time clock_period_ps =
     (let neg = sint (scaled_nsecs time) < 0;
          sn = scaled_nsecs time * (if neg then - 1 else 1);
          sign = (if neg then - 1 else 1 :: s32)
      in if sint clock_period_ps \<le> 0 then None
         else let ps = drop_bit TIME_INTERVAL_FRACBITS (sn * 1000 + TIME_INTERVAL_ROUNDING_VALUE);
                  adj_ps = quot64 ps clock_period_ps;
                  adj_ps = adj_ps * scast clock_period_ps;
                  picos = ucast (ps - adj_ps) * sign;
                  ticks = ucast (quot64 adj_ps 1000) * sign
              in Some (ticks, picos))"

definition pp_time_to_interval :: "pp_time \<Rightarrow> TimeInterval" where
  "pp_time_to_interval ts =
     push_bit TIME_INTERVAL_FRACBITS (secs ts * PP_NSEC_PER_SEC) + scaled_nsecs ts"

definition picos_to_interval :: "s64 \<Rightarrow> TimeInterval" where
  "picos_to_interval picos =
     (if sint picos \<le> sint TIME_INTERVAL_MIN_PICOS_VALUE_AS_INT64 then push_bit (64 - 1) 1
      else if sint picos \<ge> sint TIME_INTERVAL_MAX_PICOS_VALUE_AS_INT64
      then push_bit TIME_INTERVAL_FRACBITS (TIME_INTERVAL_MAX_PICOS_VALUE_AS_INT64 div 1000) OR
           push_bit TIME_INTERVAL_FRACBITS (TIME_INTERVAL_MAX_PICOS_VALUE_AS_INT64 mod 1000) div 1000
      else let sign = (if sint picos < 0 then - 1 else 1);
               picos_u = picos * sign;
               ns_u = quot64 picos_u 1000; picos_r = rem64 picos_u 1000;
               scaled_ns = push_bit TIME_INTERVAL_FRACBITS ns_u;
               scaled_ns = scaled_ns + ucast (push_bit TIME_INTERVAL_FRACBITS picos_r div 1000)
           in scaled_ns * sign)"

definition interval_to_picos :: "TimeInterval \<Rightarrow> s64" where
  "interval_to_picos interval =
     (let neg = sint interval < 0;
          interval = (if neg then - interval else interval);
          picos = drop_bit TIME_INTERVAL_FRACBITS
                    (interval * 1000 + TIME_INTERVAL_ROUNDING_VALUE)
      in if neg then - picos else picos)"

section \<open>Timestamp validity checks\<close>

fun is_timestamp_incorrect_from :: "nat \<Rightarrow> s32 \<Rightarrow> s32 \<Rightarrow> pp_time list \<Rightarrow> nat" where
  "is_timestamp_incorrect_from i msk ts_mask [] = 0"
| "is_timestamp_incorrect_from i msk ts_mask (ts # tss) =
     (if ts_mask = 0 then 0
      else if msk AND ts_mask \<noteq> 0 \<and> is_incorrect ts then i + 1
      else is_timestamp_incorrect_from (i + 1) (push_bit 1 msk) (ts_mask AND NOT msk) tss)"

definition is_timestamp_incorrect :: "pp_time list \<Rightarrow> s32 \<Rightarrow> nat" where
  "is_timestamp_incorrect tss ts_mask = is_timestamp_incorrect_from 0 1 ts_mask tss"

definition is_timestamp_incorrect_thres :: "pp_time list \<Rightarrow> s32 \<Rightarrow> s32 \<Rightarrow> bool \<times> s32" where
  "is_timestamp_incorrect_thres tss err_count ts_mask =
     (if is_timestamp_incorrect tss ts_mask = 0 then (False, 0) else (True, err_count + 1))"

section \<open>Correctness\<close>

lemmas time_consts = TIME_FRACBITS_def TIME_ROUNDING_VALUE_def TIME_INTERVAL_FRACBITS_def
  TIME_INTERVAL_ROUNDING_VALUE_def PP_NSEC_PER_SEC_def PP_PSEC_PER_SEC_def
  TIME_INTERVAL_MIN_PICOS_VALUE_AS_INT64_def TIME_INTERVAL_MAX_PICOS_VALUE_AS_INT64_def

text \<open>The time a \<^typ>\<open>pp_time\<close> denotes, in units of \<open>2 ^ -16\<close> nanoseconds.\<close>

definition time_val :: "pp_time \<Rightarrow> int" where
  "time_val t = sint (secs t) * 65536000000000 + sint (scaled_nsecs t)"

text \<open>
  The invariant of the format: seconds and scaled nanoseconds have the same sign and the scaled
  nanoseconds are at most one second.
\<close>

definition normalized :: "pp_time \<Rightarrow> bool" where
  "normalized t \<longleftrightarrow> \<bar>sint (scaled_nsecs t)\<bar> \<le> 65536000000000 \<and>
     (0 < sint (secs t) \<longrightarrow> 0 \<le> sint (scaled_nsecs t)) \<and>
     (sint (secs t) < 0 \<longrightarrow> sint (scaled_nsecs t) \<le> 0)"

lemma normalize_borrow_value:
  assumes "normalize_borrow s n = (s', n')"
    and "- (2 ^ 63) * 65536000000000 \<le> sint s * 65536000000000 + sint n"
  shows "sint s' * 65536000000000 + sint n' = sint s * 65536000000000 + sint n \<and> 0 \<le> sint n' \<and>
    (if sint n < 0 then sint n' < 65536000000000 else s' = s \<and> n' = n)"
  using assms
proof (induction s n rule: normalize_borrow.induct)
  case (1 s n)
  show ?case
  proof (cases "sint n < 0")
    case True
    with 1(3) have e: "sint (s - 1) = sint s - 1" "sint (n + SNS_PER_S) = sint n + 65536000000000"
      using sint_range64 [of n] sint_range64 [of s] by (simp_all add: exact)
    show ?thesis
      using 1(1) [OF True] 1(2,3) True e by (auto simp: normalize_borrow.simps [of s n] split: if_splits)
  next
    case False
    then show ?thesis using 1(2) by (simp add: normalize_borrow.simps [of s n])
  qed
qed

lemma normalize_carry_value:
  assumes "normalize_carry s n = (s', n')"
    and "0 \<le> sint n" and "sint s * 65536000000000 + sint n \<le> 2 ^ 63 * 65536000000000"
  shows "sint s' * 65536000000000 + sint n' = sint s * 65536000000000 + sint n \<and>
    0 \<le> sint n' \<and> sint n' \<le> 65536000000000 \<and> sint s \<le> sint s'"
  using assms
proof (induction s n rule: normalize_carry.induct)
  case (1 s n)
  show ?case
  proof (cases "sint n > sint SNS_PER_S")
    case True
    with 1(4) have e: "sint (s + 1) = sint s + 1" "sint (n - SNS_PER_S) = sint n - 65536000000000"
      using sint_range64 [of n] sint_range64 [of s] by (simp_all add: exact)
    show ?thesis
      using 1(1) [OF True] 1(2,3,4) True e by (auto simp: normalize_carry.simps [of s n] split: if_splits)
  next
    case False
    then show ?thesis using 1(2,3) by (simp add: normalize_carry.simps [of s n])
  qed
qed

lemma is_incorrect_bits: "is_incorrect t \<longleftrightarrow> bit (secs t) 63 \<and> \<not> bit (secs t) 62"
proof -
  have b80: "bit (0x80 :: s64) n \<longleftrightarrow> n = 7" for n
    using bit_exp_iff [of 7 n, where ?'a = s64] by auto
  have bc0: "bit (0xc0 :: s64) n \<longleftrightarrow> n = 6 \<or> n = 7" for n
  proof -
    have "bit (0x40 :: s64) n \<longleftrightarrow> n = 6" using bit_exp_iff [of 6 n, where ?'a = s64] by auto
    moreover have "(0xc0 :: s64) = 0x40 OR 0x80" by simp
    ultimately show ?thesis using b80 by (simp only: bit_or_iff)
  qed
  have sd: "bit (signed_drop_bit 56 x AND 0xc0) n \<longleftrightarrow> n = 6 \<and> bit x 62 \<or> n = 7 \<and> bit x 63" for x :: s64 and n
    unfolding bit_and_iff bc0 bit_signed_drop_bit_iff by auto
  show ?thesis
    unfolding is_incorrect_def bit_eq_iff [where ?'a = s64] sd b80 by (auto dest: spec [of _ 6] spec [of _ 7])
qed

lemma sint_below_quarter: "bit (x :: s64) 63 \<and> \<not> bit x 62 \<longleftrightarrow> sint x < - (2 ^ 62)"
proof -
  have b: "bit x n = odd (uint x div 2^n)" if "n < 64" for n
    using bit_uint_iff [of x n] that bit_iff_odd [of "uint x" n] by simp
  have "odd (k div 2 ^ 63) \<and> even (k div 2 ^ 62) \<longleftrightarrow>
    (if k < 2 ^ 63 then k else k - 2 ^ 64) < - (2 ^ 62)" if "0 \<le> k" "k < 2 ^ 64" for k :: int
  proof -
    define c where "c = k div 2 ^ 62"
    have "k div 2 ^ 63 = c div 2" unfolding c_def by (simp add: zdiv_zmult2_eq [symmetric])
    moreover have "odd (c div 2) \<and> even c \<longleftrightarrow> c = 2" if "0 \<le> c" "c < 4" using that by presburger
    moreover have "0 \<le> c" "c < 4" using that by (simp_all add: c_def pos_imp_zdiv_nonneg_iff)
    moreover have "c = 2 \<longleftrightarrow> (if k < 2 ^ 63 then k else k - 2 ^ 64) < - (2 ^ 62)"
      using that(1) unfolding c_def by auto
    ultimately show ?thesis unfolding c_def by metis
  qed
  from this [OF uint_range64, of x] show ?thesis unfolding sint_eq_uint64 by (simp add: b)
qed

lemma is_incorrect_iff: "is_incorrect t \<longleftrightarrow> sint (secs t) < - (2 ^ 62)"
  by (simp only: is_incorrect_bits sint_below_quarter)

lemma is_incorrect_mark [simp]: "is_incorrect (mark_incorrect t)"
proof -
  have "bit (push_bit 56 0x8f :: s64) 63" "\<not> bit (push_bit 56 0x8f :: s64) 62" "bit (push_bit 56 0xc0 :: s64) 62"
    by (simp_all only: bit_push_bit_iff) (simp_all add: bit_numeral_word_iff)
  then show ?thesis
    unfolding is_incorrect_bits mark_incorrect_def
    by (cases t) (simp only: pp_time.simps pp_time.update_convs pp_time.select_convs bit_or_iff bit_and_iff bit_not_iff simp_thms)
qed

lemma normalize_loops:
  assumes "normalize_borrow s n = (s1, n1)" and "normalize_carry s1 n1 = (s2, n2)"
    and "0 \<le> sint s" and "sint s \<le> 2 ^ 62"
  shows "sint s2 * 65536000000000 + sint n2 = sint s * 65536000000000 + sint n"
    and "0 \<le> sint n2" and "sint n2 \<le> 65536000000000"
    and "0 \<le> sint s * 65536000000000 + sint n \<Longrightarrow> 0 \<le> sint s2"
    and "\<bar>sint s2\<bar> \<le> sint s + 140738"
proof -
  note r = sint_range64 [of n]
  have b: "sint s1 * 65536000000000 + sint n1 = sint s * 65536000000000 + sint n \<and> 0 \<le> sint n1 \<and>
    (if sint n < 0 then sint n1 < 65536000000000 else s1 = s \<and> n1 = n)"
    by (rule normalize_borrow_value [OF assms(1)]) (use r assms(3) in simp)
  have c: "sint s2 * 65536000000000 + sint n2 = sint s1 * 65536000000000 + sint n1 \<and>
    0 \<le> sint n2 \<and> sint n2 \<le> 65536000000000 \<and> sint s1 \<le> sint s2"
    by (rule normalize_carry_value [OF assms(2)]) (use b r assms(4) in simp_all)
  show "sint s2 * 65536000000000 + sint n2 = sint s * 65536000000000 + sint n"
    and "0 \<le> sint n2" and "sint n2 \<le> 65536000000000"
    using b c by simp_all
  show "0 \<le> sint s * 65536000000000 + sint n \<Longrightarrow> 0 \<le> sint s2"
    using b c assms(3) by (auto split: if_splits)
  show "\<bar>sint s2\<bar> \<le> sint s + 140738"
    using b c assms(3) r unfolding abs_le_iff by simp
qed

text \<open>Normalization keeps the time.\<close>

lemma normalize_cases:
  assumes "\<bar>sint (secs t)\<bar> \<le> 2 ^ 62" and "sint (scaled_nsecs t) \<noteq> - (2 ^ 63)"
  obtains (pos) s1 n1 s2 n2 where "normalize_borrow (secs t) (scaled_nsecs t) = (s1, n1)"
    "normalize_carry s1 n1 = (s2, n2)" "0 \<le> sint (secs t)"
    "sint (secs t) = 0 \<Longrightarrow> 0 \<le> sint (scaled_nsecs t)"
    "normalize_pp_time t = t\<lparr>secs := s2, scaled_nsecs := n2\<rparr>"
  | (neg) s1 n1 s2 n2 where "normalize_borrow (- secs t) (- scaled_nsecs t) = (s1, n1)"
    "normalize_carry s1 n1 = (s2, n2)" "sint (secs t) \<le> 0" 
    "sint (- secs t) = - sint (secs t)" "sint (- scaled_nsecs t) = - sint (scaled_nsecs t)"
    "sint (secs t) = 0 \<Longrightarrow> sint (scaled_nsecs t) < 0"
    "normalize_pp_time t = t\<lparr>secs := - s2, scaled_nsecs := - n2\<rparr>"
proof (cases "sint (secs t) < 0 \<or> (secs t = 0 \<and> sint (scaled_nsecs t) < 0)")
  case True
  obtain s1 n1 where b: "normalize_borrow (- secs t) (- scaled_nsecs t) = (s1, n1)" by fastforce
  obtain s2 n2 where c: "normalize_carry s1 n1 = (s2, n2)" by fastforce
  show thesis
  proof (rule neg [OF b c])
    show "sint (secs t) \<le> 0" using True by auto
    show "sint (secs t) = 0 \<Longrightarrow> sint (scaled_nsecs t) < 0" using True by auto
    show "sint (- secs t) = - sint (secs t)" using assms(1) by (intro exact) simp
    show "sint (- scaled_nsecs t) = - sint (scaled_nsecs t)" using assms(2) by (intro exact) simp
    show "normalize_pp_time t = t\<lparr>secs := - s2, scaled_nsecs := - n2\<rparr>"
    proof -
      have "sint (secs t) < 0 \<and> \<not> is_incorrect t \<or> secs t = 0 \<and> sint (scaled_nsecs t) < 0"
        using True assms(1) by (auto simp: is_incorrect_iff)
      then show ?thesis using b c by (simp add: normalize_pp_time_def Let_def)
    qed
  qed
next
  case False
  obtain s1 n1 where b: "normalize_borrow (secs t) (scaled_nsecs t) = (s1, n1)" by fastforce
  obtain s2 n2 where c: "normalize_carry s1 n1 = (s2, n2)" by fastforce
  show thesis
  proof (rule pos [OF b c])
    show "0 \<le> sint (secs t)" using False by simp
    show "sint (secs t) = 0 \<Longrightarrow> 0 \<le> sint (scaled_nsecs t)" using False by auto
    show "normalize_pp_time t = t\<lparr>secs := s2, scaled_nsecs := n2\<rparr>"
    proof -
      have n: "\<not> (sint (secs t) < 0 \<and> \<not> is_incorrect t \<or> secs t = 0 \<and> sint (scaled_nsecs t) < 0)"
        using False by blast
      show ?thesis using b c unfolding normalize_pp_time_def Let_def if_not_P [OF n] by simp
    qed
  qed
qed

lemma normalize_pp_time_value:
  assumes "\<bar>sint (secs t)\<bar> \<le> 2 ^ 62" and "sint (scaled_nsecs t) \<noteq> - (2 ^ 63)"
  shows "time_val (normalize_pp_time t) = time_val t \<and>
    \<bar>sint (secs (normalize_pp_time t))\<bar> \<le> \<bar>sint (secs t)\<bar> + 140738 \<and> 
    \<bar>sint (scaled_nsecs (normalize_pp_time t))\<bar> \<le> 65536000000000"
  using assms
proof (cases t rule: normalize_cases)
  case (pos s1 n1 s2 n2)
  have "sint (secs t) \<le> 2 ^ 62" using assms(1) by simp
  from normalize_loops(1,2,3,5) [OF pos(1,2,3) this] pos(3,5) show ?thesis by (simp add: time_val_def)
next
  case (neg s1 n1 s2 n2)
  have "0 \<le> sint (- secs t)" "sint (- secs t) \<le> 2 ^ 62" using neg(3,4) assms(1) by auto
  note n = normalize_loops [OF neg(1,2) this]
  have "sint (- s2) = - sint s2" "sint (- n2) = - sint n2"
    using n(2,5) neg(4) assms(1) by (intro exact, simp)+
  then show ?thesis using n(1,2,3,5) neg(3,4,5,7) by (simp add: time_val_def)
qed

lemma normalize_pp_time_normalized:
  assumes "\<bar>sint (secs t)\<bar> \<le> 2 ^ 62" and "sint (scaled_nsecs t) \<noteq> - (2 ^ 63)"
    and "0 < sint (secs t) \<Longrightarrow> 0 \<le> time_val t" and "sint (secs t) < 0 \<Longrightarrow> time_val t \<le> 0"
  shows "normalized (normalize_pp_time t)"
  using assms(1,2)
proof (cases t rule: normalize_cases)
  case (pos s1 n1 s2 n2)
  have "0 \<le> time_val t" using pos(3,4) assms(3) by (cases "sint (secs t) = 0") (auto simp: time_val_def)
  then have "0 \<le> sint s2" using normalize_loops(4) [OF pos(1,2,3)] assms(1) by (simp add: time_val_def)
  then show ?thesis using normalize_loops(2,3) [OF pos(1,2,3)] assms(1) pos(5)
    by (simp add: normalized_def)
next
  case (neg s1 n1 s2 n2)
  have "0 \<le> sint (- secs t)" "sint (- secs t) \<le> 2 ^ 62" using neg(3,4) assms(1) by auto
  note n = normalize_loops [OF neg(1,2) this]
  have "time_val t \<le> 0" using neg(3,6) assms(4) by (cases "sint (secs t) = 0") (auto simp: time_val_def)
  then have s2: "0 \<le> sint s2" using n(4) neg(4,5) by (simp add: time_val_def)
  have "sint (- s2) = - sint s2" "sint (- n2) = - sint n2"
    using n(2) s2 by (intro exact, simp)+
  then show ?thesis using n(2,3) s2 neg(7) by (simp add: normalized_def)
qed
text \<open>
  On normalized operands the sum and the difference are those of the times they denote, and
  normalized again.
\<close>

definition same_sign :: "int \<Rightarrow> int \<Rightarrow> bool" where
  "same_sign s n \<longleftrightarrow> \<bar>n\<bar> \<le> 65536000000000 \<and> (0 < s \<longrightarrow> 0 \<le> n) \<and> (s < 0 \<longrightarrow> n \<le> 0)"

lemma normalized_same_sign: "normalized t \<longleftrightarrow> same_sign (sint (secs t)) (sint (scaled_nsecs t))"
  by (simp add: normalized_def same_sign_def)

lemma same_sign_minus: "same_sign (- s) (- n) \<longleftrightarrow> same_sign s n"
  by (auto simp: same_sign_def)

lemma same_sign_abs: "same_sign s n \<Longrightarrow> \<bar>n\<bar> \<le> 65536000000000"
  by (simp add: same_sign_def)

lemma same_sign_sum:
  assumes "same_sign s1 n1" and "same_sign s2 n2"
  shows "0 < s1 + s2 \<Longrightarrow> 0 \<le> (s1 + s2) * 65536000000000 + (n1 + n2)"
    and "s1 + s2 < 0 \<Longrightarrow> (s1 + s2) * 65536000000000 + (n1 + n2) \<le> 0"
proof -
  have "0 < s1 + s2 \<Longrightarrow> - 65536000000000 \<le> n1 + n2" "s1 + s2 < 0 \<Longrightarrow> n1 + n2 \<le> 65536000000000"
    using assms unfolding same_sign_def by linarith+
  then show "0 < s1 + s2 \<Longrightarrow> 0 \<le> (s1 + s2) * 65536000000000 + (n1 + n2)"
    "s1 + s2 < 0 \<Longrightarrow> (s1 + s2) * 65536000000000 + (n1 + n2) \<le> 0" by simp_all
qed

lemma normalize_sum:
  assumes "sint (secs t) = s1 + s2" and "sint (scaled_nsecs t) = n1 + n2"
    and "same_sign s1 n1" and "same_sign s2 n2" and "\<bar>s1\<bar> \<le> 2 ^ 61" and "\<bar>s2\<bar> \<le> 2 ^ 61"
  shows "time_val (normalize_pp_time t) = s1 * 65536000000000 + n1 + (s2 * 65536000000000 + n2) \<and>
    normalized (normalize_pp_time t)"
proof -
  have b: "\<bar>sint (secs t)\<bar> \<le> 2 ^ 62" "sint (scaled_nsecs t) \<noteq> - (2 ^ 63)"
    using assms(1,2,5,6) same_sign_abs [OF assms(3)] same_sign_abs [OF assms(4)] by auto
  show ?thesis
    using normalize_pp_time_value [OF b] normalize_pp_time_normalized [OF b]
      same_sign_sum [OF assms(3,4)] assms(1,2) by (simp add: time_val_def)
qed

lemma pp_time_add_value:
  assumes "normalized t1" and "normalized t2"
    and "\<bar>sint (secs t1)\<bar> \<le> 2 ^ 61" and "\<bar>sint (secs t2)\<bar> \<le> 2 ^ 61"
  shows "time_val (pp_time_add t1 t2) = time_val t1 + time_val t2 \<and> normalized (pp_time_add t1 t2)"
proof -
  note ss = assms(1,2) [unfolded normalized_same_sign]
  note ab = same_sign_abs [OF ss(1)] same_sign_abs [OF ss(2)]
  have "sint (secs t1 + secs t2) = sint (secs t1) + sint (secs t2)"
    using assms(3,4) by (simp add: exact)
  moreover have "sint (scaled_nsecs t1 + scaled_nsecs t2) = sint (scaled_nsecs t1) + sint (scaled_nsecs t2)"
    using ab by (simp add: exact)
  ultimately show ?thesis
    unfolding pp_time_add_def time_val_def [of t1] time_val_def [of t2]
    by (intro normalize_sum ss assms(3,4)) simp_all
qed

lemma pp_time_sub_value:
  assumes "normalized t1" and "normalized t2"
    and "\<bar>sint (secs t1)\<bar> \<le> 2 ^ 61" and "\<bar>sint (secs t2)\<bar> \<le> 2 ^ 61"
  shows "time_val (pp_time_sub t1 t2) = time_val t1 - time_val t2 \<and> normalized (pp_time_sub t1 t2)"
proof -
  note ss = assms(1,2) [unfolded normalized_same_sign]
  note ab = same_sign_abs [OF ss(1)] same_sign_abs [OF ss(2)]
  have s: "sint (secs t1 - secs t2) = sint (secs t1) + - sint (secs t2)"
    using assms(3,4) by (simp add: exact)
  have n: "sint (scaled_nsecs t1 - scaled_nsecs t2) = sint (scaled_nsecs t1) + - sint (scaled_nsecs t2)"
    using ab by (simp add: exact)
  have "time_val t1 - time_val t2 = sint (secs t1) * 65536000000000 + sint (scaled_nsecs t1) +
    (- sint (secs t2) * 65536000000000 + - sint (scaled_nsecs t2))" by (simp add: time_val_def)
  then show ?thesis
    unfolding pp_time_sub_def
    by (simp only:) (intro normalize_sum ss, use assms(3,4) ss s n in \<open>simp_all add: same_sign_minus\<close>)
qed

lemma normalize_interval:
  assumes "sint i \<noteq> - (2 ^ 63)"
  shows "time_val (normalize_pp_time \<lparr> secs = 0, scaled_nsecs = i \<rparr>) = sint i"
    and "normalized (normalize_pp_time \<lparr> secs = 0, scaled_nsecs = i \<rparr>)"
    and "\<bar>sint (secs (normalize_pp_time \<lparr> secs = 0, scaled_nsecs = i \<rparr>))\<bar> \<le> 2 ^ 61"
  using normalize_pp_time_value [of "\<lparr> secs = 0, scaled_nsecs = i \<rparr>"]
    normalize_pp_time_normalized [of "\<lparr> secs = 0, scaled_nsecs = i \<rparr>"] assms
  by (simp_all add: time_val_def)

lemma pp_time_interval_value:
  assumes "normalized t" and "\<bar>sint (secs t)\<bar> \<le> 2 ^ 61" and "sint i \<noteq> - (2 ^ 63)"
  shows "time_val (pp_time_add_interval t i) = time_val t + sint i \<and> normalized (pp_time_add_interval t i)"
    and "time_val (pp_time_sub_interval t i) = time_val t - sint i \<and> normalized (pp_time_sub_interval t i)"
  using pp_time_add_value [OF assms(1) normalize_interval(2) [OF assms(3)] assms(2)]
    pp_time_sub_value [OF assms(1) normalize_interval(2) [OF assms(3)] assms(2)]
    normalize_interval [OF assms(3)]
  by (simp_all add: pp_time_add_interval_def pp_time_sub_interval_def)

section \<open>Conversions\<close>

lemma uint_quot64: "base \<noteq> 0 \<Longrightarrow> uint (quot64 n base) = uint n div uint base"
  by (simp add: quot64_def div64_32_correct uint_div)

lemma uint_rem64: "base \<noteq> 0 \<Longrightarrow> uint (rem64 n base) = uint n mod uint base"
proof -
  assume b: "base \<noteq> 0"
  then have "0 < uint base" by (simp add: uint_pos)
  then have "uint n mod uint base < 2 ^ 32"
    using uint_lt2p [of base] by (intro order_less_trans [OF pos_mod_bound]) simp_all
  then show ?thesis using b \<open>0 < uint base\<close>
    by (simp add: rem64_def div64_32_correct unsigned_ucast_eq take_bit_eq_mod uint_mod)
qed

text \<open>The conversions on magnitudes: scaled nanoseconds round down, picoseconds to the nearest.\<close>

definition scaled_of_picos :: "int \<Rightarrow> int" where "scaled_of_picos a = a * 65536 div 1000"
definition picos_of_scaled :: "int \<Rightarrow> int" where "picos_of_scaled n = (n * 1000 + 32768) div 65536"
definition signed_as :: "int \<Rightarrow> int \<Rightarrow> int" where "signed_as k v = (if k < 0 then - v else v)"

lemma picos_to_interval_value:
  assumes "\<bar>sint p\<bar> < 140737488355327000"
  shows "sint (picos_to_interval p) =
    signed_as (sint p) (scaled_of_picos \<bar>sint p\<bar>)"
proof -
  define a where "a = p * (if sint p < 0 then - 1 else 1)"
  have a: "uint a = \<bar>sint p\<bar>" unfolding a_def using assms by (intro uint_abs64) auto
  define x where "x = push_bit 16 (quot64 a 1000) + ucast (push_bit 16 (rem64 a 1000) div 1000)"
  have q: "uint (push_bit 16 (quot64 a 1000)) = uint a div 1000 * 65536"
    using assms a by (subst uint_push_bit_exact) (simp_all add: uint_quot64)
  have "uint (push_bit 16 (rem64 a 1000)) = uint a mod 1000 * 65536"
    by (simp only: unsigned_push_bit_eq) (simp add: push_bit_eq_mult take_bit_eq_mod uint_rem64)
  then have r: "uint (push_bit 16 (rem64 a 1000) div 1000) = uint a mod 1000 * 65536 div 1000"
    by (simp add: uint_div)
  have "uint a div 1000 * 65536 + uint a mod 1000 * 65536 div 1000 = scaled_of_picos (uint a)"
    unfolding scaled_of_picos_def by (rule div_scale) simp
  moreover have x63: "scaled_of_picos (uint a) < 2 ^ 63" using assms a by (simp add: scaled_of_picos_def)
  ultimately have x: "uint x = scaled_of_picos (uint a)"
    unfolding x_def by (subst uint_add_exact) (simp_all add: q r)
  have "picos_to_interval p = x * (if sint p < 0 then - 1 else 1)"
    using assms by (auto simp add: picos_to_interval_def x_def a_def Let_def time_consts)
  then show ?thesis using sint_apply_sign [of x "sint p < 0"] x63 a x by (simp add: signed_as_def)
qed

lemma round_scaled:
  assumes "uint (x :: u64) * 1000 + 32768 < 2 ^ 64"
  shows "uint (drop_bit 16 (x * 1000 + TIME_ROUNDING_VALUE)) = picos_of_scaled (uint x)"
proof -
  have "uint (x * 1000) = uint x * 1000" using assms by (subst uint_mult_exact) simp_all
  then have "uint (x * 1000 + 32768) = uint x * 1000 + 32768" using assms by (subst uint_add_exact) simp_all
  then show ?thesis unfolding uint_drop_bit TIME_ROUNDING_VALUE_def TIME_FRACBITS_def picos_of_scaled_def by simp
qed

lemma interval_to_picos_value:
  assumes "\<bar>sint i\<bar> * 1000 + 32768 < 2 ^ 63"
  shows "sint (interval_to_picos i) =
    signed_as (sint i) (picos_of_scaled \<bar>sint i\<bar>)"
proof -
  define a where "a = i * (if sint i < 0 then - 1 else 1)"
  have a: "uint a = \<bar>sint i\<bar>" unfolding a_def using assms by (intro uint_abs64) auto
  define x where "x = drop_bit 16 (a * 1000 + TIME_ROUNDING_VALUE)"
  have x: "uint x = picos_of_scaled (uint a)"
    unfolding x_def by (rule round_scaled) (use assms a in simp)
  have "interval_to_picos i = x * (if sint i < 0 then - 1 else 1)"
    by (simp add: interval_to_picos_def x_def a_def Let_def time_consts)
  moreover have "uint x < 2 ^ 63" using assms a x by (simp add: picos_of_scaled_def)
  ultimately show ?thesis using sint_apply_sign [of x "sint i < 0"] a x by (simp add: signed_as_def)
qed

lemma picos_of_scaled_of_picos: "picos_of_scaled (scaled_of_picos a) = a"
proof -
  define q where "q = a * 65536 div 1000"
  define r where "r = a * 65536 mod 1000"
  have "a * 65536 = q * 1000 + r" unfolding q_def r_def by (rule div_mult_mod_eq [symmetric])
  moreover have "0 \<le> r" "r < 1000" by (simp_all add: r_def)
  ultimately have "a * 65536 \<le> q * 1000 + 32768" "q * 1000 + 32768 < (a + 1) * 65536" by simp_all
  then show ?thesis unfolding scaled_of_picos_def picos_of_scaled_def q_def [symmetric]
    by (intro int_div_pos_eq [where r = "q * 1000 + 32768 - a * 65536"]) simp_all
qed

lemma scaled_of_picos_mono: "a \<le> b \<Longrightarrow> scaled_of_picos a \<le> scaled_of_picos b"
  unfolding scaled_of_picos_def by (intro zdiv_mono1) simp_all

lemma scaled_of_picos_sign: "0 \<le> a \<Longrightarrow> 0 \<le> scaled_of_picos a" "0 < a \<Longrightarrow> 0 < scaled_of_picos a"
  unfolding scaled_of_picos_def by linarith+

lemma signed_as_abs: "signed_as k \<bar>k\<bar> = k"
  by (simp add: signed_as_def)

lemma signed_as_signed: "(k \<noteq> 0 \<Longrightarrow> 0 < v) \<Longrightarrow> signed_as (signed_as k v) \<bar>k\<bar> = k"
  by (cases "k = 0") (auto simp: signed_as_def)

lemma interval_picos_round_trip:
  assumes "\<bar>sint p\<bar> \<le> 140000000000000"
  shows "interval_to_picos (picos_to_interval p) = p"
proof -
  let ?v = "scaled_of_picos \<bar>sint p\<bar>"
  have v: "sint (picos_to_interval p) = signed_as (sint p) ?v"
    using assms by (intro picos_to_interval_value) simp
  have a: "\<bar>sint (picos_to_interval p)\<bar> = ?v"
    using v scaled_of_picos_sign(1) [of "\<bar>sint p\<bar>"] by (simp add: signed_as_def)
  have s: "signed_as (sint (picos_to_interval p)) \<bar>sint p\<bar> = sint p"
    unfolding v using scaled_of_picos_sign(2) [of "\<bar>sint p\<bar>"]
    by (intro signed_as_signed) (auto simp: scaled_of_picos_def)
  have "?v \<le> scaled_of_picos 140000000000000" using assms by (rule scaled_of_picos_mono)
  then have "?v * 1000 + 32768 < 2 ^ 63" by (simp add: scaled_of_picos_def)
  then have "sint (interval_to_picos (picos_to_interval p)) = sint p"
    using a s by (subst interval_to_picos_value) (simp_all add: picos_of_scaled_of_picos)
  then show ?thesis by (rule signed_word_eqI)
qed

lemma pp_time_to_picos_value:
  assumes "normalized t" and "\<bar>sint (secs t)\<bar> \<le> 9223370"
  shows "sint (pp_time_to_picos t) = signed_as (time_val t)
    (\<bar>sint (secs t)\<bar> * 1000000000000 + picos_of_scaled \<bar>sint (scaled_nsecs t)\<bar>)"
proof -
  define neg where "neg \<longleftrightarrow> sint (secs t) < 0 \<or> (secs t = 0 \<and> sint (scaled_nsecs t) < 0)"
  define us where "us = (if neg then - secs t else secs t)"
  define un where "un = (if neg then - scaled_nsecs t else scaled_nsecs t)"
  note ab = same_sign_abs [OF assms(1) [unfolded normalized_same_sign]]
  have "sint us = \<bar>sint (secs t)\<bar>" "sint un = \<bar>sint (scaled_nsecs t)\<bar>"
    using assms(2) ab assms(1) by (auto simp: us_def un_def neg_def normalized_def exact)
  then have u: "uint us = \<bar>sint (secs t)\<bar>" "uint un = \<bar>sint (scaled_nsecs t)\<bar>"
    using uint_nonneg_sint [of us] uint_nonneg_sint [of un] by simp_all
  define x where "x = us * PP_PSEC_PER_SEC + drop_bit 16 (un * 1000 + TIME_ROUNDING_VALUE)"
  have "picos_of_scaled (uint un) \<le> picos_of_scaled 65536000000000"
    unfolding picos_of_scaled_def using ab u by (intro zdiv_mono1) simp_all
  then have p: "picos_of_scaled (uint un) \<le> 1000000000000" by (simp add: picos_of_scaled_def)
  have r: "uint (drop_bit 16 (un * 1000 + TIME_ROUNDING_VALUE)) = picos_of_scaled (uint un)"
    by (rule round_scaled) (use ab u in simp)
  have m: "uint (us * PP_PSEC_PER_SEC) = uint us * 1000000000000"
    using assms(2) u by (subst uint_mult_exact) (simp_all add: PP_PSEC_PER_SEC_def)
  have x: "uint x = uint us * 1000000000000 + picos_of_scaled (uint un)"
    unfolding x_def using assms(2) u p by (subst uint_add_exact) (simp_all add: m r)
  have "pp_time_to_picos t = x * (if neg then - 1 else 1)"
    by (simp add: pp_time_to_picos_def neg_def x_def us_def un_def TIME_FRACBITS_def Let_def)
  moreover have "uint x < 2 ^ 63" using x p u assms(2) by simp
  moreover have "neg \<longleftrightarrow> time_val t < 0"
    using assms(1) unfolding neg_def time_val_def normalized_def sint_0_iff [symmetric]
    by (auto simp del: sint_0_iff)
  ultimately show ?thesis using sint_apply_sign [of x neg] x u by (simp add: signed_as_def)
qed

lemma picos_frac_bound:
  "32 \<le> (x mod 1000 * 65536 + 32768) div (1000 :: int) \<and> (x mod 1000 * 65536 + 32768) div 1000 \<le> 65503"
  using zdiv_mono1 [of "x mod 1000 * 65536 + 32768" "999 * 65536 + 32768" 1000]
    zdiv_mono1 [of 32768 "x mod 1000 * 65536 + 32768" 1000] by simp

lemma picos_to_pp_time_value:
  assumes "sint p \<noteq> - (2 ^ 63)"
  shows "sint (secs (picos_to_pp_time p)) = signed_as (sint p) (\<bar>sint p\<bar> div 1000 div 1000000000)"
    and "sint (scaled_nsecs (picos_to_pp_time p)) = signed_as (sint p)
     ((\<bar>sint p\<bar> div 1000 mod 1000000000) * 65536 + (\<bar>sint p\<bar> mod 1000 * 65536 + 32768) div 1000)"
proof -
  define a where "a = p * (if sint p < 0 then - 1 else 1)"
  have a: "uint a = \<bar>sint p\<bar>" unfolding a_def using assms by (intro uint_abs64) auto
  define n where "n = push_bit 16 (ucast (rem64 (quot64 a 1000) 1000000000) :: u64)"
  define r where "r = quot64 (push_bit 16 (ucast (rem64 a 1000)) + 32768) 1000"
  have n: "uint n = uint a div 1000 mod 1000000000 * 65536"
    unfolding n_def by (subst uint_push_bit_exact) (simp_all add: uint_quot64 uint_rem64)
  have "uint (push_bit 16 (ucast (rem64 a 1000)) :: u64) = uint a mod 1000 * 65536"
    by (subst uint_push_bit_exact) (simp_all add: uint_rem64)
  then have "uint (push_bit 16 (ucast (rem64 a 1000)) + 32768 :: u64) = uint a mod 1000 * 65536 + 32768"
    by (subst uint_add_exact) simp_all
  then have r: "uint r = (uint a mod 1000 * 65536 + 32768) div 1000"
    unfolding r_def by (subst uint_quot64) simp_all
  have e: "picos_to_pp_time p =
    \<lparr> secs = quot64 (quot64 a 1000) 1000000000 * (if sint p < 0 then - 1 else 1),
      scaled_nsecs = (n + r) * (if sint p < 0 then - 1 else 1) \<rparr>"
    by (simp add: picos_to_pp_time_def Let_def time_consts a_def n_def r_def)
  have s: "uint (quot64 (quot64 a 1000) 1000000000) = \<bar>sint p\<bar> div 1000 div 1000000000"
  proof -
    have "uint (quot64 a 1000) = \<bar>sint p\<bar> div 1000" by (simp add: uint_quot64 a)
    then show ?thesis by (subst uint_quot64) simp_all
  qed
  have "\<bar>sint p\<bar> div 1000 div 1000000000 < 2 ^ 63" using sint_range64 [of p] by linarith
  then show "sint (secs (picos_to_pp_time p)) = signed_as (sint p) (\<bar>sint p\<bar> div 1000 div 1000000000)"
    using sint_apply_sign [of "quot64 (quot64 a 1000) 1000000000" "sint p < 0"] unfolding e s
    by (simp add: signed_as_def)
  have nr: "uint (n + r) = \<bar>sint p\<bar> div 1000 mod 1000000000 * 65536 + (\<bar>sint p\<bar> mod 1000 * 65536 + 32768) div 1000"
  proof -
    have "uint a div 1000 mod 1000000000 < 1000000000" by simp
    then have "uint n < 65536000000000" unfolding n by linarith
    moreover have "uint r \<le> 65503" unfolding r using picos_frac_bound [of "uint a"] by simp
    ultimately have "uint (n + r) = uint n + uint r" by (intro uint_add_exact) simp
    then show ?thesis unfolding n r a .
  qed
  then show "sint (scaled_nsecs (picos_to_pp_time p)) = signed_as (sint p)
     ((\<bar>sint p\<bar> div 1000 mod 1000000000) * 65536 + (\<bar>sint p\<bar> mod 1000 * 65536 + 32768) div 1000)"
    using sint_apply_sign [of "n + r" "sint p < 0"] unfolding e nr by (simp add: signed_as_def)
qed

text \<open>
  The picoseconds below a nanosecond are rounded twice on the way out and back: the first division
  adds \<open>2 ^ 15\<close> where half of its divisor 1000 would be due.
\<close>

lemma picos_double_rounding:
  assumes "0 \<le> r" and "r < 1000"
  shows "picos_of_scaled ((r * 65536 + 32768) div 1000) = r + (if r mod 125 = 62 then 1 else 0)"
proof -
  define k where "k = (r * 65536 + 32768) div 1000"
  define e where "e = (r * 65536 + 32768) mod 1000"
  have k: "k * 1000 + e = r * 65536 + 32768" unfolding k_def e_def by (rule div_mult_mod_eq)
  have e: "0 \<le> e" "e < 1000" by (simp_all add: e_def)
  have "e = 0 \<longleftrightarrow> 1000 dvd r * 65536 + 32768" unfolding e_def by (rule mod_eq_0_iff_dvd)
  also have "\<dots> \<longleftrightarrow> 8 * 125 dvd 8 * ((2 * r + 1) * 4096)"
  proof -
    have "r * 65536 + 32768 = 8 * ((2 * r + 1) * 4096)" by simp
    moreover have "(1000 :: int) = 8 * 125" by simp
    ultimately show ?thesis by (simp only:)
  qed
  also have "\<dots> \<longleftrightarrow> 125 dvd (2 * r + 1) * 4096" by (rule dvd_times_left_cancel_iff) simp
  also have "\<dots> \<longleftrightarrow> 125 dvd 2 * r + 1" by (rule coprime_dvd_mult_left_iff) code_simp
  also have "\<dots> \<longleftrightarrow> 125 dvd 2 * (r - 62) + 125" by (simp add: add.commute)
  also have "\<dots> \<longleftrightarrow> 125 dvd 2 * (r - 62)" by (rule dvd_add_left_iff) simp
  also have "\<dots> \<longleftrightarrow> 125 dvd r - 62" by (rule coprime_dvd_mult_right_iff) code_simp
  also have "\<dots> \<longleftrightarrow> r mod 125 = 62" by (simp add: mod_eq_dvd_iff [symmetric])
  finally have z: "e = 0 \<longleftrightarrow> r mod 125 = 62" .
  have "(k * 1000 + 32768) div 65536 = r + (if e = 0 then 1 else 0)"
    by (rule int_div_pos_eq [where r = "(if e = 0 then 0 else 65536 - e)"]) (use k e in auto)
  then show ?thesis unfolding picos_of_scaled_def k_def [symmetric] z .
qed

lemma picos_time_round_trip:
  assumes "\<bar>sint p\<bar> < 9223370000000000000"
  shows "sint (pp_time_to_picos (picos_to_pp_time p)) =
    sint p + (if \<bar>sint p\<bar> mod 125 = 62 then signed_as (sint p) 1 else 0)"
proof -
  define t where "t = picos_to_pp_time p"
  define A where "A = \<bar>sint p\<bar>"
  define m where "m = A div 1000 mod 1000000000"
  define k where "k = (A mod 1000 * 65536 + 32768) div 1000"
  have A: "0 \<le> A" "A < 9223370000000000000" using assms by (simp_all add: A_def)
  have "sint p \<noteq> - (2 ^ 63)" using assms by auto
  note v = picos_to_pp_time_value [OF this, folded t_def A_def, folded m_def k_def]
  have m: "0 \<le> m" "m < 1000000000" by (simp_all add: m_def)
  have k: "32 \<le> k" "k \<le> 65503" using picos_frac_bound [of A] by (simp_all add: k_def)
  have s: "0 \<le> A div 1000 div 1000000000" "A div 1000 div 1000000000 \<le> 9223370" using A by simp_all
  have "normalized t" unfolding normalized_def v using m k s by (simp add: signed_as_def)
  moreover have "\<bar>sint (secs t)\<bar> = A div 1000 div 1000000000" unfolding v using s by (simp add: signed_as_def)
  moreover have "\<bar>sint (scaled_nsecs t)\<bar> = m * 65536 + k" unfolding v using m k by (simp add: signed_as_def)
  moreover have "picos_of_scaled (m * 65536 + k) = m * 1000 + picos_of_scaled k"
  proof -
    have "(m * 65536 + k) * 1000 + 32768 = m * 1000 * 65536 + (k * 1000 + 32768)" by simp
    then show ?thesis unfolding picos_of_scaled_def by (simp only: div_mult_self3)
  qed
  ultimately have "sint (pp_time_to_picos t) = signed_as (time_val t)
    (A div 1000 div 1000000000 * 1000000000000 + (m * 1000 + picos_of_scaled k))"
    using pp_time_to_picos_value [of t] s by simp
  moreover have "picos_of_scaled k = A mod 1000 + (if A mod 125 = 62 then 1 else 0)"
    using picos_double_rounding [of "A mod 1000"] by (simp add: k_def mod_mod_cancel)
  moreover have "A div 1000 div 1000000000 * 1000000000000 + (m * 1000 + A mod 1000) = A"
    using div_mult_mod_eq [of A 1000] div_mult_mod_eq [of "A div 1000" 1000000000]
    unfolding m_def by linarith
  moreover have "time_val t < 0 \<longleftrightarrow> sint p < 0"
    unfolding time_val_def v using m k s by (auto simp: signed_as_def)
  ultimately have "sint (pp_time_to_picos t) = signed_as (sint p) (A + (if A mod 125 = 62 then 1 else 0))"
    unfolding signed_as_def by simp
  also have "\<dots> = sint p + (if A mod 125 = 62 then signed_as (sint p) 1 else 0)"
    using A_def by (auto simp: signed_as_def)
  finally show ?thesis unfolding t_def A_def .
qed
lemma half_scaled:
  "(s * 65536000000000 + n) div (2::int) = s div 2 * 65536000000000 + (if odd s then 32768000000000 else 0) + n div 2"
proof -
  obtain q r where s: "s = 2 * q + r" "r = 0 \<or> r = 1" by (metis div_mod_decomp_int mult.commute not_mod_2_eq_0_eq_1)
  have "s * 65536000000000 + n = (q * 65536000000000 + r * 32768000000000) * 2 + n" using s by simp
  then have "(s * 65536000000000 + n) div 2 = q * 65536000000000 + r * 32768000000000 + n div 2"
    by (simp only: div_mult_self3)
  then show ?thesis using s by auto
qed

lemma pp_time_div2_value:
  assumes "normalized t"
  shows "time_val (pp_time_div2 t) =
    time_val t div 2 - (if sint (secs t) < 0 \<and> odd (sint (secs t)) then 65536000000000 else 0)"
proof -
  define half where "half = (if sint (secs t) < 0 then - 32768000000000 else 32768000000000 :: s64)"
  have o: "secs t AND 1 \<noteq> 0 \<longleftrightarrow> odd (sint (secs t))"
    by (simp add: and_one_eq odd_iff_mod_2_eq_one [symmetric] odd_sint64)
  have n: "sint (signed_drop_bit 1 (scaled_nsecs t)) = sint (scaled_nsecs t) div 2"
    "sint (signed_drop_bit 1 (secs t)) = sint (secs t) div 2"
    by (simp_all only: sint_signed_drop_bit_eq) (simp_all add: drop_bit_eq_div)
  have h: "sint (signed_drop_bit 1 (scaled_nsecs t) + half) = sint (scaled_nsecs t) div 2 + sint half"
  proof -
    have "\<bar>sint (scaled_nsecs t)\<bar> \<le> 65536000000000"
      by (rule same_sign_abs [OF assms [unfolded normalized_same_sign]])
    then have "\<bar>sint (scaled_nsecs t) div 2\<bar> \<le> 32768000000000" by linarith
    then show ?thesis by (subst sint_add_exact) (simp_all only: n, auto simp: half_def)
  qed
  show ?thesis
    unfolding time_val_def pp_time_div2_def Let_def half_def [symmetric]
    using h n o by (simp add: half_scaled) (simp add: half_def)
qed
section \<open>Properties\<close>

text \<open>
  C31: Sum and difference of normalized times are exact: the result denotes the sum (the difference)
  of the two times and is normalized again, for seconds up to \<open>2 ^ 61\<close> in magnitude.
\<close>

theorem pp_time_add_sub_exact:
  assumes "normalized t1" and "normalized t2"
    and "\<bar>sint (secs t1)\<bar> \<le> 2 ^ 61" and "\<bar>sint (secs t2)\<bar> \<le> 2 ^ 61"
  shows "time_val (pp_time_add t1 t2) = time_val t1 + time_val t2 \<and> normalized (pp_time_add t1 t2) \<and>
    time_val (pp_time_sub t1 t2) = time_val t1 - time_val t2 \<and> normalized (pp_time_sub t1 t2)"
  using pp_time_add_value [OF assms] pp_time_sub_value [OF assms] by blast

theorem pp_time_add_sub_exact_witness:
  "time_val (pp_time_add \<lparr> secs = 3, scaled_nsecs = 65535999999999 \<rparr> \<lparr> secs = - 5, scaled_nsecs = - 7 \<rparr>)
     = - 65536000000008 \<and>
   normalized (pp_time_sub \<lparr> secs = 3, scaled_nsecs = 65535999999999 \<rparr> \<lparr> secs = - 5, scaled_nsecs = - 7 \<rparr>)"
  using pp_time_add_sub_exact
    [of "\<lparr> secs = 3, scaled_nsecs = 65535999999999 \<rparr>" "\<lparr> secs = - 5, scaled_nsecs = - 7 \<rparr>"]
  by (simp add: normalized_def time_val_def)

text \<open>
  C33: A number of picoseconds up to 140 seconds in magnitude survives the conversion to a
  \<^verbatim>\<open>TimeInterval\<close> and back.
\<close>

theorem interval_picos_roundtrip:
  assumes "\<bar>sint p\<bar> \<le> 140000000000000"
  shows "interval_to_picos (picos_to_interval p) = p"
  by (rule interval_picos_round_trip [OF assms])

theorem interval_picos_roundtrip_witness:
  "interval_to_picos (picos_to_interval (- 123456789012)) = - 123456789012"
  by (rule interval_picos_roundtrip) simp

text \<open>
  C34: Picoseconds converted to a \<^verbatim>\<open>struct pp_time\<close> and back come out unchanged, except that a
  number congruent to 62 modulo 125 in magnitude comes out one picosecond larger: the conversion
  rounds with half of \<open>2 ^ 16\<close> before a division by 1000.
\<close>

theorem picos_time_roundtrip:
  assumes "\<bar>sint p\<bar> < 9223370000000000000"
  shows "sint (pp_time_to_picos (picos_to_pp_time p)) =
    sint p + (if \<bar>sint p\<bar> mod 125 = 62 then signed_as (sint p) 1 else 0)"
  by (rule picos_time_round_trip [OF assms])

theorem picos_time_roundtrip_witness:
  "sint (pp_time_to_picos (picos_to_pp_time 1000062)) = 1000063 \<and>
   sint (pp_time_to_picos (picos_to_pp_time (- 123456789012345678))) = - 123456789012345678"
  using picos_time_roundtrip [of 1000062] picos_time_roundtrip [of "- 123456789012345678"]
  by (simp add: signed_as_def)

text \<open>
  C40: Halving a normalized time yields half of it, rounded down, unless the seconds are negative
  and odd: then the result is one second too small.
\<close>

theorem pp_time_div2_half:
  assumes "normalized t"
  shows "time_val (pp_time_div2 t) =
    time_val t div 2 - (if sint (secs t) < 0 \<and> odd (sint (secs t)) then 65536000000000 else 0)"
  by (rule pp_time_div2_value [OF assms])

theorem pp_time_div2_half_witness:
  "time_val (pp_time_div2 \<lparr> secs = - 1, scaled_nsecs = 0 \<rparr>) = - 98304000000000 \<and>
   time_val (pp_time_div2 \<lparr> secs = 3, scaled_nsecs = 10 \<rparr>) = 98304000000005"
  using pp_time_div2_half [of "\<lparr> secs = - 1, scaled_nsecs = 0 \<rparr>"]
    pp_time_div2_half [of "\<lparr> secs = 3, scaled_nsecs = 10 \<rparr>"]
  by (simp add: normalized_def time_val_def)

end
