(* ===== verification/Ppsi_Types.thy ===== *)
theory Ppsi_Types
  imports Pp_Time
begin

text \<open>
  The data of the daemon: the protocol structures of \<^verbatim>\<open>include/ppsi/ieee1588_types.h\<close>, the port and
  clock state of \<^verbatim>\<open>include/ppsi/pp-instance.h\<close>, the constants of \<^verbatim>\<open>include/ppsi/constants.h\<close>, the
  helpers of \<^verbatim>\<open>include/ppsi/ppsi.h\<close> and the byte comparison of \<^verbatim>\<open>lib/libc-functions.c\<close>.

  A \<^verbatim>\<open>struct\<close> is a record whose fields carry the names of the source, with a prefix where two
  structures share a field name.  A field of type \<^verbatim>\<open>Boolean\<close> that the code only tests is a
  \<^typ>\<open>bool\<close>; those it copies as bytes (the flags of the time properties) are 8-bit words.  The
  clock state \<open>pp_globals\<close> owns the list of ports, so that a function of the source on a port
  pointer \<^verbatim>\<open>ppi\<close> is a function on the clock state and the index of the port.
\<close>

section \<open>Identities\<close>

datatype ClockIdentity = ClockId u8 u8 u8 u8 u8 u8 u8 u8

fun cid_bytes :: "ClockIdentity \<Rightarrow> u8 list" where
  "cid_bytes (ClockId a b c d e f g h) = [a, b, c, d, e, f, g, h]"

definition cid_of_bytes :: "u8 list \<Rightarrow> ClockIdentity" where
  "cid_of_bytes bs = ClockId (bs ! 0) (bs ! 1) (bs ! 2) (bs ! 3) (bs ! 4) (bs ! 5) (bs ! 6) (bs ! 7)"

record PortIdentity =
  clockIdentity :: ClockIdentity
  portNumber :: u16

record ClockQuality =
  clockClass :: u8
  clockAccuracy :: u8
  offsetScaledLogVariance :: u16

section \<open>Messages\<close>

record MsgHeader =
  hdr_transportSpecific :: u8
  hdr_messageType :: u8
  hdr_versionPTP :: u8
  hdr_messageLength :: u16
  hdr_domainNumber :: u8
  hdr_flagField0 :: u8
  hdr_flagField1 :: u8
  hdr_cField :: pp_time
  hdr_sourcePortIdentity :: PortIdentity
  hdr_sequenceId :: u16
  hdr_logMessageInterval :: s8

record MsgAnnounce =
  ann_originTimestamp :: pp_time
  ann_currentUtcOffset :: s16
  ann_grandmasterPriority1 :: u8
  ann_grandmasterClockQuality :: ClockQuality
  ann_grandmasterPriority2 :: u8
  ann_grandmasterIdentity :: ClockIdentity
  ann_stepsRemoved :: u16
  ann_timeSource :: u8
  ann_ext_specific :: "u16 list"

record MsgDelayResp =
  resp_receiveTimestamp :: pp_time
  resp_requestingPortIdentity :: PortIdentity

definition PPM_SYNC :: u8 where "PPM_SYNC = 0x0"
definition PPM_DELAY_REQ :: u8 where "PPM_DELAY_REQ = 0x1"
definition PPM_PDELAY_REQ :: u8 where "PPM_PDELAY_REQ = 0x2"
definition PPM_PDELAY_RESP :: u8 where "PPM_PDELAY_RESP = 0x3"
definition PPM_FOLLOW_UP :: u8 where "PPM_FOLLOW_UP = 0x8"
definition PPM_DELAY_RESP :: u8 where "PPM_DELAY_RESP = 0x9"
definition PPM_PDELAY_R_FUP :: u8 where "PPM_PDELAY_R_FUP = 0xa"
definition PPM_ANNOUNCE :: u8 where "PPM_ANNOUNCE = 0xb"
definition PPM_SIGNALING :: u8 where "PPM_SIGNALING = 0xc"
definition PPM_MANAGEMENT :: u8 where "PPM_MANAGEMENT = 0xd"
definition PP_NR_MESSAGES_TYPES :: nat where "PP_NR_MESSAGES_TYPES = 14"
definition PPM_NO_MESSAGE :: u8 where "PPM_NO_MESSAGE = 0xf"

lemmas ppm_defs = PPM_SYNC_def PPM_DELAY_REQ_def PPM_PDELAY_REQ_def PPM_PDELAY_RESP_def
  PPM_FOLLOW_UP_def PPM_DELAY_RESP_def PPM_PDELAY_R_FUP_def PPM_ANNOUNCE_def PPM_SIGNALING_def
  PPM_MANAGEMENT_def PPM_NO_MESSAGE_def

section \<open>Data sets\<close>

record defaultDS =
  dd_clockIdentity :: ClockIdentity
  dd_numberPorts :: u16
  dd_clockQuality :: ClockQuality
  dd_priority1 :: u8
  dd_priority2 :: u8
  dd_domainNumber :: u8
  dd_slaveOnly :: bool
  dd_externalPortConfigurationEnabled :: bool

record currentDS =
  cur_stepsRemoved :: u16
  cur_offsetFromMaster :: TimeInterval
  cur_meanDelay :: TimeInterval

record parentDS =
  par_parentPortIdentity :: PortIdentity
  par_observedParentOffsetScaledLogVariance :: u16
  par_observedParentClockPhaseChangeRate :: s32
  par_grandmasterIdentity :: ClockIdentity
  par_grandmasterClockQuality :: ClockQuality
  par_grandmasterPriority1 :: u8
  par_grandmasterPriority2 :: u8
  par_newGrandmaster :: bool

record timePropertiesDS =
  tp_currentUtcOffset :: s16
  tp_currentUtcOffsetValid :: u8
  tp_leap59 :: u8
  tp_leap61 :: u8
  tp_timeTraceable :: u8
  tp_frequencyTraceable :: u8
  tp_ptpTimescale :: u8
  tp_timeSource :: u8

record portDS =
  por_portIdentity :: PortIdentity
  por_logMinDelayReqInterval :: s8
  por_logAnnounceInterval :: s8
  por_announceReceiptTimeout :: u8
  por_logSyncInterval :: s8
  por_versionNumber :: u8
  por_logMinPdelayReqInterval :: s8
  por_minorVersionNumber :: u8
  por_delayAsymmetry :: TimeInterval
  por_meanLinkDelay :: TimeInterval
  por_portEnable :: bool
  por_masterOnly :: bool
  por_delayAsymCoeff :: s64

record timestampCorrectionPortDS =
  tc_egressLatency :: TimeInterval
  tc_ingressLatency :: TimeInterval
  tc_messageTimestampPointLatency :: TimeInterval
  tc_semistaticLatency :: TimeInterval

record asymmetryCorrectionPortDS =
  ac_constantAsymmetry :: TimeInterval
  ac_scaledDelayCoefficient :: s64
  ac_enable :: bool

section \<open>Port states and timers\<close>

datatype pp_std_states =
    PPS_END_OF_TABLE | PPS_INITIALIZING | PPS_FAULTY | PPS_DISABLED | PPS_LISTENING
  | PPS_PRE_MASTER | PPS_MASTER | PPS_PASSIVE | PPS_UNCALIBRATED | PPS_SLAVE

datatype to_rand = TO_RAND_NONE | TO_RAND_70_130 | TO_RAND_0_200

record timeOutInstCnt =
  which_rand :: to_rand
  initValueMs :: s32
  tmo :: u64

datatype pp_timeouts =
    PP_TO_REQUEST | PP_TO_SYNC_SEND | PP_TO_BMC | PP_TO_ANN_RECEIPT | PP_TO_ANN_SEND
  | PP_TO_QUALIFICATION | PP_TO_PROT_STATE | PP_TO_IN_STATE | PP_TO_GM_BY_BMCA
  | PP_TO_L1E_TX_SYNC | PP_TO_L1E_RX_SYNC | PP_TO_WR_EXT_0

datatype pp_pdstate =
    PP_PDSTATE_NONE | PP_PDSTATE_WAIT_MSG | PP_PDSTATE_PDETECTION | PP_PDSTATE_PDETECTED
  | PP_PDSTATE_FAILURE

datatype pp_exstate = PP_EXSTATE_DISABLE | PP_EXSTATE_ACTIVE | PP_EXSTATE_PTP

section \<open>Foreign masters and servo\<close>

record pp_frgn_master =
  fm_sequenceId :: u16
  fm_stepsRemoved :: u16
  fm_currentUtcOffset :: s16
  fm_receivePortIdentity :: PortIdentity
  fm_sourcePortIdentity :: PortIdentity
  fm_grandmasterClockQuality :: ClockQuality
  fm_grandmasterIdentity :: ClockIdentity
  fm_grandmasterPriority1 :: u8
  fm_grandmasterPriority2 :: u8
  fm_timeSource :: u8
  fm_flagField0 :: u8
  fm_flagField1 :: u8
  fm_qualified :: bool
  fm_lastAnnounceMsgMs :: u64
  fm_ext_specific :: "u16 list"
  fm_peer_mac :: "u8 list"

record pp_avg_fltr =
  fltr_m :: s64
  fltr_y :: s64
  fltr_s_exp :: s64

record pp_servo =
  srv_obs_drift :: s64
  srv_mpd_fltr :: pp_avg_fltr
  srv_delayMM :: pp_time
  srv_delayMS :: pp_time
  srv_meanDelay :: pp_time
  srv_offsetFromMaster :: pp_time
  srv_flags :: u8
  srv_state :: u8
  srv_servo_locked :: bool
  srv_got_sync :: bool
  srv_update_count :: u32
  srv_update_time :: pp_time
  srv_t1 :: pp_time
  srv_t2 :: pp_time
  srv_t3 :: pp_time
  srv_t4 :: pp_time
  srv_t5 :: pp_time
  srv_t6 :: pp_time

section \<open>Data of the protocol extensions\<close>

text \<open>
  The port data sets of the White Rabbit and of the L1Sync extension, the data of the servo they share
  and the part White Rabbit adds.  A port has storage for the extension it runs; the model has the
  storage of both.
\<close>

datatype wr_state =
    WRS_IDLE | WRS_PRESENT | WRS_S_LOCK | WRS_M_LOCK | WRS_LOCKED | WRS_CALIBRATION
  | WRS_CALIBRATED | WRS_RESP_CALIB_REQ | WRS_WR_LINK_ON

datatype wr_role = WR_ROLE_NONE | WR_MASTER | WR_SLAVE

datatype ParentDetection = PD_NO_DETECTION | PD_WR_PARENT | PD_NOT_WR_PARENT

record wr_dsport =
  wr_st :: wr_state
  wr_next_state :: wr_state
  wr_wrModeOn :: bool
  wr_parentWrModeOn :: bool
  wr_deltaTx :: FixedDelta
  wr_deltaRx :: FixedDelta
  wr_otherNodeDeltaTx :: FixedDelta
  wr_otherNodeDeltaRx :: FixedDelta
  wr_wrConfig :: u8
  wr_wrMode :: wr_role
  wr_wrPortState :: u8
  wr_calibrated :: bool
  wr_wrStateTimeout :: u32
  wr_wrStateRetry :: u8
  wr_calPeriod :: u32
  wr_calRetry :: u8
  wr_parentWrConfig :: u8
  wr_parentIsWRnode :: bool
  wr_parentCalibrated :: bool
  wr_otherNodeCalSendPattern :: u16
  wr_otherNodeCalPeriod :: u32
  wr_otherNodeCalRetry :: u8
  wr_parentAnnPortIdentity :: PortIdentity
  wr_parentAnnSequenceId :: u16
  wr_parentDetection :: ParentDetection

datatype l1_sync_state =
    L1SYNC_MISSING | L1SYNC_DISABLED | L1SYNC_IDLE | L1SYNC_LINK_ALIVE | L1SYNC_CONFIG_MATCH | L1SYNC_UP

record L1SyncBasicPortDS =
  l1_L1SyncEnabled :: bool
  l1_txCoherentIsRequired :: bool
  l1_rxCoherentIsRequired :: bool
  l1_congruentIsRequired :: bool
  l1_optParamsEnabled :: bool
  l1_logL1SyncInterval :: s8
  l1_L1SyncReceiptTimeout :: s8
  l1_L1SyncLinkAlive :: bool
  l1_isTxCoherent :: bool
  l1_isRxCoherent :: bool
  l1_isCongruent :: bool
  l1_L1SyncState :: l1_sync_state
  l1_peerTxCoherentIsRequired :: bool
  l1_peerRxCoherentIsRequired :: bool
  l1_peerCongruentIsRequired :: bool
  l1_peerIsTxCoherent :: bool
  l1_peerIsRxCoherent :: bool
  l1_peerIsCongruent :: bool
  l1_next_state :: l1_sync_state

record L1SyncOptParamsPortDS =
  l1_timestampsCorrectedTx :: bool
  l1_phaseOffsetTxValid :: bool
  l1_frequencyOffsetTxValid :: bool

record l1e_ext_portDS =
  l1_basic :: L1SyncBasicPortDS
  l1_opt_params :: L1SyncOptParamsPortDS
  l1_execute_state_machine :: bool

record wrh_servo =
  wrh_n_err_state :: u32
  wrh_n_err_offset :: u32
  wrh_n_err_delta_rtt :: u32
  wrh_cur_setpoint_ps :: s32
  wrh_clock_period_ps :: s32
  wrh_tracking :: bool
  wrh_readyForSync :: bool
  wrh_doRestart :: bool
  wrh_delayMM_ps :: s64
  wrh_delayMS_ps :: s64
  wrh_skew_ps :: s64
  wrh_offsetMS_ps :: s64
  wrh_prev_delayMS_ps :: s64
  wrh_missed_iters :: s32

record wr_servo_ext =
  wre_delta_txm :: pp_time
  wre_delta_rxm :: pp_time
  wre_delta_txs :: pp_time
  wre_delta_rxs :: pp_time
  wre_rawT1 :: pp_time
  wre_rawT2 :: pp_time
  wre_rawT3 :: pp_time
  wre_rawT4 :: pp_time
  wre_rawT5 :: pp_time
  wre_rawT6 :: pp_time
  wre_rawDelayMM :: pp_time

section \<open>Options, ports and the clock\<close>

record pp_runtime_opts =
  opt_updated_fields_mask :: u32
  opt_clock_quality_clockClass :: s32
  opt_clock_quality_clockAccuracy :: s32
  opt_clock_quality_offsetScaledLogVariance :: s32
  opt_timeSource :: s32
  opt_ptpTimeScale :: u8
  opt_frequencyTraceable :: u8
  opt_timeTraceable :: u8
  opt_ttl :: s32
  opt_flags :: s32
  opt_ap :: s16
  opt_ai :: s16
  opt_s :: s16
  opt_priority1 :: s32
  opt_priority2 :: s32
  opt_domainNumber :: s32
  opt_ptpPpsThresholdMs :: s32
  opt_gmDelayToGenPpsSec :: s32
  opt_externalPortConfigurationEnabled :: bool
  opt_slaveOnly :: bool
  opt_forcePpsGen :: bool
  opt_ptpFallbackPpsGen :: bool

record pp_instance_cfg =
  cfg_port_name :: string
  cfg_iface_name :: string
  cfg_profile :: s32
  cfg_delayMechanism :: s32
  cfg_announce_interval :: s32
  cfg_announce_receipt_timeout :: s32
  cfg_sync_interval :: s32
  cfg_min_delay_req_interval :: s32
  cfg_min_pdelay_req_interval :: s32
  cfg_l1SyncEnabled :: bool
  cfg_l1SyncRxCoherentIsRequired :: bool
  cfg_l1SyncTxCoherentIsRequired :: bool
  cfg_l1SyncCongruentIsRequired :: bool
  cfg_l1SyncOptParamsEnabled :: bool
  cfg_l1syncInterval :: s32
  cfg_l1syncReceiptTimeout :: s32
  cfg_l1SyncOptParamsTimestampsCorrectedTx :: bool
  cfg_egressLatency_ps :: s64
  cfg_ingressLatency_ps :: s64
  cfg_constantAsymmetry_ps :: s64
  cfg_scaledDelayCoefficient :: s64
  cfg_desiredState :: pp_std_states
  cfg_masterOnly :: bool
  cfg_asymmetryCorrectionEnable :: bool

record pp_instance =
  ppi_state :: pp_std_states
  ppi_next_state :: pp_std_states
  ppi_next_delay :: s32
  ppi_is_new_state :: bool
  ppi_current_state_item :: "pp_std_states option"
  ppi_protocol_extension :: s32
  ppi_flags :: u8
  ppi_proto :: s32
  ppi_delayMechanism :: s32
  ppi_tx_ptp :: "u8 list"
  ppi_gen_addr :: "u8 list"
  ppi_peer :: "u8 list"
  ppi_activePeer :: "u8 list"
  ppi_peer_vid :: u16
  ppi_t1 :: pp_time
  ppi_t2 :: pp_time
  ppi_t3 :: pp_time
  ppi_t4 :: pp_time
  ppi_t5 :: pp_time
  ppi_t6 :: pp_time
  ppi_syncCF :: u64
  ppi_last_rcv_time :: pp_time
  ppi_last_snt_time :: pp_time
  frgn_rec_num :: u16
  frgn_rec_best :: s16
  frgn_master_time_window_ms :: u32
  frgn_master :: "pp_frgn_master list"
  ppi_portDS :: portDS
  ppi_servo :: pp_servo
  ppi_asymmetryCorrectionPortDS :: asymmetryCorrectionPortDS
  ppi_timestampCorrectionPortDS :: timestampCorrectionPortDS
  ppi_desiredState :: pp_std_states
  tmo_cfg :: "pp_timeouts \<Rightarrow> timeOutInstCnt"
  recv_sync_sequence_id :: u16
  sent_seq :: "u16 list"
  received_ptp_header :: MsgHeader
  link_up :: bool
  port_idx :: s32
  ppi_vlans :: "s32 list"
  ppi_cfg :: pp_instance_cfg
  ptp_tx_count :: u64
  ptp_rx_count :: u64
  received_dresp :: u8
  received_dresp_fup :: u8
  ppi_ptp_fallback :: bool
  bmca_execute :: bool
  ppi_pdstate :: pp_pdstate
  ppi_extState :: pp_exstate
  ppi_wr :: wr_dsport
  ppi_l1e :: l1e_ext_portDS
  ppi_wrh_servo :: wrh_servo
  ppi_wr_servo_ext :: wr_servo_ext

text \<open>
  The build-time options of \<^verbatim>\<open>Kconfig\<close> the code tests.  They are part of the clock state, constant
  over every operation.
\<close>

record config =
  CONFIG_HAS_P2P :: bool
  CONFIG_EXT_PORT_CONF_FORCE_DISABLED :: bool
  CONFIG_EPC_ENABLED :: bool
  CONFIG_SO_FORCE_DISABLED :: bool
  CONFIG_SO_ENABLED :: bool
  CONFIG_MO_FORCE_DISABLED :: bool
  CONFIG_SINGLE_PORT :: bool
  CONFIG_SINGLE_FMASTER :: bool
  CONFIG_WRPC_SIZE :: bool
  CONFIG_NR_FOREIGN_RECORDS :: nat
  CONFIG_VLAN_ARRAY_SIZE :: nat

datatype pp_msg_format =
    PPM_SYNC_FMT | PPM_DELAY_REQ_FMT | PPM_PDELAY_REQ_FMT | PPM_PDELAY_RESP_FMT
  | PPM_FOLLOW_UP_FMT | PPM_DELAY_RESP_FMT | PPM_PDELAY_R_FUP_FMT | PPM_ANNOUNCE_FMT
  | PPM_SIGNALING_FMT | PPM_SIGNALING_NO_FWD_FMT | PPM_MANAGEMENT_FMT

text \<open>
  The calls into the platform that have an effect there: those of \<^verbatim>\<open>struct pp_time_operations\<close> that
  change the clock or the pulse output, those of \<^verbatim>\<open>struct wrh_operations\<close> that act on the phase-locked
  loop, and the frames sent.  The clock state keeps their log.
\<close>

datatype pp_event =
    Ev_enable_timing_output bool
  | Ev_set "pp_time option"
  | Ev_set_utc_offset s32 s32 s32
  | Ev_adjust s64 s64
  | Ev_adjust_freq s64
  | Ev_adjust_offset s64
  | Ev_send nat pp_msg_format "u8 list"
  | Ev_locking_enable nat
  | Ev_locking_disable nat
  | Ev_locking_reset nat
  | Ev_enable_ptracker nat
  | Ev_adjust_counters s64 s32
  | Ev_adjust_phase s32

text \<open>The static error counters of the functions that check timestamps.\<close>

datatype errcount_id =
    EC_p2p_delayMM | EC_e2e_delayMM | EC_calculate_delays | EC_got_resp | EC_got_presp
  | EC_handle_sync | EC_handle_followup | EC_wrh_got_resp | EC_wrh_got_presp

record pp_globals =
  g_config :: config
  pp_instances :: "pp_instance list"
  rt_opts :: pp_runtime_opts
  g_defaultDS :: defaultDS
  g_currentDS :: currentDS
  g_parentDS :: parentDS
  g_timePropertiesDS :: timePropertiesDS
  ebest_idx :: s32
  ebest_updated :: bool
  g_nlinks :: s32
  g_timeout_seed :: u32
  g_lastTimingModeState :: "s8 list"
  g_errcount :: "errcount_id \<Rightarrow> s32"
  wrh_tracking_enabled :: bool
  g_events :: "pp_event list"

section \<open>Access to ports and data sets\<close>

definition INST :: "pp_globals \<Rightarrow> nat \<Rightarrow> pp_instance" where
  "INST ppg n = pp_instances ppg ! n"

definition upd_inst :: "nat \<Rightarrow> (pp_instance \<Rightarrow> pp_instance) \<Rightarrow> pp_globals \<Rightarrow> pp_globals" where
  "upd_inst n f ppg = ppg\<lparr> pp_instances := (pp_instances ppg)[n := f (INST ppg n)] \<rparr>"

definition log_event :: "pp_event \<Rightarrow> pp_globals \<Rightarrow> pp_globals" where
  "log_event ev ppg = ppg\<lparr> g_events := g_events ppg @ [ev] \<rparr>"

lemma INST_upd_inst [simp]:
  "n < length (pp_instances ppg) \<Longrightarrow> INST (upd_inst n f ppg) m = (if m = n then f (INST ppg n) else INST ppg m)"
  by (simp add: INST_def upd_inst_def)

lemma INST_upd_inst_other [simp]: "m \<noteq> n \<Longrightarrow> INST (upd_inst n f ppg) m = INST ppg m"
  by (simp add: INST_def upd_inst_def)

lemma upd_inst_beyond: "\<not> i < length (pp_instances ppg) \<Longrightarrow> upd_inst i f ppg = ppg"
  by (simp add: upd_inst_def list_update_beyond)

lemma upd_inst_fields [simp]:
  "length (pp_instances (upd_inst n f ppg)) = length (pp_instances ppg)"
  "g_config (upd_inst n f ppg) = g_config ppg"
  "rt_opts (upd_inst n f ppg) = rt_opts ppg"
  "g_defaultDS (upd_inst n f ppg) = g_defaultDS ppg"
  "g_currentDS (upd_inst n f ppg) = g_currentDS ppg"
  "g_parentDS (upd_inst n f ppg) = g_parentDS ppg"
  "g_timePropertiesDS (upd_inst n f ppg) = g_timePropertiesDS ppg"
  "ebest_idx (upd_inst n f ppg) = ebest_idx ppg"
  "ebest_updated (upd_inst n f ppg) = ebest_updated ppg"
  "g_timeout_seed (upd_inst n f ppg) = g_timeout_seed ppg"
  "g_nlinks (upd_inst n f ppg) = g_nlinks ppg"
  "wrh_tracking_enabled (upd_inst n f ppg) = wrh_tracking_enabled ppg"
  "g_lastTimingModeState (upd_inst n f ppg) = g_lastTimingModeState ppg"
  "g_errcount (upd_inst n f ppg) = g_errcount ppg"
  "g_events (upd_inst n f ppg) = g_events ppg"
  by (simp_all add: upd_inst_def)

lemma log_event_fields [simp]:
  "pp_instances (log_event ev ppg) = pp_instances ppg"
  "INST (log_event ev ppg) n = INST ppg n"
  "g_config (log_event ev ppg) = g_config ppg"
  "rt_opts (log_event ev ppg) = rt_opts ppg"
  "g_defaultDS (log_event ev ppg) = g_defaultDS ppg"
  "g_currentDS (log_event ev ppg) = g_currentDS ppg"
  "g_parentDS (log_event ev ppg) = g_parentDS ppg"
  "g_timePropertiesDS (log_event ev ppg) = g_timePropertiesDS ppg"
  "ebest_idx (log_event ev ppg) = ebest_idx ppg"
  "ebest_updated (log_event ev ppg) = ebest_updated ppg"
  "g_timeout_seed (log_event ev ppg) = g_timeout_seed ppg"
  "g_nlinks (log_event ev ppg) = g_nlinks ppg"
  "wrh_tracking_enabled (log_event ev ppg) = wrh_tracking_enabled ppg"
  "g_lastTimingModeState (log_event ev ppg) = g_lastTimingModeState ppg"
  "g_events (log_event ev ppg) = g_events ppg @ [ev]"
  by (simp_all add: log_event_def INST_def)

definition MECH_E2E :: s32 where "MECH_E2E = 1"
definition MECH_P2P :: s32 where "MECH_P2P = 2"

definition is_externalPortConfigurationEnabled :: "pp_globals \<Rightarrow> bool" where
  "is_externalPortConfigurationEnabled ppg \<longleftrightarrow>
     \<not> CONFIG_EXT_PORT_CONF_FORCE_DISABLED (g_config ppg) \<and>
     (CONFIG_EPC_ENABLED (g_config ppg) \<or> dd_externalPortConfigurationEnabled (g_defaultDS ppg))"

definition is_delayMechanismP2P :: "pp_globals \<Rightarrow> nat \<Rightarrow> bool" where
  "is_delayMechanismP2P ppg i \<longleftrightarrow>
     CONFIG_HAS_P2P (g_config ppg) \<and> ppi_delayMechanism (INST ppg i) = MECH_P2P"

definition is_delayMechanismE2E :: "pp_globals \<Rightarrow> nat \<Rightarrow> bool" where
  "is_delayMechanismE2E ppg i \<longleftrightarrow>
     \<not> CONFIG_HAS_P2P (g_config ppg) \<or> ppi_delayMechanism (INST ppg i) = MECH_E2E"

definition is_slaveOnly :: "pp_globals \<Rightarrow> bool" where
  "is_slaveOnly ppg \<longleftrightarrow> \<not> CONFIG_SO_FORCE_DISABLED (g_config ppg) \<and>
     \<not> CONFIG_EPC_ENABLED (g_config ppg) \<and> dd_slaveOnly (g_defaultDS ppg)"

definition is_masterOnly :: "pp_globals \<Rightarrow> nat \<Rightarrow> bool" where
  "is_masterOnly ppg i \<longleftrightarrow> \<not> CONFIG_MO_FORCE_DISABLED (g_config ppg) \<and>
     por_masterOnly (ppi_portDS (INST ppg i))"

definition get_numberPorts :: "pp_globals \<Rightarrow> nat" where
  "get_numberPorts ppg =
     (if CONFIG_SINGLE_PORT (g_config ppg) then 1 else unat (dd_numberPorts (g_defaultDS ppg)))"

definition pp_can_adjust :: "pp_globals \<Rightarrow> bool" where
  "pp_can_adjust ppg \<longleftrightarrow> opt_flags (rt_opts ppg) AND 1 = 0"

section \<open>Extension hooks\<close>

text \<open>
  \<^verbatim>\<open>struct pp_ext_hooks\<close>: the functions by which a protocol extension augments the standard states; a
  null pointer is \<^const>\<open>None\<close>.  A hook is a function of the clock state and the port.  The received
  frame is a byte list with its length; no frame is length 0.
\<close>

type_synonym hook = "(pp_globals \<Rightarrow> nat \<Rightarrow> s32 \<times> pp_globals) option"
type_synonym hook_frame = "(pp_globals \<Rightarrow> nat \<Rightarrow> u8 list \<Rightarrow> nat \<Rightarrow> s32 \<times> pp_globals) option"

record pp_ext_hooks =
  h_init :: hook_frame
  h_open :: hook
  h_close :: hook
  h_listening :: hook_frame
  h_new_slave :: hook_frame
  h_handle_resp :: hook
  h_handle_announce :: hook
  h_handle_sync :: hook
  h_handle_followup :: hook
  h_handle_preq :: hook
  h_handle_presp :: hook
  h_handle_signaling :: hook_frame
  h_handle_dreq :: hook
  h_pack_announce :: hook
  h_unpack_announce :: "(pp_globals \<Rightarrow> nat \<Rightarrow> u8 list \<Rightarrow> MsgAnnounce \<Rightarrow> MsgAnnounce \<times> pp_globals) option"
  h_ready_for_slave :: hook
  h_state_decision :: "(pp_globals \<Rightarrow> nat \<Rightarrow> pp_std_states \<Rightarrow> pp_std_states \<times> pp_globals) option"
  h_state_change :: "(pp_globals \<Rightarrow> nat \<Rightarrow> pp_globals) option"
  h_run_ext_state_machine :: hook_frame
  h_servo_reset :: "(pp_globals \<Rightarrow> nat \<Rightarrow> pp_globals) option"
  h_get_ingress_latency :: "(pp_globals \<Rightarrow> nat \<Rightarrow> TimeInterval) option"
  h_get_egress_latency :: "(pp_globals \<Rightarrow> nat \<Rightarrow> TimeInterval) option"
  h_is_correction_field_compliant :: "(pp_globals \<Rightarrow> nat \<Rightarrow> bool) option"
  h_require_precise_timestamp :: "(pp_globals \<Rightarrow> nat \<Rightarrow> bool) option"
  h_get_tmo_lstate_detection :: "(pp_globals \<Rightarrow> nat \<Rightarrow> s32) option"
  h_extension_state_changed :: hook
  h_bmca_s1 :: "(pp_globals \<Rightarrow> nat \<Rightarrow> pp_frgn_master \<Rightarrow> nat \<times> nat \<Rightarrow> s32 \<times> pp_globals) option"

text \<open>The hooks of the standard protocol (\<^verbatim>\<open>proto-standard/hooks.c\<close>): leaving SLAVE stops the pulse.\<close>

definition pp_hooks_state_change :: "pp_globals \<Rightarrow> nat \<Rightarrow> pp_globals" where
  "pp_hooks_state_change ppg i =
     (if ppi_state (INST ppg i) = PPS_SLAVE \<and> ppi_next_state (INST ppg i) \<noteq> PPS_UNCALIBRATED \<and>
         \<not> opt_forcePpsGen (rt_opts ppg)
      then log_event (Ev_enable_timing_output False) ppg else ppg)"

definition pp_hooks :: pp_ext_hooks where
  "pp_hooks = \<lparr> h_init = None, h_open = None, h_close = None, h_listening = None,
     h_new_slave = None, h_handle_resp = None, h_handle_announce = None, h_handle_sync = None,
     h_handle_followup = None, h_handle_preq = None, h_handle_presp = None,
     h_handle_signaling = None, h_handle_dreq = None, h_pack_announce = None,
     h_unpack_announce = None, h_ready_for_slave = None, h_state_decision = None,
     h_state_change = Some pp_hooks_state_change, h_run_ext_state_machine = None,
     h_servo_reset = None, h_get_ingress_latency = None, h_get_egress_latency = None,
     h_is_correction_field_compliant = None, h_require_precise_timestamp = None, h_get_tmo_lstate_detection = None,
     h_extension_state_changed = None, h_bmca_s1 = None \<rparr>"

section \<open>The platform\<close>

text \<open>
  The functions of \<^verbatim>\<open>struct pp_time_operations\<close>, \<^verbatim>\<open>struct wrh_operations\<close> and
  \<^verbatim>\<open>struct pp_network_operations\<close> belong to the
  platform and are parameters of the model: a record of functions of the clock state and the port.  The hook table of each port
  is part of the record.
  A non-zero return value of a query is \<^const>\<open>None\<close>.  The platform is fixed during one activation of
  the state machine and may be another one in the next: time passes between activations.
  \<open>mem_past_frgn\<close> is what the memory just after a foreign master table reads as, \<open>mem_locals\<close> what the
  uninitialised tick and phase offsets of the White Rabbit servo read as.
\<close>

datatype pp_timing_mode_state =
  PP_TIMING_MODE_STATE_UNLOCKED | PP_TIMING_MODE_STATE_HOLDOVER | PP_TIMING_MODE_STATE_LOCKED

record platform =
  t_get_utc_time :: "pp_globals \<Rightarrow> nat \<Rightarrow> (s32 \<times> s32 \<times> s32) option"
  t_get_utc_offset :: "pp_globals \<Rightarrow> nat \<Rightarrow> (s32 \<times> s32 \<times> s32) option"
  t_get :: "pp_globals \<Rightarrow> nat \<Rightarrow> pp_time"
  t_init_servo :: "(pp_globals \<Rightarrow> nat \<Rightarrow> s32) option"
  t_has_adjust_freq :: bool
  t_calc_timeout :: "pp_globals \<Rightarrow> nat \<Rightarrow> s32 \<Rightarrow> u64"
  t_get_GM_lock_state :: "pp_globals \<Rightarrow> pp_timing_mode_state option"
  w_locking_poll :: "pp_globals \<Rightarrow> nat \<Rightarrow> s32"
  w_adjust_in_progress :: "pp_globals \<Rightarrow> bool"
  w_get_clock_period :: s32
  n_init :: "pp_globals \<Rightarrow> nat \<Rightarrow> s32 \<times> u8 list"
  n_send :: "pp_globals \<Rightarrow> nat \<Rightarrow> u8 list \<Rightarrow> pp_msg_format \<Rightarrow> s32 \<times> pp_time"
  ext_hooks :: "nat \<Rightarrow> pp_ext_hooks"
  mem_past_frgn :: pp_frgn_master
  mem_locals :: "s32 \<times> s32"

section \<open>Byte comparison\<close>

fun memcmp :: "u8 list \<Rightarrow> u8 list \<Rightarrow> int" where
  "memcmp (a # as) (b # bs) = (let r = uint a - uint b in if r = 0 then memcmp as bs else r)"
| "memcmp _ _ = 0"

section \<open>Cleared storage\<close>

text \<open>
  The structures are allocated in cleared memory (\<^verbatim>\<open>calloc\<close>, static storage): every member is zero.  The
  arrays of a cleared port and clock have the sizes of the build configuration.
\<close>

definition pp_time_0 :: pp_time where
  "pp_time_0 = \<lparr> secs = 0, scaled_nsecs = 0 \<rparr>"

definition PortIdentity_0 :: "PortIdentity" where
  "PortIdentity_0 = \<lparr>
     clockIdentity = ClockId 0 0 0 0 0 0 0 0, portNumber = 0 \<rparr>"

definition ClockQuality_0 :: "ClockQuality" where
  "ClockQuality_0 = \<lparr>
     clockClass = 0, clockAccuracy = 0, offsetScaledLogVariance = 0 \<rparr>"

definition MsgHeader_0 :: "MsgHeader" where
  "MsgHeader_0 = \<lparr>
     hdr_transportSpecific = 0, hdr_messageType = 0, hdr_versionPTP = 0, hdr_messageLength =
       0, hdr_domainNumber = 0, hdr_flagField0 = 0, hdr_flagField1 = 0, hdr_cField =
       pp_time_0, hdr_sourcePortIdentity = PortIdentity_0, hdr_sequenceId = 0,
     hdr_logMessageInterval = 0 \<rparr>"

definition defaultDS_0 :: "defaultDS" where
  "defaultDS_0 = \<lparr>
     dd_clockIdentity = ClockId 0 0 0 0 0 0 0 0, dd_numberPorts = 0, dd_clockQuality =
       ClockQuality_0, dd_priority1 = 0, dd_priority2 = 0, dd_domainNumber = 0, dd_slaveOnly =
       False, dd_externalPortConfigurationEnabled = False \<rparr>"

definition currentDS_0 :: "currentDS" where
  "currentDS_0 = \<lparr>
     cur_stepsRemoved = 0, cur_offsetFromMaster = 0, cur_meanDelay = 0 \<rparr>"

definition parentDS_0 :: "parentDS" where
  "parentDS_0 = \<lparr>
     par_parentPortIdentity = PortIdentity_0, par_observedParentOffsetScaledLogVariance = 0,
     par_observedParentClockPhaseChangeRate = 0, par_grandmasterIdentity = ClockId 0 0 0 0 0
     0 0 0, par_grandmasterClockQuality = ClockQuality_0, par_grandmasterPriority1 = 0,
     par_grandmasterPriority2 = 0, par_newGrandmaster = False \<rparr>"

definition timePropertiesDS_0 :: "timePropertiesDS" where
  "timePropertiesDS_0 = \<lparr>
     tp_currentUtcOffset = 0, tp_currentUtcOffsetValid = 0, tp_leap59 = 0, tp_leap61 = 0,
     tp_timeTraceable = 0, tp_frequencyTraceable = 0, tp_ptpTimescale = 0, tp_timeSource = 0 \<rparr>"

definition portDS_0 :: "portDS" where
  "portDS_0 = \<lparr>
     por_portIdentity = PortIdentity_0, por_logMinDelayReqInterval = 0,
     por_logAnnounceInterval = 0, por_announceReceiptTimeout = 0, por_logSyncInterval = 0,
     por_versionNumber = 0, por_logMinPdelayReqInterval = 0, por_minorVersionNumber = 0,
     por_delayAsymmetry = 0, por_meanLinkDelay = 0, por_portEnable = False, por_masterOnly =
       False, por_delayAsymCoeff = 0 \<rparr>"

definition timestampCorrectionPortDS_0 :: "timestampCorrectionPortDS" where
  "timestampCorrectionPortDS_0 = \<lparr>
     tc_egressLatency = 0, tc_ingressLatency = 0, tc_messageTimestampPointLatency = 0,
     tc_semistaticLatency = 0 \<rparr>"

definition asymmetryCorrectionPortDS_0 :: "asymmetryCorrectionPortDS" where
  "asymmetryCorrectionPortDS_0 = \<lparr>
     ac_constantAsymmetry = 0, ac_scaledDelayCoefficient = 0, ac_enable = False \<rparr>"

definition pp_frgn_master_0 :: "pp_frgn_master" where
  "pp_frgn_master_0 = \<lparr>
     fm_sequenceId = 0, fm_stepsRemoved = 0, fm_currentUtcOffset = 0, fm_receivePortIdentity
     = PortIdentity_0, fm_sourcePortIdentity = PortIdentity_0, fm_grandmasterClockQuality =
       ClockQuality_0, fm_grandmasterIdentity = ClockId 0 0 0 0 0 0 0 0,
     fm_grandmasterPriority1 = 0, fm_grandmasterPriority2 = 0, fm_timeSource = 0,
     fm_flagField0 = 0, fm_flagField1 = 0, fm_qualified = False, fm_lastAnnounceMsgMs = 0,
     fm_ext_specific = replicate 4 0, fm_peer_mac = replicate 6 0 \<rparr>"

definition pp_avg_fltr_0 :: "pp_avg_fltr" where
  "pp_avg_fltr_0 = \<lparr>
     fltr_m = 0, fltr_y = 0, fltr_s_exp = 0 \<rparr>"

definition pp_servo_0 :: "pp_servo" where
  "pp_servo_0 = \<lparr>
     srv_obs_drift = 0, srv_mpd_fltr = pp_avg_fltr_0, srv_delayMM = pp_time_0, srv_delayMS
     = pp_time_0, srv_meanDelay = pp_time_0, srv_offsetFromMaster = pp_time_0, srv_flags
     = 0, srv_state = 0, srv_servo_locked = False, srv_got_sync = False, srv_update_count =
       0, srv_update_time = pp_time_0, srv_t1 = pp_time_0, srv_t2 = pp_time_0, srv_t3 =
       pp_time_0, srv_t4 = pp_time_0, srv_t5 = pp_time_0, srv_t6 = pp_time_0 \<rparr>"

definition FixedDelta_0 :: FixedDelta where
  "FixedDelta_0 = \<lparr> fd_msb = 0, fd_lsb = 0 \<rparr>"

definition wr_dsport_0 :: wr_dsport where
  "wr_dsport_0 = \<lparr> wr_st = WRS_IDLE, wr_next_state = WRS_IDLE, wr_wrModeOn = False, wr_parentWrModeOn = False,
     wr_deltaTx = FixedDelta_0, wr_deltaRx = FixedDelta_0, wr_otherNodeDeltaTx = FixedDelta_0,
     wr_otherNodeDeltaRx = FixedDelta_0, wr_wrConfig = 0, wr_wrMode = WR_ROLE_NONE, wr_wrPortState = 0,
     wr_calibrated = False, wr_wrStateTimeout = 0, wr_wrStateRetry = 0, wr_calPeriod = 0, wr_calRetry = 0,
     wr_parentWrConfig = 0, wr_parentIsWRnode = False, wr_parentCalibrated = False,
     wr_otherNodeCalSendPattern = 0, wr_otherNodeCalPeriod = 0, wr_otherNodeCalRetry = 0,
     wr_parentAnnPortIdentity = PortIdentity_0, wr_parentAnnSequenceId = 0,
     wr_parentDetection = PD_NO_DETECTION \<rparr>"

definition L1SyncBasicPortDS_0 :: L1SyncBasicPortDS where
  "L1SyncBasicPortDS_0 = \<lparr> l1_L1SyncEnabled = False, l1_txCoherentIsRequired = False,
     l1_rxCoherentIsRequired = False, l1_congruentIsRequired = False, l1_optParamsEnabled = False,
     l1_logL1SyncInterval = 0, l1_L1SyncReceiptTimeout = 0, l1_L1SyncLinkAlive = False,
     l1_isTxCoherent = False, l1_isRxCoherent = False, l1_isCongruent = False,
     l1_L1SyncState = L1SYNC_MISSING, l1_peerTxCoherentIsRequired = False,
     l1_peerRxCoherentIsRequired = False, l1_peerCongruentIsRequired = False, l1_peerIsTxCoherent = False,
     l1_peerIsRxCoherent = False, l1_peerIsCongruent = False, l1_next_state = L1SYNC_MISSING \<rparr>"

definition L1SyncOptParamsPortDS_0 :: L1SyncOptParamsPortDS where
  "L1SyncOptParamsPortDS_0 = \<lparr> l1_timestampsCorrectedTx = False, l1_phaseOffsetTxValid = False,
     l1_frequencyOffsetTxValid = False \<rparr>"

definition l1e_ext_portDS_0 :: l1e_ext_portDS where
  "l1e_ext_portDS_0 = \<lparr> l1_basic = L1SyncBasicPortDS_0, l1_opt_params = L1SyncOptParamsPortDS_0,
     l1_execute_state_machine = False \<rparr>"

definition wrh_servo_0 :: wrh_servo where
  "wrh_servo_0 = \<lparr> wrh_n_err_state = 0, wrh_n_err_offset = 0, wrh_n_err_delta_rtt = 0,
     wrh_cur_setpoint_ps = 0, wrh_clock_period_ps = 0, wrh_tracking = False, wrh_readyForSync = False,
     wrh_doRestart = False, wrh_delayMM_ps = 0, wrh_delayMS_ps = 0, wrh_skew_ps = 0, wrh_offsetMS_ps = 0,
     wrh_prev_delayMS_ps = 0, wrh_missed_iters = 0 \<rparr>"

definition wr_servo_ext_0 :: wr_servo_ext where
  "wr_servo_ext_0 = \<lparr> wre_delta_txm = pp_time_0, wre_delta_rxm = pp_time_0, wre_delta_txs = pp_time_0,
     wre_delta_rxs = pp_time_0, wre_rawT1 = pp_time_0, wre_rawT2 = pp_time_0, wre_rawT3 = pp_time_0,
     wre_rawT4 = pp_time_0, wre_rawT5 = pp_time_0, wre_rawT6 = pp_time_0, wre_rawDelayMM = pp_time_0 \<rparr>"

definition pp_runtime_opts_0 :: "pp_runtime_opts" where
  "pp_runtime_opts_0 = \<lparr>
     opt_updated_fields_mask = 0, opt_clock_quality_clockClass = 0,
     opt_clock_quality_clockAccuracy = 0, opt_clock_quality_offsetScaledLogVariance = 0,
     opt_timeSource = 0, opt_ptpTimeScale = 0, opt_frequencyTraceable = 0, opt_timeTraceable
     = 0, opt_ttl = 0, opt_flags = 0, opt_ap = 0, opt_ai = 0, opt_s = 0, opt_priority1 = 0,
     opt_priority2 = 0, opt_domainNumber = 0, opt_ptpPpsThresholdMs = 0,
     opt_gmDelayToGenPpsSec = 0, opt_externalPortConfigurationEnabled = False, opt_slaveOnly
     = False, opt_forcePpsGen = False, opt_ptpFallbackPpsGen = False \<rparr>"

definition pp_instance_cfg_0 :: "pp_instance_cfg" where
  "pp_instance_cfg_0 = \<lparr>
     cfg_port_name = [], cfg_iface_name = [], cfg_profile = 0, cfg_delayMechanism = 0,
     cfg_announce_interval = 0, cfg_announce_receipt_timeout = 0, cfg_sync_interval = 0,
     cfg_min_delay_req_interval = 0, cfg_min_pdelay_req_interval = 0, cfg_l1SyncEnabled =
       False, cfg_l1SyncRxCoherentIsRequired = False, cfg_l1SyncTxCoherentIsRequired = False,
     cfg_l1SyncCongruentIsRequired = False, cfg_l1SyncOptParamsEnabled = False,
     cfg_l1syncInterval = 0, cfg_l1syncReceiptTimeout = 0,
     cfg_l1SyncOptParamsTimestampsCorrectedTx = False, cfg_egressLatency_ps = 0,
     cfg_ingressLatency_ps = 0, cfg_constantAsymmetry_ps = 0, cfg_scaledDelayCoefficient =
       0, cfg_desiredState = PPS_END_OF_TABLE, cfg_masterOnly = False,
     cfg_asymmetryCorrectionEnable = False \<rparr>"

definition pp_instance_0 :: "config \<Rightarrow> pp_instance" where
  "pp_instance_0 cf = \<lparr>
     ppi_state = PPS_END_OF_TABLE, ppi_next_state = PPS_END_OF_TABLE, ppi_next_delay = 0,
     ppi_is_new_state = False, ppi_current_state_item = None, ppi_protocol_extension = 0,
     ppi_flags = 0, ppi_proto = 0, ppi_delayMechanism = 0, ppi_tx_ptp = replicate 108 0,
     ppi_gen_addr = replicate 6 0, ppi_peer = replicate 6 0, ppi_activePeer = replicate 6 0,
     ppi_peer_vid = 0, ppi_t1 = pp_time_0, ppi_t2 = pp_time_0, ppi_t3 = pp_time_0, ppi_t4
     = pp_time_0, ppi_t5 = pp_time_0, ppi_t6 = pp_time_0, ppi_syncCF = 0,
     ppi_last_rcv_time = pp_time_0, ppi_last_snt_time = pp_time_0, frgn_rec_num = 0,
     frgn_rec_best = 0, frgn_master_time_window_ms = 0, frgn_master = replicate
     (CONFIG_NR_FOREIGN_RECORDS cf) pp_frgn_master_0, ppi_portDS = portDS_0, ppi_servo =
       pp_servo_0, ppi_asymmetryCorrectionPortDS = asymmetryCorrectionPortDS_0,
     ppi_timestampCorrectionPortDS = timestampCorrectionPortDS_0, ppi_desiredState =
       PPS_END_OF_TABLE, tmo_cfg = \<lambda>_. \<lparr> which_rand = TO_RAND_NONE, initValueMs
     = 0, tmo = 0 \<rparr>, recv_sync_sequence_id = 0, sent_seq = replicate
     PP_NR_MESSAGES_TYPES 0, received_ptp_header = MsgHeader_0, link_up = False, port_idx =
       0, ppi_vlans = [], ppi_cfg = pp_instance_cfg_0, ptp_tx_count = 0, ptp_rx_count = 0,
     received_dresp = 0, received_dresp_fup = 0, ppi_ptp_fallback = False, bmca_execute =
       False, ppi_pdstate = PP_PDSTATE_NONE, ppi_extState = PP_EXSTATE_DISABLE, ppi_wr = wr_dsport_0,
     ppi_l1e = l1e_ext_portDS_0, ppi_wrh_servo = wrh_servo_0, ppi_wr_servo_ext = wr_servo_ext_0 \<rparr>"

definition pp_globals_0 :: "config \<Rightarrow> nat \<Rightarrow> pp_globals" where
  "pp_globals_0 cf n = \<lparr>
     g_config = cf, pp_instances = replicate n (pp_instance_0 cf), rt_opts =
       pp_runtime_opts_0, g_defaultDS = defaultDS_0, g_currentDS = currentDS_0, g_parentDS =
       parentDS_0, g_timePropertiesDS = timePropertiesDS_0, ebest_idx = 0, ebest_updated =
       False, g_nlinks = 0, g_timeout_seed = 0, g_lastTimingModeState = [], g_errcount =
       \<lambda>_. 0, wrh_tracking_enabled = True, g_events = [] \<rparr>"

lemmas cleared_defs = pp_time_0_def PortIdentity_0_def ClockQuality_0_def MsgHeader_0_def
  defaultDS_0_def currentDS_0_def parentDS_0_def timePropertiesDS_0_def portDS_0_def
  timestampCorrectionPortDS_0_def asymmetryCorrectionPortDS_0_def pp_frgn_master_0_def
  pp_avg_fltr_0_def pp_servo_0_def FixedDelta_0_def wr_dsport_0_def L1SyncBasicPortDS_0_def
  L1SyncOptParamsPortDS_0_def l1e_ext_portDS_0_def wrh_servo_0_def wr_servo_ext_0_def pp_runtime_opts_0_def pp_instance_cfg_0_def pp_instance_0_def
  pp_globals_0_def

text \<open>
  For concrete runs: the default build with five foreign master records, and a platform whose
  counter reads 0, whose clock stands still and whose port sends every frame.
\<close>

lemma INST_0: "i < n \<Longrightarrow> INST (pp_globals_0 cf n) i = pp_instance_0 cf"
  by (simp add: INST_def pp_globals_0_def)

definition config_default :: config where
  "config_default = \<lparr> CONFIG_HAS_P2P = True, CONFIG_EXT_PORT_CONF_FORCE_DISABLED = False,
     CONFIG_EPC_ENABLED = False, CONFIG_SO_FORCE_DISABLED = False, CONFIG_SO_ENABLED = False,
     CONFIG_MO_FORCE_DISABLED = False, CONFIG_SINGLE_PORT = False, CONFIG_SINGLE_FMASTER = False,
     CONFIG_WRPC_SIZE = False, CONFIG_NR_FOREIGN_RECORDS = 5, CONFIG_VLAN_ARRAY_SIZE = 16 \<rparr>"

definition platform_idle :: platform where
  "platform_idle = \<lparr> t_get_utc_time = \<lambda>_ _. None, t_get_utc_offset = \<lambda>_ _. None,
     t_get = \<lambda>_ _. pp_time_0, t_init_servo = None, t_has_adjust_freq = False,
     t_calc_timeout = \<lambda>_ _ ms. scast ms, t_get_GM_lock_state = \<lambda>_. None,
     w_locking_poll = \<lambda>_ _. 0, w_adjust_in_progress = \<lambda>_. False, w_get_clock_period = 8000,
     n_init = \<lambda>_ _. (0, replicate 6 0), n_send = \<lambda>_ _ frame _. (word_of_nat (length frame), pp_time_0),
     ext_hooks = \<lambda>_. pp_hooks, mem_past_frgn = pp_frgn_master_0, mem_locals = (0, 0) \<rparr>"

end
