(* ===== verification/Servo.thy ===== *)
theory Servo
  imports Ppsi_Types "HOL-Library.Signed_Division"
begin

text \<open>
  The standard servo (\<^verbatim>\<open>proto-standard/servo.c\<close>): the fixed-point multiplication and the asymmetry model, the
  delays and the offset from the four or six timestamps, the filter of the mean delay, the PI controller,
  and the decision to step or to slew the clock.  A shift whose count is negative in C, and a division
  by a gain that is zero, are outside of the model: the statements carry the ranges that exclude them.
\<close>

section \<open>Access to the servo\<close>

definition SRV :: "pp_globals \<Rightarrow> nat \<Rightarrow> pp_servo" where
  "SRV ppg i = ppi_servo (INST ppg i)"

definition upd_srv :: "nat \<Rightarrow> (pp_servo \<Rightarrow> pp_servo) \<Rightarrow> pp_globals \<Rightarrow> pp_globals" where
  "upd_srv i f = upd_inst i (\<lambda>ppi. ppi\<lparr> ppi_servo := f (ppi_servo ppi) \<rparr>)"

text \<open>The check of the timestamps of a port chosen by a mask, with the error counter of the caller.\<close>

definition port_timestamps :: "pp_instance \<Rightarrow> pp_time list" where
  "port_timestamps ppi = [ppi_t1 ppi, ppi_t2 ppi, ppi_t3 ppi, ppi_t4 ppi, ppi_t5 ppi, ppi_t6 ppi]"

definition timestamps_incorrect ::
  "errcount_id \<Rightarrow> s32 \<Rightarrow> pp_globals \<Rightarrow> nat \<Rightarrow> bool \<times> pp_globals" where
  "timestamps_incorrect ec ts_mask ppg i =
     (let (bad, n) = is_timestamp_incorrect_thres (port_timestamps (INST ppg i)) (g_errcount ppg ec) ts_mask
      in (bad, ppg\<lparr> g_errcount := (g_errcount ppg)(ec := n) \<rparr>))"

section \<open>Initialisation\<close>

definition PP_SERVO_FLAG_VALID :: u8 where "PP_SERVO_FLAG_VALID = push_bit 0 1"

definition PP_SERVO_RESET_DATA :: "pp_servo \<Rightarrow> pp_servo" where
  "PP_SERVO_RESET_DATA servo = servo\<lparr> srv_state := 0, srv_servo_locked := False, srv_got_sync := False,
     srv_update_count := 0, srv_update_time := pp_time_0, srv_t1 := pp_time_0, srv_t2 := pp_time_0,
     srv_t3 := pp_time_0, srv_t4 := pp_time_0, srv_t5 := pp_time_0, srv_t6 := pp_time_0 \<rparr>"

definition pp_servo_init :: "platform \<Rightarrow> pp_globals \<Rightarrow> nat \<Rightarrow> pp_globals" where
  "pp_servo_init P ppg i =
     (let ppg = upd_srv i (\<lambda>servo. (PP_SERVO_RESET_DATA servo)\<lparr>
                  srv_mpd_fltr := (srv_mpd_fltr servo)\<lparr> fltr_s_exp := 0 \<rparr> \<rparr>) ppg;
          ppg = (case t_init_servo P of
                   Some init_servo \<Rightarrow>
                     let d = init_servo ppg i; d = (if d = - 1 then 0 else d)
                     in upd_srv i (\<lambda>servo. servo\<lparr> srv_obs_drift := scast (push_bit 10 (- d)) \<rparr>) ppg
                 | None \<Rightarrow>
                     let ppg = (if pp_can_adjust ppg then log_event (Ev_adjust 0 0) ppg else ppg)
                     in upd_srv i (\<lambda>servo. servo\<lparr> srv_obs_drift := 0 \<rparr>) ppg)
      in upd_srv i (\<lambda>servo. servo\<lparr> srv_flags := srv_flags servo OR PP_SERVO_FLAG_VALID \<rparr>) ppg)"

section \<open>Fixed-point arithmetic\<close>

text \<open>The number of leading zeros, \<^verbatim>\<open>__builtin_clzll\<close>.\<close>

definition clzll :: "u64 \<Rightarrow> nat" where
  "clzll v = length (takeWhile (\<lambda>n. \<not> bit v (63 - n)) [0..<64])"

definition getMsbSet :: "u64 \<Rightarrow> nat" where
  "getMsbSet v = (if v = 0 then 0 else 64 - clzll v)"

definition HI32 :: "u64 \<Rightarrow> u64" where "HI32 x = drop_bit 32 x"
definition LO32 :: "u64 \<Rightarrow> u64" where "LO32 x = x AND 0xffffffff"

text \<open>The first operand is signed, its upper half is taken by an arithmetic shift.\<close>

definition mulRelativeDifference :: "s64 \<Rightarrow> u64 \<Rightarrow> u64" where
  "mulRelativeDifference op1 op2 =
     (let shift = 64 - getMsbSet (if op1 < op2 then op1 else op2);
          shift = (if shift > 32 then 32 else shift);
          mask' = push_bit (32 - shift) 1 - 1 :: u64;
          op1_high = signed_drop_bit 32 op1; op1_low = LO32 op1;
          op2_high = HI32 op2; op2_low = LO32 op2;
          upper = push_bit shift (op1_high * op2_high);
          mid1 = op1_high * op2_low;
          mid2 = op2_high * op1_low;
          lower = drop_bit 1 (op1_low * op2_low);
          middle = mid1 + mid2;
          upper = (if middle < mid1 \<or> middle < mid2 then upper + push_bit 32 1 else upper);
          upper = upper + drop_bit (32 - shift) (middle AND NOT mask');
          tmp = lower;
          lower = lower + push_bit (32 - 1) (middle AND mask');
          upper = (if lower < tmp then upper + 1 else upper)
      in drop_bit (shift - 2) (upper + drop_bit (64 - shift - 1) lower))"

definition calculateDelayAsymmetry :: "s64 \<Rightarrow> TimeInterval \<Rightarrow> TimeInterval \<Rightarrow> TimeInterval" where
  "calculateDelayAsymmetry scaledDelayAsymCoeff scaledMeanDelay constantAsymmetry =
     (let negMeanDelay = sint scaledMeanDelay < 0;
          scaledMeanDelay = (if negMeanDelay then - scaledMeanDelay else scaledMeanDelay);
          negDelayAsymCoeff = sint scaledDelayAsymCoeff < 0;
          scaledDelayAsymCoeff = (if negDelayAsymCoeff then - scaledDelayAsymCoeff else scaledDelayAsymCoeff);
          delayAsym = mulRelativeDifference scaledDelayAsymCoeff scaledMeanDelay
      in constantAsymmetry + (if negDelayAsymCoeff \<noteq> negMeanDelay then - delayAsym else delayAsym))"

text \<open>The loop of the polynomial expansion; \<^const>\<open>None\<close>: it does not end.\<close>

partial_function (option) asym_expansion :: "s64 \<Rightarrow> bool \<Rightarrow> bool \<Rightarrow> u64 \<Rightarrow> s64 \<Rightarrow> s64 option" where
  "asym_expansion delayCoeff negative sub term delayAsymCoeff =
     (if term > 2
      then let delayAsymCoeff = (if \<not> negative
                 then if sub then delayAsymCoeff - term else delayAsymCoeff + term
                 else delayAsymCoeff + (term + 1));
               sub = (if \<not> negative then \<not> sub else sub);
               term = drop_bit 1 (mulRelativeDifference delayCoeff term)
           in asym_expansion delayCoeff negative sub term delayAsymCoeff
      else Some delayAsymCoeff)"

definition pp_servo_calculateDelayAsymCoefficient :: "s64 \<Rightarrow> s64 option" where
  "pp_servo_calculateDelayAsymCoefficient delayCoeff =
     (let negative = sint delayCoeff < 0;
          delayCoeff = (if negative then - delayCoeff else delayCoeff);
          delayAsymCoeff = signed_drop_bit 1 delayCoeff;
          term = drop_bit 1 (mulRelativeDifference delayCoeff delayAsymCoeff)
      in map_option (\<lambda>r. if negative then - r else r)
           (asym_expansion delayCoeff negative True term delayAsymCoeff))"

section \<open>Delays\<close>

definition calculate_p2p_delayMM :: "pp_globals \<Rightarrow> nat \<Rightarrow> bool \<times> pp_globals" where
  "calculate_p2p_delayMM ppg i =
     (let (bad, ppg) = timestamps_incorrect EC_p2p_delayMM 0x3C ppg i
      in if bad then (False, ppg)
         else (True, upd_srv i (\<lambda>servo.
                 let stime = pp_time_sub (srv_t6 servo) (srv_t3 servo);
                     mtime = pp_time_sub (srv_t5 servo) (srv_t4 servo)
                 in servo\<lparr> srv_delayMM := pp_time_sub stime mtime \<rparr>) ppg))"

definition calculate_e2e_delayMM :: "pp_globals \<Rightarrow> nat \<Rightarrow> bool \<times> pp_globals" where
  "calculate_e2e_delayMM ppg i =
     (let (bad, ppg) = timestamps_incorrect EC_e2e_delayMM 0xF ppg i
      in if bad then (False, ppg)
         else (True, upd_srv i (\<lambda>servo.
                 let mtime = pp_time_sub (srv_t4 servo) (srv_t1 servo);
                     stime = pp_time_sub (srv_t3 servo) (srv_t2 servo)
                 in servo\<lparr> srv_delayMM := pp_time_sub mtime stime \<rparr>) ppg))"

text \<open>
  \<^verbatim>\<open>update_meanDelay\<close> has two definitions, the weak one of \<^verbatim>\<open>common-fun.c\<close> and the one of
  \<^verbatim>\<open>common-fun-p2p.c\<close> that replaces it when the peer delay mechanism is compiled.
\<close>

definition set_cur_meanDelay :: "pp_globals \<Rightarrow> nat \<Rightarrow> TimeInterval \<Rightarrow> pp_globals" where
  "set_cur_meanDelay ppg i md =
     (if ppi_state (INST ppg i) = PPS_SLAVE
      then ppg\<lparr> g_currentDS := (g_currentDS ppg)\<lparr> cur_meanDelay := md \<rparr> \<rparr> else ppg)"

definition update_meanDelay_p2p :: "pp_globals \<Rightarrow> nat \<Rightarrow> TimeInterval \<Rightarrow> pp_globals" where
  "update_meanDelay_p2p ppg i md =
     (if ppi_delayMechanism (INST ppg i) = MECH_P2P
      then let ppg = upd_inst i (\<lambda>ppi. ppi\<lparr> ppi_portDS := (ppi_portDS ppi)\<lparr> por_meanLinkDelay := md \<rparr> \<rparr>) ppg
           in if ppi_state (INST ppg i) \<noteq> PPS_SLAVE then ppg else set_cur_meanDelay ppg i md
      else set_cur_meanDelay ppg i md)"

definition update_meanDelay :: "pp_globals \<Rightarrow> nat \<Rightarrow> TimeInterval \<Rightarrow> pp_globals" where
  "update_meanDelay ppg i md =
     (if CONFIG_HAS_P2P (g_config ppg) then update_meanDelay_p2p ppg i md else set_cur_meanDelay ppg i md)"

definition pp_servo_calculate_delays :: "pp_globals \<Rightarrow> nat \<Rightarrow> bool \<times> pp_globals" where
  "pp_servo_calculate_delays ppg i =
     (let (bad, ppg) = timestamps_incorrect EC_calculate_delays 0x3 ppg i
      in if bad then (False, ppg)
         else let (ret, ppg) = (if is_delayMechanismP2P ppg i then calculate_p2p_delayMM ppg i
                                else calculate_e2e_delayMM ppg i)
         in if \<not> ret then (False, ppg)
         else let delayMM_ps = pp_time_to_picos (srv_delayMM (SRV ppg i));
                  meanDelay_ps = signed_drop_bit 1 delayMM_ps;
                  ac = ppi_asymmetryCorrectionPortDS (INST ppg i);
                  asym = (if ac_enable ac
                          then calculateDelayAsymmetry (por_delayAsymCoeff (ppi_portDS (INST ppg i)))
                                 (picos_to_interval meanDelay_ps) (ac_constantAsymmetry ac)
                          else ac_constantAsymmetry ac);
                  ppg = upd_inst i (\<lambda>ppi. ppi\<lparr> ppi_portDS := (ppi_portDS ppi)\<lparr> por_delayAsymmetry := asym \<rparr> \<rparr>) ppg;
                  delayMS_ps = meanDelay_ps + interval_to_picos asym;
                  ppg = upd_srv i (\<lambda>servo.
                    let servo = servo\<lparr> srv_delayMS := picos_to_pp_time delayMS_ps \<rparr>
                    in servo\<lparr> srv_offsetFromMaster :=
                         pp_time_add (pp_time_sub (srv_t1 servo) (srv_t2 servo)) (srv_delayMS servo) \<rparr>) ppg;
                  ppg = (if ppi_state (INST ppg i) = PPS_SLAVE
                         then ppg\<lparr> g_currentDS := (g_currentDS ppg)\<lparr>
                                cur_offsetFromMaster := pp_time_to_interval (srv_offsetFromMaster (SRV ppg i)) \<rparr> \<rparr>
                         else ppg);
                  ppg = upd_srv i (\<lambda>servo. servo\<lparr> srv_meanDelay := picos_to_pp_time meanDelay_ps \<rparr>) ppg
              in (True, update_meanDelay ppg i (picos_to_interval meanDelay_ps)))"

section \<open>Timing output\<close>

definition control_timing_output :: "pp_globals \<Rightarrow> nat \<Rightarrow> pp_globals" where
  "control_timing_output ppg i =
     (let offsetPs = pp_time_to_picos (srv_offsetFromMaster (SRV ppg i));
          offsetFromMasterUs = ucast (quot64 offsetPs 1000000) :: s32;
          ptpPpsThresholdUs = opt_ptpPpsThresholdMs (rt_opts ppg) * 1000;
          offsetFromMasterUs = (if sint offsetFromMasterUs < 0 then - offsetFromMasterUs else offsetFromMasterUs)
      in if sint offsetFromMasterUs \<le> sint ptpPpsThresholdUs
         then log_event (Ev_enable_timing_output True) ppg
         else if \<not> opt_forcePpsGen (rt_opts ppg)
         then let ptpPpsThresholdUs = ptpPpsThresholdUs + word_of_int (sint ptpPpsThresholdUs sdiv 5)
              in if sint offsetFromMasterUs > sint ptpPpsThresholdUs
                 then log_event (Ev_enable_timing_output False) ppg else ppg
         else ppg)"

section \<open>Filter of the mean delay\<close>

text \<open>
  The loop that shortens the filter until its sum fits; the filter value is never negative, so the loop
  ends at 0 at the latest.
\<close>

fun mpd_bits :: "s64 \<Rightarrow> nat \<Rightarrow> nat" where
  "mpd_bits y 0 = 0"
| "mpd_bits y (Suc s) = (if signed_drop_bit (63 - Suc s) y \<noteq> 0 then mpd_bits y s else Suc s)"

text \<open>The filter on its state and the scaled nanoseconds of a mean delay.\<close>

definition mpd_fltr_step :: "s16 \<Rightarrow> pp_avg_fltr \<Rightarrow> s64 \<Rightarrow> pp_avg_fltr" where
  "mpd_fltr_step opts_s flt delay =
     (let flt = (if sint (fltr_s_exp flt) < 1
                 then flt\<lparr> fltr_y := (if sint delay < 0 then 0 else delay) \<rparr> else flt);
          s = mpd_bits (fltr_y flt) (nat (sint opts_s));
          flt = (if sint (fltr_s_exp flt) > sint (push_bit s 1 :: s64)
                 then flt\<lparr> fltr_s_exp := push_bit s 1 \<rparr> else flt);
          flt = (if sint (fltr_s_exp flt) < sint (push_bit s 1 :: s64)
                 then flt\<lparr> fltr_s_exp := fltr_s_exp flt + 1 \<rparr> else flt);
          delay = (if sint delay < 0 then fltr_y flt else delay);
          delay = (if sint delay < 0 then 0 else delay);
          delay = (if sint delay > sint (3 * fltr_y flt)
                   then fltr_y flt * 2 + fltr_s_exp flt + 1 else delay)
      in flt\<lparr> fltr_y := quot64 (fltr_y flt * (fltr_s_exp flt - 1) + delay) (ucast (fltr_s_exp flt)) \<rparr>)"

definition pp_servo_mpd_fltr :: "pp_globals \<Rightarrow> nat \<Rightarrow> pp_globals" where
  "pp_servo_mpd_fltr ppg i =
     (let servo = SRV ppg i;
          flt = mpd_fltr_step (opt_s (rt_opts ppg)) (srv_mpd_fltr servo) (scaled_nsecs (srv_meanDelay servo));
          meanDelay = (srv_meanDelay servo)\<lparr> scaled_nsecs := fltr_y flt \<rparr>;
          ppg = upd_srv i (\<lambda>servo. servo\<lparr> srv_mpd_fltr := flt, srv_meanDelay := meanDelay \<rparr>) ppg
      in update_meanDelay ppg i (pp_time_to_interval meanDelay))"

section \<open>Controller\<close>

definition TIME_ADJUST_THRESHOLD_SCALED_NS :: s64 where
  "TIME_ADJUST_THRESHOLD_SCALED_NS = push_bit TIME_INTERVAL_FRACBITS 20000000"

definition offset_too_large :: "pp_time \<Rightarrow> bool" where
  "offset_too_large ofm \<longleftrightarrow> secs ofm \<noteq> 0 \<or>
     sint (scaled_nsecs ofm) > sint TIME_ADJUST_THRESHOLD_SCALED_NS \<or>
     sint (scaled_nsecs ofm) < sint (- TIME_ADJUST_THRESHOLD_SCALED_NS)"

definition pp_servo_offset_master :: "platform \<Rightarrow> pp_globals \<Rightarrow> nat \<Rightarrow> bool \<times> pp_globals" where
  "pp_servo_offset_master P ppg i =
     (let ofm = srv_offsetFromMaster (SRV ppg i)
      in if \<not> offset_too_large ofm then (False, ppg)
         else if \<not> pp_can_adjust ppg then (False, ppg)
         else let time_tmp = pp_time_add (t_get P ppg i) ofm;
                  ppg = log_event (Ev_set (Some time_tmp)) ppg
              in (True, pp_servo_init P ppg i))"

definition PP_ADJ_FREQ_MAX :: s64 where "PP_ADJ_FREQ_MAX = 512000"

text \<open>A term of the controller: the value divided by the gain in sign and magnitude.\<close>

definition signed_gain :: "s64 \<Rightarrow> s16 \<Rightarrow> s64" where
  "signed_gain v gain =
     (let sign = \<not> sint v > 0;
          v = (if sign then - v else v);
          v = quot64 v (scast gain)
      in if sign then - v else v)"

text \<open>The controller on the accumulated drift and the offset: the new drift and the correction.\<close>

definition pi_step :: "s16 \<Rightarrow> s16 \<Rightarrow> s64 \<Rightarrow> s64 \<Rightarrow> s64 \<times> s64" where
  "pi_step ap ai obs_drift sn =
     (let obs_drift = obs_drift + sn;
          tmp = push_bit 16 (PP_ADJ_FREQ_MAX * scast ai);
          obs_drift = (if sint obs_drift > sint tmp then tmp
                       else if sint obs_drift < sint (- tmp) then - tmp else obs_drift);
          I_term = signed_gain obs_drift ai;
          P_term = signed_gain sn ap
      in (obs_drift, P_term + I_term))"

definition pp_servo_pi_controller :: "pp_globals \<Rightarrow> nat \<Rightarrow> s64 \<times> pp_globals" where
  "pp_servo_pi_controller ppg i =
     (let o' = rt_opts ppg; servo = SRV ppg i;
          (obs_drift, adj) = pi_step (opt_ap o') (opt_ai o') (srv_obs_drift servo)
                               (scaled_nsecs (srv_offsetFromMaster servo))
      in (adj, upd_srv i (\<lambda>servo. servo\<lparr> srv_obs_drift := obs_drift \<rparr>) ppg))"

definition pp_servo_update :: "platform \<Rightarrow> pp_globals \<Rightarrow> nat \<Rightarrow> pp_globals" where
  "pp_servo_update P ppg i =
     (let (ok, ppg) = pp_servo_calculate_delays ppg i
      in if \<not> ok then ppg
         else if secs (srv_meanDelay (SRV ppg i)) \<noteq> 0 then ppg
         else let ppg = pp_servo_mpd_fltr ppg i;
                  (jumped, ppg) = pp_servo_offset_master P ppg i;
                  ppg = (if \<not> jumped
                         then let (adj, ppg) = pp_servo_pi_controller ppg i;
                                  adj32 = ucast (signed_drop_bit 16 adj) :: s32
                              in if pp_can_adjust ppg
                                 then if t_has_adjust_freq P then log_event (Ev_adjust_freq (scast adj32)) ppg
                                      else log_event (Ev_adjust_offset (scast adj32)) ppg
                                 else ppg
                         else ppg)
              in upd_srv i (\<lambda>servo. servo\<lparr> srv_update_count := srv_update_count servo + 1,
                                           srv_update_time := t_get P ppg i \<rparr>) ppg)"

section \<open>Events\<close>

definition pp_servo_got_sync :: "platform \<Rightarrow> pp_globals \<Rightarrow> nat \<Rightarrow> bool \<Rightarrow> pp_globals" where
  "pp_servo_got_sync P ppg i allowTimingOutput =
     (let ppi = INST ppg i;
          ppg = upd_srv i (\<lambda>servo. servo\<lparr> srv_t1 := ppi_t1 ppi, srv_t2 := ppi_t2 ppi \<rparr>) ppg
      in if is_delayMechanismP2P ppg i \<and> srv_got_sync (SRV ppg i)
         then let ppg = upd_srv i (\<lambda>servo. servo\<lparr> srv_got_sync := False \<rparr>) ppg;
                  ppg = pp_servo_update P ppg i
              in if allowTimingOutput then control_timing_output ppg i else ppg
         else upd_srv i (\<lambda>servo. servo\<lparr> srv_got_sync := True \<rparr>) ppg)"

definition pp_servo_got_resp :: "platform \<Rightarrow> pp_globals \<Rightarrow> nat \<Rightarrow> bool \<Rightarrow> bool \<times> pp_globals" where
  "pp_servo_got_resp P ppg i allowTimingOutput =
     (if \<not> srv_got_sync (SRV ppg i) then (False, ppg)
      else let ppg = upd_srv i (\<lambda>servo. servo\<lparr> srv_got_sync := False \<rparr>) ppg;
               (bad, ppg) = timestamps_incorrect EC_got_resp 0xC ppg i
           in if bad then (False, ppg)
              else let ppi = INST ppg i;
                       ppg = upd_srv i (\<lambda>servo. servo\<lparr> srv_t3 := ppi_t3 ppi, srv_t4 := ppi_t4 ppi \<rparr>) ppg;
                       ppg = pp_servo_update P ppg i
                   in (True, if allowTimingOutput then control_timing_output ppg i else ppg))"

definition pp_servo_got_presp :: "pp_globals \<Rightarrow> nat \<Rightarrow> bool \<times> pp_globals" where
  "pp_servo_got_presp ppg i =
     (let (bad, ppg) = timestamps_incorrect EC_got_presp 0x3C ppg i
      in if bad then (False, ppg)
         else let ppi = INST ppg i
              in (True, upd_srv i (\<lambda>servo. servo\<lparr> srv_t3 := ppi_t3 ppi, srv_t4 := ppi_t4 ppi,
                          srv_t5 := ppi_t5 ppi, srv_t6 := ppi_t6 ppi, srv_got_sync := True \<rparr>) ppg))"

section \<open>Exactness of the fixed-point arithmetic\<close>

lemma bit_above_clzll:
  assumes "64 - clzll v \<le> n" and "n < 64"
  shows "\<not> bit v n"
proof -
  let ?P = "\<lambda>n. \<not> bit v (63 - n)"
  have "63 - n < length (takeWhile ?P [0..<64])"
    using assms unfolding clzll_def by linarith
  from nth_mem [OF this] takeWhile_nth [OF this] have "63 - n \<in> set (takeWhile ?P [0..<64])"
    by simp
  from set_takeWhileD [OF this] have "?P (63 - n)" by (rule conjunct2)
  with assms show ?thesis by simp
qed

lemma uint_less_getMsbSet: "uint v < 2 ^ getMsbSet v"
proof (cases "v = 0")
  case False
  have "take_bit (getMsbSet v) v = v"
    using False bit_above_clzll [of v]
    by (intro bit_word_eqI) (simp add: bit_take_bit_iff getMsbSet_def, meson not_le)
  then have "uint v = take_bit (getMsbSet v) (uint v)" by (metis unsigned_take_bit_eq)
  then show ?thesis by (metis take_bit_int_less_exp)
qed (simp add: getMsbSet_def)

lemma getMsbSet_le:
  assumes "uint v < 2 ^ n"
  shows "getMsbSet v \<le> n"
proof (cases "n < 64")
  case True
  have "\<not> bit v m" if "n \<le> m" for m
  proof -
    have "take_bit n (uint v) = uint v" using assms by (simp add: take_bit_int_eq_self)
    then have "\<not> bit (uint v) m" using that by (metis bit_take_bit_iff leD)
    moreover have "m < 64" if "bit v m" using bit_imp_le_length [OF that] by simp
    ultimately show ?thesis by (auto simp: bit_uint_iff)
  qed
  then have "64 - n \<le> length (takeWhile (\<lambda>n. \<not> bit v (63 - n)) [0..<64])"
    by (intro length_takeWhile_less_P_nth) auto
  then show ?thesis unfolding getMsbSet_def clzll_def by auto
qed (auto simp: getMsbSet_def)

text \<open>The sum of the partial products, with the cut between the two accumulators at any place.\<close>

lemma split_product:
  fixes h1 l1 h2 l2 :: int
  assumes "s \<le> 32"
  defines "M \<equiv> h1 * l2 + h2 * l1"
  shows "h1 * h2 * 2 ^ s + M div 2 ^ (32 - s) +
      ((l1 * l2) div 2 + (M mod 2 ^ (32 - s)) * 2 ^ 31) div 2 ^ (63 - s) =
    ((h1 * 2 ^ 32 + l1) * (h2 * 2 ^ 32 + l2)) div 2 ^ (64 - s)"
proof -
  define k :: int where "k = 2 ^ (32 - s)"
  define m where "m = M mod k"
  have n: "64 - s = (32 - s) + 32" "64 - s = Suc (63 - s)" "(32 - s) + s = 32" using assms(1) by auto
  have e: "(2 :: int) ^ (64 - s) = k * 2 ^ 32" "(2 :: int) ^ (64 - s) = 2 * 2 ^ (63 - s)"
      "k * 2 ^ s = 2 ^ 32"
    unfolding k_def by (simp only: n(1) power_add, simp only: n(2) power_Suc, simp only: n(3) flip: power_add)
  have M: "M = k * (M div k) + m" unfolding m_def by simp
  have "(h1 * 2 ^ 32 + l1) * (h2 * 2 ^ 32 + l2) = h1 * h2 * (2 ^ 32 * 2 ^ 32) + M * 2 ^ 32 + l1 * l2"
    unfolding M_def by (simp add: algebra_simps)
  also have "\<dots> = h1 * h2 * (k * 2 ^ s * 2 ^ 32) + (k * (M div k) + m) * 2 ^ 32 + l1 * l2"
    using e(3) M by metis
  also have "\<dots> = (l1 * l2 + m * 2 ^ 32) + (h1 * h2 * 2 ^ s + M div k) * (2 ^ (64 - s))"
    unfolding e(1) by (simp add: algebra_simps)
  finally have "((h1 * 2 ^ 32 + l1) * (h2 * 2 ^ 32 + l2)) div 2 ^ (64 - s) =
      h1 * h2 * 2 ^ s + M div k + (l1 * l2 + m * 2 ^ 32) div 2 ^ (64 - s)" by simp
  also have "(l1 * l2 + m * 2 ^ 32) div 2 ^ (64 - s) = (l1 * l2 div 2 + m * 2 ^ 31) div 2 ^ (63 - s)"
  proof -
    have "(x + y * 2 ^ 32) div 2 = x div 2 + y * 2 ^ 31" for x y :: int by simp
    then show ?thesis unfolding e(2) by (subst zdiv_zmult2_eq) (simp_all only: zero_le_power zero_le_numeral)
  qed
  finally show ?thesis unfolding k_def m_def by simp
qed

lemma div_less_bound:
  assumes "0 < d" and "(x :: int) < c * d"
  shows "x div d < c"
proof -
  have "x div d * d \<le> x" using assms(1) by (simp add: minus_mod_eq_div_mult [symmetric])
  then have "x div d * d < c * d" using assms(2) by simp
  then show ?thesis using assms(1) by (simp add: mult_less_cancel_right)
qed

lemma push_1_minus_1: "push_bit n 1 - 1 = (mask n :: 'a :: len word)"
  by (simp add: mask_eq_exp_minus_1 push_bit_eq_mult)

lemma drop_bit_and_not_mask: "drop_bit n (x AND NOT (mask n)) = drop_bit n (x :: 'a :: len word)"
  by (rule bit_word_eqI) (auto simp: bit_simps dest: bit_imp_le_length)

lemma uint_and_mask: "uint (x AND mask n) = uint (x :: 'a :: len word) mod 2 ^ n"
  by (subst take_bit_eq_mask [symmetric]) (subst unsigned_take_bit_eq, rule take_bit_eq_mod)

lemma uint_halves:
  "uint (HI32 x) = uint x div 2 ^ 32" "uint (LO32 x) = uint x mod 2 ^ 32"
proof -
  show "uint (HI32 x) = uint x div 2 ^ 32" by (simp only: HI32_def uint_drop_bit)
  have "LO32 x = x AND mask 32" unfolding LO32_def by (simp add: mask_numeral)
  then show "uint (LO32 x) = uint x mod 2 ^ 32" by (simp only: uint_and_mask)
qed

lemma signed_drop_bit_nonneg:
  assumes "0 \<le> sint (w :: s64)"
  shows "signed_drop_bit n w = drop_bit n w"
proof (rule signed_word_eqI)
  have "uint w div 2 ^ n \<le> uint w" using zdiv_mono2 [of "uint w" 1 "2 ^ n"] by simp
  then have "uint (drop_bit n w) < 2 ^ 63"
    using assms sint_range64(2) [of w] uint_nonneg_sint [OF assms] by (simp only: uint_drop_bit)
  then show "sint (signed_drop_bit n w) = sint (drop_bit n w)"
    using uint_nonneg_sint [OF assms]
    by (simp only: sint_signed_drop_bit_eq sint_small_uint [of "drop_bit n w"] uint_drop_bit)
      (simp only: drop_bit_eq_div)
qed

text \<open>The accumulation of the partial products does not overflow.\<close>

lemma mul_accumulate:
  fixes h1 l1 h2 l2 middle upper lower :: u64
  assumes h: "uint h1 < 2 ^ 31" "uint h2 < 2 ^ 31" and l: "uint l1 < 2 ^ 32" "uint l2 < 2 ^ 32"
    and s: "2 \<le> s" "s \<le> 32"
    and small: "((uint h1 * 2 ^ 32 + uint l1) * (uint h2 * 2 ^ 32 + uint l2)) div 2 ^ (64 - s) < 2 ^ 63"
  defines "middle \<equiv> h1 * l2 + h2 * l1"
    and "lower \<equiv> drop_bit 1 (l1 * l2) + push_bit 31 (middle AND mask (32 - s))"
    and "upper \<equiv> push_bit s (h1 * h2) + drop_bit (32 - s) middle"
  shows "\<not> middle < h1 * l2" "\<not> middle < h2 * l1" "\<not> lower < drop_bit 1 (l1 * l2)"
    "uint (upper + drop_bit (63 - s) lower) =
       ((uint h1 * 2 ^ 32 + uint l1) * (uint h2 * 2 ^ 32 + uint l2)) div 2 ^ (64 - s)"
proof -
  let ?K = "2 ^ (32 - s) :: int"
  have mult: "0 \<le> uint a * uint b \<and> uint a * uint b \<le> (x - 1) * (y - 1)"
    if "uint a < x" "uint b < y" for a b :: u64 and x y :: int
  proof -
    have "0 < x" using that(1) uint_ge_0 [of a] by linarith
    with that show ?thesis by (auto intro!: mult_mono)
  qed
  have p1: "uint (h1 * l2) = uint h1 * uint l2" and m1: "uint h1 * uint l2 < 2 ^ 63"
    using mult [OF h(1) l(2)] by (auto intro: uint_mult_exact)
  have p2: "uint (h2 * l1) = uint h2 * uint l1" and m2: "uint h2 * uint l1 < 2 ^ 63"
    using mult [OF h(2) l(1)] by (auto intro: uint_mult_exact)
  have p3: "uint (l1 * l2) = uint l1 * uint l2" and m3: "uint l1 * uint l2 < 2 ^ 64"
    using mult [OF l] by (auto intro: uint_mult_exact)
  have p4: "uint (h1 * h2) = uint h1 * uint h2"
    using mult [OF h] by (auto intro: uint_mult_exact)
  have mid: "uint middle = uint h1 * uint l2 + uint h2 * uint l1"
    unfolding middle_def using m1 m2 by (subst uint_add_exact) (simp_all only: p1 p2, simp)
  show "\<not> middle < h1 * l2" "\<not> middle < h2 * l1"
    unfolding word_less_def mid p1 p2 using mult [OF h(2) l(1)] mult [OF h(1) l(2)] by linarith+
  define d where "d = uint middle mod ?K"
  have "?K \<le> 2 ^ 30" using s(1) by (intro power_increasing) auto
  moreover have "0 \<le> d \<and> d < ?K" unfolding d_def by simp
  ultimately have d: "0 \<le> d" "d < 2 ^ 30" by linarith+
  have push: "uint (push_bit 31 (middle AND mask (32 - s))) = d * 2 ^ 31"
    using d(2) by (subst uint_push_bit_exact) (simp_all only: uint_and_mask flip: d_def, simp)
  have half: "uint (drop_bit 1 (l1 * l2)) = uint l1 * uint l2 div 2"
    by (simp only: uint_drop_bit p3 power_one_right)
  have low: "uint lower = uint l1 * uint l2 div 2 + d * 2 ^ 31"
    unfolding lower_def using m3 d(2) by (subst uint_add_exact) (simp_all only: push half, simp)
  show "\<not> lower < drop_bit 1 (l1 * l2)"
    unfolding word_less_def low half using d(1) by simp
  let ?H = "uint h1 * uint h2 * 2 ^ s" and ?M = "uint middle div ?K"
  let ?L = "uint lower div 2 ^ (63 - s)"
  have sum: "?H + ?M + ?L = ((uint h1 * 2 ^ 32 + uint l1) * (uint h2 * 2 ^ 32 + uint l2)) div 2 ^ (64 - s)"
    unfolding low d_def mid by (rule split_product [OF s(2)])
  have pos: "0 \<le> ?H" "0 \<le> ?M" "0 \<le> ?L"
    by (intro mult_nonneg_nonneg pos_imp_zdiv_nonneg_iff [THEN iffD2] uint_ge_0 zero_le_power zero_less_power, simp_all)+
  have b: "?H < 2 ^ 64" "?H + ?M < 2 ^ 64" "?H + ?M + ?L < 2 ^ 64" 
  proof -
    have gen: "H < 2 ^ 64 \<and> H + M < 2 ^ 64 \<and> H + M + L < 2 ^ 64"
      if "H + M + L = T" "T < 2 ^ 63" "0 \<le> H" "0 \<le> M" "0 \<le> L" for H M L T :: int
      using that by auto
    from gen [OF sum small pos] show "?H < 2 ^ 64" "?H + ?M < 2 ^ 64" "?H + ?M + ?L < 2 ^ 64" by blast+
  qed
  have up1: "uint (push_bit s (h1 * h2)) = ?H"
    using uint_push_bit_exact [of "h1 * h2" s] b(1) unfolding p4 by blast
  have up2: "uint upper = ?H + ?M"
    using uint_add_exact [of "push_bit s (h1 * h2)" "drop_bit (32 - s) middle"] b(2)
    unfolding upper_def up1 uint_drop_bit by blast
  show "uint (upper + drop_bit (63 - s) lower) =
       ((uint h1 * 2 ^ 32 + uint l1) * (uint h2 * 2 ^ 32 + uint l2)) div 2 ^ (64 - s)"
    using uint_add_exact [of upper "drop_bit (63 - s) lower"] b(3)
    unfolding sum [symmetric] up2 uint_drop_bit by blast
qed

lemma uint_mulRelativeDifference:
  assumes "uint op1 < 2 ^ 63" and "uint op2 < 2 ^ 63" and "uint op1 < 2 ^ 62 \<or> uint op2 < 2 ^ 62"
  shows "uint (mulRelativeDifference op1 op2) = uint op1 * uint op2 div 2 ^ 62"
proof -
  define m where "m = (if op1 < op2 then op1 else op2)"
  define s where "s = min (64 - getMsbSet m) 32"
  have "uint m < 2 ^ 62" using assms(3) by (auto simp: m_def word_less_def)
  from getMsbSet_le [OF this] have s: "2 \<le> s" "s \<le> 32" "getMsbSet m \<le> 64 - s" by (auto simp: s_def)
  have m: "uint m < 2 ^ (64 - s)"
    by (rule less_le_trans [OF uint_less_getMsbSet power_increasing [OF s(3)]]) simp
  have halves: "uint (HI32 x) * 2 ^ 32 + uint (LO32 x) = uint x" for x by (simp only: uint_halves) simp
  have h: "uint (HI32 x) < 2 ^ 31" if "uint x < 2 ^ 63" for x
    using that by (simp only: uint_halves) (simp add: div_less_iff_less_mult)
  have l: "uint (LO32 x) < 2 ^ 32" for x by (simp only: uint_halves) simp
  have "uint op1 * uint op2 < 2 ^ 63 * 2 ^ (64 - s)"
  proof (cases "op1 < op2")
    case True
    then show ?thesis using m assms(2) mult_strict_mono' [of "uint op2" "2 ^ 63" "uint m" "2 ^ (64 - s)"]
      by (simp add: m_def mult.commute)
  next
    case False
    then show ?thesis using m assms(1) mult_strict_mono' [of "uint op1" "2 ^ 63" "uint m" "2 ^ (64 - s)"]
      by (simp add: m_def)
  qed
  then have small: "uint op1 * uint op2 div 2 ^ (64 - s) < 2 ^ 63"
    by (intro div_less_bound) simp_all
  note acc = mul_accumulate [OF h [OF assms(1)] h [OF assms(2)] l [of op1] l [of op2] s(1,2), unfolded halves, OF small]
  have sgn: "signed_drop_bit 32 op1 = HI32 op1"
    using assms(1) by (simp add: HI32_def signed_drop_bit_nonneg sint_small_uint)
  have shift: "(if 64 - getMsbSet m > 32 then 32 else 64 - getMsbSet m) = s" by (simp add: s_def)
  have "uint (mulRelativeDifference op1 op2) = uint op1 * uint op2 div 2 ^ (64 - s) div 2 ^ (s - 2)"
    unfolding mulRelativeDifference_def Let_def m_def [symmetric] shift sgn push_1_minus_1
      drop_bit_and_not_mask
    using acc s by (simp add: uint_drop_bit)
  also have "\<dots> = uint op1 * uint op2 div 2 ^ 62"
    using s by (simp add: flip: zdiv_zmult2_eq power_add)
  finally show ?thesis .
qed

lemma uint_next_term:
  assumes "uint c < 2 ^ 63" and "uint t < 2 ^ 62"
  shows "uint (drop_bit 1 (mulRelativeDifference c t)) = uint c * uint t div 2 ^ 63"
proof -
  have "uint (drop_bit 1 (mulRelativeDifference c t)) = uint c * uint t div 2 ^ 62 div 2"
    using assms by (simp only: uint_drop_bit power_one_right) (subst uint_mulRelativeDifference, simp_all)
  then show ?thesis by (simp flip: zdiv_zmult2_eq)
qed

lemma next_term_less:
  assumes "uint c < 2 ^ 63" and "uint t < 2 ^ 62" and "0 < uint t"
  shows "uint (drop_bit 1 (mulRelativeDifference c t)) < uint t"
proof -
  have "uint c * uint t < 2 ^ 63 * uint t" using assms by (intro mult_strict_right_mono) auto
  then show ?thesis unfolding uint_next_term [OF assms(1,2)] by (intro div_less_bound) (simp_all add: mult.commute)
qed

lemma asym_expansion_ends:
  assumes "uint c < 2 ^ 63"
  shows "uint t < 2 ^ 62 \<Longrightarrow> \<exists>r. asym_expansion c neg sub t a = Some r"
proof (induction t arbitrary: sub a rule: measure_induct_rule [where f = unat])
  case (less t)
  show ?case
  proof (cases "t > 2")
    case True
    then have pos: "0 < uint t" by (simp add: word_less_def)
    note lt = next_term_less [OF assms less.prems pos]
    then have "unat (drop_bit 1 (mulRelativeDifference c t)) < unat t" by (simp only: uint_nat_less)
    from less.IH [OF this] lt less.prems show ?thesis
      by (subst asym_expansion.simps) (simp add: True Let_def)
  qed (simp add: asym_expansion.simps)
qed

lemma sint_small_add_sub:
  fixes a b :: s64
  assumes "\<bar>sint a\<bar> + \<bar>sint b\<bar> < 2 ^ 63"
  shows "sint (a + b) = sint a + sint b" "sint (a - b) = sint a - sint b"
  using assms by (auto intro!: sint_add_exact sint_sub_exact)

text \<open>
  One round of the expansion: with \<open>q = c / 2 ^ 63\<close>, the terms still to be added sum up to the geometric
  series of the current one, up to one unit per round and the two units at which the loop stops.
\<close>

definition series_sign :: "bool \<Rightarrow> bool \<Rightarrow> int" where
  "series_sign neg sub = (if \<not> neg \<and> sub then - 1 else 1)"

definition series_den :: "bool \<Rightarrow> int \<Rightarrow> int" where
  "series_den neg c = (if neg then 2 ^ 63 - c else 2 ^ 63 + c)"

lemma series_round:
  fixes c t t' a a' r E :: int
  assumes c: "0 \<le> c" "c \<le> 2 ^ 63" and t': "t' = c * t div 2 ^ 63"
    and a': "a' = a + series_sign neg sub * t + (if neg then 1 else 0)"
    and IH: "\<bar>(r - a') * series_den neg c - series_sign neg (if neg then sub else \<not> sub) * t' * 2 ^ 63\<bar> \<le> E * 2 ^ 63"
  shows "\<bar>(r - a) * series_den neg c - series_sign neg sub * t * 2 ^ 63\<bar> \<le> (E + 1) * 2 ^ 63"
proof -
  define e where "e = c * t mod 2 ^ 63"
  define X where "X = (r - a') * series_den neg c"
  have e: "0 \<le> e" "e < 2 ^ 63" "c * t = t' * 2 ^ 63 + e" unfolding e_def t' by simp_all
  have split: "(r - a) * series_den neg c = X + (a' - a) * series_den neg c"
    unfolding X_def by (simp add: algebra_simps)
  show ?thesis
  proof (cases neg)
    case True
    then have "(a' - a) * series_den neg c = t * 2 ^ 63 - c * t + (2 ^ 63 - c)"
      unfolding a' by (simp add: series_sign_def series_den_def algebra_simps)
    with True IH c e split show ?thesis
      unfolding X_def [symmetric] by (simp add: series_sign_def algebra_simps)
  next
    case False
    then have "(a' - a) * series_den neg c = series_sign neg sub * (t * 2 ^ 63 + c * t)"
      unfolding a' by (simp add: series_den_def algebra_simps)
    with False IH c e split show ?thesis
      unfolding X_def [symmetric] by (cases sub) (simp_all add: series_sign_def algebra_simps)
  qed
qed

lemma asym_expansion_accurate:
  fixes c t :: u64 and a :: s64
  assumes c: "uint c \<le> 2 ^ 62"
  shows "uint t < 2 ^ k \<Longrightarrow> k \<le> 61 \<Longrightarrow> \<bar>sint a\<bar> + 2 * uint t + int k < 3 * 2 ^ 61 \<Longrightarrow>
    \<exists>r. asym_expansion c neg sub t a = Some r \<and> \<bar>sint r\<bar> < 3 * 2 ^ 61 \<and>
      \<bar>(sint r - sint a) * series_den neg (uint c) - series_sign neg sub * uint t * 2 ^ 63\<bar> \<le> (2 + int k) * 2 ^ 63"
proof (induction k arbitrary: t sub a)
  case 0
  then have "uint t < 1" by simp
  with uint_ge_0 [of t] have "uint t = 0" by linarith
  then have "t = 0" by (simp only: uint_0_iff)
  then show ?case using "0.prems"(3) by (simp add: asym_expansion.simps)
next
  case (Suc k)
  let ?t = "drop_bit 1 (mulRelativeDifference c t)"
  let ?a = "if \<not> neg then if sub then a - t else a + t else a + (t + 1)"
  have "(2 :: int) ^ Suc k \<le> 2 ^ 61" using Suc.prems(2) by (intro power_increasing) auto
  then have t: "uint t < 2 ^ 61" using Suc.prems(1) by linarith
  have next_t: "uint ?t = uint c * uint t div 2 ^ 63" using c t by (intro uint_next_term) auto
  have "uint c * uint t \<le> 2 ^ 62 * uint t" using c by (intro mult_right_mono) auto
  then have half: "2 * uint ?t \<le> uint t" unfolding next_t by auto
  show ?case
  proof (cases "t > 2")
    case True
    have st: "sint t = uint t" using t by (intro sint_small_uint) auto
    have a': "sint ?a = sint a + series_sign neg sub * uint t + (if neg then 1 else 0)"
    proof -
      have t1: "sint (t + 1) = uint t + 1" using t st uint_ge_0 [of t] by (subst sint_add_exact) auto
      have b: "\<bar>sint a\<bar> + \<bar>sint t\<bar> < 2 ^ 63" "\<bar>sint a\<bar> + \<bar>sint (t + 1)\<bar> < 2 ^ 63"
      proof -
        have "(2 :: int) ^ 63 = 4 * 2 ^ 61" "0 \<le> (2 :: int) ^ 61" by simp_all
        moreover have "\<bar>uint t\<bar> = uint t" "\<bar>uint t + 1\<bar> = uint t + 1" by simp_all
        ultimately show "\<bar>sint a\<bar> + \<bar>sint t\<bar> < 2 ^ 63" "\<bar>sint a\<bar> + \<bar>sint (t + 1)\<bar> < 2 ^ 63"
          unfolding t1 st using Suc.prems(3) uint_ge_0 [of t]
          by (linarith, linarith)
      qed
      show ?thesis using sint_small_add_sub [OF b(1)] sint_small_add_sub [OF b(2)] t1 st
        by (simp add: series_sign_def)
    qed
    have "uint ?t < 2 ^ k" using half Suc.prems(1) by auto
    moreover have "\<bar>sint ?a\<bar> + 2 * uint ?t + int k < 3 * 2 ^ 61"
    proof -
      have "\<bar>x + sg * y + b\<bar> \<le> \<bar>x\<bar> + y + 1" if "0 \<le> y" "sg = 1 \<or> sg = - 1" "b = 0 \<or> b = 1" for x y sg b :: int
        using that by auto
      then have "\<bar>sint ?a\<bar> \<le> \<bar>sint a\<bar> + uint t + 1" unfolding a' by (simp add: series_sign_def)
      then show ?thesis using half Suc.prems(3) by simp
    qed
    ultimately obtain r where r: "asym_expansion c neg (if neg then sub else \<not> sub) ?t ?a = Some r"
        "\<bar>sint r\<bar> < 3 * 2 ^ 61"
        "\<bar>(sint r - sint ?a) * series_den neg (uint c) -
          series_sign neg (if neg then sub else \<not> sub) * uint ?t * 2 ^ 63\<bar> \<le> (2 + int k) * 2 ^ 63"
      using Suc.IH [of ?t ?a "if neg then sub else \<not> sub"] Suc.prems(2) by (auto simp only: Suc_leD)
    have "asym_expansion c neg sub t a = Some r"
      using r(1) by (subst asym_expansion.simps) (cases neg; cases sub; simp add: True Let_def)
    moreover from series_round [OF _ _ next_t a' r(3)] c
    have "\<bar>(sint r - sint a) * series_den neg (uint c) - series_sign neg sub * uint t * 2 ^ 63\<bar> \<le> (2 + int k + 1) * 2 ^ 63"
      by simp
    ultimately show ?thesis using r(2) by (auto simp: algebra_simps)
  next
    case False
    then have "uint t \<le> 2" by (simp add: word_less_def not_less)
    moreover have "\<bar>sint a\<bar> < 3 * 2 ^ 61" using Suc.prems(3) uint_ge_0 [of t] by linarith
    ultimately show ?thesis using False by (simp add: asym_expansion.simps series_sign_def)
  qed
qed

lemma uint_abs_s64:
  fixes x :: s64
  assumes "sint x \<noteq> - (2 ^ 63)"
  shows "uint (if sint x < 0 then - x else x) = \<bar>sint x\<bar>"
  using uint_abs64 [OF assms] by (simp split: if_splits)

lemma sint_range16: "- (2 ^ 15) \<le> sint (x :: s16)" "sint (x :: s16) < 2 ^ 15"
  using sint_ge [of x] sint_lt [of x] by simp_all

lemma uint_scast_gain:
  assumes "0 < sint (g :: s16)"
  shows "uint (scast g :: u32) = sint g"
proof -
  have "(scast g :: u32) = word_of_int (sint g)" by simp
  then show ?thesis using assms sint_range16 [of g] uint_of_int32 [of "sint g"] by simp
qed

lemma sint_scast_16_64 [simp]: "sint (scast (g :: s16) :: s64) = sint g"
  by (rule sint_up_scast) (simp add: is_up)

text \<open>A gain divides as C does, towards zero.\<close>

lemma signed_gain_value:
  assumes "0 < sint gain" and "sint v \<noteq> - (2 ^ 63)"
  shows "sint (signed_gain v gain) = sint v sdiv sint gain"
proof -
  let ?v = "if \<not> sint v > 0 then - v else v"
  have v: "uint ?v = \<bar>sint v\<bar>" using uint_abs_s64 [OF assms(2)] by (auto split: if_splits simp: not_less le_less)
  define q where "q = quot64 ?v (scast gain)"
  have nz: "scast gain \<noteq> (0 :: u32)" using uint_scast_gain [OF assms(1)] assms(1) by (auto simp: uint_pos [symmetric])
  have q: "uint q = \<bar>sint v\<bar> div sint gain"
    unfolding q_def uint_quot64 [OF nz] v uint_scast_gain [OF assms(1)] ..
  have "\<bar>sint v\<bar> div sint gain \<le> \<bar>sint v\<bar>"
    using assms(1) zdiv_mono2 [of "\<bar>sint v\<bar>" 1 "sint gain"] by simp
  also have "\<bar>sint v\<bar> < 2 ^ 63" using assms(2) sint_range64 [of v] by linarith
  finally have small: "uint q < 2 ^ 63" unfolding q .
  have "sint (signed_gain v gain) = (if \<not> sint v > 0 then - (\<bar>sint v\<bar> div sint gain) else \<bar>sint v\<bar> div sint gain)"
    unfolding signed_gain_def Let_def q_def [symmetric] q [symmetric]
    using sint_small_uint [OF small] sint_minus_exact [of q] uint_ge_0 [of q] by (cases "sint v > 0") auto
  with assms(1) show ?thesis by (auto simp: signed_divide_int_def sgn_if not_less)
qed

lemma sint_pi_limit:
  "sint (push_bit 16 (PP_ADJ_FREQ_MAX * scast (ai :: s16))) = 33554432000 * sint ai"
proof -
  have "push_bit 16 (PP_ADJ_FREQ_MAX * scast ai) = (33554432000 * scast ai :: s64)"
    by (simp add: push_bit_eq_mult PP_ADJ_FREQ_MAX_def mult.assoc mult.left_commute)
  moreover have "sint (33554432000 * scast ai :: s64) = 33554432000 * sint ai"
    using sint_range16 [of ai] by (subst sint_mult_exact) simp_all
  ultimately show ?thesis by simp
qed

section \<open>Values of the filter and the delays\<close>

lemma mpd_bits_le: "mpd_bits y s \<le> s"
  by (induction s) auto

lemma sdb_0_iff:
  assumes "0 \<le> sint (y :: s64)"
  shows "signed_drop_bit n y = 0 \<longleftrightarrow> sint y < 2 ^ n"
proof -
  have "signed_drop_bit n y = 0 \<longleftrightarrow> sint (signed_drop_bit n y) = 0" by simp
  also have "sint (signed_drop_bit n y) = sint y div 2 ^ n"
    by (simp only: sint_signed_drop_bit_eq) (simp only: drop_bit_eq_div)
  also have "sint y div 2 ^ n = 0 \<longleftrightarrow> sint y < 2 ^ n"
    using assms by (auto simp: div_pos_pos_trivial zdiv_eq_0_iff not_less)
  finally show ?thesis .
qed

lemma mpd_bits_fit:
  assumes "0 \<le> sint (y :: s64)" and "s \<le> 62"
  shows "sint y < 2 ^ (63 - mpd_bits y s)"
  using assms(2) sint_range64(2) [of y] by (induction s) (auto simp: sdb_0_iff [OF assms(1)])

lemma sint_push_1: "n \<le> 62 \<Longrightarrow> sint (push_bit n 1 :: s64) = 2 ^ n"
proof -
  assume n: "n \<le> 62"
  then have "(2 :: int) ^ n \<le> 2 ^ 62" by (intro power_increasing) auto
  then show ?thesis using sint_small_uint [of "push_bit n 1"] uint_push_bit_exact [of 1 n] by simp
qed

text \<open>
  One step of the filter in integers: the length of the average is adapted to at most \<open>2 ^ b\<close>, the sample is
  trimmed, and the average is taken.
\<close>

definition fltr_len :: "int \<Rightarrow> int \<Rightarrow> int" where
  "fltr_len b n = (if n \<ge> 2 ^ nat b then 2 ^ nat b else n + 1)"

definition fltr_sample :: "int \<Rightarrow> int \<Rightarrow> int \<Rightarrow> int" where
  "fltr_sample y n d = (let d = (if d < 0 then y else d) in if d > 3 * y then 2 * y + n + 1 else d)"

definition fltr_avg :: "int \<Rightarrow> int \<Rightarrow> int \<Rightarrow> int" where
  "fltr_avg y n d = (y * (n - 1) + d) div n"

lemma fltr_avg_between:
  assumes "1 \<le> n"
  shows "min y d \<le> fltr_avg y n d" "fltr_avg y n d \<le> max y d"
proof -
  have "min y d * n \<le> y * (n - 1) + d"
    using assms mult_right_mono [of "min y d" y "n - 1"] by (simp add: algebra_simps)
  then have "min y d * n div n \<le> fltr_avg y n d"
    unfolding fltr_avg_def using assms by (intro zdiv_mono1) auto
  then show "min y d \<le> fltr_avg y n d" using assms by simp
  have "y * (n - 1) + d \<le> max y d * n"
    using assms mult_right_mono [of y "max y d" "n - 1"] by (simp add: algebra_simps)
  then have "fltr_avg y n d \<le> max y d * n div n"
    unfolding fltr_avg_def using assms by (intro zdiv_mono1) auto
  then show "fltr_avg y n d \<le> max y d" using assms by simp
qed

lemma fltr_avg_outlier:
  assumes "1 \<le> n" and "0 \<le> y"
  shows "fltr_avg y n (2 * y + n + 1) \<le> 2 * y + 2"
proof -
  have "y * (n - 1) + (2 * y + n + 1) \<le> (2 * y + 2) * n"
    using assms mult_right_mono [of 1 n y] by (simp add: algebra_simps)
  then have "fltr_avg y n (2 * y + n + 1) \<le> (2 * y + 2) * n div n"
    unfolding fltr_avg_def using assms(1) by (intro zdiv_mono1) auto
  then show ?thesis using assms(1) by simp
qed

lemma fltr_len_bounds: "0 \<le> n \<Longrightarrow> 1 \<le> fltr_len b n \<and> fltr_len b n \<le> 2 ^ nat b"
  by (auto simp: fltr_len_def)

lemma fltr_sample_bounds:
  "0 \<le> y \<Longrightarrow> 0 \<le> n \<Longrightarrow> 0 \<le> fltr_sample y n d \<and> fltr_sample y n d \<le> max (2 * y + n + 1) \<bar>d\<bar>"
  by (auto simp: fltr_sample_def Let_def)

lemma fltr_len_word:
  fixes n :: s64
  assumes "b \<le> 62" and "0 \<le> sint n"
  defines "n' \<equiv> (if sint n > sint (push_bit b 1 :: s64) then push_bit b 1 else n)"
  shows "sint (if sint n' < sint (push_bit b 1 :: s64) then n' + 1 else n') = fltr_len (int b) (sint n)"
proof -
  have "(2 :: int) ^ b \<le> 2 ^ 62" using assms(1) by (intro power_increasing) auto
  moreover have "sint (n + 1) = sint n + 1" if "sint n < 2 ^ b" using calculation that assms(2) by (subst sint_add_exact) auto
  ultimately show ?thesis using sint_push_1 [OF assms(1)] by (auto simp: n'_def fltr_len_def)
qed

lemma fltr_sample_word:
  fixes y n d :: s64
  assumes "0 \<le> sint y" "sint y \<le> 2 ^ 47" "0 \<le> sint n" "sint n \<le> 2 ^ 30"
  defines "d1 \<equiv> (if sint d < 0 then y else d)"
  defines "d2 \<equiv> (if sint d1 < 0 then 0 else d1)"
  shows "sint (if sint d2 > sint (3 * y) then y * 2 + n + 1 else d2) = fltr_sample (sint y) (sint n) (sint d)"
proof -
  have "sint (3 * y) = 3 * sint y" using assms by (subst sint_mult_exact) auto
  moreover have y2: "sint (y * 2) = sint y * 2" using assms by (subst sint_mult_exact) auto
  moreover have yn: "sint (y * 2 + n) = sint y * 2 + sint n" using assms y2 by (subst sint_add_exact) auto
  moreover have "sint (y * 2 + n + 1) = sint y * 2 + sint n + 1" using assms yn by (subst sint_add_exact) auto
  ultimately show ?thesis using assms(1) by (auto simp: d2_def d1_def fltr_sample_def Let_def)
qed

lemma fltr_avg_word:
  fixes y n d :: s64
  assumes "0 \<le> sint y" "sint y < 2 ^ (63 - b)" "1 \<le> sint n" "sint n \<le> 2 ^ b" "b \<le> 30" "0 \<le> sint d" "sint d < 2 ^ 62"
  shows "sint (quot64 (y * (n - 1) + d) (ucast n)) = fltr_avg (sint y) (sint n) (sint d)"
proof -
  have "(2 :: int) ^ b \<le> 2 ^ 30" using assms(5) by (intro power_increasing) auto
  with assms(4) have n: "sint n \<le> 2 ^ 30" by linarith
  have u: "uint y = sint y" "uint n = sint n" "uint d = sint d" using assms by (auto intro: uint_nonneg_sint)
  have n1: "uint (n - 1) = sint n - 1" using uint_sub_exact [of 1 n] assms(3) u by simp
  have "sint y * (sint n - 1) \<le> (2 ^ (63 - b)) * (2 ^ b)" using assms by (intro mult_mono) auto
  also have "\<dots> = 2 ^ 63" using assms(5) by (simp flip: power_add)
  finally have p: "0 \<le> sint y * (sint n - 1)" "sint y * (sint n - 1) \<le> 2 ^ 63" using assms by auto
  have m: "uint (y * (n - 1)) = sint y * (sint n - 1)" using p u n1 by (subst uint_mult_exact) auto
  have a: "uint (y * (n - 1) + d) = sint y * (sint n - 1) + sint d"
    using p assms(6,7) u by (subst uint_add_exact) (simp_all add: m)
  have c: "uint (ucast n :: u32) = sint n"
    using n u assms(3) by (simp add: unsigned_ucast_eq take_bit_int_eq_self)
  then have nz: "(ucast n :: u32) \<noteq> 0" using assms(3) by (auto simp: uint_pos [symmetric])
  have q: "uint (quot64 (y * (n - 1) + d) (ucast n)) = fltr_avg (sint y) (sint n) (sint d)"
    unfolding uint_quot64 [OF nz] a c fltr_avg_def ..
  have "sint y < 2 ^ 63" using sint_range64 by simp
  then have "fltr_avg (sint y) (sint n) (sint d) < 2 ^ 63"
    using fltr_avg_between(2) [OF assms(3), of "sint y" "sint d"] assms(7) by simp
  then show ?thesis using q sint_small_uint [of "quot64 (y * (n - 1) + d) (ucast n)"] by simp
qed

lemma mpd_fltr_step_value:
  fixes flt :: pp_avg_fltr
  assumes y: "0 \<le> sint (fltr_y flt)" "sint (fltr_y flt) \<le> 2 ^ 47"
    and n: "0 \<le> sint (fltr_s_exp flt)"
    and d: "\<bar>sint d\<bar> \<le> 2 ^ 47" and s: "sint opts_s \<le> 30"
  defines "y0 \<equiv> (if sint (fltr_s_exp flt) < 1 then max 0 (sint d) else sint (fltr_y flt))"
  shows "\<exists>b. b \<le> max 0 (sint opts_s) \<and>
    sint (fltr_s_exp (mpd_fltr_step opts_s flt d)) = fltr_len b (sint (fltr_s_exp flt)) \<and>
    sint (fltr_y (mpd_fltr_step opts_s flt d)) =
      fltr_avg y0 (fltr_len b (sint (fltr_s_exp flt))) (fltr_sample y0 (fltr_len b (sint (fltr_s_exp flt))) (sint d))"
proof -
  define yw where "yw = (if sint (fltr_s_exp flt) < 1 then if sint d < 0 then 0 else d else fltr_y flt)"
  define b where "b = mpd_bits yw (nat (sint opts_s))"
  have yw: "sint yw = y0" "0 \<le> sint yw" "sint yw \<le> 2 ^ 47" using y d by (auto simp: yw_def y0_def)
  have b: "b \<le> nat (sint opts_s)" "b \<le> 30" using mpd_bits_le [of yw "nat (sint opts_s)"] s by (auto simp: b_def)
  have fit: "sint yw < 2 ^ (63 - b)" unfolding b_def using yw(2) s by (intro mpd_bits_fit) auto
  define nw where "nw = (let n' = (if sint (fltr_s_exp flt) > sint (push_bit b 1 :: s64) then push_bit b 1 else fltr_s_exp flt)
    in if sint n' < sint (push_bit b 1 :: s64) then n' + 1 else n')"
  have nw: "sint nw = fltr_len (int b) (sint (fltr_s_exp flt))"
    unfolding nw_def Let_def using b n by (intro fltr_len_word) auto
  have nb: "1 \<le> sint nw" "sint nw \<le> 2 ^ b" using fltr_len_bounds [OF n, of "int b"] by (simp_all add: nw)
  have "(2 :: int) ^ b \<le> 2 ^ 30" using b(2) by (intro power_increasing) auto
  then have nb30: "sint nw \<le> 2 ^ 30" using nb(2) by linarith
  define dw where "dw = (let d1 = (if sint d < 0 then yw else d); d2 = (if sint d1 < 0 then 0 else d1)
    in if sint d2 > sint (3 * yw) then yw * 2 + nw + 1 else d2)"
  have dw: "sint dw = fltr_sample y0 (sint nw) (sint d)"
    unfolding dw_def Let_def yw(1) [symmetric] using yw nb nb30 by (intro fltr_sample_word) auto
  then have db: "0 \<le> sint dw" "sint dw < 2 ^ 62"
    using fltr_sample_bounds [of y0 "sint nw" "sint d"] yw nb nb30 d by auto
  have "mpd_fltr_step opts_s flt d = flt\<lparr> fltr_s_exp := nw, fltr_y := quot64 (yw * (nw - 1) + dw) (ucast nw) \<rparr>"
    unfolding mpd_fltr_step_def Let_def nw_def dw_def yw_def b_def by (cases flt) (simp split: if_splits)
  then show ?thesis
    using fltr_avg_word [OF yw(2) fit nb b(2) db] nw dw yw(1) b by (intro exI [of _ "int b"]) auto
qed

lemma upd_srv_simps [simp]:
  "i < length (pp_instances ppg) \<Longrightarrow> SRV (upd_srv i f ppg) i = f (SRV ppg i)"
  "i < length (pp_instances ppg) \<Longrightarrow>
     INST (upd_srv i f ppg) i = (INST ppg i)\<lparr> ppi_servo := f (SRV ppg i) \<rparr>"
  "length (pp_instances (upd_srv i f ppg)) = length (pp_instances ppg)"
  "g_config (upd_srv i f ppg) = g_config ppg"
  "rt_opts (upd_srv i f ppg) = rt_opts ppg"
  "g_currentDS (upd_srv i f ppg) = g_currentDS ppg"
  "g_events (upd_srv i f ppg) = g_events ppg"
  by (simp_all add: upd_srv_def SRV_def)

lemma data_set_simps [simp]:
  "INST (ppg\<lparr> g_errcount := x \<rparr>) i = INST ppg i" "SRV (ppg\<lparr> g_errcount := x \<rparr>) i = SRV ppg i"
  "INST (ppg\<lparr> g_currentDS := y \<rparr>) i = INST ppg i" "SRV (ppg\<lparr> g_currentDS := y \<rparr>) i = SRV ppg i"
  by (simp_all add: INST_def SRV_def)

lemma SRV_set_portDS [simp]:
  "i < length (pp_instances ppg) \<Longrightarrow> SRV (upd_inst i (\<lambda>ppi. ppi\<lparr> ppi_portDS := f ppi \<rparr>) ppg) i = SRV ppg i"
  by (simp add: SRV_def)

lemma update_meanDelay_SRV [simp]:
  assumes "i < length (pp_instances ppg)"
  shows "SRV (update_meanDelay ppg i md) i = SRV ppg i"
    "length (pp_instances (update_meanDelay ppg i md)) = length (pp_instances ppg)"
    "rt_opts (update_meanDelay ppg i md) = rt_opts ppg"
    "g_events (update_meanDelay ppg i md) = g_events ppg"
  using assms by (simp_all add: update_meanDelay_def update_meanDelay_p2p_def set_cur_meanDelay_def Let_def)

text \<open>Errors of the conversions to and from picoseconds, in thousandths of a scaled nanosecond.\<close>

lemma normalized_secs:
  assumes "normalized t"
  shows "\<bar>sint (secs t)\<bar> * 65536000000000 \<le> \<bar>time_val t\<bar>"
  using assms by (cases rule: linorder_cases [of "sint (secs t)" 0]) (auto simp: normalized_def time_val_def)

lemma picos_of_scaled_error: "\<bar>picos_of_scaled n * 65536 - n * 1000\<bar> \<le> 32768"
proof -
  define m where "m = (n * 1000 + 32768) mod 65536"
  have "picos_of_scaled n * 65536 + m = n * 1000 + 32768"
    unfolding picos_of_scaled_def m_def by (rule div_mult_mod_eq)
  moreover have "0 \<le> m" "m < 65536" unfolding m_def by simp_all
  ultimately show ?thesis by linarith
qed

lemma time_to_picos_error:
  assumes "normalized t" and "\<bar>time_val t\<bar> \<le> 65536000000000 * 2000"
  shows "\<bar>sint (pp_time_to_picos t) * 65536 - time_val t * 1000\<bar> \<le> 32768"
proof -
  have "\<bar>sint (secs t)\<bar> \<le> 9223370" using normalized_secs [OF assms(1)] assms(2) by linarith
  note v = pp_time_to_picos_value [OF assms(1) this]
  show ?thesis
    using picos_of_scaled_error [of "\<bar>sint (scaled_nsecs t)\<bar>"] assms(1)
    unfolding v signed_as_def normalized_def time_val_def
    by (cases rule: linorder_cases [of "sint (secs t)" 0]) (auto split: if_splits)
qed

lemma picos_to_time_error:
  assumes "\<bar>sint p\<bar> < 2 ^ 62"
  shows "\<bar>time_val (picos_to_pp_time p) * 1000 - sint p * 65536\<bar> \<le> 32768" "normalized (picos_to_pp_time p)"
proof -
  have ne: "sint p \<noteq> - (2 ^ 63)" using assms by auto
  define a where "a = \<bar>sint p\<bar>"
  define q where "q = a div 1000" define r where "r = a mod 1000"
  define s where "s = q div 1000000000" define n where "n = q mod 1000000000"
  define f where "f = (r * 65536 + 32768) div 1000"
  have a: "a = q * 1000 + r" "0 \<le> r" "r < 1000" "q = s * 1000000000 + n" "0 \<le> n" "n < 1000000000" "0 \<le> s"
    unfolding q_def r_def s_def n_def by (simp_all add: a_def pos_imp_zdiv_nonneg_iff)
  have f: "f * 1000 \<le> r * 65536 + 32768" "r * 65536 + 32768 < f * 1000 + 1000" "32 \<le> f" "f \<le> 65503"
    using picos_frac_bound [of a] unfolding f_def r_def by linarith+
  note v = picos_to_pp_time_value [OF ne, folded a_def, folded q_def r_def, folded s_def n_def f_def]
  show "\<bar>time_val (picos_to_pp_time p) * 1000 - sint p * 65536\<bar> \<le> 32768"
    using a f unfolding time_val_def v signed_as_def by (auto simp: a_def abs_if split: if_splits)
  show "normalized (picos_to_pp_time p)"
    using a f unfolding normalized_def v signed_as_def by (auto simp: abs_if split: if_splits)
qed

lemma interval_to_picos_error:
  assumes "\<bar>sint i\<bar> < 2 ^ 52"
  shows "\<bar>sint (interval_to_picos i) * 65536 - sint i * 1000\<bar> \<le> 32768"
  using assms picos_of_scaled_error [of "\<bar>sint i\<bar>"]
  by (subst interval_to_picos_value) (auto simp: signed_as_def abs_if split: if_splits)

lemma all_timestamps_correct:
  assumes "list_all (\<lambda>t. \<not> is_incorrect t) (take 4 (port_timestamps (INST ppg i)))"
  shows "timestamps_incorrect ec 0xF ppg i = (False, ppg\<lparr> g_errcount := (g_errcount ppg)(ec := 0) \<rparr>)"
    "timestamps_incorrect ec 0x3 ppg i = (False, ppg\<lparr> g_errcount := (g_errcount ppg)(ec := 0) \<rparr>)"
  using assms by (simp_all add: timestamps_incorrect_def is_timestamp_incorrect_thres_def
      is_timestamp_incorrect_def port_timestamps_def numeral_eq_Suc Let_def)

text \<open>The servo after the end-to-end calculation without an asymmetry coefficient.\<close>

definition e2e_servo :: "TimeInterval \<Rightarrow> pp_servo \<Rightarrow> pp_servo" where
  "e2e_servo as servo =
     (let mm = pp_time_sub (pp_time_sub (srv_t4 servo) (srv_t1 servo)) (pp_time_sub (srv_t3 servo) (srv_t2 servo));
          mean = signed_drop_bit 1 (pp_time_to_picos mm);
          ms = picos_to_pp_time (mean + interval_to_picos as)
      in servo\<lparr> srv_delayMM := mm, srv_delayMS := ms, srv_meanDelay := picos_to_pp_time mean,
          srv_offsetFromMaster := pp_time_add (pp_time_sub (srv_t1 servo) (srv_t2 servo)) ms \<rparr>)"

lemma calculate_delays_e2e:
  assumes "i < length (pp_instances ppg)" and "\<not> is_delayMechanismP2P ppg i"
    and "\<not> ac_enable (ppi_asymmetryCorrectionPortDS (INST ppg i))"
    and "list_all (\<lambda>t. \<not> is_incorrect t) (take 4 (port_timestamps (INST ppg i)))"
  shows "\<exists>ppg'. pp_servo_calculate_delays ppg i = (True, ppg') \<and>
    SRV ppg' i = e2e_servo (ac_constantAsymmetry (ppi_asymmetryCorrectionPortDS (INST ppg i))) (SRV ppg i)"
proof -
  have p2p: "\<not> is_delayMechanismP2P (ppg\<lparr> g_errcount := x \<rparr>) i" for x
    using assms(2) by (simp add: is_delayMechanismP2P_def)
  have len: "length (pp_instances (ppg\<lparr> g_errcount := x \<rparr>)) = length (pp_instances ppg)" for x by simp
  show ?thesis
    unfolding pp_servo_calculate_delays_def calculate_e2e_delayMM_def
    using assms(1,3) p2p all_timestamps_correct [OF assms(4)] all_timestamps_correct [of "ppg\<lparr> g_errcount := x \<rparr>" i for x] assms(4)
    by (simp add: Let_def e2e_servo_def)
qed

lemma e2e_servo_values:
  fixes D A \<theta> :: int and servo :: pp_servo
  defines "V \<equiv> time_val"
  assumes norm: "normalized (srv_t1 servo)" "normalized (srv_t2 servo)" "normalized (srv_t3 servo)" "normalized (srv_t4 servo)"
    and secs: "\<bar>sint (secs (srv_t1 servo))\<bar> \<le> 2 ^ 59" "\<bar>sint (secs (srv_t2 servo))\<bar> \<le> 2 ^ 59"
      "\<bar>sint (secs (srv_t3 servo))\<bar> \<le> 2 ^ 59" "\<bar>sint (secs (srv_t4 servo))\<bar> \<le> 2 ^ 59"
    and t2: "V (srv_t2 servo) = V (srv_t1 servo) + D + A + \<theta>" and t4: "V (srv_t4 servo) = V (srv_t3 servo) - \<theta> + D - A"
    and A: "A = sint a" "\<bar>A\<bar> < 2 ^ 50" and D: "\<bar>D\<bar> \<le> 65536000000000 * 1000"
  shows "\<bar>V (srv_offsetFromMaster (e2e_servo a servo)) + \<theta>\<bar> \<le> 115"
    "\<bar>V (srv_meanDelay (e2e_servo a servo)) - D\<bar> \<le> 82"
proof -
  have v: "V (pp_time_sub x y) = V x - V y" "normalized (pp_time_sub x y)" "\<bar>sint (secs (pp_time_sub x y))\<bar> \<le> 2 ^ 61"
    if "normalized x" "normalized y" "\<bar>sint (secs x)\<bar> \<le> 2 ^ 59" "\<bar>sint (secs y)\<bar> \<le> 2 ^ 59" for x y
  proof -
    have *: "time_val (pp_time_sub x y) = time_val x - time_val y \<and> normalized (pp_time_sub x y)"
      using that by (intro pp_time_sub_value) auto
    then show "V (pp_time_sub x y) = V x - V y" "normalized (pp_time_sub x y)" by (simp_all add: V_def)
    have "\<bar>time_val u\<bar> \<le> 2 ^ 59 * 65536000000000 + 65536000000000" if "normalized u" "\<bar>sint (secs u)\<bar> \<le> 2 ^ 59" for u
      using that by (auto simp: time_val_def normalized_def)
    from this [OF that(1,3)] this [OF that(2,4)] normalized_secs [of "pp_time_sub x y"] *
    show "\<bar>sint (secs (pp_time_sub x y))\<bar> \<le> 2 ^ 61" by simp
  qed
  note m = v [OF norm(4,1) secs(4,1)] and s = v [OF norm(3,2) secs(3,2)] and f = v [OF norm(1,2) secs(1,2)]
  define mm where "mm = pp_time_sub (pp_time_sub (srv_t4 servo) (srv_t1 servo)) (pp_time_sub (srv_t3 servo) (srv_t2 servo))"
  have mm: "time_val mm = 2 * D" "normalized mm"
    using pp_time_sub_value [OF m(2) s(2) m(3) s(3)] m(1) s(1) t2 t4 unfolding mm_def V_def by auto
  define ps where "ps = sint (pp_time_to_picos mm)"
  have ps: "\<bar>ps * 65536 - 2 * D * 1000\<bar> \<le> 32768"
    using time_to_picos_error [OF mm(2)] mm(1) D unfolding ps_def by simp
  define mean where "mean = signed_drop_bit 1 (pp_time_to_picos mm)"
  have smean: "sint mean = ps div 2"
    unfolding mean_def ps_def by (simp only: sint_signed_drop_bit_eq) (simp only: drop_bit_eq_div power_one_right)
  then have emean: "\<bar>sint mean * 65536 - D * 1000\<bar> \<le> 49152" using ps by (simp add: abs_le_iff) linarith
  have bmean: "\<bar>sint mean\<bar> < 2 ^ 61" using emean D by simp
  have ea: "\<bar>sint (interval_to_picos a) * 65536 - A * 1000\<bar> \<le> 32768"
    using interval_to_picos_error [of a] A by simp
  then have ba: "\<bar>sint (interval_to_picos a)\<bar> < 2 ^ 61" using A(2) by simp
  have sms: "sint (mean + interval_to_picos a) = sint mean + sint (interval_to_picos a)"
    using bmean ba by (intro sint_small_add_sub) simp
  define ms where "ms = picos_to_pp_time (mean + interval_to_picos a)"
  have ms: "\<bar>time_val ms * 1000 - (sint mean + sint (interval_to_picos a)) * 65536\<bar> \<le> 32768" "normalized ms"
    using picos_to_time_error [of "mean + interval_to_picos a"] sms bmean ba unfolding ms_def by simp_all
  have e: "e2e_servo a servo = servo\<lparr> srv_delayMM := mm, srv_delayMS := ms, srv_meanDelay := picos_to_pp_time mean,
      srv_offsetFromMaster := pp_time_add (pp_time_sub (srv_t1 servo) (srv_t2 servo)) ms \<rparr>"
    unfolding e2e_servo_def Let_def mm_def mean_def ms_def ..
  have ms': "\<bar>time_val ms - (D + A)\<bar> \<le> 115" using ms(1) emean ea by (simp add: abs_le_iff)
  have "\<bar>sint (secs ms)\<bar> \<le> 2 ^ 61" using normalized_secs [OF ms(2)] ms' D A(2) by simp
  with pp_time_add_value [OF f(2) ms(2) f(3)] f(1) t2
  have "V (srv_offsetFromMaster (e2e_servo a servo)) = time_val ms - (D + A) - \<theta>"
    unfolding e V_def by simp
  then show "\<bar>V (srv_offsetFromMaster (e2e_servo a servo)) + \<theta>\<bar> \<le> 115" using ms' by simp
  show "\<bar>V (srv_meanDelay (e2e_servo a servo)) - D\<bar> \<le> 82"
    using picos_to_time_error(1) [of mean] bmean emean unfolding e V_def by simp
qed

definition example_slave :: pp_globals where
  "example_slave = upd_srv 0 (\<lambda>servo. servo\<lparr>
     srv_t1 := \<lparr> secs = 100, scaled_nsecs = 0 \<rparr>, srv_t2 := \<lparr> secs = 100, scaled_nsecs = 98304 \<rparr>,
     srv_t3 := \<lparr> secs = 101, scaled_nsecs = 0 \<rparr>, srv_t4 := \<lparr> secs = 101, scaled_nsecs = 32768 \<rparr> \<rparr>)
     (pp_globals_0 config_default 1)"

lemma example_slave_facts:
  "length (pp_instances example_slave) = 1" "\<not> is_delayMechanismP2P example_slave 0"
  "ppi_asymmetryCorrectionPortDS (INST example_slave 0) = asymmetryCorrectionPortDS_0"
  "port_timestamps (INST example_slave 0) = replicate 6 pp_time_0"
  "SRV example_slave 0 = pp_servo_0\<lparr>
     srv_t1 := \<lparr> secs = 100, scaled_nsecs = 0 \<rparr>, srv_t2 := \<lparr> secs = 100, scaled_nsecs = 98304 \<rparr>,
     srv_t3 := \<lparr> secs = 101, scaled_nsecs = 0 \<rparr>, srv_t4 := \<lparr> secs = 101, scaled_nsecs = 32768 \<rparr> \<rparr>"
proof -
  have len: "0 < length (pp_instances (pp_globals_0 config_default 1))" by (simp add: pp_globals_0_def)
  have s: "ppi_servo (pp_instance_0 config_default) = pp_servo_0"
    "ppi_asymmetryCorrectionPortDS (pp_instance_0 config_default) = asymmetryCorrectionPortDS_0"
    "ppi_delayMechanism (pp_instance_0 config_default) = 0"
    "port_timestamps (pp_instance_0 config_default) = replicate 6 pp_time_0"
    by (simp_all add: pp_instance_0_def port_timestamps_def numeral_eq_Suc)
  show "length (pp_instances example_slave) = 1" by (simp add: example_slave_def pp_globals_0_def)
  show "\<not> is_delayMechanismP2P example_slave 0"
    using len s by (simp add: example_slave_def is_delayMechanismP2P_def INST_0 MECH_P2P_def)
  show "ppi_asymmetryCorrectionPortDS (INST example_slave 0) = asymmetryCorrectionPortDS_0"
    using len s by (simp add: example_slave_def INST_0)
  show "port_timestamps (INST example_slave 0) = replicate 6 pp_time_0"
    using len s by (simp add: example_slave_def INST_0 port_timestamps_def)
  show "SRV example_slave 0 = pp_servo_0\<lparr>
     srv_t1 := \<lparr> secs = 100, scaled_nsecs = 0 \<rparr>, srv_t2 := \<lparr> secs = 100, scaled_nsecs = 98304 \<rparr>,
     srv_t3 := \<lparr> secs = 101, scaled_nsecs = 0 \<rparr>, srv_t4 := \<lparr> secs = 101, scaled_nsecs = 32768 \<rparr> \<rparr>"
    using len s by (simp add: example_slave_def SRV_def INST_0)
qed

section \<open>Properties\<close>

text \<open>
  C24: the 64-bit multiplication by a relative difference computes the reference value, the product of
  the operands divided by \<open>2 ^ 62\<close> and rounded down: no bit of the 128-bit product is lost, for operands below
  \<open>2 ^ 63\<close> of which one is below \<open>2 ^ 62\<close>.
\<close>

theorem mul_relative_difference_equiv:
  assumes "uint op1 < 2 ^ 63" and "uint op2 < 2 ^ 63" and "uint op1 < 2 ^ 62 \<or> uint op2 < 2 ^ 62"
  shows "mulRelativeDifference op1 op2 = word_of_int (uint op1 * uint op2 div 2 ^ 62)"
  using uint_mulRelativeDifference [OF assms] by (metis word_of_int_uint)

theorem mul_relative_difference_equiv_witness:
  "mulRelativeDifference 0x3fffffffffffffff 0x7fffffffffffffff = 0x7ffffffffffffffd"
  using mul_relative_difference_equiv [of "0x3fffffffffffffff" "0x7fffffffffffffff"] by simp

text \<open>
  C27: the asymmetry of a link is the constant asymmetry plus the product of the coefficient and the mean
  delay, rounded towards zero whatever the signs of the two factors are.
\<close>

theorem delay_asymmetry_exact:
  assumes "sint coeff \<noteq> - (2 ^ 63)" and "\<bar>sint delay\<bar> < 2 ^ 61" and "\<bar>sint const\<bar> < 2 ^ 62"
  shows "sint (calculateDelayAsymmetry coeff delay const) =
    sint const + sgn (sint coeff * sint delay) * (\<bar>sint coeff * sint delay\<bar> div 2 ^ 62)"
proof -
  define p where "p = \<bar>sint coeff\<bar> * \<bar>sint delay\<bar> div 2 ^ 62"
  let ?m = "mulRelativeDifference (if sint coeff < 0 then - coeff else coeff) (if sint delay < 0 then - delay else delay)"
  have c: "\<bar>sint coeff\<bar> < 2 ^ 63" using assms(1) sint_range64 [of coeff] by linarith
  have "sint delay \<noteq> - (2 ^ 63)" using assms(2) by auto
  note u = uint_abs_s64 [OF assms(1)] uint_abs_s64 [OF this]
  have "\<bar>sint coeff\<bar> * \<bar>sint delay\<bar> < 2 ^ 63 * 2 ^ 61" using c assms(2) by (intro mult_strict_mono') auto
  then have p: "0 \<le> p" "p < 2 ^ 62"
    unfolding p_def by (simp add: pos_imp_zdiv_nonneg_iff, intro div_less_bound) simp_all
  have "uint ?m = p" unfolding p_def using uint_mulRelativeDifference [of "if sint coeff < 0 then - coeff else coeff"
      "if sint delay < 0 then - delay else delay"] c assms(2) unfolding u by auto
  then have m: "sint ?m = p" using p sint_small_uint [of ?m] by simp
  have s: "sint (const + (if neg then - ?m else ?m)) = sint const + (if neg then - p else p)" for neg
    using m p assms(3) sint_small_add_sub [of const ?m] by (cases neg) (simp_all only: if_True if_False, simp_all)
  have "sgn (sint coeff * sint delay) * p = (if (sint coeff < 0) \<noteq> (sint delay < 0) then - p else p)"
    unfolding sgn_mult by (cases "coeff = 0 \<or> delay = 0") (auto simp: sgn_if p_def)
  then show ?thesis unfolding calculateDelayAsymmetry_def Let_def s by (simp add: p_def abs_mult)
qed

theorem delay_asymmetry_exact_witness:
  "sint (calculateDelayAsymmetry (- 0x2000000000000000) 0x10001 7) = 7 - 0x8000"
  using delay_asymmetry_exact [of "- 0x2000000000000000" "0x10001" 7] by simp

text \<open>
  C26: for every delay coefficient \<open>C\<close> but the least 64-bit number, the expansion of the asymmetry
  coefficient ends.
\<close>

theorem asym_coefficient_terminates:
  assumes "sint delayCoeff \<noteq> - (2 ^ 63)"
  shows "\<exists>r. pp_servo_calculateDelayAsymCoefficient delayCoeff = Some r"
proof -
  let ?c = "if sint delayCoeff < 0 then - delayCoeff else delayCoeff"
  have c: "uint ?c < 2 ^ 63"
    using assms sint_range64 [of delayCoeff] unfolding uint_abs_s64 [OF assms] by linarith
  have h: "signed_drop_bit 1 ?c = drop_bit 1 ?c"
    using sint_small_uint [OF c] uint_ge_0 [of ?c] by (intro signed_drop_bit_nonneg) linarith
  have "uint (drop_bit 1 ?c) < 2 ^ 62" using c by (simp only: uint_drop_bit) auto
  note t = uint_next_term [OF c this]
  have "uint ?c * uint (drop_bit 1 ?c) < 2 ^ 63 * 2 ^ 62"
    using c \<open>uint (drop_bit 1 ?c) < 2 ^ 62\<close> by (intro mult_strict_mono') auto
  then have "uint (drop_bit 1 (mulRelativeDifference ?c (drop_bit 1 ?c))) < 2 ^ 62"
    unfolding t by (intro div_less_bound) simp_all
  from asym_expansion_ends [OF c this] show ?thesis
    unfolding pp_servo_calculateDelayAsymCoefficient_def Let_def h by (metis option.map(2))
qed

theorem asym_coefficient_terminates_witness:
  "\<exists>r. pp_servo_calculateDelayAsymCoefficient (2 ^ 63 - 1) = Some r"
  using asym_coefficient_terminates [of "2 ^ 63 - 1"] by simp

text \<open>
  C25: for a delay coefficient \<open>\<alpha>\<close> of at most 1 in magnitude, scaled by \<open>2 ^ 62\<close>, the result differs from
  \<open>\<alpha> / (\<alpha> + 2)\<close> by at most 65 units of \<open>2 ^ -62\<close>, times \<open>2 / (\<alpha> + 2)\<close>; the statement is cleared of fractions.
\<close>

theorem asym_coefficient_accurate:
  assumes "\<bar>sint delayCoeff\<bar> \<le> 2 ^ 62"
  shows "\<exists>r. pp_servo_calculateDelayAsymCoefficient delayCoeff = Some r \<and>
    \<bar>2 * sint r * (2 ^ 63 + sint delayCoeff) - sint delayCoeff * 2 ^ 63\<bar> \<le> 130 * 2 ^ 63"
proof -
  define neg where "neg = (sint delayCoeff < 0)"
  define c where "c = (if neg then - delayCoeff else delayCoeff)"
  define a where "a = drop_bit 1 c"
  define t where "t = drop_bit 1 (mulRelativeDifference c a)"
  have ne: "sint delayCoeff \<noteq> - (2 ^ 63)" using assms by auto
  have uc: "uint c = \<bar>sint delayCoeff\<bar>" unfolding c_def neg_def by (rule uint_abs_s64 [OF ne])
  then have c: "uint c \<le> 2 ^ 62" using assms by simp
  have h: "signed_drop_bit 1 c = a"
    unfolding a_def using c sint_small_uint [of c] uint_ge_0 [of c] by (intro signed_drop_bit_nonneg) simp
  have ua: "uint a = uint c div 2" unfolding a_def by (simp only: uint_drop_bit power_one_right)
  then have a: "0 \<le> uint a" "uint a \<le> 2 ^ 61" "sint a = uint a" using c sint_small_uint [of a] by auto
  have ut: "uint t = uint c * uint a div 2 ^ 63" unfolding t_def using c a by (intro uint_next_term) auto
  have ca: "uint c * uint a \<le> 2 ^ 62 * 2 ^ 61" using c a by (intro mult_mono) auto
  then have t: "uint t \<le> 2 ^ 60" "uint t < 2 ^ 61" unfolding ut by auto
  obtain r where r: "asym_expansion c neg True t a = Some r" "\<bar>sint r\<bar> < 3 * 2 ^ 61"
    "\<bar>(sint r - sint a) * series_den neg (uint c) - series_sign neg True * uint t * 2 ^ 63\<bar> \<le> (2 + int 61) * 2 ^ 63"
    using asym_expansion_accurate [OF c t(2), of a neg True] a t by auto
  define e where "e = uint c * uint a mod 2 ^ 63"
  define X where "X = (sint r - sint a) * series_den neg (uint c)"
  have e: "0 \<le> e" "e < 2 ^ 63" "uint c * uint a = uint t * 2 ^ 63 + e" unfolding e_def ut by simp_all
  have odd: "2 * uint a \<le> uint c" "uint c \<le> 2 * uint a + 1" unfolding ua by simp_all
  have eq: "sint r * (if neg then 2 ^ 63 - uint c else 2 ^ 63 + uint c) =
      X + uint a * 2 ^ 63 + (if neg then - 1 else 1) * (uint c * uint a)"
    unfolding X_def series_den_def a(3) by (simp add: algebra_simps)
  have "\<bar>2 * (sint r * (if neg then 2 ^ 63 - uint c else 2 ^ 63 + uint c)) - uint c * 2 ^ 63\<bar> \<le> 130 * 2 ^ 63"
    using r(3) e odd unfolding eq X_def [symmetric] by (cases neg) (simp_all add: series_sign_def)
  moreover have "sint (if neg then - r else r) = (if neg then - sint r else sint r)"
    using r(2) by (auto intro: sint_minus_exact)
  ultimately have "\<bar>2 * sint (if neg then - r else r) * (2 ^ 63 + sint delayCoeff) - sint delayCoeff * 2 ^ 63\<bar> \<le> 130 * 2 ^ 63"
    unfolding uc neg_def by (auto simp: abs_if algebra_simps split: if_splits)
  moreover have "pp_servo_calculateDelayAsymCoefficient delayCoeff = Some (if neg then - r else r)"
    unfolding pp_servo_calculateDelayAsymCoefficient_def Let_def neg_def [symmetric] c_def [symmetric] h
      t_def [symmetric] r(1) by simp
  ultimately show ?thesis by blast
qed

theorem asym_coefficient_accurate_witness:
  "\<exists>r. pp_servo_calculateDelayAsymCoefficient (2 ^ 50) = Some r \<and>
    \<bar>2 * sint r * (2 ^ 63 + 2 ^ 50) - 2 ^ 113\<bar> \<le> 130 * 2 ^ 63"
  using asym_coefficient_accurate [of "2 ^ 50"] by simp

text \<open>
  C28: the accumulated drift of the controller stays within the anti-windup limit, and the correction is the
  sum of the proportional and the integral term, each divided towards zero by its gain; the integral
  term alone asks for at most 512000 ppb.
\<close>

theorem pi_controller_bounded:
  assumes "0 < sint ap" and "0 < sint ai" and "\<bar>sint drift\<bar> \<le> 33554432000 * sint ai" and "\<bar>sint sn\<bar> < 2 ^ 61"
  shows "let (drift', adj) = pi_step ap ai drift sn; limit = 33554432000 * sint ai
         in sint drift' = max (- limit) (min limit (sint drift + sint sn)) \<and>
            \<bar>sint drift'\<bar> \<le> limit \<and>
            sint adj = sint sn sdiv sint ap + sint drift' sdiv sint ai \<and>
            \<bar>sint drift' sdiv sint ai\<bar> \<le> 512000 * 2 ^ 16"
proof -
  let ?L = "33554432000 * sint ai" and ?tmp = "push_bit 16 (PP_ADJ_FREQ_MAX * scast ai) :: s64"
  have L: "0 < ?L" "?L < 2 ^ 51" using assms(2) sint_range16(2) [of ai] by simp_all
  have sum: "sint (drift + sn) = sint drift + sint sn"
    using assms(3,4) L by (intro sint_small_add_sub) simp
  have neg: "sint (- ?tmp) = - ?L" using L sint_pi_limit [of ai] by (subst sint_minus_exact) auto
  define d where "d = (if sint (drift + sn) > sint ?tmp then ?tmp else if sint (drift + sn) < sint (- ?tmp) then - ?tmp else drift + sn)"
  have d: "sint d = max (- ?L) (min ?L (sint drift + sint sn))" "\<bar>sint d\<bar> \<le> ?L"
    unfolding d_def sum neg sint_pi_limit using L by (auto simp: sum neg sint_pi_limit)
  have I: "sint (signed_gain d ai) = sint d sdiv sint ai"
    using d(2) L by (intro signed_gain_value assms(2)) auto
  have P: "sint (signed_gain sn ap) = sint sn sdiv sint ap"
    using assms(4) by (intro signed_gain_value assms(1)) auto
  have abs: "\<bar>k sdiv g\<bar> = \<bar>k\<bar> div g" if "0 < g" for k g :: int
    using that by (auto simp: signed_divide_int_def sgn_if pos_imp_zdiv_nonneg_iff abs_mult)
  have Ib: "\<bar>sint d sdiv sint ai\<bar> \<le> 512000 * 2 ^ 16"
    using assms(2) zdiv_mono1 [OF d(2) assms(2)] by (simp add: abs split: if_splits)
  have Pb: "\<bar>sint sn sdiv sint ap\<bar> \<le> \<bar>sint sn\<bar>"
    using assms(1) zdiv_mono2 [of "\<bar>sint sn\<bar>" 1 "sint ap"] by (simp add: abs)
  have adj: "sint (signed_gain sn ap + signed_gain d ai) = sint sn sdiv sint ap + sint d sdiv sint ai"
    using Ib Pb assms(4) I P sint_small_add_sub(1) [of "signed_gain sn ap" "signed_gain d ai"] by simp
  show ?thesis
    unfolding pi_step_def Let_def d_def [symmetric] using d Ib adj by simp
qed

theorem pi_controller_bounded_witness:
  "sint (fst (pi_step 10 1000 0 6553600000)) = 6553600000 \<and>
   sint (snd (pi_step 10 1000 0 6553600000)) = 655360000 + 6553600"
  using pi_controller_bounded [of 10 1000 0 6553600000]
  by (simp add: Let_def case_prod_beta signed_divide_int_def)

text \<open>
  C29: the filter of the mean delay is robust.  Starting from a value that is not negative it never
  becomes negative nor exceeds one second, and its length stays between 1 and \<open>2 ^ s\<close>.  The first sample is
  taken as it is; later, a negative sample leaves the average alone, a sample up to three times the average
  moves it to a value between both, and a larger one at most doubles it (plus two units of \<open>2 ^ -16\<close> ns).
\<close>

theorem mean_delay_filter_robust:
  assumes "0 \<le> sint (fltr_y flt)" and "sint (fltr_y flt) \<le> 65536000000000" and "0 \<le> sint (fltr_s_exp flt)"
    and "\<bar>sint d\<bar> \<le> 65536000000000" and "0 \<le> sint opts_s" and "sint opts_s \<le> 30"
  shows "let flt' = mpd_fltr_step opts_s flt d; y = sint (fltr_y flt); y' = sint (fltr_y flt');
             first = (fltr_s_exp flt = 0)
         in 0 \<le> y' \<and> y' \<le> 65536000000000 \<and>
            1 \<le> sint (fltr_s_exp flt') \<and> sint (fltr_s_exp flt') \<le> 2 ^ nat (sint opts_s) \<and>
            (first \<longrightarrow> y' = max 0 (sint d)) \<and>
            (\<not> first \<and> sint d < 0 \<longrightarrow> y' = y) \<and>
            (\<not> first \<and> 0 \<le> sint d \<and> sint d \<le> 3 * y \<longrightarrow> min y (sint d) \<le> y' \<and> y' \<le> max y (sint d)) \<and>
            (\<not> first \<and> 3 * y < sint d \<longrightarrow> y \<le> y' \<and> y' \<le> 2 * y + 2)"
proof -
  let ?n = "sint (fltr_s_exp flt)" and ?y = "sint (fltr_y flt)"
  define y0 where "y0 = (if ?n < 1 then max 0 (sint d) else ?y)"
  obtain b where b: "b \<le> sint opts_s"
    and n': "sint (fltr_s_exp (mpd_fltr_step opts_s flt d)) = fltr_len b ?n"
    and y': "sint (fltr_y (mpd_fltr_step opts_s flt d)) = fltr_avg y0 (fltr_len b ?n) (fltr_sample y0 (fltr_len b ?n) (sint d))"
    using mpd_fltr_step_value [of flt d opts_s] assms unfolding y0_def by (auto simp: max_def)
  define n'' where "n'' = fltr_len b ?n"
  have "(2 :: int) ^ nat b \<le> 2 ^ nat (sint opts_s)" "(2 :: int) ^ nat (sint opts_s) \<le> 2 ^ 30"
    using b assms(6) by (intro power_increasing; simp)+
  then have n: "1 \<le> n''" "n'' \<le> 2 ^ nat (sint opts_s)" "n'' \<le> 2 ^ 30"
    using fltr_len_bounds [OF assms(3), of b] unfolding n''_def by linarith+
  have first: "fltr_s_exp flt = 0 \<longleftrightarrow> ?n < 1" using assms(3) sint_0_iff [of "fltr_s_exp flt"] by linarith
  have y0: "0 \<le> y0" "y0 \<le> 65536000000000" using assms by (auto simp: y0_def)
  have avg_same: "fltr_avg y0 n'' y0 = y0" using fltr_avg_between [OF n(1), of y0 y0] by simp
  note btw = fltr_avg_between [OF n(1), of y0 "fltr_sample y0 n'' (sint d)"]
  note out = fltr_avg_outlier [OF n(1) y0(1)]
  have "0 \<le> fltr_sample y0 n'' (sint d)" "fltr_sample y0 n'' (sint d) \<le> 65536000000000"
    using y0 n assms(4) by (auto simp: fltr_sample_def Let_def)
  with btw y0 have bounds: "0 \<le> fltr_avg y0 n'' (fltr_sample y0 n'' (sint d))"
      "fltr_avg y0 n'' (fltr_sample y0 n'' (sint d)) \<le> 65536000000000" by linarith+
  have c1: "fltr_avg y0 n'' (fltr_sample y0 n'' (sint d)) = max 0 (sint d)" if "?n < 1"
    using that avg_same by (auto simp: y0_def fltr_sample_def Let_def max_def split: if_splits)
  have c2: "fltr_avg y0 n'' (fltr_sample y0 n'' (sint d)) = ?y" if "\<not> ?n < 1" "sint d < 0"
    using that avg_same assms(1) by (auto simp: y0_def fltr_sample_def Let_def)
  have c3: "min ?y (sint d) \<le> fltr_avg y0 n'' (fltr_sample y0 n'' (sint d)) \<and>
      fltr_avg y0 n'' (fltr_sample y0 n'' (sint d)) \<le> max ?y (sint d)"
    if "\<not> ?n < 1" "0 \<le> sint d" "sint d \<le> 3 * ?y"
    using that btw by (auto simp: y0_def fltr_sample_def Let_def)
  have c4: "?y \<le> fltr_avg y0 n'' (fltr_sample y0 n'' (sint d)) \<and>
      fltr_avg y0 n'' (fltr_sample y0 n'' (sint d)) \<le> 2 * ?y + 2" if "\<not> ?n < 1" "3 * ?y < sint d"
    using that btw out n assms(1) by (auto simp: y0_def fltr_sample_def Let_def)
  show ?thesis
    unfolding Let_def n' y' n''_def [symmetric] first using bounds n c1 c2 c3 c4 by blast
qed

theorem mean_delay_filter_robust_witness:
  "sint (fltr_y (mpd_fltr_step 6 \<lparr> fltr_m = 0, fltr_y = 655360, fltr_s_exp = 9 \<rparr> (- 5))) = 655360 \<and>
   sint (fltr_y (mpd_fltr_step 6 \<lparr> fltr_m = 0, fltr_y = 655360, fltr_s_exp = 9 \<rparr> 65536000000)) \<le> 1310722"
  using mean_delay_filter_robust [of "\<lparr> fltr_m = 0, fltr_y = 655360, fltr_s_exp = 9 \<rparr>" "- 5" 6]
    mean_delay_filter_robust [of "\<lparr> fltr_m = 0, fltr_y = 655360, fltr_s_exp = 9 \<rparr>" 65536000000 6]
  by (simp add: Let_def)

text \<open>
  C1: with the end-to-end mechanism and a link whose delay is \<open>D\<close> and whose asymmetry is the
  configured constant \<open>A\<close>, a slave clock ahead of its master by \<open>\<theta>\<close> computes the offset \<open>- \<theta>\<close> and the mean delay
  \<open>D\<close> with an error below 1.8 ps and 1.3 ps (115 and 82 units of \<open>2 ^ -16\<close> ns), whatever the offset is.
\<close>

theorem offset_from_master_exact:
  assumes "i < length (pp_instances ppg)" and "\<not> is_delayMechanismP2P ppg i"
    and "\<not> ac_enable (ppi_asymmetryCorrectionPortDS (INST ppg i))"
    and "list_all (\<lambda>t. \<not> is_incorrect t) (take 4 (port_timestamps (INST ppg i)))"
    and "servo = SRV ppg i" and "A = sint (ac_constantAsymmetry (ppi_asymmetryCorrectionPortDS (INST ppg i)))"
    and "list_all (\<lambda>t. normalized t \<and> \<bar>sint (secs t)\<bar> \<le> 2 ^ 59) [srv_t1 servo, srv_t2 servo, srv_t3 servo, srv_t4 servo]"
    and "time_val (srv_t2 servo) = time_val (srv_t1 servo) + D + A + \<theta>"
    and "time_val (srv_t4 servo) = time_val (srv_t3 servo) - \<theta> + D - A"
    and "\<bar>A\<bar> < 2 ^ 50" and "\<bar>D\<bar> \<le> 65536000000000 * 1000"
  shows "\<exists>ppg'. pp_servo_calculate_delays ppg i = (True, ppg') \<and>
    \<bar>time_val (srv_offsetFromMaster (SRV ppg' i)) + \<theta>\<bar> \<le> 115 \<and>
    \<bar>time_val (srv_meanDelay (SRV ppg' i)) - D\<bar> \<le> 82"
proof -
  note v = e2e_servo_values [of servo D A \<theta> "ac_constantAsymmetry (ppi_asymmetryCorrectionPortDS (INST ppg i))"]
  show ?thesis using calculate_delays_e2e [OF assms(1-4)] v assms(5-11) by auto
qed

theorem offset_from_master_exact_witness:
  "\<exists>ppg'. pp_servo_calculate_delays example_slave 0 = (True, ppg') \<and>
    \<bar>time_val (srv_offsetFromMaster (SRV ppg' 0)) + 32768\<bar> \<le> 115 \<and>
    \<bar>time_val (srv_meanDelay (SRV ppg' 0)) - 65536\<bar> \<le> 82"
  by (rule offset_from_master_exact [of 0 example_slave "SRV example_slave 0" 0 65536 32768])
    (simp_all add: example_slave_facts asymmetryCorrectionPortDS_0_def normalized_def time_val_def
      pp_time_0_def is_incorrect_iff numeral_eq_Suc)

text \<open>
  C38: with a threshold of at most 117 seconds, a negative offset of at most a second, however small it
  is, never switches the timing output on, and switches it off unless the output is forced: the
  offset in picoseconds is divided as an unsigned number, and its quotient cut to 32 bits is always some
  -140 seconds.  With a forced output nothing is done.
\<close>

theorem negative_offset_disables_output:
  assumes "p = sint (pp_time_to_picos (srv_offsetFromMaster (SRV ppg i)))"
    and "- 1000000000000 \<le> p" and "p < 0"
    and "0 \<le> sint (opt_ptpPpsThresholdMs (rt_opts ppg))" and "sint (opt_ptpPpsThresholdMs (rt_opts ppg)) \<le> 117000"
  shows "control_timing_output ppg i =
    (if opt_forcePpsGen (rt_opts ppg) then ppg else log_event (Ev_enable_timing_output False) ppg)"
proof -
  let ?w = "pp_time_to_picos (srv_offsetFromMaster (SRV ppg i))"
  let ?q = "ucast (quot64 ?w 1000000) :: s32" and ?thr = "opt_ptpPpsThresholdMs (rt_opts ppg) * 1000"
  define t where "t = sint (opt_ptpPpsThresholdMs (rt_opts ppg))"
  have "uint ?w = 2 ^ 64 + p"
    using assms(1,3) uint_range64 [of ?w] sint_eq_uint64 [of ?w] by (auto split: if_splits)
  then have u: "uint (quot64 ?w 1000000) = (2 ^ 64 + p) div 1000000" by (subst uint_quot64) simp_all
  define j where "j = 18446744073709 - (2 ^ 64 + p) div 1000000"
  have j: "0 \<le> j" "j \<le> 1000000"
    using zdiv_mono1 [of "2 ^ 64 - 1000000000000" "2 ^ 64 + p" 1000000] zdiv_mono1 [of "2 ^ 64 + p" "2 ^ 64" 1000000]
      assms(2,3) unfolding j_def by simp_all
  have "sint ?q = signed_take_bit 31 (uint (quot64 ?w 1000000))"
    by (simp add: signed_ucast_eq)
  also have "\<dots> = (18446744073709 - j + 2 ^ 31) mod 2 ^ 32 - 2 ^ 31"
    unfolding u j_def by (simp add: signed_take_bit_eq_take_bit_shift take_bit_eq_mod)
  also have "18446744073709 - j + 2 ^ 31 = (2 ^ 31 - 140462611 - j) + 4295 * 2 ^ 32" by simp
  also have "\<dots> mod 2 ^ 32 = 2 ^ 31 - 140462611 - j"
    using j by (simp only: mod_mult_self1) (simp add: mod_pos_pos_trivial)
  finally have q: "sint ?q = - 140462611 - j" by simp
  have nq: "sint (- ?q) = 140462611 + j" using sint_minus32 [of ?q] q j by simp
  have thr: "sint ?thr = t * 1000" using sint_mult32 [of "opt_ptpPpsThresholdMs (rt_opts ppg)" 1000] assms(4,5) by (simp add: t_def)
  define x where "x = t * 1000 + t * 1000 div 5"
  have fifth: "sint (word_of_int (sint ?thr sdiv 5) :: s32) = t * 1000 div 5"
    using sint_of_int32 [of "t * 1000 div 5"] assms(4,5) unfolding thr by (simp add: signed_divide_int_def t_def sgn_if)
  have x: "sint (?thr + word_of_int (sint ?thr sdiv 5)) = x" "x \<le> 140400000"
    using sint_add32 [of ?thr "word_of_int (sint ?thr sdiv 5)"] fifth thr assms(4,5) by (simp_all add: x_def t_def)
  show ?thesis
    using nq q j assms(5) x thr unfolding control_timing_output_def Let_def by (simp add: t_def)
qed

theorem negative_offset_disables_output_witness:
  "let ppg = upd_srv 0 (\<lambda>servo. servo\<lparr> srv_offsetFromMaster := \<lparr> secs = 0, scaled_nsecs = - 65536 \<rparr> \<rparr>)
       (pp_globals_0 config_default 1)
   in g_events (control_timing_output ppg 0) = g_events ppg @ [Ev_enable_timing_output False]"
proof -
  let ?g = "pp_globals_0 config_default 1"
  let ?ppg = "upd_srv 0 (\<lambda>servo. servo\<lparr> srv_offsetFromMaster := \<lparr> secs = 0, scaled_nsecs = - 65536 \<rparr> \<rparr>) ?g"
  have "0 < length (pp_instances ?g)" by (simp add: pp_globals_0_def)
  then have s: "srv_offsetFromMaster (SRV ?ppg 0) = \<lparr> secs = 0, scaled_nsecs = - 65536 \<rparr>" by simp
  have o': "rt_opts ?ppg = pp_runtime_opts_0" by (simp add: pp_globals_0_def)
  have "sint (pp_time_to_picos \<lparr> secs = 0, scaled_nsecs = - 65536 \<rparr>) = - 1000"
    by (subst pp_time_to_picos_value) (simp_all add: normalized_def time_val_def signed_as_def picos_of_scaled_def)
  then show ?thesis
    unfolding Let_def using negative_offset_disables_output [of "- 1000" ?ppg 0] s o' by (simp add: pp_runtime_opts_0_def)
qed

end
