(* ===== verification/Wrh_Servo.thy ===== *)
theory Wrh_Servo
  imports Servo
begin

text \<open>
  The servo of the White Rabbit and the L1Sync extension (\<^verbatim>\<open>proto-ext-common/wrh-servo.c\<close>): it sets the
  seconds, then the ticks, then the phase of the clock, waits until the offset is stable and tracks
  the phase from then on.  The locks of the shared memory and the fault injection are left out.
\<close>

section \<open>State of the servo\<close>

definition WRH_UNINITIALIZED :: u8 where "WRH_UNINITIALIZED = 0"
definition WRH_SYNC_TAI :: u8 where "WRH_SYNC_TAI = 1"
definition WRH_SYNC_NSEC :: u8 where "WRH_SYNC_NSEC = 2"
definition WRH_SYNC_PHASE :: u8 where "WRH_SYNC_PHASE = 3"
definition WRH_TRACK_PHASE :: u8 where "WRH_TRACK_PHASE = 4"
definition WRH_WAIT_OFFSET_STABLE :: u8 where "WRH_WAIT_OFFSET_STABLE = 5"

lemmas wrh_state_defs = WRH_UNINITIALIZED_def WRH_SYNC_TAI_def WRH_SYNC_NSEC_def WRH_SYNC_PHASE_def
  WRH_TRACK_PHASE_def WRH_WAIT_OFFSET_STABLE_def

definition WRH_SPLL_LOCKED :: s32 where "WRH_SPLL_LOCKED = 0"
definition WRH_SERVO_OFFSET_STABILITY_THRESHOLD :: s32 where "WRH_SERVO_OFFSET_STABILITY_THRESHOLD = 60"
definition SNMP_MAX_OFFSET_PS :: s32 where "SNMP_MAX_OFFSET_PS = 500"
definition SNMP_MAX_DELTA_RTT_PS :: s32 where "SNMP_MAX_DELTA_RTT_PS = 1000"
definition PP_SERVO_FLAG_WAIT_HW :: u8 where "PP_SERVO_FLAG_WAIT_HW = push_bit 1 1"

definition WRH_SRV :: "pp_globals \<Rightarrow> nat \<Rightarrow> wrh_servo" where
  "WRH_SRV ppg i = ppi_wrh_servo (INST ppg i)"

definition upd_wrh :: "nat \<Rightarrow> (wrh_servo \<Rightarrow> wrh_servo) \<Rightarrow> pp_globals \<Rightarrow> pp_globals" where
  "upd_wrh i f = upd_inst i (\<lambda>ppi. ppi\<lparr> ppi_wrh_servo := f (ppi_wrh_servo ppi) \<rparr>)"

text \<open>The members from the clock period on are cleared; the error counters and the set point stay.\<close>

definition WRH_SERVO_RESET_DATA :: "wrh_servo \<Rightarrow> wrh_servo" where
  "WRH_SERVO_RESET_DATA s = s\<lparr> wrh_clock_period_ps := 0, wrh_tracking := False, wrh_readyForSync := False,
     wrh_doRestart := False, wrh_delayMM_ps := 0, wrh_delayMS_ps := 0, wrh_skew_ps := 0, wrh_offsetMS_ps := 0,
     wrh_prev_delayMS_ps := 0, wrh_missed_iters := 0 \<rparr>"

definition setState :: "nat \<Rightarrow> u8 \<Rightarrow> pp_globals \<Rightarrow> pp_globals" where
  "setState i s = upd_srv i (\<lambda>servo. servo\<lparr> srv_state := s \<rparr>)"

definition wrh_servo_enable_tracking :: "bool \<Rightarrow> pp_globals \<Rightarrow> pp_globals" where
  "wrh_servo_enable_tracking enable ppg = ppg\<lparr> wrh_tracking_enabled := enable \<rparr>"

section \<open>Initialisation and reset\<close>

definition trim_setpoint :: "wrh_servo \<Rightarrow> wrh_servo" where
  "trim_setpoint s =
     (if sint (wrh_cur_setpoint_ps s) > sint (wrh_clock_period_ps s)
      then s\<lparr> wrh_cur_setpoint_ps := word_of_int (sint (wrh_cur_setpoint_ps s) smod sint (wrh_clock_period_ps s)) \<rparr>
      else s)"

definition wrh_servo_init :: "platform \<Rightarrow> pp_globals \<Rightarrow> nat \<Rightarrow> s32 \<times> pp_globals" where
  "wrh_servo_init P ppg i =
     (let ppg = pp_servo_init P ppg i;
          ppg = upd_wrh i (\<lambda>s. trim_setpoint ((WRH_SERVO_RESET_DATA s)\<lparr> wrh_clock_period_ps := w_get_clock_period P \<rparr>)) ppg;
          ppg = log_event (Ev_adjust_phase (wrh_cur_setpoint_ps (WRH_SRV ppg i))) ppg;
          ppg = upd_srv i (\<lambda>gs. gs\<lparr> srv_flags := srv_flags gs OR PP_SERVO_FLAG_VALID \<rparr>) ppg;
          ppg = upd_srv i (\<lambda>gs. gs\<lparr> srv_update_time := t_get P ppg i \<rparr>) ppg;
          ppg = upd_wrh i (\<lambda>s. s\<lparr> wrh_tracking := wrh_tracking_enabled ppg \<rparr>) ppg
      in (0, setState i WRH_SYNC_TAI ppg))"

definition wrh_servo_reset :: "pp_globals \<Rightarrow> nat \<Rightarrow> pp_globals" where
  "wrh_servo_reset ppg i =
     (if ppi_extState (INST ppg i) = PP_EXSTATE_ACTIVE
      then setState i WRH_UNINITIALIZED (upd_wrh i WRH_SERVO_RESET_DATA
             (upd_inst i (\<lambda>ppi. ppi\<lparr> ppi_flags := 0 \<rparr>) ppg))
      else ppg)"

section \<open>Update\<close>

text \<open>The absolute value of an int; a 64-bit argument is cut to an int first.\<close>

definition abs32 :: "s32 \<Rightarrow> s32" where
  "abs32 x = (if sint x < 0 then - x else x)"

definition wait_hw :: "nat \<Rightarrow> pp_globals \<Rightarrow> pp_globals" where
  "wait_hw i = upd_srv i (\<lambda>gs. gs\<lparr> srv_flags := srv_flags gs OR PP_SERVO_FLAG_WAIT_HW \<rparr>)"

text \<open>The results of the delays and offset in picoseconds and the update of the servo.\<close>

definition wrh_take_delays :: "platform \<Rightarrow> pp_globals \<Rightarrow> nat \<Rightarrow> pp_globals" where
  "wrh_take_delays P ppg i =
     (let gs = SRV ppg i;
          ppg = upd_wrh i (\<lambda>s. s\<lparr> wrh_delayMM_ps := pp_time_to_picos (srv_delayMM gs),
                  wrh_delayMS_ps := pp_time_to_picos (srv_delayMS gs),
                  wrh_offsetMS_ps := pp_time_to_picos (srv_offsetFromMaster gs),
                  wrh_tracking := wrh_tracking_enabled ppg \<rparr>) ppg;
          ppg = upd_srv i (\<lambda>gs. gs\<lparr> srv_update_count := srv_update_count gs + 1 \<rparr>) ppg
      in upd_srv i (\<lambda>gs. gs\<lparr> srv_update_time := t_get P ppg i \<rparr>) ppg)"

text \<open>The offset in ticks and picoseconds, not set when the seconds are off or the period is not positive.\<close>

definition offset_parts :: "platform \<Rightarrow> pp_globals \<Rightarrow> nat \<Rightarrow> s32 \<times> s32" where
  "offset_parts P ppg i =
     (let offsetMS = srv_offsetFromMaster (SRV ppg i)
      in if secs offsetMS \<noteq> 0 then mem_locals P
         else case pp_time_hardwarize offsetMS (wrh_clock_period_ps (WRH_SRV ppg i)) of
                Some parts \<Rightarrow> parts | None \<Rightarrow> mem_locals P)"

text \<open>The state to act in: whole seconds first, then ticks, then the sequence of the states.\<close>

definition wrh_choose_state :: "platform \<Rightarrow> pp_globals \<Rightarrow> nat \<Rightarrow> pp_globals" where
  "wrh_choose_state P ppg i =
     (if secs (srv_offsetFromMaster (SRV ppg i)) \<noteq> 0 then setState i WRH_SYNC_TAI ppg
      else if fst (offset_parts P ppg i) \<noteq> 0 then setState i WRH_SYNC_NSEC ppg
      else ppg)"

definition wrh_sync_phase :: "s32 \<Rightarrow> pp_globals \<Rightarrow> nat \<Rightarrow> pp_globals" where
  "wrh_sync_phase offset_ps ppg i =
     (let ppg = upd_wrh i (\<lambda>s. s\<lparr> wrh_cur_setpoint_ps := wrh_cur_setpoint_ps s + offset_ps \<rparr>) ppg;
          ppg = log_event (Ev_adjust_phase (wrh_cur_setpoint_ps (WRH_SRV ppg i))) ppg
      in setState i WRH_WAIT_OFFSET_STABLE (wait_hw i ppg))"

definition wrh_wait_stable :: "pp_globals \<Rightarrow> nat \<Rightarrow> pp_globals" where
  "wrh_wait_stable ppg i =
     (let remaining_offset = abs32 (ucast (pp_time_to_picos (srv_offsetFromMaster (SRV ppg i))));
          ppg = (if sint remaining_offset < sint WRH_SERVO_OFFSET_STABILITY_THRESHOLD
                 then setState i WRH_TRACK_PHASE (upd_wrh i (\<lambda>s. s\<lparr> wrh_prev_delayMS_ps := wrh_delayMS_ps s \<rparr>)
                        (log_event (Ev_enable_timing_output True) ppg))
                 else upd_wrh i (\<lambda>s. s\<lparr> wrh_missed_iters := wrh_missed_iters s + 1 \<rparr>) ppg)
      in if sint (wrh_missed_iters (WRH_SRV ppg i)) \<ge> 10
         then setState i WRH_SYNC_PHASE (upd_wrh i (\<lambda>s. s\<lparr> wrh_missed_iters := 0 \<rparr>) ppg)
         else ppg)"

definition wrh_track_phase :: "s32 \<Rightarrow> pp_globals \<Rightarrow> nat \<Rightarrow> pp_globals" where
  "wrh_track_phase offset_ps ppg i =
     (let ppg = upd_wrh i (\<lambda>s. s\<lparr> wrh_skew_ps := wrh_delayMS_ps s - wrh_prev_delayMS_ps s \<rparr>) ppg
      in if wrh_tracking_enabled ppg
         then if sint (abs32 offset_ps) > 2 * sint WRH_SERVO_OFFSET_STABILITY_THRESHOLD
              then setState i WRH_SYNC_PHASE ppg
              else let ppg = upd_wrh i (\<lambda>s. s\<lparr> wrh_cur_setpoint_ps :=
                           wrh_cur_setpoint_ps s + word_of_int (sint offset_ps sdiv 4) \<rparr>) ppg;
                       ppg = log_event (Ev_adjust_phase (wrh_cur_setpoint_ps (WRH_SRV ppg i))) ppg
                   in upd_wrh i (\<lambda>s. s\<lparr> wrh_prev_delayMS_ps := wrh_delayMS_ps s \<rparr>) ppg
         else ppg)"

definition wrh_act :: "platform \<Rightarrow> s32 \<times> s32 \<Rightarrow> pp_globals \<Rightarrow> nat \<Rightarrow> pp_globals" where
  "wrh_act P parts ppg i =
     (let st = srv_state (SRV ppg i)
      in if st = WRH_SYNC_TAI
         then setState i WRH_SYNC_PHASE (wait_hw i
                (log_event (Ev_adjust_counters (secs (srv_offsetFromMaster (SRV ppg i))) 0) ppg))
         else if st = WRH_SYNC_NSEC
         then setState i WRH_SYNC_PHASE (wait_hw i (log_event (Ev_adjust_counters 0 (fst parts)) ppg))
         else if st = WRH_SYNC_PHASE then wrh_sync_phase (snd parts) ppg i
         else if st = WRH_WAIT_OFFSET_STABLE then wrh_wait_stable ppg i
         else if st = WRH_TRACK_PHASE then wrh_track_phase (snd parts) ppg i
         else ppg)"

text \<open>The lock flag and the counters for the monitoring.\<close>

definition wrh_account :: "s64 \<Rightarrow> pp_globals \<Rightarrow> nat \<Rightarrow> pp_globals" where
  "wrh_account prev_delayMM_ps ppg i =
     (let track = srv_state (SRV ppg i) = WRH_TRACK_PHASE;
          ppg = upd_srv i (\<lambda>gs. gs\<lparr> srv_servo_locked := track \<rparr>) ppg
      in upd_wrh i (\<lambda>s. s\<lparr>
           wrh_n_err_state := wrh_n_err_state s + (if \<not> track then 1 else 0),
           wrh_n_err_offset := wrh_n_err_offset s +
             (if sint (abs32 (ucast (wrh_offsetMS_ps s))) > sint SNMP_MAX_OFFSET_PS then 1 else 0),
           wrh_n_err_delta_rtt := wrh_n_err_delta_rtt s +
             (if sint (abs32 (ucast (prev_delayMM_ps - wrh_delayMM_ps s))) > sint SNMP_MAX_DELTA_RTT_PS then 1 else 0) \<rparr>) ppg)"

definition wrh_servo_update :: "platform \<Rightarrow> pp_globals \<Rightarrow> nat \<Rightarrow> bool \<times> pp_globals" where
  "wrh_servo_update P ppg i =
     (if srv_state (SRV ppg i) = WRH_UNINITIALIZED then (False, ppg)
      else let prev_delayMM_ps = wrh_delayMM_ps (WRH_SRV ppg i);
               (ok, ppg) = pp_servo_calculate_delays ppg i
      in if \<not> ok then (False, ppg)
      else let ppg = wrh_take_delays P ppg i
      in if \<not> wrh_readyForSync (WRH_SRV ppg i) then (True, ppg)
      else if w_locking_poll P ppg i \<noteq> WRH_SPLL_LOCKED
      then (False, upd_wrh i (\<lambda>s. s\<lparr> wrh_doRestart := True \<rparr>) ppg)
      else if w_adjust_in_progress P ppg then (True, ppg)
      else let ppg = upd_srv i (\<lambda>gs. gs\<lparr> srv_flags := srv_flags gs AND NOT PP_SERVO_FLAG_WAIT_HW \<rparr>) ppg;
               parts = offset_parts P ppg i;
               ppg = wrh_act P parts (wrh_choose_state P ppg i) i
           in (True, wrh_account prev_delayMM_ps ppg i))"

section \<open>Timestamps\<close>

definition wrh_servo_got_sync :: "platform \<Rightarrow> pp_globals \<Rightarrow> nat \<Rightarrow> pp_globals" where
  "wrh_servo_got_sync P ppg i =
     (let ppi = INST ppg i;
          ppg = upd_srv i (\<lambda>gs. gs\<lparr> srv_t1 := ppi_t1 ppi, srv_t2 := ppi_t2 ppi \<rparr>) ppg
      in if is_delayMechanismP2P ppg i \<and> srv_got_sync (SRV ppg i)
         then snd (wrh_servo_update P (upd_srv i (\<lambda>gs. gs\<lparr> srv_got_sync := False \<rparr>) ppg) i)
         else upd_srv i (\<lambda>gs. gs\<lparr> srv_got_sync := True \<rparr>) ppg)"

definition wrh_servo_got_resp :: "platform \<Rightarrow> pp_globals \<Rightarrow> nat \<Rightarrow> bool \<times> pp_globals" where
  "wrh_servo_got_resp P ppg i =
     (if \<not> srv_got_sync (SRV ppg i) then (False, ppg)
      else let ppg = upd_srv i (\<lambda>gs. gs\<lparr> srv_got_sync := False \<rparr>) ppg;
               (bad, ppg) = timestamps_incorrect EC_wrh_got_resp 0xC ppg i
           in if bad then (False, ppg)
              else let ppi = INST ppg i
                   in wrh_servo_update P (upd_srv i (\<lambda>gs. gs\<lparr> srv_t3 := ppi_t3 ppi, srv_t4 := ppi_t4 ppi \<rparr>) ppg) i)"

definition wrh_servo_got_presp :: "pp_globals \<Rightarrow> nat \<Rightarrow> bool \<times> pp_globals" where
  "wrh_servo_got_presp ppg i =
     (let (bad, ppg) = timestamps_incorrect EC_wrh_got_presp 0x3C ppg i
      in if bad then (False, ppg)
         else let ppi = INST ppg i
              in (True, upd_srv i (\<lambda>gs. gs\<lparr> srv_t3 := ppi_t3 ppi, srv_t4 := ppi_t4 ppi,
                          srv_t5 := ppi_t5 ppi, srv_t6 := ppi_t6 ppi, srv_got_sync := True \<rparr>) ppg))"

section \<open>Locking\<close>

lemma SRV_upd [simp]:
  "i < length (pp_instances ppg) \<Longrightarrow> SRV (upd_srv i f ppg) i = f (SRV ppg i)"
  "SRV (upd_wrh i g ppg) i = SRV ppg i" "SRV (log_event ev ppg) i = SRV ppg i"
  "i < length (pp_instances ppg) \<Longrightarrow> WRH_SRV (upd_wrh i g ppg) i = g (WRH_SRV ppg i)"
  "WRH_SRV (upd_srv i f ppg) i = WRH_SRV ppg i" "WRH_SRV (log_event ev ppg) i = WRH_SRV ppg i"
  by (cases "i < length (pp_instances ppg)";
      simp add: SRV_def WRH_SRV_def upd_srv_def upd_wrh_def upd_inst_beyond)+

lemma length_upd [simp]:
  "length (pp_instances (upd_srv i f ppg)) = length (pp_instances ppg)"
  "length (pp_instances (upd_wrh i g ppg)) = length (pp_instances ppg)"
  "g_events (upd_srv i f ppg) = g_events ppg" "g_events (upd_wrh i g ppg) = g_events ppg"
  by (simp_all add: upd_srv_def upd_wrh_def)

lemma length_setState [simp]:
  "length (pp_instances (setState i s ppg)) = length (pp_instances ppg)"
  "g_events (setState i s ppg) = g_events ppg" "WRH_SRV (setState i s ppg) i = WRH_SRV ppg i"
  "i < length (pp_instances ppg) \<Longrightarrow> SRV (setState i s ppg) i = (SRV ppg i)\<lparr> srv_state := s \<rparr>"
  by (simp_all add: setState_def)

lemma update_meanDelay_kept:
  "i < length (pp_instances ppg) \<Longrightarrow> SRV (update_meanDelay ppg i md) i = SRV ppg i"
  "i < length (pp_instances ppg) \<Longrightarrow> WRH_SRV (update_meanDelay ppg i md) i = WRH_SRV ppg i"
  "length (pp_instances (update_meanDelay ppg i md)) = length (pp_instances ppg)"
  "g_events (update_meanDelay ppg i md) = g_events ppg"
  unfolding update_meanDelay_def update_meanDelay_p2p_def set_cur_meanDelay_def Let_def
  by (simp_all add: SRV_def WRH_SRV_def)

lemma delayMM_state:
  "i < length (pp_instances ppg) \<Longrightarrow> srv_state (SRV (snd (calculate_p2p_delayMM ppg i)) i) = srv_state (SRV ppg i)"
  "i < length (pp_instances ppg) \<Longrightarrow> srv_state (SRV (snd (calculate_e2e_delayMM ppg i)) i) = srv_state (SRV ppg i)"
  "WRH_SRV (snd (calculate_p2p_delayMM ppg i)) i = WRH_SRV ppg i"
  "WRH_SRV (snd (calculate_e2e_delayMM ppg i)) i = WRH_SRV ppg i"
  "length (pp_instances (snd (calculate_p2p_delayMM ppg i))) = length (pp_instances ppg)"
  "length (pp_instances (snd (calculate_e2e_delayMM ppg i))) = length (pp_instances ppg)"
  unfolding calculate_p2p_delayMM_def calculate_e2e_delayMM_def timestamps_incorrect_def Let_def case_prod_beta
  by (simp_all, simp_all add: SRV_def WRH_SRV_def INST_def upd_srv_def)

lemma calculate_delays_state:
  assumes "i < length (pp_instances ppg)"
  shows "srv_state (SRV (snd (pp_servo_calculate_delays ppg i)) i) = srv_state (SRV ppg i) \<and>
    WRH_SRV (snd (pp_servo_calculate_delays ppg i)) i = WRH_SRV ppg i \<and>
    length (pp_instances (snd (pp_servo_calculate_delays ppg i))) = length (pp_instances ppg)"
proof -
  define a where "a = snd (timestamps_incorrect EC_calculate_delays 0x3 ppg i)"
  have a: "SRV a i = SRV ppg i" "WRH_SRV a i = WRH_SRV ppg i" "length (pp_instances a) = length (pp_instances ppg)"
    by (simp_all add: a_def timestamps_incorrect_def case_prod_beta SRV_def WRH_SRV_def INST_def)
  define b where "b = snd (if is_delayMechanismP2P a i then calculate_p2p_delayMM a i else calculate_e2e_delayMM a i)"
  have b: "srv_state (SRV b i) = srv_state (SRV ppg i)" "WRH_SRV b i = WRH_SRV ppg i" "length (pp_instances b) = length (pp_instances ppg)"
    using delayMM_state [where i = i and ppg = a] a assms by (simp_all add: b_def)
  have u: "SRV (upd_inst i (\<lambda>ppi. ppi\<lparr> ppi_portDS := f ppi \<rparr>) c) i = SRV c i"
      "WRH_SRV (upd_inst i (\<lambda>ppi. ppi\<lparr> ppi_portDS := f ppi \<rparr>) c) i = WRH_SRV c i" for f c
    by (cases "i < length (pp_instances c)"; simp add: SRV_def WRH_SRV_def upd_inst_beyond)+
  have s: "SRV (c\<lparr> g_currentDS := d \<rparr>) i = SRV c i" "WRH_SRV (c\<lparr> g_currentDS := d \<rparr>) i = WRH_SRV c i" for c d
    by (simp_all add: SRV_def WRH_SRV_def INST_def)
  show ?thesis
    unfolding pp_servo_calculate_delays_def Let_def case_prod_beta a_def [symmetric] b_def [symmetric]
    using a b assms by (simp add: update_meanDelay_kept u s)
qed

lemma sint_cut: "sint (ucast (w :: s64) :: s32) = signed_take_bit 31 (sint w)"
proof -
  have "sint (ucast w :: s32) = signed_take_bit 31 (uint w)" by (simp add: signed_ucast_eq)
  also have "\<dots> = signed_take_bit 31 (sint w)" by (simp add: sint_uint)
  finally show ?thesis .
qed

lemma sint_cut_exact: "\<bar>sint (w :: s64)\<bar> < 2 ^ 31 \<Longrightarrow> sint (ucast w :: s32) = sint w"
  unfolding sint_cut by (intro signed_take_bit_int_eq_self) auto

lemma abs32_exact: "\<bar>sint (w :: s64)\<bar> < 2 ^ 31 \<Longrightarrow> sint (abs32 (ucast w)) = \<bar>sint w\<bar>"
  using sint_minus32 [of "ucast w"] sint_cut_exact [of w] by (simp add: abs32_def)

text \<open>An offset below a second without whole ticks is less than a period and 1000 ps.\<close>

lemma hardwarize_no_ticks:
  assumes "normalized t" and "secs t = 0" and "0 < sint p" and "pp_time_hardwarize t p = Some (0, q)"
  shows "\<bar>sint (pp_time_to_picos t)\<bar> < sint p + 1000"
proof -
  define x where "x = picos_of_scaled \<bar>sint (scaled_nsecs t)\<bar>"
  have n: "\<bar>sint (scaled_nsecs t)\<bar> \<le> 65536000000000" using assms(1) by (simp add: normalized_def)
  have x: "0 \<le> x" "x \<le> 1000000000000"
    using n zdiv_mono1 [of "\<bar>sint (scaled_nsecs t)\<bar> * 1000 + 32768" "65536000000000 * 1000 + 32768" 65536]
    by (simp_all add: x_def picos_of_scaled_def)
  have abs: "\<bar>sint (pp_time_to_picos t)\<bar> = x"
    using pp_time_to_picos_value [OF assms(1)] assms(2) x(1) by (simp add: signed_as_def x_def)
  define sn where "sn = scaled_nsecs t * (if sint (scaled_nsecs t) < 0 then - 1 else 1)"
  have sn: "uint sn = \<bar>sint (scaled_nsecs t)\<bar>" unfolding sn_def using n by (intro uint_abs64) auto
  define ps where "ps = drop_bit 16 (sn * 1000 + TIME_ROUNDING_VALUE)"
  have ps: "uint ps = x" unfolding ps_def x_def sn [symmetric] by (rule round_scaled) (use n sn in simp)
  have p: "uint p = sint p" "sint p < 2 ^ 31" "p \<noteq> 0" 
    using assms(3) sint_lt [of p] by (auto simp: uint_sint take_bit_int_eq_self)
  define adj where "adj = quot64 ps p * scast p"
  have "uint (scast p :: u64) = take_bit 64 (sint p)" by transfer simp
  then have sp: "uint (scast p :: u64) = sint p" using p assms(3) by (simp add: take_bit_int_eq_self)
  have q: "uint (quot64 ps p) = x div sint p" using p by (simp add: uint_quot64 ps)
  have le: "x div sint p * sint p \<le> x" using assms(3) by (simp add: div_mult_mod_eq minus_mod_eq_div_mult [symmetric])
  have adj: "uint adj = x div sint p * sint p"
    unfolding adj_def using le x by (subst uint_mult_exact) (simp_all add: q sp)
  define k where "k = x div sint p * sint p div 1000"
  have k: "uint (quot64 adj 1000) = k" by (subst uint_quot64) (simp_all add: adj k_def)
  have k0: "0 \<le> k" "k \<le> 1000000000"
    using zdiv_mono1 [OF order.trans [OF le x(2)], of 1000] x(1) assms(3) by (simp_all add: k_def pos_imp_zdiv_nonneg_iff)
  have "(ucast (quot64 adj 1000) :: s32) = 0"
    using assms(3,4) unfolding pp_time_hardwarize_def Let_def sn_def [symmetric]
    by (simp add: adj_def ps_def time_consts split: if_splits)
  then have "uint (ucast (quot64 adj 1000) :: s32) = 0" by simp
  then have "k = 0" using k k0 by (simp add: unsigned_ucast_eq take_bit_int_eq_self)
  then have "x div sint p * sint p < 1000" using k0 by (simp add: k_def) 
  moreover have "x < x div sint p * sint p + sint p"
    using assms(3) by (metis add_less_cancel_left div_mult_mod_eq pos_mod_bound)
  ultimately show ?thesis unfolding abs by simp
qed

text \<open>Acting in a state other than the waiting one does not lead to tracking.\<close>

lemma wrh_act_tracks:
  assumes i: "i < length (pp_instances ppg)"
    and new: "srv_state (SRV (wrh_act P parts (wrh_choose_state P ppg i) i) i) = WRH_TRACK_PHASE"
    and old: "srv_state (SRV ppg i) \<noteq> WRH_TRACK_PHASE"
  shows "srv_state (SRV ppg i) = WRH_WAIT_OFFSET_STABLE \<and> secs (srv_offsetFromMaster (SRV ppg i)) = 0 \<and>
    fst (offset_parts P ppg i) = 0 \<and> wrh_choose_state P ppg i = ppg \<and>
    wrh_act P parts ppg i = wrh_wait_stable ppg i"
proof -
  define e where "e = wrh_choose_state P ppg i"
  have le: "i < length (pp_instances e)" using i by (simp add: e_def wrh_choose_state_def)
  have "srv_state (SRV e i) = WRH_WAIT_OFFSET_STABLE \<or> srv_state (SRV e i) = WRH_TRACK_PHASE"
    using new le unfolding e_def [symmetric] wrh_act_def Let_def wrh_sync_phase_def wait_hw_def
    by (auto simp: wrh_state_defs split: if_splits)
  then have "e = ppg" "secs (srv_offsetFromMaster (SRV ppg i)) = 0" "fst (offset_parts P ppg i) = 0"
    using i unfolding e_def wrh_choose_state_def by (auto simp: wrh_state_defs split: if_splits)
  with \<open>srv_state (SRV e i) = WRH_WAIT_OFFSET_STABLE \<or> srv_state (SRV e i) = WRH_TRACK_PHASE\<close> old
  show ?thesis by (auto simp: e_def [symmetric] wrh_act_def wrh_state_defs)
qed

lemma wait_stable_tracks:
  assumes "i < length (pp_instances ppg)" and "srv_state (SRV ppg i) = WRH_WAIT_OFFSET_STABLE"
    and "srv_state (SRV (wrh_wait_stable ppg i) i) = WRH_TRACK_PHASE"
  shows "sint (abs32 (ucast (pp_time_to_picos (srv_offsetFromMaster (SRV ppg i))))) < 60 \<and>
    g_events (wrh_wait_stable ppg i) = g_events ppg @ [Ev_enable_timing_output True]"
  using assms unfolding wrh_wait_stable_def Let_def
  by (auto simp: wrh_state_defs WRH_SERVO_OFFSET_STABILITY_THRESHOLD_def split: if_splits)

text \<open>
  C12: the servo declares lock only when it has earned it.  An update that enters phase tracking started in the
  state that waits for a stable offset, found the PLL locked, the hardware idle and synchronisation allowed, and
  left an offset from the master below 60 ps; it then switches the timing output on and sets the lock flag.
  The clock period is positive and below \<open>2 ^ 30\<close> ps and the offset a normalized time.
\<close>

theorem servo_locks_when_stable:
  assumes "i < length (pp_instances ppg)" and "srv_state (SRV ppg i) \<noteq> WRH_TRACK_PHASE"
    and "wrh_servo_update P ppg i = (r, ppg')" and "srv_state (SRV ppg' i) = WRH_TRACK_PHASE"
    and "0 < sint (wrh_clock_period_ps (WRH_SRV ppg i))" and "sint (wrh_clock_period_ps (WRH_SRV ppg i)) < 2 ^ 30"
    and "normalized (srv_offsetFromMaster (SRV ppg' i))"
  shows "let c = wrh_take_delays P (snd (pp_servo_calculate_delays ppg i)) i; ofm = srv_offsetFromMaster (SRV ppg' i)
    in r \<and> srv_state (SRV ppg i) = WRH_WAIT_OFFSET_STABLE \<and> wrh_readyForSync (WRH_SRV c i) \<and>
       w_locking_poll P c i = WRH_SPLL_LOCKED \<and> \<not> w_adjust_in_progress P c \<and>
       secs ofm = 0 \<and> \<bar>sint (pp_time_to_picos ofm)\<bar> < 60 \<and>
       g_events ppg' = g_events c @ [Ev_enable_timing_output True] \<and> srv_servo_locked (SRV ppg' i)"
proof -
  define c where "c = wrh_take_delays P (snd (pp_servo_calculate_delays ppg i)) i"
  define d where "d = upd_srv i (\<lambda>gs. gs\<lparr> srv_flags := srv_flags gs AND NOT PP_SERVO_FLAG_WAIT_HW \<rparr>) c"
  note calc = calculate_delays_state [OF assms(1)]
  have c: "srv_state (SRV c i) = srv_state (SRV ppg i)" "wrh_clock_period_ps (WRH_SRV c i) = wrh_clock_period_ps (WRH_SRV ppg i)"
      "i < length (pp_instances c)"
    using calc assms(1) by (simp_all add: c_def wrh_take_delays_def Let_def)
  have d: "srv_state (SRV d i) = srv_state (SRV ppg i)" "WRH_SRV d i = WRH_SRV c i" "i < length (pp_instances d)"
      "srv_offsetFromMaster (SRV d i) = srv_offsetFromMaster (SRV c i)" "g_events d = g_events c"
    using c by (simp_all add: d_def)
  define e where "e = wrh_act P (offset_parts P d i) (wrh_choose_state P d i) i"
  have "srv_state (SRV (snd (wrh_servo_update P ppg i)) i) = WRH_TRACK_PHASE" using assms(3,4) by simp
  then have run: "r" "ppg' = wrh_account (wrh_delayMM_ps (WRH_SRV ppg i)) e i" "wrh_readyForSync (WRH_SRV c i)"
      "w_locking_poll P c i = WRH_SPLL_LOCKED" "\<not> w_adjust_in_progress P c"
    using assms(2,3) c(1) calc unfolding wrh_servo_update_def Let_def case_prod_beta c_def [symmetric] d_def [symmetric] e_def [symmetric]
    by (auto split: if_splits)
  have le: "length (pp_instances e) = length (pp_instances d)"
    by (simp add: e_def wrh_act_def wrh_choose_state_def Let_def wrh_sync_phase_def wrh_wait_stable_def wrh_track_phase_def wait_hw_def)
  then have p: "SRV ppg' i = (SRV e i)\<lparr> srv_servo_locked := srv_state (SRV e i) = WRH_TRACK_PHASE \<rparr>" "g_events ppg' = g_events e"
    using d(3) by (simp_all add: run(2) wrh_account_def Let_def)
  then have e: "srv_state (SRV e i) = WRH_TRACK_PHASE" using assms(4) by simp
  from wrh_act_tracks [OF d(3) e [unfolded e_def]] assms(2) d(1)
  have w: "srv_state (SRV d i) = WRH_WAIT_OFFSET_STABLE" "secs (srv_offsetFromMaster (SRV d i)) = 0"
      "fst (offset_parts P d i) = 0" "e = wrh_wait_stable d i" by (auto simp: e_def)
  have o': "srv_offsetFromMaster (SRV ppg' i) = srv_offsetFromMaster (SRV d i)"
    using d(3) unfolding p(1) by (simp add: w(4) wrh_wait_stable_def Let_def)
  obtain q where "pp_time_hardwarize (srv_offsetFromMaster (SRV d i)) (wrh_clock_period_ps (WRH_SRV d i)) = Some (0, q)"
    using w(2,3) assms(5) c(2) d(2) unfolding offset_parts_def Let_def pp_time_hardwarize_def by (auto split: if_splits)
  from hardwarize_no_ticks [OF assms(7) [unfolded o'] w(2) _ this] assms(5,6) c(2) d(2)
  have "\<bar>sint (pp_time_to_picos (srv_offsetFromMaster (SRV d i)))\<bar> < 2 ^ 31" by simp
  from abs32_exact [OF this] wait_stable_tracks [OF d(3) w(1) e [unfolded w(4)]]
  show ?thesis using run w d p e o' by (simp add: Let_def c_def [symmetric])
qed

text \<open>A servo in its waiting state, with timestamps of a link of a nanosecond and no offset but the rounding of the mean delay.\<close>

definition wrh_example :: pp_globals where
  "wrh_example = upd_wrh 0 (\<lambda>s. s\<lparr> wrh_clock_period_ps := 8000, wrh_readyForSync := True \<rparr>)
     (upd_srv 0 (\<lambda>gs. gs\<lparr> srv_state := WRH_WAIT_OFFSET_STABLE, srv_t1 := \<lparr> secs = 100, scaled_nsecs = 0 \<rparr>,
        srv_t2 := \<lparr> secs = 100, scaled_nsecs = 65536 \<rparr>, srv_t3 := \<lparr> secs = 101, scaled_nsecs = 0 \<rparr>,
        srv_t4 := \<lparr> secs = 101, scaled_nsecs = 65536 \<rparr> \<rparr>) (pp_globals_0 config_default 1))"

lemma wrh_example_facts:
  "0 < length (pp_instances wrh_example)" "\<not> is_delayMechanismP2P wrh_example 0"
  "ppi_asymmetryCorrectionPortDS (INST wrh_example 0) = asymmetryCorrectionPortDS_0"
  "port_timestamps (INST wrh_example 0) = replicate 6 pp_time_0"
  "srv_state (SRV wrh_example 0) = WRH_WAIT_OFFSET_STABLE" "wrh_clock_period_ps (WRH_SRV wrh_example 0) = 8000"
  "wrh_readyForSync (WRH_SRV wrh_example 0)" "wrh_missed_iters (WRH_SRV wrh_example 0) = 0"
  "srv_offsetFromMaster (e2e_servo 0 (SRV wrh_example 0)) = \<lparr> secs = 0, scaled_nsecs = 32 \<rparr>"
proof -
  have len: "0 < length (pp_instances (pp_globals_0 config_default 1))" by (simp add: pp_globals_0_def)
  have p: "ppi_servo (pp_instance_0 config_default) = pp_servo_0" "ppi_wrh_servo (pp_instance_0 config_default) = wrh_servo_0"
    "ppi_asymmetryCorrectionPortDS (pp_instance_0 config_default) = asymmetryCorrectionPortDS_0"
    "ppi_delayMechanism (pp_instance_0 config_default) = 0"
    "port_timestamps (pp_instance_0 config_default) = replicate 6 pp_time_0"
    by (simp_all add: pp_instance_0_def port_timestamps_def numeral_eq_Suc)
  have w: "WRH_SRV wrh_example 0 = wrh_servo_0\<lparr> wrh_clock_period_ps := 8000, wrh_readyForSync := True \<rparr>"
    and s: "SRV wrh_example 0 = pp_servo_0\<lparr> srv_state := WRH_WAIT_OFFSET_STABLE, srv_t1 := \<lparr> secs = 100, scaled_nsecs = 0 \<rparr>,
        srv_t2 := \<lparr> secs = 100, scaled_nsecs = 65536 \<rparr>, srv_t3 := \<lparr> secs = 101, scaled_nsecs = 0 \<rparr>,
        srv_t4 := \<lparr> secs = 101, scaled_nsecs = 65536 \<rparr> \<rparr>"
    using len by (simp_all add: wrh_example_def) (simp_all add: WRH_SRV_def SRV_def INST_0 p)
  have i: "INST wrh_example 0 = (pp_instance_0 config_default)\<lparr> ppi_servo := SRV wrh_example 0, ppi_wrh_servo := WRH_SRV wrh_example 0 \<rparr>"
    using len by (simp add: wrh_example_def upd_wrh_def upd_srv_def SRV_def WRH_SRV_def INST_0)
  show "0 < length (pp_instances wrh_example)" using len by (simp add: wrh_example_def)
  show "\<not> is_delayMechanismP2P wrh_example 0" unfolding is_delayMechanismP2P_def i using p by (simp add: MECH_P2P_def)
  show "ppi_asymmetryCorrectionPortDS (INST wrh_example 0) = asymmetryCorrectionPortDS_0"
    "port_timestamps (INST wrh_example 0) = replicate 6 pp_time_0"
    unfolding i using p by (simp_all add: port_timestamps_def)
  show "srv_state (SRV wrh_example 0) = WRH_WAIT_OFFSET_STABLE" "wrh_clock_period_ps (WRH_SRV wrh_example 0) = 8000"
    "wrh_readyForSync (WRH_SRV wrh_example 0)" "wrh_missed_iters (WRH_SRV wrh_example 0) = 0"
    by (simp_all add: s w wrh_servo_0_def)
  show "srv_offsetFromMaster (e2e_servo 0 (SRV wrh_example 0)) = \<lparr> secs = 0, scaled_nsecs = 32 \<rparr>"
    unfolding s by code_simp
qed

lemma wrh_example_runs:
  obtains ppg' where "wrh_servo_update platform_idle wrh_example 0 = (True, ppg')"
    "srv_state (SRV ppg' 0) = WRH_TRACK_PHASE" "srv_offsetFromMaster (SRV ppg' 0) = \<lparr> secs = 0, scaled_nsecs = 32 \<rparr>"
proof -
  note x = wrh_example_facts
  obtain c where c: "pp_servo_calculate_delays wrh_example 0 = (True, c)" "SRV c 0 = e2e_servo 0 (SRV wrh_example 0)"
    using calculate_delays_e2e [of 0 wrh_example] x(1-4) by (auto simp: asymmetryCorrectionPortDS_0_def is_incorrect_iff pp_time_0_def numeral_eq_Suc)
  have c': "srv_state (SRV c 0) = WRH_WAIT_OFFSET_STABLE" "WRH_SRV c 0 = WRH_SRV wrh_example 0" "0 < length (pp_instances c)"
    using calculate_delays_state [OF x(1)] c(1) x by simp_all
  have o': "srv_offsetFromMaster (SRV c 0) = \<lparr> secs = 0, scaled_nsecs = 32 \<rparr>" using c(2) x by simp
  have n: "wrh_missed_iters (WRH_SRV c 0) = 0" "wrh_readyForSync (WRH_SRV c 0)" "wrh_clock_period_ps (WRH_SRV c 0) = 8000"
    using c'(2) x by simp_all
  have h: "pp_time_hardwarize \<lparr> secs = 0, scaled_nsecs = 32 \<rparr> 8000 = Some (0, 0)"
    "abs32 (ucast (pp_time_to_picos \<lparr> secs = 0, scaled_nsecs = 32 \<rparr>)) = 0" by code_simp+
  have pl: "w_locking_poll platform_idle g 0 = 0" "w_adjust_in_progress platform_idle g = False" for g
    by (simp_all add: platform_idle_def)
  have "\<exists>ppg'. wrh_servo_update platform_idle wrh_example 0 = (True, ppg') \<and> srv_state (SRV ppg' 0) = WRH_TRACK_PHASE \<and>
      srv_offsetFromMaster (SRV ppg' 0) = \<lparr> secs = 0, scaled_nsecs = 32 \<rparr>"
    using c c' o' n h pl x(5) unfolding wrh_servo_update_def Let_def
    by (simp add: wrh_take_delays_def Let_def WRH_SPLL_LOCKED_def offset_parts_def wrh_choose_state_def wrh_act_def
      wrh_wait_stable_def wrh_account_def wrh_state_defs WRH_SERVO_OFFSET_STABILITY_THRESHOLD_def)
  then show thesis using that by blast
qed

theorem servo_locks_when_stable_witness:
  "\<exists>ppg'. wrh_servo_update platform_idle wrh_example 0 = (True, ppg') \<and>
    \<bar>sint (pp_time_to_picos (srv_offsetFromMaster (SRV ppg' 0)))\<bar> < 60 \<and> srv_servo_locked (SRV ppg' 0)"
proof -
  note x = wrh_example_facts
  obtain ppg' where run: "wrh_servo_update platform_idle wrh_example 0 = (True, ppg')"
    "srv_state (SRV ppg' 0) = WRH_TRACK_PHASE" "srv_offsetFromMaster (SRV ppg' 0) = \<lparr> secs = 0, scaled_nsecs = 32 \<rparr>"
    by (rule wrh_example_runs)
  have "normalized (srv_offsetFromMaster (SRV ppg' 0))" unfolding run(3) by (simp add: normalized_def)
  from servo_locks_when_stable [OF x(1) _ run(1,2) _ _ this] x(5,6) show ?thesis
    using run(1) by (simp add: Let_def wrh_state_defs)
qed

end
