(* ===== verification/Timeout.thy ===== *)
theory Timeout
  imports Ppsi_Types "HOL-Library.Signed_Division"
begin

text \<open>
  The timers of \<^verbatim>\<open>timeout.c\<close> and \<^verbatim>\<open>include/ppsi/timeout_prot.h\<close>, with the wrap-around comparisons of
  \<^verbatim>\<open>include/ppsi/jiffies.h\<close>.  A timer is a deadline on the millisecond counter of the platform, an
  \<^verbatim>\<open>unsigned long\<close> of 64 bits that may wrap.  Timers that do not depend on the port are kept in port
  0; the index of the port that owns a timer is \<open>counter_owner\<close>.
\<close>

section \<open>Comparison of counter values\<close>

definition time_after :: "u64 \<Rightarrow> u64 \<Rightarrow> bool" where
  "time_after a b \<longleftrightarrow> sint (b - a) < 0"

definition time_before :: "u64 \<Rightarrow> u64 \<Rightarrow> bool" where
  "time_before a b \<longleftrightarrow> time_after b a"

definition time_after_eq :: "u64 \<Rightarrow> u64 \<Rightarrow> bool" where
  "time_after_eq a b \<longleftrightarrow> sint (a - b) \<ge> 0"

definition time_before_eq :: "u64 \<Rightarrow> u64 \<Rightarrow> bool" where
  "time_before_eq a b \<longleftrightarrow> time_after_eq b a"

section \<open>Counters\<close>

definition TMO_CF_INSTANCE_DEPENDENT :: s32 where "TMO_CF_INSTANCE_DEPENDENT = 1"
definition TMO_CF_ALLOW_COMMON_SET :: s32 where "TMO_CF_ALLOW_COMMON_SET = 2"
definition TIMEOUT_DISABLE_VALUE :: s32 where "TIMEOUT_DISABLE_VALUE = - 1"

fun timeOutConfigs :: "pp_timeouts \<Rightarrow> s32" where
  "timeOutConfigs PP_TO_REQUEST = TMO_CF_INSTANCE_DEPENDENT OR TMO_CF_ALLOW_COMMON_SET"
| "timeOutConfigs PP_TO_SYNC_SEND = TMO_CF_INSTANCE_DEPENDENT OR TMO_CF_ALLOW_COMMON_SET"
| "timeOutConfigs PP_TO_BMC = 0"
| "timeOutConfigs PP_TO_ANN_RECEIPT = TMO_CF_INSTANCE_DEPENDENT OR TMO_CF_ALLOW_COMMON_SET"
| "timeOutConfigs PP_TO_ANN_SEND = TMO_CF_INSTANCE_DEPENDENT OR TMO_CF_ALLOW_COMMON_SET"
| "timeOutConfigs PP_TO_QUALIFICATION = TMO_CF_INSTANCE_DEPENDENT OR TMO_CF_ALLOW_COMMON_SET"
| "timeOutConfigs PP_TO_PROT_STATE = TMO_CF_INSTANCE_DEPENDENT"
| "timeOutConfigs PP_TO_IN_STATE = TMO_CF_INSTANCE_DEPENDENT"
| "timeOutConfigs PP_TO_GM_BY_BMCA = 0"
| "timeOutConfigs PP_TO_L1E_TX_SYNC = TMO_CF_INSTANCE_DEPENDENT"
| "timeOutConfigs PP_TO_L1E_RX_SYNC = TMO_CF_INSTANCE_DEPENDENT"
| "timeOutConfigs PP_TO_WR_EXT_0 = TMO_CF_INSTANCE_DEPENDENT"

definition pp_timeouts_list :: "pp_timeouts list" where
  "pp_timeouts_list = [PP_TO_REQUEST, PP_TO_SYNC_SEND, PP_TO_BMC, PP_TO_ANN_RECEIPT,
     PP_TO_ANN_SEND, PP_TO_QUALIFICATION, PP_TO_PROT_STATE, PP_TO_IN_STATE, PP_TO_GM_BY_BMCA,
     PP_TO_L1E_TX_SYNC, PP_TO_L1E_RX_SYNC, PP_TO_WR_EXT_0]"

definition counter_owner :: "nat \<Rightarrow> pp_timeouts \<Rightarrow> nat" where
  "counter_owner i index =
     (if timeOutConfigs index AND TMO_CF_INSTANCE_DEPENDENT = 0 then 0 else i)"

definition pp_get_counter :: "pp_globals \<Rightarrow> nat \<Rightarrow> pp_timeouts \<Rightarrow> timeOutInstCnt" where
  "pp_get_counter ppg i index = tmo_cfg (INST ppg (counter_owner i index)) index"

definition upd_tmo ::
  "pp_timeouts \<Rightarrow> (timeOutInstCnt \<Rightarrow> timeOutInstCnt) \<Rightarrow> pp_instance \<Rightarrow> pp_instance" where
  "upd_tmo index f ppi = ppi\<lparr> tmo_cfg := (tmo_cfg ppi)(index := f (tmo_cfg ppi index)) \<rparr>"

definition upd_counter ::
  "nat \<Rightarrow> pp_timeouts \<Rightarrow> (timeOutInstCnt \<Rightarrow> timeOutInstCnt) \<Rightarrow> pp_globals \<Rightarrow> pp_globals" where
  "upd_counter i index f ppg = upd_inst (counter_owner i index) (upd_tmo index f) ppg"

definition pp_timeout_disable_all :: "pp_instance \<Rightarrow> pp_instance" where
  "pp_timeout_disable_all ppi =
     ppi\<lparr> tmo_cfg := \<lambda>index. (tmo_cfg ppi index)\<lparr> initValueMs := TIMEOUT_DISABLE_VALUE, tmo := 0 \<rparr> \<rparr>"

definition pp_timeout_get_timer ::
  "pp_globals \<Rightarrow> nat \<Rightarrow> pp_timeouts \<Rightarrow> to_rand \<Rightarrow> pp_timeouts \<times> pp_globals" where
  "pp_timeout_get_timer ppg i index rnd =
     (let ppg = upd_counter i index (\<lambda>c. c\<lparr> which_rand := rnd \<rparr>) ppg;
          ppg = upd_inst i (upd_tmo index (\<lambda>c. c\<lparr> initValueMs := TIMEOUT_DISABLE_VALUE \<rparr>)) ppg
      in (index, ppg))"

definition TIMEOUT_MAX_LOG_VALUE :: int where "TIMEOUT_MAX_LOG_VALUE = 21"
definition TIMEOUT_MIN_LOG_VALUE :: int where "TIMEOUT_MIN_LOG_VALUE = - 9"
definition TIMEOUT_MAX_VALUE_MS :: s32 where "TIMEOUT_MAX_VALUE_MS = push_bit 21 1 * 1000"
definition TIMEOUT_MIN_VALUE_MS :: s32 where "TIMEOUT_MIN_VALUE_MS = signed_drop_bit 9 1000"

definition pp_timeout_log_to_ms :: "s8 \<Rightarrow> s32" where
  "pp_timeout_log_to_ms logValue =
     (if sint logValue \<ge> 0
      then if sint logValue > TIMEOUT_MAX_LOG_VALUE then TIMEOUT_MAX_VALUE_MS
           else push_bit (nat (sint logValue)) 1 * 1000
      else if sint logValue < TIMEOUT_MIN_LOG_VALUE then TIMEOUT_MIN_VALUE_MS
           else signed_drop_bit (nat (- sint logValue)) 1000)"

text \<open>
  The announce receipt and qualification times shift by the announce interval itself; the
  configuration keeps it non-negative, the only range in which the shift is defined.
\<close>

definition pp_timeout_init :: "pp_globals \<Rightarrow> nat \<Rightarrow> pp_globals" where
  "pp_timeout_init ppg i =
     (let port = ppi_portDS (INST ppg i);
          p2p = is_delayMechanismP2P ppg i;
          logDelayRequest = (if p2p then por_logMinPdelayReqInterval port
                             else por_logMinDelayReqInterval port);
          own = (\<lambda>index f. upd_inst i (upd_tmo index f));
          ppg = own PP_TO_REQUEST (\<lambda>c. c\<lparr> which_rand := if p2p then TO_RAND_NONE else TO_RAND_0_200 \<rparr>) ppg;
          ppg = own PP_TO_ANN_SEND (\<lambda>c. c\<lparr> which_rand := TO_RAND_70_130 \<rparr>) ppg;
          ppg = own PP_TO_SYNC_SEND (\<lambda>c. c\<lparr> which_rand := TO_RAND_70_130 \<rparr>) ppg;
          ppg = own PP_TO_REQUEST (\<lambda>c. c\<lparr> initValueMs := pp_timeout_log_to_ms logDelayRequest \<rparr>) ppg;
          ppg = own PP_TO_SYNC_SEND
            (\<lambda>c. c\<lparr> initValueMs := pp_timeout_log_to_ms (por_logSyncInterval port) \<rparr>) ppg;
          ms = pp_timeout_log_to_ms (por_logAnnounceInterval port);
          gtmo = initValueMs (tmo_cfg (INST ppg 0) PP_TO_BMC);
          ppg = (if gtmo = TIMEOUT_DISABLE_VALUE \<or> sint ms < sint gtmo
                 then upd_inst 0 (upd_tmo PP_TO_BMC (\<lambda>c. c\<lparr> initValueMs := ms \<rparr>)) ppg else ppg);
          log = nat (sint (por_logAnnounceInterval port));
          ppg = (if is_externalPortConfigurationEnabled ppg
                 then own PP_TO_ANN_RECEIPT (\<lambda>c. c\<lparr> initValueMs := TIMEOUT_DISABLE_VALUE \<rparr>)
                      (own PP_TO_QUALIFICATION (\<lambda>c. c\<lparr> initValueMs := TIMEOUT_DISABLE_VALUE \<rparr>) ppg)
                 else own PP_TO_QUALIFICATION (\<lambda>c. c\<lparr> initValueMs :=
                        push_bit log 1000 * (ucast (cur_stepsRemoved (g_currentDS ppg)) + 1) \<rparr>)
                      (own PP_TO_ANN_RECEIPT (\<lambda>c. c\<lparr> initValueMs :=
                        1000 * push_bit log (ucast (por_announceReceiptTimeout port)) \<rparr>) ppg))
      in own PP_TO_ANN_SEND (\<lambda>c. c\<lparr> initValueMs := ms \<rparr>) ppg)"

definition pp_timeout_get :: "pp_globals \<Rightarrow> nat \<Rightarrow> pp_timeouts \<Rightarrow> s32" where
  "pp_timeout_get ppg i index = initValueMs (pp_get_counter ppg i index)"

section \<open>Setting, resetting and expiry\<close>

definition pp_timeout_set0 ::
  "platform \<Rightarrow> pp_globals \<Rightarrow> nat \<Rightarrow> pp_timeouts \<Rightarrow> s32 \<Rightarrow> pp_globals" where
  "pp_timeout_set0 P ppg i index millisec =
     upd_counter i index (\<lambda>c. c\<lparr> tmo := t_calc_timeout P ppg i millisec \<rparr>) ppg"

definition pp_timeout_set ::
  "platform \<Rightarrow> pp_globals \<Rightarrow> nat \<Rightarrow> pp_timeouts \<Rightarrow> s32 \<Rightarrow> pp_globals" where
  "pp_timeout_set P ppg i index millisec =
     pp_timeout_set0 P (upd_counter i index (\<lambda>c. c\<lparr> initValueMs := millisec \<rparr>) ppg) i index millisec"

text \<open>
  The pseudo-random number of a reset: the seed is taken from the last four bytes of the clock
  identity the first time, read in the byte order of a little-endian host.
\<close>

definition tmo_seed :: "pp_globals \<Rightarrow> u32" where
  "tmo_seed ppg =
     (if g_timeout_seed ppg = 0
      then let bs = cid_bytes (dd_clockIdentity (g_defaultDS ppg))
           in ucast (bs ! 4) OR push_bit 8 (ucast (bs ! 5)) OR push_bit 16 (ucast (bs ! 6)) OR
              push_bit 24 (ucast (bs ! 7))
      else g_timeout_seed ppg)"

definition tmo_rand :: "u32 \<Rightarrow> u32 \<times> u32" where
  "tmo_rand seed =
     (let seed1 = seed * 1103515245 + 12345;
          rval = (seed1 div 65536) mod 2048;
          seed2 = seed1 * 1103515245 + 12345;
          rval = push_bit 10 rval XOR ((seed2 div 65536) mod 1024)
      in (rval, seed2))"

definition tmo_randomize :: "to_rand \<Rightarrow> s32 \<Rightarrow> u32 \<Rightarrow> s32" where
  "tmo_randomize rnd millisec rval =
     (let millisec = word_of_int (sint (push_bit 1 millisec) sdiv 5) :: s32
      in if sint millisec > 0
         then case rnd of
                TO_RAND_70_130 \<Rightarrow> millisec * 2 + rval mod millisec
              | TO_RAND_0_200 \<Rightarrow> rval mod (millisec * 5)
              | TO_RAND_NONE \<Rightarrow> millisec
         else millisec)"

definition pp_timeout_reset_N ::
  "platform \<Rightarrow> pp_globals \<Rightarrow> nat \<Rightarrow> pp_timeouts \<Rightarrow> u32 \<Rightarrow> pp_globals" where
  "pp_timeout_reset_N P ppg i index multiplier =
     (let c = pp_get_counter ppg i index
      in if initValueMs c = TIMEOUT_DISABLE_VALUE then ppg
         else let millisec = initValueMs c * multiplier
              in if which_rand c \<noteq> TO_RAND_NONE \<and> sint millisec > 0
                 then let (rval, seed) = tmo_rand (tmo_seed ppg)
                      in pp_timeout_set0 P (ppg\<lparr> g_timeout_seed := seed \<rparr>) i index
                           (tmo_randomize (which_rand c) millisec rval)
                 else pp_timeout_set0 P ppg i index millisec)"

definition pp_timeout_reset ::
  "platform \<Rightarrow> pp_globals \<Rightarrow> nat \<Rightarrow> pp_timeouts \<Rightarrow> pp_globals" where
  "pp_timeout_reset P ppg i index = pp_timeout_reset_N P ppg i index 1"

definition pp_timeout_setall :: "platform \<Rightarrow> pp_globals \<Rightarrow> nat \<Rightarrow> pp_globals" where
  "pp_timeout_setall P ppg i =
     (let ppg = fold (\<lambda>index ppg. if timeOutConfigs index AND TMO_CF_ALLOW_COMMON_SET \<noteq> 0
                                   then pp_timeout_reset P ppg i index else ppg)
                     pp_timeouts_list ppg
      in pp_timeout_set0 P ppg i PP_TO_ANN_SEND 20)"

definition pp_timeout :: "platform \<Rightarrow> pp_globals \<Rightarrow> nat \<Rightarrow> pp_timeouts \<Rightarrow> bool" where
  "pp_timeout P ppg i index =
     (let c = pp_get_counter ppg i index
      in initValueMs c \<noteq> TIMEOUT_DISABLE_VALUE \<and> time_after_eq (t_calc_timeout P ppg i 0) (tmo c))"

definition pp_next_delay_1 :: "platform \<Rightarrow> pp_globals \<Rightarrow> nat \<Rightarrow> pp_timeouts \<Rightarrow> s32" where
  "pp_next_delay_1 P ppg i i1 =
     (let t = tmo (pp_get_counter ppg i i1); now = t_calc_timeout P ppg i 0
      in if time_before t now then 0 else ucast (t - now))"

definition pp_next_delay_2 ::
  "platform \<Rightarrow> pp_globals \<Rightarrow> nat \<Rightarrow> pp_timeouts \<Rightarrow> pp_timeouts \<Rightarrow> s32" where
  "pp_next_delay_2 P ppg i i1 i2 =
     (let t1 = tmo (pp_get_counter ppg i i1); t2 = tmo (pp_get_counter ppg i i2);
          now = t_calc_timeout P ppg i 0;
          tmo_min = t1;
          tmo_min = (if time_after tmo_min t2 then t2 else tmo_min)
      in if time_before now tmo_min then ucast (tmo_min - now) else 0)"

definition pp_next_delay_3 ::
  "platform \<Rightarrow> pp_globals \<Rightarrow> nat \<Rightarrow> pp_timeouts \<Rightarrow> pp_timeouts \<Rightarrow> pp_timeouts \<Rightarrow> s32" where
  "pp_next_delay_3 P ppg i i1 i2 i3 =
     (let t1 = tmo (pp_get_counter ppg i i1); t2 = tmo (pp_get_counter ppg i i2);
          t3 = tmo (pp_get_counter ppg i i3);
          now = t_calc_timeout P ppg i 0;
          tmo_min = t1;
          tmo_min = (if time_after tmo_min t2 then t2 else tmo_min);
          tmo_min = (if time_after tmo_min t3 then t3 else tmo_min)
      in if time_before now tmo_min then ucast (tmo_min - now) else 0)"

definition pp_timeout_is_disabled :: "pp_globals \<Rightarrow> nat \<Rightarrow> pp_timeouts \<Rightarrow> bool" where
  "pp_timeout_is_disabled ppg i index \<longleftrightarrow> pp_timeout_get ppg i index = TIMEOUT_DISABLE_VALUE"

definition pp_timeout_disable :: "platform \<Rightarrow> pp_globals \<Rightarrow> nat \<Rightarrow> pp_timeouts \<Rightarrow> pp_globals" where
  "pp_timeout_disable P ppg i index = pp_timeout_set P ppg i index TIMEOUT_DISABLE_VALUE"

text \<open>
  The counter of the POSIX platform (\<^verbatim>\<open>time-unix/unix-time.c\<close>): the monotonic clock in milliseconds;
  what \<^verbatim>\<open>clock_gettime\<close> returned is the argument.
\<close>

definition unix_calc_timeout :: "s64 \<times> s64 \<Rightarrow> s32 \<Rightarrow> u64" where
  "unix_calc_timeout now millisec =
     1000 * fst now + word_of_int (sint (snd now) sdiv 1000 sdiv 1000) + scast millisec"

section \<open>What the timer operations change\<close>

text \<open>
  The timer operations change nothing but timers and the seed: \<open>same_but_tmo\<close> relates the clock state
  before and after, and \<open>same_but_tmo_fields\<close> turns it into rewrite rules for every other field.
\<close>

definition clear_tmo :: "pp_instance \<Rightarrow> pp_instance" where
  "clear_tmo ppi =
     ppi\<lparr> tmo_cfg := \<lambda>_. \<lparr> which_rand = TO_RAND_NONE, initValueMs = 0, tmo = 0 \<rparr> \<rparr>"

definition same_but_tmo :: "pp_globals \<Rightarrow> pp_globals \<Rightarrow> bool" where
  "same_but_tmo a b \<longleftrightarrow>
     (\<forall>j. clear_tmo (INST b j) = clear_tmo (INST a j)) \<and>
     length (pp_instances b) = length (pp_instances a) \<and>
     b\<lparr> pp_instances := [], g_timeout_seed := 0 \<rparr> = a\<lparr> pp_instances := [], g_timeout_seed := 0 \<rparr>"

lemma same_but_tmo_refl [frame]: "same_but_tmo a a"
  by (simp add: same_but_tmo_def)

lemma same_but_tmo_trans: "same_but_tmo a b \<Longrightarrow> same_but_tmo b c \<Longrightarrow> same_but_tmo a c"
  by (simp add: same_but_tmo_def)

lemma clear_tmo_upd_tmo [simp]: "clear_tmo (upd_tmo index f ppi) = clear_tmo ppi"
  by (simp add: clear_tmo_def upd_tmo_def)

lemma same_but_tmo_upd_inst:
  assumes "\<And>ppi. clear_tmo (f ppi) = clear_tmo ppi"
  shows "same_but_tmo ppg (upd_inst i f ppg)"
proof -
  have "clear_tmo (INST (upd_inst i f ppg) j) = clear_tmo (INST ppg j)" for j
    using assms by (cases "i < length (pp_instances ppg)") (simp_all add: upd_inst_beyond)
  then show ?thesis by (simp add: same_but_tmo_def upd_inst_def)
qed

lemma clear_tmo_eqD: "clear_tmo y = clear_tmo x \<Longrightarrow> \<exists>t. y = x\<lparr> tmo_cfg := t \<rparr>"
  by (cases x; cases y) (simp add: clear_tmo_def)

lemma globals_tmo_eqD:
  "b\<lparr> pp_instances := [], g_timeout_seed := 0 \<rparr> = a\<lparr> pp_instances := [], g_timeout_seed := 0 \<rparr> \<Longrightarrow>
   \<exists>ps s. b = a\<lparr> pp_instances := ps, g_timeout_seed := s \<rparr>"
  by (cases a; cases b) simp

lemma same_but_tmoE:
  assumes "same_but_tmo a b"
  obtains t ps s where "INST b j = (INST a j)\<lparr> tmo_cfg := t \<rparr>"
    "b = a\<lparr> pp_instances := ps, g_timeout_seed := s \<rparr>"
    "length (pp_instances b) = length (pp_instances a)"
  using assms clear_tmo_eqD globals_tmo_eqD unfolding same_but_tmo_def by blast

lemma same_but_tmo_fields:
  assumes "same_but_tmo a b"
  shows
    "ppi_state (INST b j) = ppi_state (INST a j)"
    "ppi_next_state (INST b j) = ppi_next_state (INST a j)"
    "ppi_next_delay (INST b j) = ppi_next_delay (INST a j)"
    "ppi_is_new_state (INST b j) = ppi_is_new_state (INST a j)"
    "ppi_current_state_item (INST b j) = ppi_current_state_item (INST a j)"
    "ppi_protocol_extension (INST b j) = ppi_protocol_extension (INST a j)"
    "ppi_flags (INST b j) = ppi_flags (INST a j)"
    "ppi_proto (INST b j) = ppi_proto (INST a j)"
    "ppi_delayMechanism (INST b j) = ppi_delayMechanism (INST a j)"
    "ppi_tx_ptp (INST b j) = ppi_tx_ptp (INST a j)"
    "ppi_gen_addr (INST b j) = ppi_gen_addr (INST a j)"
    "ppi_peer (INST b j) = ppi_peer (INST a j)"
    "ppi_activePeer (INST b j) = ppi_activePeer (INST a j)"
    "ppi_peer_vid (INST b j) = ppi_peer_vid (INST a j)"
    "ppi_t1 (INST b j) = ppi_t1 (INST a j)"
    "ppi_t2 (INST b j) = ppi_t2 (INST a j)"
    "ppi_t3 (INST b j) = ppi_t3 (INST a j)"
    "ppi_t4 (INST b j) = ppi_t4 (INST a j)"
    "ppi_t5 (INST b j) = ppi_t5 (INST a j)"
    "ppi_t6 (INST b j) = ppi_t6 (INST a j)"
    "ppi_syncCF (INST b j) = ppi_syncCF (INST a j)"
    "ppi_last_rcv_time (INST b j) = ppi_last_rcv_time (INST a j)"
    "ppi_last_snt_time (INST b j) = ppi_last_snt_time (INST a j)"
    "frgn_rec_num (INST b j) = frgn_rec_num (INST a j)"
    "frgn_rec_best (INST b j) = frgn_rec_best (INST a j)"
    "frgn_master_time_window_ms (INST b j) = frgn_master_time_window_ms (INST a j)"
    "frgn_master (INST b j) = frgn_master (INST a j)"
    "ppi_portDS (INST b j) = ppi_portDS (INST a j)"
    "ppi_servo (INST b j) = ppi_servo (INST a j)"
    "ppi_asymmetryCorrectionPortDS (INST b j) = ppi_asymmetryCorrectionPortDS (INST a j)"
    "ppi_timestampCorrectionPortDS (INST b j) = ppi_timestampCorrectionPortDS (INST a j)"
    "ppi_desiredState (INST b j) = ppi_desiredState (INST a j)"
    "recv_sync_sequence_id (INST b j) = recv_sync_sequence_id (INST a j)"
    "sent_seq (INST b j) = sent_seq (INST a j)"
    "received_ptp_header (INST b j) = received_ptp_header (INST a j)"
    "link_up (INST b j) = link_up (INST a j)"
    "port_idx (INST b j) = port_idx (INST a j)"
    "ppi_vlans (INST b j) = ppi_vlans (INST a j)"
    "ppi_cfg (INST b j) = ppi_cfg (INST a j)"
    "ptp_tx_count (INST b j) = ptp_tx_count (INST a j)"
    "ptp_rx_count (INST b j) = ptp_rx_count (INST a j)"
    "received_dresp (INST b j) = received_dresp (INST a j)"
    "received_dresp_fup (INST b j) = received_dresp_fup (INST a j)"
    "ppi_ptp_fallback (INST b j) = ppi_ptp_fallback (INST a j)"
    "bmca_execute (INST b j) = bmca_execute (INST a j)"
    "ppi_pdstate (INST b j) = ppi_pdstate (INST a j)"
    "ppi_extState (INST b j) = ppi_extState (INST a j)"
    "ppi_wr (INST b j) = ppi_wr (INST a j)"
    "ppi_l1e (INST b j) = ppi_l1e (INST a j)"
    "ppi_wrh_servo (INST b j) = ppi_wrh_servo (INST a j)"
    "ppi_wr_servo_ext (INST b j) = ppi_wr_servo_ext (INST a j)"
    "wrh_tracking_enabled b = wrh_tracking_enabled a"
    "g_config b = g_config a"
    "rt_opts b = rt_opts a"
    "g_defaultDS b = g_defaultDS a"
    "g_currentDS b = g_currentDS a"
    "g_parentDS b = g_parentDS a"
    "g_timePropertiesDS b = g_timePropertiesDS a"
    "ebest_idx b = ebest_idx a"
    "ebest_updated b = ebest_updated a"
    "g_nlinks b = g_nlinks a"
    "g_lastTimingModeState b = g_lastTimingModeState a"
    "g_errcount b = g_errcount a"
    "g_events b = g_events a"
    "length (pp_instances b) = length (pp_instances a)"
  by (rule same_but_tmoE [OF assms, where j = j], simp)+

lemma upd_counter_frame: "same_but_tmo ppg (upd_counter i index f ppg)"
  by (simp add: upd_counter_def same_but_tmo_upd_inst)

lemma same_but_tmo_seed: "same_but_tmo a b \<Longrightarrow> same_but_tmo a (b\<lparr> g_timeout_seed := s \<rparr>)"
  by (simp add: same_but_tmo_def INST_def)

lemma same_but_tmo_seed_left: "same_but_tmo (a\<lparr> g_timeout_seed := s \<rparr>) b \<Longrightarrow> same_but_tmo a b"
  by (simp add: same_but_tmo_def INST_def)

lemma pp_timeout_set0_frame: "same_but_tmo ppg (pp_timeout_set0 P ppg i index ms)"
  by (simp add: pp_timeout_set0_def upd_counter_frame)

lemma pp_timeout_set_frame: "same_but_tmo ppg (pp_timeout_set P ppg i index ms)"
  unfolding pp_timeout_set_def
  by (rule same_but_tmo_trans [OF upd_counter_frame pp_timeout_set0_frame])

lemma pp_timeout_disable_frame: "same_but_tmo ppg (pp_timeout_disable P ppg i index)"
  by (simp add: pp_timeout_disable_def pp_timeout_set_frame)

lemma pp_timeout_reset_N_frame: "same_but_tmo ppg (pp_timeout_reset_N P ppg i index n)"
  by (auto simp: pp_timeout_reset_N_def Let_def same_but_tmo_refl pp_timeout_set0_frame
      intro: same_but_tmo_seed_left [OF pp_timeout_set0_frame] split: prod.split)

lemma pp_timeout_reset_frame: "same_but_tmo ppg (pp_timeout_reset P ppg i index)"
  by (simp add: pp_timeout_reset_def pp_timeout_reset_N_frame)

lemma same_but_tmo_fold:
  assumes "\<And>x ppg. same_but_tmo ppg (f x ppg)"
  shows "same_but_tmo ppg (fold f xs ppg)"
  by (induction xs arbitrary: ppg) (auto intro: same_but_tmo_refl same_but_tmo_trans [OF assms])

lemma pp_timeout_setall_frame: "same_but_tmo ppg (pp_timeout_setall P ppg i)"
  unfolding pp_timeout_setall_def Let_def
  by (rule same_but_tmo_trans [OF same_but_tmo_fold pp_timeout_set0_frame])
    (simp add: same_but_tmo_refl pp_timeout_reset_frame)

lemma same_but_tmo_sym: "same_but_tmo a b \<Longrightarrow> same_but_tmo b a"
  by (simp add: same_but_tmo_def)

lemma same_but_tmo_step [simp]:
  "same_but_tmo a (upd_inst i (upd_tmo index f) b) \<longleftrightarrow> same_but_tmo a b"
  "same_but_tmo a (upd_counter i index f b) \<longleftrightarrow> same_but_tmo a b"
  using same_but_tmo_upd_inst [of "upd_tmo index f" b i] upd_counter_frame [of b i index f]
  by (auto intro: same_but_tmo_trans same_but_tmo_sym)

lemma pp_timeout_get_timer_frame: "same_but_tmo ppg (snd (pp_timeout_get_timer ppg i index r))"
  by (simp add: pp_timeout_get_timer_def same_but_tmo_refl)

lemma pp_timeout_init_frame: "same_but_tmo ppg (pp_timeout_init ppg i)"
  by (simp add: pp_timeout_init_def Let_def same_but_tmo_refl)

lemmas timer_fields [simp] =
  same_but_tmo_fields [OF upd_counter_frame]
  same_but_tmo_fields [OF pp_timeout_set0_frame]
  same_but_tmo_fields [OF pp_timeout_set_frame]
  same_but_tmo_fields [OF pp_timeout_disable_frame]
  same_but_tmo_fields [OF pp_timeout_reset_N_frame]
  same_but_tmo_fields [OF pp_timeout_reset_frame]
  same_but_tmo_fields [OF pp_timeout_setall_frame]
  same_but_tmo_fields [OF pp_timeout_get_timer_frame]
  same_but_tmo_fields [OF pp_timeout_init_frame]

text \<open>A timer operation on one counter leaves every other counter alone.\<close>

lemma pp_get_counter_upd:
  assumes "counter_owner i index < length (pp_instances ppg)"
  shows "pp_get_counter (upd_counter i index f ppg) j index' =
    (if counter_owner j index' = counter_owner i index \<and> index' = index
     then f (pp_get_counter ppg i index) else pp_get_counter ppg j index')"
  using assms by (auto simp: pp_get_counter_def upd_counter_def upd_tmo_def)

section \<open>The millisecond counter\<close>

text \<open>
  What the timers rely on: the counter of the platform reads \<open>now\<close> and a deadline is that reading
  plus the delay, both modulo \<open>2 ^ 64\<close>.
\<close>

locale ms_counter =
  fixes P :: platform and now :: u64
  assumes calc: "t_calc_timeout P ppg i ms = now + scast ms"
begin

lemma pp_timeout_iff:
  "pp_timeout P ppg i index \<longleftrightarrow>
     initValueMs (pp_get_counter ppg i index) \<noteq> TIMEOUT_DISABLE_VALUE \<and>
     0 \<le> sint (now - tmo (pp_get_counter ppg i index))"
  by (simp add: pp_timeout_def Let_def calc time_after_eq_def)

lemma set_deadline:
  "counter_owner i index < length (pp_instances ppg) \<Longrightarrow>
   pp_get_counter (pp_timeout_set P ppg i index ms) i index =
     (pp_get_counter ppg i index)\<lparr> initValueMs := ms, tmo := now + scast ms \<rparr>"
  by (simp add: pp_timeout_set_def pp_timeout_set0_def pp_get_counter_upd calc)

lemma expires_iff:
  assumes "counter_owner i index < length (pp_instances ppg)" and "0 \<le> sint ms"
    and "ms_counter P' (now + word_of_int d)" and "0 \<le> d" and "d < 2 ^ 62"
  shows "pp_timeout P' (pp_timeout_set P ppg i index ms) i index \<longleftrightarrow> sint ms \<le> d"
proof -
  have "sint (now + word_of_int d - (now + scast ms)) = d - sint ms"
    using sint_of_int64 [of "d - sint ms"] sint_range32 [of ms] assms(2,4,5)
    by simp
  moreover have "ms \<noteq> TIMEOUT_DISABLE_VALUE"
    using assms(2) by (auto simp: TIMEOUT_DISABLE_VALUE_def)
  ultimately show ?thesis
    using assms(1) by (simp add: ms_counter.pp_timeout_iff [OF assms(3)] set_deadline)
qed

lemma next_delay_1:
  assumes "\<bar>sint (tmo (pp_get_counter ppg i i1) - now)\<bar> < 2 ^ 31"
  shows "sint (pp_next_delay_1 P ppg i i1) = max 0 (sint (tmo (pp_get_counter ppg i i1) - now))"
  using assms by (simp add: pp_next_delay_1_def Let_def calc time_before_def time_after_def ucast32_sint)

lemma time_after_near:
  "\<bar>sint (a - now)\<bar> < 2 ^ 31 \<Longrightarrow> \<bar>sint (b - now)\<bar> < 2 ^ 31 \<Longrightarrow>
   time_after a b \<longleftrightarrow> sint (b - now) < sint (a - now)"
  by (simp add: time_after_def sint_diff64 [of b now a])

lemma time_before_near:
  "\<bar>sint (t - now)\<bar> < 2 ^ 31 \<Longrightarrow> time_before now t \<longleftrightarrow> 0 < sint (t - now)"
  using sint_minus_exact [of "t - now"] by (auto simp: time_before_def time_after_def)

lemma next_delay_2:
  assumes "\<bar>sint (tmo (pp_get_counter ppg i i1) - now)\<bar> < 2 ^ 31"
    and "\<bar>sint (tmo (pp_get_counter ppg i i2) - now)\<bar> < 2 ^ 31"
  shows "sint (pp_next_delay_2 P ppg i i1 i2) =
    max 0 (min (sint (tmo (pp_get_counter ppg i i1) - now)) (sint (tmo (pp_get_counter ppg i i2) - now)))"
  using assms by (auto simp: pp_next_delay_2_def Let_def calc time_after_near time_before_near ucast32_sint)

lemma next_delay_3:
  assumes "\<bar>sint (tmo (pp_get_counter ppg i i1) - now)\<bar> < 2 ^ 31"
    and "\<bar>sint (tmo (pp_get_counter ppg i i2) - now)\<bar> < 2 ^ 31"
    and "\<bar>sint (tmo (pp_get_counter ppg i i3) - now)\<bar> < 2 ^ 31"
  shows "sint (pp_next_delay_3 P ppg i i1 i2 i3) =
    max 0 (min (min (sint (tmo (pp_get_counter ppg i i1) - now)) (sint (tmo (pp_get_counter ppg i i2) - now)))
               (sint (tmo (pp_get_counter ppg i i3) - now)))"
  using assms by (auto simp: pp_next_delay_3_def Let_def calc time_after_near time_before_near ucast32_sint)

end

text \<open>The time operations of the POSIX platform whose clock reads \<open>ts\<close>; the others are those of \<open>P\<close>.\<close>

definition unix_time_ops :: "s64 \<times> s64 \<Rightarrow> platform \<Rightarrow> platform" where
  "unix_time_ops ts P = P\<lparr> t_calc_timeout := \<lambda>_ _. unix_calc_timeout ts \<rparr>"

interpretation unix: ms_counter "unix_time_ops ts P" "unix_calc_timeout ts 0" for ts P
  by unfold_locales (simp add: unix_time_ops_def unix_calc_timeout_def)

section \<open>Values\<close>

lemma log_to_ms_value:
  "sint (pp_timeout_log_to_ms l) =
     (let c = max (- 9) (min 21 (sint l)) in if 0 \<le> c then 2 ^ nat c * 1000 else 1000 div 2 ^ nat (- c))"
proof -
  have pos: "sint (push_bit n 1 * 1000 :: s32) = 2 ^ n * 1000" if "n \<le> 21" for n :: nat
  proof -
    have "(push_bit n 1 * 1000 :: s32) = word_of_int (2 ^ n * 1000)" by (simp add: push_bit_eq_mult)
    moreover have "(2 :: int) ^ n \<le> 2 ^ 21" using that by (intro power_increasing) auto
    then have "(2 :: int) ^ n * 1000 < 2 ^ 31" by simp
    moreover have "- (2 ^ 31) \<le> (2 :: int) ^ n * 1000" by (rule order_trans [of _ 0]) simp_all
    ultimately show ?thesis using sint_of_int32 [of "2 ^ n * 1000"] by simp
  qed
  have neg: "sint (signed_drop_bit n 1000 :: s32) = 1000 div 2 ^ n" for n :: nat
    by (simp add: sint_signed_drop_bit_eq drop_bit_eq_div)
  show ?thesis
    using pos neg by (auto simp: pp_timeout_log_to_ms_def TIMEOUT_MAX_LOG_VALUE_def
      TIMEOUT_MIN_LOG_VALUE_def TIMEOUT_MAX_VALUE_MS_def TIMEOUT_MIN_VALUE_MS_def Let_def max_def min_def)
qed

lemma tmo_randomize_values:
  fixes ms :: s32
  assumes "0 < sint ms" and "sint ms < 2 ^ 30"
  defines "m \<equiv> 2 * sint ms div 5"
  shows "0 < m \<Longrightarrow> sint (tmo_randomize TO_RAND_70_130 ms r) = 2 * m + uint r mod m"
    and "0 < m \<Longrightarrow> sint (tmo_randomize TO_RAND_0_200 ms r) = uint r mod (5 * m)"
    and "m = 0 \<Longrightarrow> tmo_randomize rnd ms r = 0"
proof -
  define M :: s32 where "M = word_of_int (sint (push_bit 1 ms) sdiv 5)"
  have "sint (push_bit 1 ms) = 2 * sint ms"
    using sint_of_int32 [of "2 * sint ms"] assms by (simp add: push_bit_eq_mult ac_simps)
  then have M: "M = word_of_int m"
    using assms by (simp add: M_def m_def signed_divide_int_def)
  have m: "0 \<le> m" "5 * m < 2 ^ 31" using assms by (simp_all add: m_def)
  then have uM: "uint M = m" "sint M = m"
    using uint_of_int32 [of m] sint_of_int32 [of m] by (simp_all add: M)
  have rnd: "tmo_randomize rnd ms r = (if 0 < m then case rnd of
      TO_RAND_70_130 \<Rightarrow> M * 2 + r mod M | TO_RAND_0_200 \<Rightarrow> r mod (M * 5) | TO_RAND_NONE \<Rightarrow> M else M)" for rnd
    using uM by (simp add: tmo_randomize_def Let_def M_def split: to_rand.split)
  show "tmo_randomize rnd ms r = 0" if "m = 0" using that by (simp add: rnd M)
  assume "0 < m"
  have u2: "uint (M * 2) = 2 * m" and u5: "uint (M * 5) = 5 * m"
    using m uint_of_int32 [of "m * 2"] uint_of_int32 [of "m * 5"] by (simp_all add: M ac_simps)
  have "uint r mod m < m" "0 \<le> uint r mod m" using \<open>0 < m\<close> by simp_all
  then have "uint (M * 2 + r mod M) = 2 * m + uint r mod m"
    using m by (simp add: uint_word_ariths(1) uint_mod u2 uM take_bit_int_eq_self)
  moreover have "2 * m + uint r mod m < 2 ^ 31" using m \<open>uint r mod m < m\<close> by simp
  ultimately show "sint (tmo_randomize TO_RAND_70_130 ms r) = 2 * m + uint r mod m"
    using \<open>0 < m\<close> by (simp add: rnd sint_small_uint32)
  have "uint r mod (5 * m) < 2 ^ 31"
    using m pos_mod_bound [of "5 * m" "uint r"] \<open>0 < m\<close> by linarith
  then show "sint (tmo_randomize TO_RAND_0_200 ms r) = uint r mod (5 * m)"
    using \<open>0 < m\<close> sint_small_uint32 [of "r mod (M * 5)"] by (simp add: rnd uint_mod u5)
qed

section \<open>Properties\<close>

text \<open>
  C32: a timer set to a delay expires exactly when that many milliseconds have passed on the platform
  counter, wherever the 64-bit counter wraps around; other counters do not matter.
\<close>

theorem timer_expires_iff:
  assumes "counter_owner i index < length (pp_instances ppg)" and "0 \<le> sint ms"
    and "unix_calc_timeout ts' 0 = unix_calc_timeout ts 0 + word_of_int d" and "0 \<le> d" and "d < 2 ^ 62"
  shows "pp_timeout (unix_time_ops ts' P)
           (pp_timeout_set (unix_time_ops ts P) ppg i index ms) i index \<longleftrightarrow> sint ms \<le> d"
proof -
  have "ms_counter (unix_time_ops ts' P) (unix_calc_timeout ts 0 + word_of_int d)"
    using unix.ms_counter_axioms [of ts' P] by (simp add: assms(3))
  then show ?thesis by (rule unix.expires_iff [OF assms(1,2) _ assms(4,5)])
qed

theorem timer_expires_iff_witness:
  "\<not> pp_timeout (unix_time_ops (0, 999000000) platform_idle)
      (pp_timeout_set (unix_time_ops (0, 0) platform_idle) (pp_globals_0 config_default 1) 0 PP_TO_SYNC_SEND 1000)
      0 PP_TO_SYNC_SEND"
  using timer_expires_iff [of 0 PP_TO_SYNC_SEND "pp_globals_0 config_default 1" 1000 "(0, 999000000)" "(0, 0)" 999 platform_idle]
  by (simp add: counter_owner_def pp_globals_0_def unix_calc_timeout_def TMO_CF_INSTANCE_DEPENDENT_def
      TMO_CF_ALLOW_COMMON_SET_def signed_divide_int_def)

text \<open>
  C35: the delay until the first of three deadlines is the smallest of their distances on the wrapping
  counter, and 0 once one of them has passed, for deadlines less than \<open>2 ^ 31\<close> ms (24 days) away.
\<close>

theorem next_delay_3_earliest:
  fixes i1 i2 i3 :: pp_timeouts
  defines "rest \<equiv> \<lambda>ppg i ts index. sint (tmo (pp_get_counter ppg i index) - unix_calc_timeout ts 0)"
  assumes "\<bar>rest ppg i ts i1\<bar> < 2 ^ 31" and "\<bar>rest ppg i ts i2\<bar> < 2 ^ 31"
    and "\<bar>rest ppg i ts i3\<bar> < 2 ^ 31"
  shows "sint (pp_next_delay_3 (unix_time_ops ts P) ppg i i1 i2 i3) =
    max 0 (min (min (rest ppg i ts i1) (rest ppg i ts i2)) (rest ppg i ts i3))"
  using assms(2-4) unfolding rest_def by (rule unix.next_delay_3)

theorem next_delay_3_earliest_witness:
  "sint (pp_next_delay_3 (unix_time_ops (0, 0) platform_idle)
     (pp_timeout_set platform_idle (pp_timeout_set platform_idle (pp_timeout_set platform_idle
        (pp_globals_0 config_default 1) 0 PP_TO_REQUEST 900) 0 PP_TO_SYNC_SEND 500) 0 PP_TO_ANN_SEND 700)
     0 PP_TO_REQUEST PP_TO_SYNC_SEND PP_TO_ANN_SEND) = 500"
  by (subst next_delay_3_earliest)
    (simp_all add: counter_owner_def pp_globals_0_def unix_calc_timeout_def TMO_CF_INSTANCE_DEPENDENT_def
      TMO_CF_ALLOW_COMMON_SET_def signed_divide_int_def pp_timeout_set_def pp_timeout_set0_def
      pp_get_counter_def upd_counter_def upd_tmo_def platform_idle_def)

text \<open>
  C36: a logarithmic interval becomes \<open>1000 * 2 ^ log\<close> milliseconds, clamped to the exponents -9 to 21,
  so that the result is always between 1 ms and 2097152000 ms and no value overflows.
\<close>

theorem log_interval_bounds:
  "let c = max (- 9) (min 21 (sint l)); ms = sint (pp_timeout_log_to_ms l)
   in ms = (if 0 \<le> c then 1000 * 2 ^ nat c else 1000 div 2 ^ nat (- c)) \<and>
      1 \<le> ms \<and> ms \<le> 2097152000"
proof -
  define c where "c = max (- 9) (min 21 (sint l))"
  have ms: "sint (pp_timeout_log_to_ms l) = (if 0 \<le> c then 2 ^ nat c * 1000 else 1000 div 2 ^ nat (- c))"
    unfolding c_def using log_to_ms_value [of l] by (simp only: Let_def)
  have "(2 :: int) ^ nat c \<le> 2 ^ 21" by (rule power_increasing) (auto simp: c_def)
  moreover have "(1 :: int) \<le> 2 ^ nat c * 1000"
    using one_le_power [of "2 :: int" "nat c"] by linarith
  moreover have "(2 :: int) ^ nat (- c) \<le> 2 ^ 9" by (rule power_increasing) (auto simp: c_def)
  then have "1000 div 2 ^ 9 \<le> 1000 div (2 :: int) ^ nat (- c)" by (intro zdiv_mono2) auto
  moreover have "1000 div (2 :: int) ^ nat (- c) \<le> 1000" by (rule order_trans [OF zdiv_mono2 [of _ 1]]) auto
  ultimately show ?thesis by (simp add: ms Let_def flip: c_def)
qed

text \<open>
  C37: the pseudo-random spread of a timer of \<open>ms\<close> milliseconds, from 1 up to \<open>2 ^ 30\<close>, for every random
  number.  With \<open>m\<close> two fifths of the value rounded down, a timer of announce and sync messages lies
  from \<open>2 * m\<close> to below \<open>3 * m\<close>: below 120% of the value, and at most 1.6 ms below 80% of it, hence within the documented
  70% to 130% from 16 ms on.  The timer of a delay request lies from 0 to below \<open>5 * m\<close>, never above 200%.
  A value of 1 or 2 ms becomes 0.
\<close>

theorem randomized_timer_range:
  assumes "1 \<le> sint ms" and "sint ms < 2 ^ 30"
  shows "let m = 2 * sint ms div 5; v = sint (tmo_randomize TO_RAND_70_130 ms r); w = sint (tmo_randomize TO_RAND_0_200 ms r)
    in if sint ms \<le> 2 then v = 0 \<and> w = 0
       else 2 * m \<le> v \<and> v < 3 * m \<and> 4 * sint ms - 8 \<le> 5 * v \<and> 5 * v < 6 * sint ms \<and>
         (16 \<le> sint ms \<longrightarrow> 7 * sint ms \<le> 10 * v \<and> 10 * v \<le> 13 * sint ms) \<and>
         0 \<le> w \<and> w < 5 * m \<and> w < 2 * sint ms"
proof (cases "sint ms \<le> 2")
  case True
  then have "2 * sint ms div 5 = 0" using assms(1) by simp
  then show ?thesis using True tmo_randomize_values(3) [of ms] assms by (simp add: Let_def)
next
  case False
  define m where "m = 2 * sint ms div 5"
  have m: "0 < m" "5 * m \<le> 2 * sint ms" "2 * sint ms \<le> 5 * m + 4" using False by (simp_all add: m_def)
  define x y where "x = uint r mod m" and "y = uint r mod (5 * m)"
  have "sint (tmo_randomize TO_RAND_70_130 ms r) = 2 * m + x" "sint (tmo_randomize TO_RAND_0_200 ms r) = y"
    using tmo_randomize_values(1,2) [of ms r] assms m by (simp_all add: m_def x_def y_def)
  moreover have "0 \<le> x" "x < m" "0 \<le> y" "y < 5 * m" using m(1) by (simp_all add: x_def y_def)
  ultimately show ?thesis using m False unfolding Let_def m_def [symmetric] by auto
qed

theorem randomized_timer_range_witness:
  "800 \<le> sint (tmo_randomize TO_RAND_70_130 1000 123456) \<and>
   sint (tmo_randomize TO_RAND_70_130 1000 123456) < 1200 \<and>
   sint (tmo_randomize TO_RAND_0_200 1000 123456) < 2000"
  using randomized_timer_range [of 1000 123456] by (simp add: Let_def)

end
