(* ===== verification/Bmc_Cmp.thy ===== *)
theory Bmc_Cmp
  imports Timeout "HOL-Library.Product_Lexorder"
begin

text \<open>
  Comparison of data sets (\<^verbatim>\<open>proto-standard/bmc.c\<close>, \<^verbatim>\<open>bmc_idcmp\<close> to \<^verbatim>\<open>bmc_dataset_cmp\<close>): the order on
  foreign masters behind the best master clock algorithm.  A comparison returns an integer like
  \<^verbatim>\<open>memcmp\<close>; lower values win.  The locale \<open>key_cmp\<close> is the contract the selection loops rely on: the
  sign of a comparison is the order of a key.
\<close>

section \<open>Identities\<close>

definition bmc_idcmp :: "ClockIdentity \<Rightarrow> ClockIdentity \<Rightarrow> int" where
  "bmc_idcmp a b = memcmp (cid_bytes a) (cid_bytes b)"

definition bmc_pidcmp :: "PortIdentity \<Rightarrow> PortIdentity \<Rightarrow> int" where
  "bmc_pidcmp a b =
     (let ret = bmc_idcmp (clockIdentity a) (clockIdentity b)
      in if ret \<noteq> 0 then ret else uint (portNumber a) - uint (portNumber b))"

section \<open>Qualification\<close>

text \<open>
  The record of a port chosen by a signed index, and the best record of the best port.  The pointer
  comparison of \<^verbatim>\<open>is_ebest\<close> is subsumed by the comparison of the identities.
\<close>

definition erbest_of :: "pp_instance \<Rightarrow> pp_frgn_master" where
  "erbest_of ppi = frgn_master ppi ! nat (sint (frgn_rec_best ppi))"

definition is_ebest :: "pp_globals \<Rightarrow> pp_frgn_master \<Rightarrow> bool" where
  "is_ebest ppg fm \<longleftrightarrow>
     ebest_idx ppg \<noteq> - 1 \<and>
     (let ppi_best = INST ppg (nat (sint (ebest_idx ppg)))
      in frgn_rec_best ppi_best \<noteq> - 1 \<and>
         bmc_pidcmp (fm_sourcePortIdentity fm) (fm_sourcePortIdentity (erbest_of ppi_best)) = 0)"

definition is_qualified :: "pp_globals \<Rightarrow> pp_frgn_master \<Rightarrow> bool" where
  "is_qualified ppg fm \<longleftrightarrow> fm_qualified fm \<or> is_ebest ppg fm"

text \<open>\<^const>\<open>None\<close>: both are qualified and the comparison goes on; otherwise its result.\<close>

definition are_qualified :: "pp_globals \<Rightarrow> pp_frgn_master \<Rightarrow> pp_frgn_master \<Rightarrow> int option" where
  "are_qualified ppg a b =
     (let qa = is_qualified ppg a; qb = is_qualified ppg b
      in if qa \<and> \<not> qb then Some (- 1)
         else if qb \<and> \<not> qa then Some 1
         else if \<not> qa \<and> \<not> qb then Some 0
         else None)"

section \<open>Data sets\<close>

definition bmc_gm_cmp :: "pp_globals \<Rightarrow> pp_frgn_master \<Rightarrow> pp_frgn_master \<Rightarrow> int" where
  "bmc_gm_cmp ppg a b =
     (case are_qualified ppg a b of Some ret \<Rightarrow> ret | None \<Rightarrow>
      let qa = fm_grandmasterClockQuality a; qb = fm_grandmasterClockQuality b
      in if fm_grandmasterPriority1 a \<noteq> fm_grandmasterPriority1 b
         then uint (fm_grandmasterPriority1 a) - uint (fm_grandmasterPriority1 b)
         else if clockClass qa \<noteq> clockClass qb
         then uint (clockClass qa) - uint (clockClass qb)
         else if clockAccuracy qa \<noteq> clockAccuracy qb
         then uint (clockAccuracy qa) - uint (clockAccuracy qb)
         else if offsetScaledLogVariance qa \<noteq> offsetScaledLogVariance qb
         then uint (offsetScaledLogVariance qa) - uint (offsetScaledLogVariance qb)
         else if fm_grandmasterPriority2 a \<noteq> fm_grandmasterPriority2 b
         then uint (fm_grandmasterPriority2 a) - uint (fm_grandmasterPriority2 b)
         else bmc_idcmp (fm_grandmasterIdentity a) (fm_grandmasterIdentity b))"

definition bmc_topology_cmp :: "pp_globals \<Rightarrow> pp_frgn_master \<Rightarrow> pp_frgn_master \<Rightarrow> int" where
  "bmc_topology_cmp ppg a b =
     (case are_qualified ppg a b of Some ret \<Rightarrow> ret | None \<Rightarrow>
      let pidtxa = fm_sourcePortIdentity a; pidtxb = fm_sourcePortIdentity b;
          pidrxa = fm_receivePortIdentity a; pidrxb = fm_receivePortIdentity b;
          diff = uint (fm_stepsRemoved a) - uint (fm_stepsRemoved b)
      in if diff > 1 \<or> diff < - 1 then diff
         else if diff > 0 then if bmc_pidcmp pidtxa pidrxa = 0 then 0 else 1
         else if diff < 0 then if bmc_pidcmp pidtxb pidrxb = 0 then 0 else - 1
         else let diff = bmc_pidcmp pidtxa pidtxb
              in if diff \<noteq> 0 then diff else bmc_pidcmp pidrxa pidrxb)"

definition bmc_dataset_cmp :: "pp_globals \<Rightarrow> pp_frgn_master \<Rightarrow> pp_frgn_master \<Rightarrow> int" where
  "bmc_dataset_cmp ppg a b =
     (if bmc_idcmp (fm_grandmasterIdentity a) (fm_grandmasterIdentity b) = 0
      then bmc_topology_cmp ppg a b else bmc_gm_cmp ppg a b)"

section \<open>The order of identities\<close>

text \<open>The value of an identity as a big-endian number: \<^const>\<open>memcmp\<close> compares these numbers.\<close>

definition be_val :: "u8 list \<Rightarrow> int" where
  "be_val bs = foldl (\<lambda>acc b. acc * 256 + uint b) 0 bs"

lemma foldl_be: "foldl (\<lambda>acc b. acc * 256 + uint (b :: u8)) k bs = k * 256 ^ length bs + be_val bs"
proof (induction bs arbitrary: k)
  case (Cons b bs)
  have "be_val (b # bs) = uint b * 256 ^ length bs + be_val bs"
    using Cons.IH [of "uint b"] by (simp add: be_val_def)
  then show ?case using Cons.IH [of "k * 256 + uint b"] by (simp add: algebra_simps)
qed (simp add: be_val_def)

lemma be_val_Cons: "be_val (b # bs) = uint b * 256 ^ length bs + be_val bs"
  using foldl_be [of "uint b" bs] by (simp add: be_val_def)

lemma be_val_Nil [simp]: "be_val [] = 0"
  by (simp add: be_val_def)

lemma be_val_bounds: "0 \<le> be_val bs \<and> be_val bs < 256 ^ length bs"
proof (induction bs)
  case (Cons b bs)
  define m :: int where "m = 256 ^ length bs"
  have "uint b + 1 \<le> 256" using uint_lt2p [of b] by simp
  then have "(uint b + 1) * m \<le> 256 * m" by (rule mult_right_mono) (simp add: m_def)
  moreover have "0 \<le> uint b * m" by (simp add: m_def)
  moreover have "0 \<le> be_val bs" "be_val bs < m" using Cons by (simp_all add: m_def)
  ultimately have "0 \<le> uint b * m + be_val bs" "uint b * m + be_val bs < 256 * m"
    unfolding distrib_right by linarith+
  then show ?case by (simp add: be_val_Cons m_def)
qed simp

lemma memcmp_sgn:
  "length as = length bs \<Longrightarrow> sgn (memcmp as bs) = sgn (be_val as - be_val bs)"
proof (induction as bs rule: list_induct2)
  case (Cons a as b bs)
  define m :: int where "m = 256 ^ length bs"
  have la: "length as = length bs" by (rule Cons.hyps)
  have bd: "0 \<le> be_val as" "be_val as < m" "0 \<le> be_val bs" "be_val bs < m"
    using be_val_bounds [of as] be_val_bounds [of bs] la by (simp_all add: m_def)
  have eq: "be_val (a # as) - be_val (b # bs) = (uint a - uint b) * m + (be_val as - be_val bs)"
    by (simp add: be_val_Cons la m_def algebra_simps)
  consider "uint a = uint b" | "uint a + 1 \<le> uint b" | "uint b + 1 \<le> uint a" by linarith
  then show ?case
  proof cases
    case 1
    then show ?thesis using Cons.IH eq by simp
  next
    case 2
    then have "(uint a - uint b) * m \<le> (- 1) * m" using bd by (intro mult_right_mono) auto
    then have "be_val (a # as) - be_val (b # bs) < 0" using bd unfolding eq by linarith
    with 2 show ?thesis by simp
  next
    case 3
    then have "1 * m \<le> (uint a - uint b) * m" using bd by (intro mult_right_mono) auto
    then have "0 < be_val (a # as) - be_val (b # bs)" using bd unfolding eq by linarith
    with 3 show ?thesis by simp
  qed
qed simp

definition cid_val :: "ClockIdentity \<Rightarrow> int" where
  "cid_val a = be_val (cid_bytes a)"

lemma memcmp_0: "length as = length bs \<Longrightarrow> memcmp as bs = 0 \<longleftrightarrow> as = bs"
  by (induction as bs rule: list_induct2) (auto simp: word_uint_eq_iff)

lemma length_cid_bytes [simp]: "length (cid_bytes a) = 8"
  by (cases a) simp

lemma cid_bytes_inject [simp]: "cid_bytes a = cid_bytes b \<longleftrightarrow> a = b"
  by (cases a; cases b) simp

lemma bmc_idcmp_sgn: "sgn (bmc_idcmp a b) = sgn (cid_val a - cid_val b)"
  by (simp add: bmc_idcmp_def cid_val_def memcmp_sgn)

lemma bmc_idcmp_0 [simp]: "bmc_idcmp a b = 0 \<longleftrightarrow> a = b"
  by (simp add: bmc_idcmp_def memcmp_0)

lemma cid_val_inject: "cid_val a = cid_val b \<longleftrightarrow> a = b"
proof -
  have "cid_val a = cid_val b \<longleftrightarrow> sgn (bmc_idcmp a b) = 0" by (simp add: bmc_idcmp_sgn sgn_0_0)
  then show ?thesis by (simp add: sgn_0_0)
qed

instantiation ClockIdentity :: linorder
begin

definition less_eq_ClockIdentity :: "ClockIdentity \<Rightarrow> ClockIdentity \<Rightarrow> bool" where
  "less_eq_ClockIdentity a b \<longleftrightarrow> cid_val a \<le> cid_val b"

definition less_ClockIdentity :: "ClockIdentity \<Rightarrow> ClockIdentity \<Rightarrow> bool" where
  "less_ClockIdentity a b \<longleftrightarrow> cid_val a < cid_val b"

instance
  by standard (auto simp: less_eq_ClockIdentity_def less_ClockIdentity_def cid_val_inject)

end

lemma bmc_idcmp_less: "bmc_idcmp a b < 0 \<longleftrightarrow> a < b"
  using bmc_idcmp_sgn [of a b] sgn_less [of "bmc_idcmp a b"] sgn_less [of "cid_val a - cid_val b"]
  by (simp add: less_ClockIdentity_def)

definition pid_key :: "PortIdentity \<Rightarrow> ClockIdentity \<times> u16" where
  "pid_key p = (clockIdentity p, portNumber p)"

lemma pid_key_inject [simp]: "pid_key a = pid_key b \<longleftrightarrow> a = b"
  by (cases a; cases b) (simp add: pid_key_def)

lemma bmc_pidcmp_0 [simp]: "bmc_pidcmp a b = 0 \<longleftrightarrow> a = b"
  by (cases a; cases b) (auto simp: bmc_pidcmp_def Let_def word_uint_eq_iff)

lemma bmc_pidcmp_less: "bmc_pidcmp a b < 0 \<longleftrightarrow> pid_key a < pid_key b"
  by (auto simp: bmc_pidcmp_def Let_def pid_key_def bmc_idcmp_less word_less_def)

section \<open>Comparisons that follow a key\<close>

locale key_cmp =
  fixes cmp :: "'a \<Rightarrow> 'a \<Rightarrow> int" and key :: "'a \<Rightarrow> 'k :: linorder" and S :: "'a set"
  assumes cmp_less: "a \<in> S \<Longrightarrow> b \<in> S \<Longrightarrow> cmp a b < 0 \<longleftrightarrow> key a < key b"
    and cmp_eq: "a \<in> S \<Longrightarrow> b \<in> S \<Longrightarrow> cmp a b = 0 \<longleftrightarrow> key a = key b"
begin

lemma cmp_greater: "a \<in> S \<Longrightarrow> b \<in> S \<Longrightarrow> 0 < cmp a b \<longleftrightarrow> key b < key a"
  using cmp_less [of a b] cmp_eq [of a b] by auto

lemma cmp_swap: "a \<in> S \<Longrightarrow> b \<in> S \<Longrightarrow> sgn (cmp b a) = - sgn (cmp a b)"
  using cmp_less [of a b] cmp_eq [of a b] cmp_less [of b a] cmp_eq [of b a] by (auto simp: sgn_if)

lemma cmp_le: "a \<in> S \<Longrightarrow> b \<in> S \<Longrightarrow> cmp a b \<le> 0 \<longleftrightarrow> key a \<le> key b"
  by (simp add: cmp_greater not_less [symmetric])

lemma cmp_trans: "a \<in> S \<Longrightarrow> b \<in> S \<Longrightarrow> c \<in> S \<Longrightarrow> cmp a b \<le> 0 \<Longrightarrow> cmp b c \<le> 0 \<Longrightarrow> cmp a c \<le> 0"
  by (simp add: cmp_le)

text \<open>The loop that keeps the better of the best so far and the next one finds a least element.\<close>

lemma scan_best:
  assumes "\<And>j. j < Suc n \<Longrightarrow> f j \<in> S"
  defines "best \<equiv> fold (\<lambda>j best. if cmp (f j) (f best) < 0 then j else best) [1..<Suc n] 0"
  shows "best \<le> n \<and> (\<forall>j \<le> n. key (f best) \<le> key (f j)) \<and> (\<forall>j < best. key (f best) < key (f j))"
  using assms(1) unfolding best_def
proof (induction n)
  case (Suc n)
  define b where "b = fold (\<lambda>j best. if cmp (f j) (f best) < 0 then j else best) [1..<Suc n] 0"
  have IH: "b \<le> n" "\<And>j. j \<le> n \<Longrightarrow> key (f b) \<le> key (f j)" "\<And>j. j < b \<Longrightarrow> key (f b) < key (f j)"
    using Suc by (auto simp: b_def)
  have "cmp (f (Suc n)) (f b) < 0 \<longleftrightarrow> key (f (Suc n)) < key (f b)"
    using Suc.prems IH(1) by (intro cmp_less) auto
  moreover have "fold (\<lambda>j best. if cmp (f j) (f best) < 0 then j else best) [1..<Suc (Suc n)] 0 =
      (if cmp (f (Suc n)) (f b) < 0 then Suc n else b)"
    by (simp add: b_def)
  ultimately show ?case
    using IH less_imp_le [OF less_le_trans [of "key (f (Suc n))" "key (f b)"]]
      less_le_trans [of "key (f (Suc n))" "key (f b)"]
    by (auto simp: le_Suc_eq less_Suc_eq_le not_less)
qed simp

text \<open>The loop that keeps the worse one finds a greatest element.\<close>

lemma scan_worst:
  assumes "\<And>j. j < Suc n \<Longrightarrow> f j \<in> S"
  defines "worst \<equiv> fold (\<lambda>j worst. if cmp (f j) (f worst) > 0 then j else worst) [1..<Suc n] 0"
  shows "worst \<le> n \<and> (\<forall>j \<le> n. key (f j) \<le> key (f worst))"
  using assms(1) unfolding worst_def
proof (induction n)
  case (Suc n)
  define w where "w = fold (\<lambda>j worst. if cmp (f j) (f worst) > 0 then j else worst) [1..<Suc n] 0"
  have IH: "w \<le> n" "\<And>j. j \<le> n \<Longrightarrow> key (f j) \<le> key (f w)"
    using Suc by (auto simp: w_def)
  have "cmp (f (Suc n)) (f w) > 0 \<longleftrightarrow> key (f w) < key (f (Suc n))"
    using Suc.prems IH(1) by (intro cmp_greater) auto
  moreover have "fold (\<lambda>j worst. if cmp (f j) (f worst) > 0 then j else worst) [1..<Suc (Suc n)] 0 =
      (if cmp (f (Suc n)) (f w) > 0 then Suc n else w)"
    by (simp add: w_def)
  ultimately show ?case
    using IH less_imp_le [OF le_less_trans [of _ "key (f w)" "key (f (Suc n))"]]
    by (auto simp: le_Suc_eq not_less)
qed simp

end

section \<open>The order of data sets\<close>

text \<open>A comparison result agrees with the order of two keys.\<close>

definition agrees :: "int \<Rightarrow> 'k :: linorder \<Rightarrow> 'k \<Rightarrow> bool" where
  "agrees c u v \<longleftrightarrow> (c < 0 \<longleftrightarrow> u < v) \<and> (c = 0 \<longleftrightarrow> u = v)"

lemma agreesD: "agrees c u v \<Longrightarrow> c < 0 \<longleftrightarrow> u < v" "agrees c u v \<Longrightarrow> c = 0 \<longleftrightarrow> u = v"
  by (simp_all add: agrees_def)

lemma agrees_sgn: "sgn c = sgn d \<Longrightarrow> agrees c u v \<longleftrightarrow> agrees d u v"
  using sgn_less [of c] sgn_less [of d] sgn_0_0 [of c] sgn_0_0 [of d] by (simp add: agrees_def)

lemma agrees_then:
  assumes "agrees d x y" and "agrees c u v"
  shows "agrees (if d \<noteq> 0 then d else c) (x, u) (y, v)"
  using assms by (auto simp: agrees_def)

lemma agrees_lex:
  fixes x y :: "'a :: len word"
  assumes "agrees c u v"
  shows "agrees (if x \<noteq> y then uint x - uint y else c) (x, u) (y, v)"
proof -
  have "agrees (uint x - uint y) x y" by (simp add: agrees_def word_less_def word_uint_eq_iff)
  from agrees_then [OF this assms] show ?thesis by (simp add: word_uint_eq_iff)
qed

lemma agrees_idcmp: "agrees (bmc_idcmp a b) a b"
  by (simp add: agrees_def bmc_idcmp_less)

lemma agrees_pidcmp: "agrees (bmc_pidcmp a b) (pid_key a) (pid_key b)"
  by (simp add: agrees_def bmc_pidcmp_less)

type_synonym gm_attr = "u8 \<times> u8 \<times> u8 \<times> u16 \<times> u8"

definition gm_attr :: "pp_frgn_master \<Rightarrow> gm_attr" where
  "gm_attr a = (fm_grandmasterPriority1 a, clockClass (fm_grandmasterClockQuality a),
     clockAccuracy (fm_grandmasterClockQuality a),
     offsetScaledLogVariance (fm_grandmasterClockQuality a), fm_grandmasterPriority2 a)"

definition gm_key ::
  "pp_frgn_master \<Rightarrow> u8 \<times> u8 \<times> u8 \<times> u16 \<times> u8 \<times> ClockIdentity" where
  "gm_key a = (fm_grandmasterPriority1 a, clockClass (fm_grandmasterClockQuality a),
     clockAccuracy (fm_grandmasterClockQuality a),
     offsetScaledLogVariance (fm_grandmasterClockQuality a), fm_grandmasterPriority2 a,
     fm_grandmasterIdentity a)"

definition topo_key ::
  "pp_frgn_master \<Rightarrow> u16 \<times> (ClockIdentity \<times> u16) \<times> (ClockIdentity \<times> u16)" where
  "topo_key a = (fm_stepsRemoved a, pid_key (fm_sourcePortIdentity a),
     pid_key (fm_receivePortIdentity a))"

lemma gm_cmp_agrees:
  assumes "is_qualified ppg a" and "is_qualified ppg b"
  shows "agrees (bmc_gm_cmp ppg a b) (gm_key a) (gm_key b)"
proof -
  have None: "are_qualified ppg a b = None" using assms by (simp add: are_qualified_def)
  show ?thesis unfolding bmc_gm_cmp_def None gm_key_def Let_def option.case
    by (intro agrees_lex agrees_idcmp)
qed

lemma topology_cmp_agrees:
  assumes "is_qualified ppg a" and "is_qualified ppg b"
    and "fm_sourcePortIdentity a \<noteq> fm_receivePortIdentity a"
    and "fm_sourcePortIdentity b \<noteq> fm_receivePortIdentity b"
  shows "agrees (bmc_topology_cmp ppg a b) (topo_key a) (topo_key b)"
proof -
  let ?tie = "let diff = bmc_pidcmp (fm_sourcePortIdentity a) (fm_sourcePortIdentity b)
     in if diff \<noteq> 0 then diff
        else bmc_pidcmp (fm_receivePortIdentity a) (fm_receivePortIdentity b)"
  have "agrees ?tie (pid_key (fm_sourcePortIdentity a), pid_key (fm_receivePortIdentity a))
      (pid_key (fm_sourcePortIdentity b), pid_key (fm_receivePortIdentity b))"
    unfolding Let_def by (intro agrees_then agrees_pidcmp)
  then have lex: "agrees (if fm_stepsRemoved a \<noteq> fm_stepsRemoved b
      then uint (fm_stepsRemoved a) - uint (fm_stepsRemoved b) else ?tie) (topo_key a) (topo_key b)"
    unfolding topo_key_def by (rule agrees_lex)
  define d where "d = uint (fm_stepsRemoved a) - uint (fm_stepsRemoved b)"
  have None: "are_qualified ppg a b = None" using assms(1,2) by (simp add: are_qualified_def)
  have cmp: "bmc_topology_cmp ppg a b =
      (if d > 1 \<or> d < - 1 then d else if d > 0 then 1 else if d < 0 then - 1 else ?tie)"
    unfolding bmc_topology_cmp_def None option.case Let_def d_def [symmetric]
    using assms(3,4) by (simp only: bmc_pidcmp_0 if_False)
  have "fm_stepsRemoved a \<noteq> fm_stepsRemoved b \<longleftrightarrow> d \<noteq> 0"
    by (simp add: d_def word_uint_eq_iff)
  then have "sgn (bmc_topology_cmp ppg a b) = sgn (if fm_stepsRemoved a \<noteq> fm_stepsRemoved b
      then uint (fm_stepsRemoved a) - uint (fm_stepsRemoved b) else ?tie)"
    unfolding cmp d_def [symmetric] by (cases "d = 0"; cases "d > 0") simp_all
  from agrees_sgn [OF this] lex show ?thesis by (rule iffD2)
qed

text \<open>
  The key of a data set: qualified ones come first, in the order of the grandmaster attributes and,
  for the same grandmaster, of the topology.  Data sets are consistent with a table of grandmaster
  attributes when records of the same grandmaster carry the same attributes; no port receives its own
  announce messages.
\<close>

definition dataset_key where
  "dataset_key ppg a = (if is_qualified ppg a then (False, gm_key a, topo_key a)
     else (True, gm_key pp_frgn_master_0, topo_key pp_frgn_master_0))"

definition consistent :: "(ClockIdentity \<Rightarrow> gm_attr) \<Rightarrow> pp_frgn_master set" where
  "consistent tab = {a. gm_attr a = tab (fm_grandmasterIdentity a) \<and>
     fm_sourcePortIdentity a \<noteq> fm_receivePortIdentity a}"

lemma dataset_cmp_agrees:
  assumes "a \<in> consistent tab" and "b \<in> consistent tab"
  shows "agrees (bmc_dataset_cmp ppg a b) (dataset_key ppg a) (dataset_key ppg b)"
proof (cases "is_qualified ppg a \<and> is_qualified ppg b")
  case q: True
  show ?thesis
  proof (cases "fm_grandmasterIdentity a = fm_grandmasterIdentity b")
    case True
    then have "gm_attr a = gm_attr b" using assms by (simp add: consistent_def)
    with True have "gm_key a = gm_key b" by (simp add: gm_attr_def gm_key_def)
    then show ?thesis
      using True q assms topology_cmp_agrees [of ppg a b]
      by (simp add: dataset_key_def bmc_dataset_cmp_def consistent_def agrees_def)
  next
    case False
    then have "gm_key a \<noteq> gm_key b" by (simp add: gm_key_def)
    then show ?thesis
      using False q gm_cmp_agrees [of ppg a b]
      by (auto simp: dataset_key_def bmc_dataset_cmp_def agrees_def)
  qed
next
  case False
  then obtain r where r: "are_qualified ppg a b = Some r"
      "agrees r (dataset_key ppg a) (dataset_key ppg b)"
    by (cases "is_qualified ppg a"; cases "is_qualified ppg b")
      (simp_all add: are_qualified_def dataset_key_def agrees_def)
  then have "bmc_dataset_cmp ppg a b = r"
    by (simp add: bmc_dataset_cmp_def bmc_topology_cmp_def bmc_gm_cmp_def)
  with r show ?thesis by simp
qed

interpretation dataset: key_cmp "bmc_dataset_cmp ppg" "dataset_key ppg" "consistent tab" for ppg tab
  by unfold_locales (rule agreesD [OF dataset_cmp_agrees], assumption+)+

section \<open>Properties\<close>

lemma memcmp_swap: "memcmp bs as = - memcmp as bs"
  by (induction as bs rule: memcmp.induct) (auto simp: Let_def)

lemma bmc_pidcmp_swap: "bmc_pidcmp b a = - bmc_pidcmp a b"
  using memcmp_swap [of "cid_bytes (clockIdentity b)" "cid_bytes (clockIdentity a)"]
  unfolding bmc_pidcmp_def bmc_idcmp_def Let_def by simp

lemma bmc_pidcmp_then_swap:
  "(if bmc_pidcmp p q \<noteq> 0 then bmc_pidcmp p q else bmc_pidcmp r s) =
   - (if bmc_pidcmp q p \<noteq> 0 then bmc_pidcmp q p else bmc_pidcmp s r)"
  unfolding bmc_pidcmp_swap [of p q] bmc_pidcmp_swap [of r s] by simp

lemma bmc_topology_cmp_swap: "bmc_topology_cmp ppg b a = - bmc_topology_cmp ppg a b"
proof (cases "are_qualified ppg a b")
  case None
  then have None': "are_qualified ppg b a = None" by (auto simp: are_qualified_def Let_def split: if_splits)
  show ?thesis
    unfolding bmc_topology_cmp_def None None' option.case Let_def
      bmc_pidcmp_then_swap [of "fm_sourcePortIdentity b" "fm_sourcePortIdentity a"] by simp
next
  case (Some r)
  then have "are_qualified ppg b a = Some (- r)"
    by (auto simp: are_qualified_def Let_def split: if_splits)
  with Some show ?thesis by (simp add: bmc_topology_cmp_def)
qed

lemma bmc_gm_cmp_swap: "bmc_gm_cmp ppg b a = - bmc_gm_cmp ppg a b"
proof (cases "are_qualified ppg a b")
  case None
  then have None': "are_qualified ppg b a = None" by (auto simp: are_qualified_def Let_def split: if_splits)
  have id: "bmc_idcmp (fm_grandmasterIdentity b) (fm_grandmasterIdentity a) =
      - bmc_idcmp (fm_grandmasterIdentity a) (fm_grandmasterIdentity b)"
    unfolding bmc_idcmp_def by (rule memcmp_swap)
  show ?thesis unfolding bmc_gm_cmp_def None None' option.case Let_def id by simp
next
  case (Some r)
  then have "are_qualified ppg b a = Some (- r)"
    by (auto simp: are_qualified_def Let_def split: if_splits)
  with Some show ?thesis by (simp add: bmc_gm_cmp_def)
qed

text \<open>
  C23: swapping the two data sets negates the result of every comparison of the best master clock
  algorithm, also for unqualified data sets and for the error cases of the topology comparison.
\<close>

theorem dataset_cmp_antisym:
  "bmc_dataset_cmp ppg b a = - bmc_dataset_cmp ppg a b \<and>
   bmc_gm_cmp ppg b a = - bmc_gm_cmp ppg a b \<and>
   bmc_topology_cmp ppg b a = - bmc_topology_cmp ppg a b"
  by (auto simp: bmc_dataset_cmp_def bmc_gm_cmp_swap [of ppg b a] bmc_topology_cmp_swap [of ppg b a])

text \<open>
  C20: on data sets that agree on the attributes of each grandmaster, the data set comparison is the
  lexicographic order of qualification, priority1, class, accuracy, variance, priority2, grandmaster
  identity, steps removed, sender and receiver, hence transitive.
\<close>

theorem dataset_cmp_lexicographic:
  assumes "{a, b, c} \<subseteq> consistent tab"
  shows "(bmc_dataset_cmp ppg a b < 0 \<longleftrightarrow> dataset_key ppg a < dataset_key ppg b) \<and>
    (bmc_dataset_cmp ppg a b = 0 \<longleftrightarrow> dataset_key ppg a = dataset_key ppg b) \<and>
    (bmc_dataset_cmp ppg a b \<le> 0 \<and> bmc_dataset_cmp ppg b c \<le> 0 \<longrightarrow> bmc_dataset_cmp ppg a c \<le> 0)"
  using assms dataset.cmp_less [of a tab b ppg] dataset.cmp_eq [of a tab b ppg]
    dataset.cmp_trans [of a tab b c ppg] by simp

definition example_master :: "u8 \<Rightarrow> u8 \<Rightarrow> u16 \<Rightarrow> pp_frgn_master" where
  "example_master prio gm steps = pp_frgn_master_0\<lparr> fm_qualified := True,
     fm_grandmasterPriority1 := prio, fm_grandmasterIdentity := ClockId gm 0 0 0 0 0 0 0,
     fm_stepsRemoved := steps, fm_sourcePortIdentity := \<lparr> clockIdentity = ClockId gm 0 0 0 0 0 0 0, portNumber = 1 \<rparr> \<rparr>"

theorem dataset_cmp_lexicographic_witness:
  "{example_master 10 7 0, example_master 128 5 1, example_master 128 5 3} \<subseteq>
     consistent (\<lambda>g. (if g = ClockId 7 0 0 0 0 0 0 0 then 10 else 128, 0, 0, 0, 0)) \<and>
   bmc_dataset_cmp (pp_globals_0 config_default 1) (example_master 10 7 0) (example_master 128 5 3) \<le> 0"
proof -
  have sub: "{example_master 10 7 0, example_master 128 5 1, example_master 128 5 3} \<subseteq>
      consistent (\<lambda>g. (if g = ClockId 7 0 0 0 0 0 0 0 then 10 else 128, 0, 0, 0, 0))"
    by (simp add: consistent_def gm_attr_def example_master_def cleared_defs)
  moreover have "bmc_dataset_cmp (pp_globals_0 config_default 1) (example_master 10 7 0) (example_master 128 5 1) \<le> 0"
    "bmc_dataset_cmp (pp_globals_0 config_default 1) (example_master 128 5 1) (example_master 128 5 3) \<le> 0"
    by (simp_all add: bmc_dataset_cmp_def bmc_gm_cmp_def bmc_topology_cmp_def are_qualified_def
      is_qualified_def example_master_def cleared_defs Let_def)
  ultimately show ?thesis using dataset_cmp_lexicographic [OF sub] by blast
qed

text \<open>
  Consistency matters: when a near record of a grandmaster carries other attributes than a far one, the
  comparison is cyclic, since records of one grandmaster are compared by their distance only.
\<close>

lemma dataset_cmp_cyclic:
  defines "ppg \<equiv> pp_globals_0 config_default 1"
  shows "bmc_dataset_cmp ppg (example_master 128 7 1) (example_master 10 7 5) < 0"
    and "bmc_dataset_cmp ppg (example_master 50 9 1) (example_master 128 7 1) < 0"
    and "bmc_dataset_cmp ppg (example_master 10 7 5) (example_master 50 9 1) < 0"
  by (simp_all add: bmc_dataset_cmp_def bmc_gm_cmp_def bmc_topology_cmp_def are_qualified_def
    is_qualified_def example_master_def cleared_defs Let_def bmc_idcmp_def)

end
