(* ===== verification/Wire_Bytes.thy ===== *)
theory Wire_Bytes
  imports Ppsi_Prelude
begin

text \<open>
  Byte buffers and the byte order of the wire: reading and writing part of a buffer, and
  big-endian words of 16, 32 and 64 bits (\<^verbatim>\<open>htons\<close>, \<^verbatim>\<open>htonl\<close>, \<^verbatim>\<open>htonll\<close> and their inverses on a
  little-endian host).  The rewrite rules in \<open>wire\<close> evaluate a read after a write.
\<close>

named_theorems wire \<open>reads after writes\<close>

section \<open>Reading and writing bytes\<close>

definition peek :: "nat \<Rightarrow> nat \<Rightarrow> 'a list \<Rightarrow> 'a list" where
  "peek off n buf = take n (drop off buf)"

text \<open>Writing bytes at an offset; writes past the end of the buffer are dropped.\<close>

fun put :: "nat \<Rightarrow> 'a list \<Rightarrow> 'a list \<Rightarrow> 'a list" where
  "put off [] buf = buf"
| "put off (b # bs) buf = put (Suc off) bs (buf[off := b])"

lemma length_put [simp]: "length (put off bs buf) = length buf"
  by (induction off bs buf rule: put.induct) simp_all

lemma put_Nil_iff [simp]: "put off bs buf = [] \<longleftrightarrow> buf = []"
  using length_put [of off bs buf] by (metis length_0_conv)

lemma long_not_Nil [wire]: "64 \<le> length buf \<Longrightarrow> buf \<noteq> []"
  by auto

lemma nth_put:
  "i < length buf \<Longrightarrow>
   put off bs buf ! i = (if off \<le> i \<and> i < off + length bs then bs ! (i - off) else buf ! i)"
proof (induction off bs buf rule: put.induct)
  case (2 off b bs buf)
  then show ?case
    by (cases "i = off") (auto simp: nth_list_update nth_Cons' Suc_le_eq diff_Suc split: nat.split)
qed auto

lemma nth_peek: "i < n \<Longrightarrow> off + n \<le> length buf \<Longrightarrow> peek off n buf ! i = buf ! (off + i)"
  by (simp add: peek_def)

lemma length_peek: "off + n \<le> length buf \<Longrightarrow> length (peek off n buf) = n"
  by (simp add: peek_def)

declare put.simps [simp del]

text \<open>
  A read after a write, for a write that covers the read and for disjoint ranges.
\<close>

lemma peek_put_within [wire]:
  "o' \<le> off \<Longrightarrow> off + n \<le> o' + length bs \<Longrightarrow> o' + length bs \<le> length buf \<Longrightarrow>
   peek off n (put o' bs buf) = peek (off - o') n bs"
  by (rule nth_equalityI) (auto simp: length_peek nth_peek nth_put)

lemma peek_put_before [wire]:
  "o' + n \<le> off \<Longrightarrow> o' + n \<le> length buf \<Longrightarrow> peek o' n (put off bs buf) = peek o' n buf"
  by (rule nth_equalityI) (auto simp: length_peek nth_peek nth_put)

lemma peek_put_after [wire]:
  "off + length bs \<le> o' \<Longrightarrow> o' + n \<le> length buf \<Longrightarrow> peek o' n (put off bs buf) = peek o' n buf"
  by (rule nth_equalityI) (auto simp: length_peek nth_peek nth_put)

lemma peek_all [simp]: "n = length bs \<Longrightarrow> peek 0 n bs = bs"
  by (simp add: peek_def)

lemma nth_put_in [wire]:
  "off \<le> i \<Longrightarrow> i < off + length bs \<Longrightarrow> i < length buf \<Longrightarrow> put off bs buf ! i = bs ! (i - off)"
  by (simp add: nth_put)

lemma nth_put_before [wire]: "i < off \<Longrightarrow> i < length buf \<Longrightarrow> put off bs buf ! i = buf ! i"
  by (simp add: nth_put)

lemma nth_put_after [wire]:
  "off + length bs \<le> i \<Longrightarrow> i < length buf \<Longrightarrow> put off bs buf ! i = buf ! i"
  by (simp add: nth_put)

lemma peek_replicate [wire]: "off + n \<le> k \<Longrightarrow> peek off n (replicate k x) = replicate n x"
  by (simp add: peek_def)

section \<open>Big-endian words\<close>

fun be_bytes :: "nat \<Rightarrow> 'a :: len word \<Rightarrow> u8 list" where
  "be_bytes 0 w = []"
| "be_bytes (Suc n) w = ucast (drop_bit (8 * n) w) # be_bytes n w"

definition from_be :: "u8 list \<Rightarrow> 'a :: len word" where
  "from_be bs = foldl (\<lambda>acc b. push_bit 8 acc OR ucast b) 0 bs"

definition be16 :: "u16 \<Rightarrow> u8 list" where "be16 = be_bytes 2"
definition be32 :: "u32 \<Rightarrow> u8 list" where "be32 = be_bytes 4"
definition be64 :: "u64 \<Rightarrow> u8 list" where "be64 = be_bytes 8"

text \<open>A 16-bit value in the byte order of the host, as written and read without a conversion.\<close>

definition le16 :: "u16 \<Rightarrow> u8 list" where "le16 w = rev (be16 w)"
definition from_le16 :: "u8 list \<Rightarrow> u16" where "from_le16 bs = from_be (rev bs)"

lemma length_be_bytes [simp]: "length (be_bytes n w) = n"
  by (induction n) simp_all

lemma length_be [simp]: "length (be16 w) = 2" "length (be32 v) = 4" "length (be64 u) = 8" "length (le16 w) = 2"
  by (simp_all add: be16_def be32_def be64_def le16_def)

lemma foldl_from_be:
  "foldl (\<lambda>acc b. push_bit 8 acc OR ucast (b :: u8)) k bs = push_bit (8 * length bs) k OR from_be bs"
  for k :: "'a :: len word"
proof (induction bs arbitrary: k)
  case (Cons b bs)
  have "from_be (b # bs) = (push_bit (8 * length bs) (ucast b) OR from_be bs :: 'a word)"
    using Cons.IH [of "ucast b"] by (simp add: from_be_def)
  then show ?case
    using Cons.IH [of "push_bit 8 k OR ucast b"] by (simp add: push_bit_or or.assoc add.commute)
qed (simp add: from_be_def)

lemma from_be_Cons: "from_be (b # bs) = (push_bit (8 * length bs) (ucast b) OR from_be bs :: 'a :: len word)"
  using foldl_from_be [of "ucast b" bs] by (simp add: from_be_def)

lemma from_be_be_bytes: "from_be (be_bytes n w) = take_bit (8 * n) (w :: 'a :: len word)"
proof (induction n)
  case (Suc n)
  show ?case unfolding be_bytes.simps from_be_Cons Suc length_be_bytes
    by (rule bit_word_eqI) (auto simp: bit_simps)
qed (simp add: from_be_def)

lemma from_be_be [simp]:
  "from_be (be16 w) = w" "from_be (be32 v) = v" "from_be (be64 u) = u" "from_le16 (le16 w) = w"
  by (simp_all add: be16_def be32_def be64_def le16_def from_le16_def from_be_be_bytes take_bit_word_eq_self)

end
