(* ===== verification/Msg.thy ===== *)
theory Msg
  imports Bmc_Cmp Wire_Bytes
begin

text \<open>
  The messages: \<^verbatim>\<open>msgtype.c\<close>, \<^verbatim>\<open>proto-standard/msg.c\<close>, \<^verbatim>\<open>proto-standard/msg-p2p.c\<close> and the send and receive
  helpers of \<^verbatim>\<open>proto-standard/common-fun.c\<close> and \<^verbatim>\<open>common-fun.h\<close>.  A packing function writes the message
  into the transmit buffer of the port and returns its length; an unpacking function reads the receive
  buffer, a byte list.  The buffers start at the PTP payload.
\<close>

section \<open>Message types\<close>

datatype pp_np = PP_NP_GEN | PP_NP_EVT

record pp_msgtype_info =
  mi_msg_type :: u8
  mi_msglen :: u16
  mi_chtype :: pp_np
  mi_delay_mechanism :: s32
  mi_controlField :: u8
  mi_logMessageInterval :: u8

definition PP_LOG_ANNOUNCE :: u8 where "PP_LOG_ANNOUNCE = 0"
definition PP_LOG_SYNC :: u8 where "PP_LOG_SYNC = 1"
definition PP_LOG_REQUEST :: u8 where "PP_LOG_REQUEST = 2"
definition PP_HEADER_LENGTH :: nat where "PP_HEADER_LENGTH = 34"
definition PP_ANNOUNCE_LENGTH :: u16 where "PP_ANNOUNCE_LENGTH = 64"
definition PP_SYNC_LENGTH :: u16 where "PP_SYNC_LENGTH = 44"
definition PP_FOLLOW_UP_LENGTH :: u16 where "PP_FOLLOW_UP_LENGTH = 44"
definition PP_PDELAY_REQ_LENGTH :: u16 where "PP_PDELAY_REQ_LENGTH = 54"
definition PP_DELAY_REQ_LENGTH :: u16 where "PP_DELAY_REQ_LENGTH = 44"
definition PP_DELAY_RESP_LENGTH :: u16 where "PP_DELAY_RESP_LENGTH = 54"
definition PP_PDELAY_RESP_LENGTH :: u16 where "PP_PDELAY_RESP_LENGTH = 54"
definition PP_PDELAY_RESP_FOLLOW_UP_LENGTH :: u16 where "PP_PDELAY_RESP_FOLLOW_UP_LENGTH = 54"
definition PP_TWO_STEP_FLAG :: u8 where "PP_TWO_STEP_FLAG = 2"

lemmas msg_const_defs = PP_LOG_ANNOUNCE_def PP_LOG_SYNC_def PP_LOG_REQUEST_def PP_HEADER_LENGTH_def
  PP_ANNOUNCE_LENGTH_def PP_SYNC_LENGTH_def PP_FOLLOW_UP_LENGTH_def PP_PDELAY_REQ_LENGTH_def
  PP_DELAY_REQ_LENGTH_def PP_DELAY_RESP_LENGTH_def PP_PDELAY_RESP_LENGTH_def
  PP_PDELAY_RESP_FOLLOW_UP_LENGTH_def PP_TWO_STEP_FLAG_def

text \<open>The table \<^verbatim>\<open>pp_msgtype_info\<close>; a length of -1 is 65535 in the unsigned member.\<close>

fun pp_msgtype_table :: "pp_msg_format \<Rightarrow> pp_msgtype_info" where
  "pp_msgtype_table PPM_SYNC_FMT =
     \<lparr> mi_msg_type = PPM_SYNC, mi_msglen = PP_SYNC_LENGTH, mi_chtype = PP_NP_EVT,
       mi_delay_mechanism = MECH_E2E, mi_controlField = 0, mi_logMessageInterval = PP_LOG_SYNC \<rparr>"
| "pp_msgtype_table PPM_DELAY_REQ_FMT =
     \<lparr> mi_msg_type = PPM_DELAY_REQ, mi_msglen = PP_DELAY_REQ_LENGTH, mi_chtype = PP_NP_EVT,
       mi_delay_mechanism = MECH_E2E, mi_controlField = 1, mi_logMessageInterval = 0x7f \<rparr>"
| "pp_msgtype_table PPM_PDELAY_REQ_FMT =
     \<lparr> mi_msg_type = PPM_PDELAY_REQ, mi_msglen = PP_PDELAY_REQ_LENGTH, mi_chtype = PP_NP_EVT,
       mi_delay_mechanism = MECH_P2P, mi_controlField = 5, mi_logMessageInterval = 0x7f \<rparr>"
| "pp_msgtype_table PPM_PDELAY_RESP_FMT =
     \<lparr> mi_msg_type = PPM_PDELAY_RESP, mi_msglen = PP_PDELAY_RESP_LENGTH, mi_chtype = PP_NP_EVT,
       mi_delay_mechanism = MECH_P2P, mi_controlField = 5, mi_logMessageInterval = 0x7f \<rparr>"
| "pp_msgtype_table PPM_FOLLOW_UP_FMT =
     \<lparr> mi_msg_type = PPM_FOLLOW_UP, mi_msglen = PP_FOLLOW_UP_LENGTH, mi_chtype = PP_NP_GEN,
       mi_delay_mechanism = MECH_E2E, mi_controlField = 2, mi_logMessageInterval = PP_LOG_SYNC \<rparr>"
| "pp_msgtype_table PPM_DELAY_RESP_FMT =
     \<lparr> mi_msg_type = PPM_DELAY_RESP, mi_msglen = PP_DELAY_RESP_LENGTH, mi_chtype = PP_NP_GEN,
       mi_delay_mechanism = MECH_E2E, mi_controlField = 3, mi_logMessageInterval = PP_LOG_REQUEST \<rparr>"
| "pp_msgtype_table PPM_PDELAY_R_FUP_FMT =
     \<lparr> mi_msg_type = PPM_PDELAY_R_FUP, mi_msglen = PP_PDELAY_RESP_FOLLOW_UP_LENGTH,
       mi_chtype = PP_NP_GEN, mi_delay_mechanism = MECH_P2P, mi_controlField = 5,
       mi_logMessageInterval = 0x7f \<rparr>"
| "pp_msgtype_table PPM_ANNOUNCE_FMT =
     \<lparr> mi_msg_type = PPM_ANNOUNCE, mi_msglen = PP_ANNOUNCE_LENGTH, mi_chtype = PP_NP_GEN,
       mi_delay_mechanism = MECH_E2E, mi_controlField = 5, mi_logMessageInterval = PP_LOG_ANNOUNCE \<rparr>"
| "pp_msgtype_table PPM_SIGNALING_FMT =
     \<lparr> mi_msg_type = PPM_SIGNALING, mi_msglen = - 1, mi_chtype = PP_NP_GEN,
       mi_delay_mechanism = MECH_E2E, mi_controlField = 5, mi_logMessageInterval = 0x7f \<rparr>"
| "pp_msgtype_table PPM_SIGNALING_NO_FWD_FMT =
     \<lparr> mi_msg_type = PPM_SIGNALING, mi_msglen = - 1, mi_chtype = PP_NP_GEN,
       mi_delay_mechanism = MECH_P2P, mi_controlField = 5, mi_logMessageInterval = 0x7f \<rparr>"
| "pp_msgtype_table PPM_MANAGEMENT_FMT =
     \<lparr> mi_msg_type = PPM_MANAGEMENT, mi_msglen = - 1, mi_chtype = PP_NP_GEN,
       mi_delay_mechanism = MECH_E2E, mi_controlField = 4, mi_logMessageInterval = 0x7f \<rparr>"

section \<open>Headers\<close>

definition msg_from_current_master :: "pp_globals \<Rightarrow> nat \<Rightarrow> bool" where
  "msg_from_current_master ppg i \<longleftrightarrow>
     bmc_pidcmp (par_parentPortIdentity (g_parentDS ppg))
       (hdr_sourcePortIdentity (received_ptp_header (INST ppg i))) = 0"

definition tx_put :: "nat \<Rightarrow> u8 list \<Rightarrow> pp_instance \<Rightarrow> pp_instance" where
  "tx_put off bs ppi = ppi\<lparr> ppi_tx_ptp := put off bs (ppi_tx_ptp ppi) \<rparr>"

definition msg_header_of :: "u8 list \<Rightarrow> MsgHeader" where
  "msg_header_of buf = \<lparr>
     hdr_transportSpecific = drop_bit 4 (buf ! 0),
     hdr_messageType = (buf ! 0) AND 0x0F,
     hdr_versionPTP = (buf ! 1) AND 0x0F,
     hdr_messageLength = from_be (peek 2 2 buf),
     hdr_domainNumber = buf ! 4,
     hdr_flagField0 = buf ! 6, hdr_flagField1 = buf ! 7,
     hdr_cField = \<lparr> secs = 0, scaled_nsecs = from_be (peek 8 8 buf) \<rparr>,
     hdr_sourcePortIdentity = \<lparr> clockIdentity = cid_of_bytes (peek 20 8 buf),
       portNumber = from_be (peek 28 2 buf) \<rparr>,
     hdr_sequenceId = from_be (peek 30 2 buf),
     hdr_logMessageInterval = buf ! 33 \<rparr>"

definition msg_unpack_header :: "u8 list \<Rightarrow> pp_instance \<Rightarrow> pp_instance" where
  "msg_unpack_header buf ppi = ppi\<lparr> received_ptp_header := msg_header_of buf \<rparr>"

definition msg_init_header :: "pp_globals \<Rightarrow> nat \<Rightarrow> u8 list \<Rightarrow> u8 list" where
  "msg_init_header ppg i buf =
     (let por = ppi_portDS (INST ppg i);
          buf = put 0 (replicate 34 0) buf;
          buf = put 1 [push_bit 4 (por_minorVersionNumber por) OR (por_versionNumber por AND 0xF)] buf;
          buf = put 4 [dd_domainNumber (g_defaultDS ppg)] buf;
          buf = put 20 (cid_bytes (clockIdentity (por_portIdentity por))) buf
      in put 28 (be16 (portNumber (por_portIdentity por))) buf)"

definition msg_set_seq_id :: "pp_msgtype_info \<Rightarrow> pp_instance \<Rightarrow> pp_instance" where
  "msg_set_seq_id mf ppi =
     (let ty = unat (mi_msg_type mf);
          seq = sent_seq ppi ! ty + 1
      in tx_put 30 (be16 seq) (ppi\<lparr> sent_seq := (sent_seq ppi)[ty := seq] \<rparr>))"

definition msg_pack_header :: "pp_msgtype_info \<Rightarrow> pp_instance \<Rightarrow> s32 \<times> pp_instance" where
  "msg_pack_header mf ppi =
     (let len = ucast (mi_msglen mf) :: s32;
          log = mi_logMessageInterval mf;
          ppi = tx_put 0 [mi_msg_type mf] ppi;
          ppi = tx_put 2 (be16 (ucast len)) ppi;
          ppi = tx_put 8 (be64 0) ppi;
          ppi = tx_put 6 [0, 0] ppi;
          ppi = tx_put 32 [mi_controlField mf] ppi;
          por = ppi_portDS ppi;
          logp = (if log = PP_LOG_ANNOUNCE then por_logAnnounceInterval por
                  else if log = PP_LOG_SYNC then por_logSyncInterval por
                  else if log = PP_LOG_REQUEST then por_logMinDelayReqInterval por
                  else log)
      in (len, tx_put 33 [logp] ppi))"

section \<open>Signaling\<close>

text \<open>The port number of the target is stored and read in the byte order of the host.\<close>

definition msg_pack_signaling0 ::
  "pp_msg_format \<Rightarrow> PortIdentity \<Rightarrow> u16 \<Rightarrow> u16 \<Rightarrow> pp_instance \<Rightarrow> s32 \<times> pp_instance" where
  "msg_pack_signaling0 msg_fmt target tlv_type tlv_length_field ppi =
     (let mf = pp_msgtype_table msg_fmt;
          (len, ppi) = msg_pack_header mf ppi;
          ppi = msg_set_seq_id mf ppi;
          ppi = tx_put 34 (cid_bytes (clockIdentity target)) ppi;
          ppi = tx_put 42 (le16 (portNumber target)) ppi;
          ppi = tx_put 44 (be16 tlv_type) ppi
      in (len, tx_put 46 (be16 tlv_length_field) ppi))"

definition msg_pack_signaling ::
  "PortIdentity \<Rightarrow> u16 \<Rightarrow> u16 \<Rightarrow> pp_instance \<Rightarrow> s32 \<times> pp_instance" where
  "msg_pack_signaling = msg_pack_signaling0 PPM_SIGNALING_FMT"

definition msg_pack_signaling_no_fowardable ::
  "PortIdentity \<Rightarrow> u16 \<Rightarrow> u16 \<Rightarrow> pp_instance \<Rightarrow> s32 \<times> pp_instance" where
  "msg_pack_signaling_no_fowardable = msg_pack_signaling0 PPM_SIGNALING_NO_FWD_FMT"

definition msg_unpack_signaling :: "u8 list \<Rightarrow> PortIdentity \<times> u8 list" where
  "msg_unpack_signaling buf =
     (\<lparr> clockIdentity = cid_of_bytes (peek 34 8 buf), portNumber = from_le16 (peek 42 2 buf) \<rparr>,
      drop 44 buf)"

section \<open>Timestamps\<close>

definition pack_origin_timestamp :: "pp_time \<Rightarrow> pp_instance \<Rightarrow> pp_instance" where
  "pack_origin_timestamp t ppi =
     (let ppi = tx_put 34 (be16 (ucast (signed_drop_bit 32 (secs t)))) ppi;
          ppi = tx_put 36 (be32 (ucast (secs t))) ppi
      in tx_put 40 (be32 (ucast (signed_drop_bit 16 (scaled_nsecs t)))) ppi)"

definition unpack_origin_timestamp :: "u8 list \<Rightarrow> pp_time" where
  "unpack_origin_timestamp buf = \<lparr>
     secs = push_bit 32 (ucast (from_be (peek 34 2 buf) :: u16)) OR
            ucast (from_be (peek 36 4 buf) :: u32),
     scaled_nsecs = push_bit 16 (ucast (from_be (peek 40 4 buf) :: u32)) \<rparr>"

section \<open>Sync and Follow\_Up\<close>

definition msg_pack_sync :: "pp_time \<Rightarrow> pp_instance \<Rightarrow> s32 \<times> pp_instance" where
  "msg_pack_sync orig_tstamp ppi =
     (let mf = pp_msgtype_table PPM_SYNC_FMT;
          (len, ppi) = msg_pack_header mf ppi;
          ppi = tx_put 6 [PP_TWO_STEP_FLAG] ppi;
          ppi = msg_set_seq_id mf ppi;
          ppi = tx_put 34 (replicate 10 0) ppi;
          orig_tstamp = pp_time_add_interval orig_tstamp (tc_egressLatency (ppi_timestampCorrectionPortDS ppi))
      in (len, pack_origin_timestamp orig_tstamp ppi))"

definition msg_unpack_sync :: "u8 list \<Rightarrow> pp_time" where
  "msg_unpack_sync buf = unpack_origin_timestamp buf"

definition msg_pack_follow_up :: "pp_time \<Rightarrow> pp_instance \<Rightarrow> s32 \<times> pp_instance" where
  "msg_pack_follow_up prec_orig_tstamp ppi =
     (let mf = pp_msgtype_table PPM_FOLLOW_UP_FMT;
          (len, ppi) = msg_pack_header mf ppi;
          ppi = tx_put 30 (be16 (sent_seq ppi ! unat PPM_SYNC)) ppi;
          ppi = pack_origin_timestamp prec_orig_tstamp ppi
      in (len, tx_put 8 (be64 (scaled_nsecs prec_orig_tstamp AND 0xffff)) ppi))"

definition msg_unpack_follow_up :: "u8 list \<Rightarrow> pp_time" where
  "msg_unpack_follow_up buf = unpack_origin_timestamp buf"

section \<open>Announce\<close>

definition msg_set_announce_flags :: "timePropertiesDS \<Rightarrow> pp_instance \<Rightarrow> pp_instance" where
  "msg_set_announce_flags prop ppi =
     (let ptrs = [tp_leap61 prop, tp_leap59 prop, tp_currentUtcOffsetValid prop,
                  tp_ptpTimescale prop, tp_timeTraceable prop, tp_frequencyTraceable prop];
          flags1 = fold (\<lambda>i f. if ptrs ! i \<noteq> 0 then f OR push_bit i 1 else f) [0..<6] 0
      in tx_put 6 [0, flags1] ppi)"

definition msg_pack_announce0 :: "pp_globals \<Rightarrow> pp_instance \<Rightarrow> s32 \<times> pp_instance" where
  "msg_pack_announce0 ppg ppi =
     (let mf = pp_msgtype_table PPM_ANNOUNCE_FMT;
          par = g_parentDS ppg; prop = g_timePropertiesDS ppg;
          steps = cur_stepsRemoved (g_currentDS ppg);
          (len, ppi) = msg_pack_header mf ppi;
          ppi = msg_set_seq_id mf ppi;
          ppi = msg_set_announce_flags prop ppi;
          ppi = tx_put 34 (replicate 30 0) ppi;
          ppi = tx_put 44 (be16 (tp_currentUtcOffset prop)) ppi;
          ppi = tx_put 47 [par_grandmasterPriority1 par] ppi;
          ppi = tx_put 48 [clockClass (par_grandmasterClockQuality par)] ppi;
          ppi = tx_put 49 [clockAccuracy (par_grandmasterClockQuality par)] ppi;
          ppi = tx_put 50 (be16 (offsetScaledLogVariance (par_grandmasterClockQuality par))) ppi;
          ppi = tx_put 52 [par_grandmasterPriority2 par] ppi;
          ppi = tx_put 53 (cid_bytes (par_grandmasterIdentity par)) ppi;
          ppi = tx_put 61 [ucast (drop_bit 8 steps)] ppi;
          ppi = tx_put 62 [ucast steps] ppi
      in (len, tx_put 63 [tp_timeSource prop] ppi))"

definition msg_pack_announce :: "platform \<Rightarrow> pp_globals \<Rightarrow> nat \<Rightarrow> s32 \<times> pp_globals" where
  "msg_pack_announce P ppg i =
     (let (len, ppi) = msg_pack_announce0 ppg (INST ppg i);
          ppg = upd_inst i (\<lambda>_. ppi) ppg
      in case h_pack_announce (ext_hooks P i) of
           Some pack_announce \<Rightarrow> pack_announce ppg i
         | None \<Rightarrow> (len, ppg))"

definition msg_announce_of :: "u8 list \<Rightarrow> MsgAnnounce" where
  "msg_announce_of buf = \<lparr>
     ann_originTimestamp = unpack_origin_timestamp buf,
     ann_currentUtcOffset = from_be (peek 44 2 buf),
     ann_grandmasterPriority1 = buf ! 47,
     ann_grandmasterClockQuality = \<lparr> clockClass = buf ! 48, clockAccuracy = buf ! 49,
       offsetScaledLogVariance = from_be (peek 50 2 buf) \<rparr>,
     ann_grandmasterPriority2 = buf ! 52,
     ann_grandmasterIdentity = cid_of_bytes (peek 53 8 buf),
     ann_stepsRemoved = push_bit 8 (ucast (buf ! 61)) + ucast (buf ! 62),
     ann_timeSource = buf ! 63,
     ann_ext_specific = replicate 4 0 \<rparr>"

definition msg_unpack_announce ::
  "platform \<Rightarrow> pp_globals \<Rightarrow> nat \<Rightarrow> u8 list \<Rightarrow> MsgAnnounce \<times> pp_globals" where
  "msg_unpack_announce P ppg i buf =
     (case h_unpack_announce (ext_hooks P i) of
        Some unpack_announce \<Rightarrow> unpack_announce ppg i buf (msg_announce_of buf)
      | None \<Rightarrow> (msg_announce_of buf, ppg))"

section \<open>Delay requests and responses\<close>

definition cf_compliant :: "platform \<Rightarrow> pp_globals \<Rightarrow> nat \<Rightarrow> bool" where
  "cf_compliant P ppg i =
     (case h_is_correction_field_compliant (ext_hooks P i) of Some f \<Rightarrow> f ppg i | None \<Rightarrow> True)"

definition msg_pack_delay_req ::
  "platform \<Rightarrow> pp_globals \<Rightarrow> nat \<Rightarrow> pp_time \<Rightarrow> s32 \<times> pp_globals" where
  "msg_pack_delay_req P ppg i now =
     (let mf = pp_msgtype_table PPM_DELAY_REQ_FMT;
          (len, ppi) = msg_pack_header mf (INST ppg i);
          ppi = msg_set_seq_id mf ppi;
          correction_field = (if \<not> cf_compliant P ppg i then 0 else - por_delayAsymmetry (ppi_portDS ppi));
          ppi = tx_put 8 (be64 correction_field) ppi;
          ppi = tx_put 34 (replicate 10 0) ppi;
          now = pp_time_add_interval now (tc_egressLatency (ppi_timestampCorrectionPortDS ppi));
          ppi = pack_origin_timestamp now ppi
      in (len, upd_inst i (\<lambda>_. ppi) ppg))"

definition msg_pack_delay_resp ::
  "platform \<Rightarrow> pp_globals \<Rightarrow> nat \<Rightarrow> pp_time \<Rightarrow> s32 \<times> pp_globals" where
  "msg_pack_delay_resp P ppg i rcv_tstamp =
     (let mf = pp_msgtype_table PPM_DELAY_RESP_FMT;
          hdr = received_ptp_header (INST ppg i);
          (len, ppi) = msg_pack_header mf (INST ppg i);
          sub_ns = scaled_nsecs rcv_tstamp AND 0xffff;
          correction_field = (if \<not> cf_compliant P ppg i then sub_ns
                              else pp_time_to_interval (hdr_cField hdr) - sub_ns);
          ppi = tx_put 8 (be64 correction_field) ppi;
          ppi = tx_put 30 (be16 (hdr_sequenceId hdr)) ppi;
          ppi = pack_origin_timestamp rcv_tstamp ppi;
          ppi = tx_put 44 (cid_bytes (clockIdentity (hdr_sourcePortIdentity hdr))) ppi;
          ppi = tx_put 52 (be16 (portNumber (hdr_sourcePortIdentity hdr))) ppi
      in (len, upd_inst i (\<lambda>_. ppi) ppg))"

definition msg_unpack_delay_req :: "u8 list \<Rightarrow> pp_time" where
  "msg_unpack_delay_req buf = unpack_origin_timestamp buf"

definition msg_unpack_delay_resp :: "u8 list \<Rightarrow> MsgDelayResp" where
  "msg_unpack_delay_resp buf = \<lparr>
     resp_receiveTimestamp = unpack_origin_timestamp buf,
     resp_requestingPortIdentity = \<lparr> clockIdentity = cid_of_bytes (peek 44 8 buf),
       portNumber = from_be (peek 52 2 buf) \<rparr> \<rparr>"

section \<open>Peer delay\<close>

text \<open>
  The follow-up adds the fraction of the timestamp to the correction field of the received header, in
  place: the header of the port changes too.
\<close>

definition msg_pack_pdelay_resp_follow_up :: "pp_time \<Rightarrow> pp_instance \<Rightarrow> s32 \<times> pp_instance" where
  "msg_pack_pdelay_resp_follow_up prec_orig_tstamp ppi =
     (let mf = pp_msgtype_table PPM_PDELAY_R_FUP_FMT;
          hdr = received_ptp_header ppi;
          (len, ppi) = msg_pack_header mf ppi;
          ppi = tx_put 4 [hdr_domainNumber hdr] ppi;
          cf = hdr_cField hdr;
          cf = normalize_pp_time (cf\<lparr> scaled_nsecs := scaled_nsecs cf + (scaled_nsecs prec_orig_tstamp AND 0xffff) \<rparr>);
          ppi = ppi\<lparr> received_ptp_header := hdr\<lparr> hdr_cField := cf \<rparr> \<rparr>;
          ppi = tx_put 8 (be64 (scaled_nsecs cf)) ppi;
          ppi = tx_put 30 (be16 (hdr_sequenceId hdr)) ppi;
          ppi = pack_origin_timestamp prec_orig_tstamp ppi;
          ppi = tx_put 44 (cid_bytes (clockIdentity (hdr_sourcePortIdentity hdr))) ppi
      in (len, tx_put 52 (be16 (portNumber (hdr_sourcePortIdentity hdr))) ppi))"

definition msg_unpack_pdelay_resp_follow_up :: "u8 list \<Rightarrow> MsgDelayResp" where
  "msg_unpack_pdelay_resp_follow_up buf = \<lparr>
     resp_receiveTimestamp = unpack_origin_timestamp buf,
     resp_requestingPortIdentity = \<lparr> clockIdentity = cid_of_bytes (peek 44 8 buf),
       portNumber = from_be (peek 52 2 buf) \<rparr> \<rparr>"

definition msg_pack_pdelay_req ::
  "platform \<Rightarrow> pp_globals \<Rightarrow> nat \<Rightarrow> pp_time \<Rightarrow> s32 \<times> pp_globals" where
  "msg_pack_pdelay_req P ppg i now =
     (let mf = pp_msgtype_table PPM_PDELAY_REQ_FMT;
          (len, ppi) = msg_pack_header mf (INST ppg i);
          ppi = msg_set_seq_id mf ppi;
          correction_field = (if \<not> cf_compliant P ppg i then 0 else - por_delayAsymmetry (ppi_portDS ppi));
          ppi = tx_put 8 (be64 correction_field) ppi;
          ppi = pack_origin_timestamp now ppi;
          ppi = tx_put 44 (replicate 10 0) ppi
      in (len, upd_inst i (\<lambda>_. ppi) ppg))"

definition msg_pack_pdelay_resp ::
  "platform \<Rightarrow> pp_globals \<Rightarrow> nat \<Rightarrow> pp_time \<Rightarrow> s32 \<times> pp_globals" where
  "msg_pack_pdelay_resp P ppg i rcv_tstamp =
     (let mf = pp_msgtype_table PPM_PDELAY_RESP_FMT;
          hdr = received_ptp_header (INST ppg i);
          (len, ppi) = msg_pack_header mf (INST ppg i);
          sub_ns = scaled_nsecs rcv_tstamp AND 0xffff;
          correction_field = (if \<not> cf_compliant P ppg i then sub_ns
                              else pp_time_to_interval (hdr_cField hdr) - sub_ns);
          ppi = tx_put 8 (be64 correction_field) ppi;
          ppi = tx_put 6 [PP_TWO_STEP_FLAG] ppi;
          ppi = tx_put 30 (be16 (hdr_sequenceId hdr)) ppi;
          ppi = pack_origin_timestamp rcv_tstamp ppi;
          ppi = tx_put 44 (cid_bytes (clockIdentity (hdr_sourcePortIdentity hdr))) ppi;
          ppi = tx_put 52 (be16 (portNumber (hdr_sourcePortIdentity hdr))) ppi
      in (len, upd_inst i (\<lambda>_. ppi) ppg))"

definition msg_unpack_pdelay_req :: "u8 list \<Rightarrow> pp_time" where
  "msg_unpack_pdelay_req buf = unpack_origin_timestamp buf"

definition msg_unpack_pdelay_resp :: "u8 list \<Rightarrow> MsgDelayResp" where
  "msg_unpack_pdelay_resp buf = \<lparr>
     resp_receiveTimestamp = unpack_origin_timestamp buf,
     resp_requestingPortIdentity = \<lparr> clockIdentity = cid_of_bytes (peek 44 8 buf),
       portNumber = from_be (peek 52 2 buf) \<rparr> \<rparr>"

section \<open>Sending and receiving\<close>

definition PP_SEND_OK :: s32 where "PP_SEND_OK = 0"
definition PP_SEND_ERROR :: s32 where "PP_SEND_ERROR = - 1"
definition PP_SEND_NO_STAMP :: s32 where "PP_SEND_NO_STAMP = 1"
definition PP_SEND_DROP :: s32 where "PP_SEND_DROP = - 2"

lemmas send_defs = PP_SEND_OK_def PP_SEND_ERROR_def PP_SEND_NO_STAMP_def PP_SEND_DROP_def

text \<open>
  The network operation returns how much it sent and the transmit timestamp, which it stores in the
  port; the frame handed to it is logged.
\<close>

definition send_and_log ::
  "platform \<Rightarrow> pp_globals \<Rightarrow> nat \<Rightarrow> s32 \<Rightarrow> pp_np \<Rightarrow> pp_msg_format \<Rightarrow> s32 \<times> pp_globals" where
  "send_and_log P ppg i msglen chtype msg_fmt =
     (let frame = take (nat (sint msglen)) (ppi_tx_ptp (INST ppg i));
          (ret, t) = n_send P ppg i frame msg_fmt;
          ppg = log_event (Ev_send i msg_fmt frame) (upd_inst i (\<lambda>ppi. ppi\<lparr> ppi_last_snt_time := t \<rparr>) ppg)
      in if ret = PP_SEND_DROP then (0, ppg)
         else if sint ret < sint msglen then (PP_SEND_ERROR, ppg)
         else
           let adjust = (case h_get_egress_latency (ext_hooks P i) of
                           Some f \<Rightarrow> f ppg i
                         | None \<Rightarrow> tc_egressLatency (ppi_timestampCorrectionPortDS (INST ppg i)));
               t = pp_time_add_interval t adjust;
               ppg = upd_inst i (\<lambda>ppi. ppi\<lparr> ppi_last_snt_time := t \<rparr>) ppg
           in if chtype = PP_NP_EVT \<and> is_incorrect t then (PP_SEND_NO_STAMP, ppg)
              else (0, upd_inst i (\<lambda>ppi. ppi\<lparr> ptp_tx_count := ptp_tx_count ppi + 1 \<rparr>) ppg))"

text \<open>
  Reception: \<open>ret\<close> and \<open>t\<close> are what the network operation returned; the timestamp is corrected by the
  latencies and the frame counted.
\<close>

definition recv_and_count ::
  "platform \<Rightarrow> pp_globals \<Rightarrow> nat \<Rightarrow> s32 \<Rightarrow> pp_time \<Rightarrow> s32 \<times> pp_time \<times> pp_globals" where
  "recv_and_count P ppg i ret t =
     (if sint ret > 0
      then let tc = ppi_timestampCorrectionPortDS (INST ppg i);
               adjust = (case h_get_ingress_latency (ext_hooks P i) of
                           Some f \<Rightarrow> f ppg i
                         | None \<Rightarrow> tc_ingressLatency tc + tc_semistaticLatency tc)
           in (ret, pp_time_sub_interval t adjust,
               upd_inst i (\<lambda>ppi. ppi\<lparr> ptp_rx_count := ptp_rx_count ppi + 1 \<rparr>) ppg)
      else (ret, t, ppg))"

definition msg_issue_announce :: "platform \<Rightarrow> pp_globals \<Rightarrow> nat \<Rightarrow> s32 \<times> pp_globals" where
  "msg_issue_announce P ppg i =
     (let (len, ppg) = msg_pack_announce P ppg i
      in send_and_log P ppg i len PP_NP_GEN PPM_ANNOUNCE_FMT)"

definition upd_pack :: "(pp_instance \<Rightarrow> s32 \<times> pp_instance) \<Rightarrow> pp_globals \<Rightarrow> nat \<Rightarrow> s32 \<times> pp_globals" where
  "upd_pack f ppg i = (let (len, ppi) = f (INST ppg i) in (len, upd_inst i (\<lambda>_. ppi) ppg))"

definition msg_issue_sync_followup :: "platform \<Rightarrow> pp_globals \<Rightarrow> nat \<Rightarrow> s32 \<times> pp_globals" where
  "msg_issue_sync_followup P ppg i =
     (let now = t_get P ppg i;
          (len, ppg) = upd_pack (msg_pack_sync now) ppg i;
          (e, ppg) = send_and_log P ppg i len PP_NP_EVT PPM_SYNC_FMT
      in if e \<noteq> 0 then (e, ppg)
         else let (len, ppg) = upd_pack (msg_pack_follow_up (ppi_last_snt_time (INST ppg i))) ppg i
              in send_and_log P ppg i len PP_NP_GEN PPM_FOLLOW_UP_FMT)"

definition msg_issue_delay_req :: "platform \<Rightarrow> pp_globals \<Rightarrow> nat \<Rightarrow> s32 \<times> pp_globals" where
  "msg_issue_delay_req P ppg i =
     (let now = t_get P ppg i; (len, ppg) = msg_pack_delay_req P ppg i now
      in send_and_log P ppg i len PP_NP_EVT PPM_DELAY_REQ_FMT)"

definition msg_issue_pdelay_req :: "platform \<Rightarrow> pp_globals \<Rightarrow> nat \<Rightarrow> s32 \<times> pp_globals" where
  "msg_issue_pdelay_req P ppg i =
     (let ppg = upd_inst i (\<lambda>ppi. ppi\<lparr> ppi_t4 := mark_incorrect (ppi_t4 ppi) \<rparr>) ppg;
          now = t_get P ppg i;
          ppg = upd_inst i (\<lambda>ppi. ppi\<lparr> received_dresp := 0, received_dresp_fup := 0 \<rparr>) ppg;
          (len, ppg) = msg_pack_pdelay_req P ppg i now
      in send_and_log P ppg i len PP_NP_EVT PPM_PDELAY_REQ_FMT)"

definition msg_issue_request :: "platform \<Rightarrow> pp_globals \<Rightarrow> nat \<Rightarrow> s32 \<times> pp_globals" where
  "msg_issue_request P ppg i =
     (if is_delayMechanismP2P ppg i then msg_issue_pdelay_req P ppg i
      else msg_issue_delay_req P ppg i)"

definition msg_issue_delay_resp :: "platform \<Rightarrow> pp_globals \<Rightarrow> nat \<Rightarrow> pp_time \<Rightarrow> s32 \<times> pp_globals" where
  "msg_issue_delay_resp P ppg i t =
     (let (len, ppg) = msg_pack_delay_resp P ppg i t
      in send_and_log P ppg i len PP_NP_GEN PPM_DELAY_RESP_FMT)"

definition msg_issue_pdelay_resp_followup ::
  "platform \<Rightarrow> pp_globals \<Rightarrow> nat \<Rightarrow> pp_time \<Rightarrow> s32 \<times> pp_globals" where
  "msg_issue_pdelay_resp_followup P ppg i t =
     (let (len, ppg) = upd_pack (msg_pack_pdelay_resp_follow_up t) ppg i
      in send_and_log P ppg i len PP_NP_GEN PPM_PDELAY_R_FUP_FMT)"

definition msg_issue_pdelay_resp :: "platform \<Rightarrow> pp_globals \<Rightarrow> nat \<Rightarrow> pp_time \<Rightarrow> s32 \<times> pp_globals" where
  "msg_issue_pdelay_resp P ppg i t =
     (let (len, ppg) = msg_pack_pdelay_resp P ppg i t
      in send_and_log P ppg i len PP_NP_EVT PPM_PDELAY_RESP_FMT)"

section \<open>The transmit buffer\<close>

lemma tx_put_fields [simp]:
  "ppi_tx_ptp (tx_put off bs ppi) = put off bs (ppi_tx_ptp ppi)"
  "ppi_portDS (tx_put off bs ppi) = ppi_portDS ppi"
  "sent_seq (tx_put off bs ppi) = sent_seq ppi"
  "received_ptp_header (tx_put off bs ppi) = received_ptp_header ppi"
  "ppi_timestampCorrectionPortDS (tx_put off bs ppi) = ppi_timestampCorrectionPortDS ppi"
  by (simp_all add: tx_put_def)

lemma cid_of_bytes_cid_bytes [simp]: "cid_of_bytes (cid_bytes c) = c"
  by (cases c) (simp add: cid_of_bytes_def)

text \<open>
  A port is ready to send when the fixed part of its transmit buffer is as \<^const>\<open>msg_init_header\<close> leaves
  it: the version and the identity of the port.
\<close>

definition tx_ready :: "pp_instance \<Rightarrow> bool" where
  "tx_ready ppi \<longleftrightarrow> 64 \<le> length (ppi_tx_ptp ppi) \<and>
     ppi_tx_ptp ppi ! 1 = (push_bit 4 (por_minorVersionNumber (ppi_portDS ppi)) OR
       (por_versionNumber (ppi_portDS ppi) AND 0xF)) \<and>
     peek 20 8 (ppi_tx_ptp ppi) = cid_bytes (clockIdentity (por_portIdentity (ppi_portDS ppi))) \<and>
     peek 28 2 (ppi_tx_ptp ppi) = be16 (portNumber (por_portIdentity (ppi_portDS ppi)))"

lemma tx_ready_0: "tx_ready (pp_instance_0 cf)"
  by (simp add: tx_ready_def cleared_defs peek_def be16_def numeral_eq_Suc)

lemmas pack_defs = msg_pack_header_def msg_set_seq_id_def pack_origin_timestamp_def Let_def
  msg_const_defs ppm_defs

lemma tx_ready_announce: "tx_ready ppi \<Longrightarrow> tx_ready (snd (msg_pack_announce0 ppg ppi))"
  by (simp add: tx_ready_def msg_pack_announce0_def msg_set_announce_flags_def pack_defs wire)

lemma tx_ready_sync: "tx_ready ppi \<Longrightarrow> tx_ready (snd (msg_pack_sync t ppi))"
  by (simp add: tx_ready_def msg_pack_sync_def pack_defs wire)

lemma tx_ready_follow_up: "tx_ready ppi \<Longrightarrow> tx_ready (snd (msg_pack_follow_up t ppi))"
  by (simp add: tx_ready_def msg_pack_follow_up_def pack_defs wire)

lemma tx_ready_pdelay_follow_up: "tx_ready ppi \<Longrightarrow> tx_ready (snd (msg_pack_pdelay_resp_follow_up t ppi))"
  by (simp add: tx_ready_def msg_pack_pdelay_resp_follow_up_def pack_defs wire)

section \<open>Timestamps on the wire\<close>

lemma take_bit_48_eq: "0 \<le> sint s \<Longrightarrow> sint s < 2 ^ 48 \<Longrightarrow> take_bit 48 (s :: s64) = s"
  using uint_nonneg_sint [of s]
  by (simp add: word_uint_eq_iff unsigned_take_bit_eq take_bit_int_eq_self)

lemma secs_on_wire:
  "push_bit 32 (ucast (ucast (signed_drop_bit 32 s) :: u16)) OR ucast (ucast s :: u32) = take_bit 48 (s :: s64)"
  by (rule bit_word_eqI) (auto simp: bit_simps)

lemma nsecs_on_wire:
  "push_bit 16 (ucast (ucast (signed_drop_bit 16 n) :: u32)) = push_bit 16 (drop_bit 16 (take_bit 48 (n :: s64)))"
  by (rule bit_word_eqI) (auto simp: bit_simps)

lemma sub_ns_eq: "n AND 0xffff = take_bit 16 (n :: s64)"
  by (simp add: take_bit_eq_mask mask_eq_exp_minus_1)

lemma byte_pair: "push_bit 8 (ucast (ucast (drop_bit 8 w) :: u8)) + ucast (ucast w :: u8) = (w :: u16)"
proof -
  have "push_bit 8 (ucast (ucast (drop_bit 8 w) :: u8)) = (push_bit 8 (drop_bit 8 w) :: u16)"
    by (rule bit_word_eqI) (auto simp: bit_simps)
  moreover have "ucast (ucast w :: u8) = (take_bit 8 w :: u16)"
    by (rule bit_word_eqI) (auto simp: bit_simps)
  ultimately show ?thesis by (simp add: bits_ident)
qed

lemma from_be_replicate_0 [simp]: "from_be (replicate n 0) = 0"
  by (induction n) (simp_all add: from_be_Cons, simp add: from_be_def)

text \<open>A timestamp a message can carry: 48 bits of seconds, less than \<open>2 ^ 32\<close> nanoseconds.\<close>

definition wire_time :: "pp_time \<Rightarrow> bool" where
  "wire_time t \<longleftrightarrow> 0 \<le> sint (secs t) \<and> sint (secs t) < 2 ^ 48 \<and>
     0 \<le> sint (scaled_nsecs t) \<and> sint (scaled_nsecs t) < 2 ^ 48"

lemma wire_time_words:
  assumes "wire_time t"
  shows "take_bit 48 (secs t) = secs t"
    and "push_bit 16 (drop_bit 16 (take_bit 48 (scaled_nsecs t))) = scaled_nsecs t - (scaled_nsecs t AND 0xffff)"
proof -
  show "take_bit 48 (secs t) = secs t" using assms by (simp add: wire_time_def take_bit_48_eq)
  have "take_bit 48 (scaled_nsecs t) = scaled_nsecs t" using assms by (simp add: wire_time_def take_bit_48_eq)
  moreover have "push_bit 16 (drop_bit 16 (scaled_nsecs t)) + take_bit 16 (scaled_nsecs t) = scaled_nsecs t"
    by (rule bits_ident)
  ultimately show "push_bit 16 (drop_bit 16 (take_bit 48 (scaled_nsecs t))) = scaled_nsecs t - (scaled_nsecs t AND 0xffff)"
    unfolding sub_ns_eq by (simp only: eq_diff_eq)
qed

lemma origin_of_packed:
  assumes "64 \<le> length (ppi_tx_ptp ppi)" and "wire_time t"
  shows "unpack_origin_timestamp (ppi_tx_ptp (pack_origin_timestamp t ppi)) =
    \<lparr> secs = secs t, scaled_nsecs = scaled_nsecs t - (scaled_nsecs t AND 0xffff) \<rparr>"
  using assms(1) wire_time_words [OF assms(2)]
  by (simp add: unpack_origin_timestamp_def pack_origin_timestamp_def Let_def wire secs_on_wire nsecs_on_wire)

lemma announce_of_packed:
  assumes "tx_ready ppi"
  shows "msg_announce_of (ppi_tx_ptp (snd (msg_pack_announce0 ppg ppi))) = \<lparr>
     ann_originTimestamp = \<lparr> secs = 0, scaled_nsecs = 0 \<rparr>,
     ann_currentUtcOffset = tp_currentUtcOffset (g_timePropertiesDS ppg),
     ann_grandmasterPriority1 = par_grandmasterPriority1 (g_parentDS ppg),
     ann_grandmasterClockQuality = par_grandmasterClockQuality (g_parentDS ppg),
     ann_grandmasterPriority2 = par_grandmasterPriority2 (g_parentDS ppg),
     ann_grandmasterIdentity = par_grandmasterIdentity (g_parentDS ppg),
     ann_stepsRemoved = cur_stepsRemoved (g_currentDS ppg),
     ann_timeSource = tp_timeSource (g_timePropertiesDS ppg),
     ann_ext_specific = replicate 4 0 \<rparr>"
  using assms
  by (simp add: tx_ready_def msg_pack_announce0_def msg_set_announce_flags_def pack_defs wire
      msg_announce_of_def unpack_origin_timestamp_def byte_pair)

section \<open>Frames on the wire\<close>

lemma header_of_announce:
  fixes ppg :: pp_globals
  assumes "tx_ready ppi"
  defines "h \<equiv> msg_header_of (ppi_tx_ptp (snd (msg_pack_announce0 ppg ppi)))"
  shows "hdr_messageType h = PPM_ANNOUNCE" "hdr_messageLength h = 64"
    "hdr_sourcePortIdentity h = por_portIdentity (ppi_portDS ppi)"
    "hdr_sequenceId h = sent_seq ppi ! unat PPM_ANNOUNCE + 1"
    "hdr_logMessageInterval h = por_logAnnounceInterval (ppi_portDS ppi)"
  using assms(1) unfolding h_def
  by (simp_all add: tx_ready_def msg_pack_announce0_def msg_set_announce_flags_def pack_defs wire msg_header_of_def)

definition announce_flags :: "timePropertiesDS \<Rightarrow> u8" where
  "announce_flags prop = (if tp_leap61 prop \<noteq> 0 then 1 else 0) OR (if tp_leap59 prop \<noteq> 0 then 2 else 0) OR
     (if tp_currentUtcOffsetValid prop \<noteq> 0 then 4 else 0) OR (if tp_ptpTimescale prop \<noteq> 0 then 8 else 0) OR
     (if tp_timeTraceable prop \<noteq> 0 then 16 else 0) OR (if tp_frequencyTraceable prop \<noteq> 0 then 32 else 0)"

lemma flags_of_announce:
  assumes "tx_ready ppi"
  shows "hdr_flagField1 (msg_header_of (ppi_tx_ptp (snd (msg_pack_announce0 ppg ppi)))) =
    announce_flags (g_timePropertiesDS ppg)"
proof -
  have "[0..<6] = [0, 1, 2, 3, 4, 5 :: nat]" by (simp add: upt_rec)
  then show ?thesis
    using assms
    by (simp add: tx_ready_def msg_pack_announce0_def msg_set_announce_flags_def pack_defs wire
      msg_header_of_def announce_flags_def)
qed

lemma sint_sub_ns: "0 \<le> sint n \<Longrightarrow> 0 \<le> sint (n AND 0xffff :: s64) \<and> sint (n AND 0xffff) \<le> 65535"
proof -
  have "uint (take_bit 16 n) = take_bit 16 (uint n)" by (simp add: unsigned_take_bit_eq)
  then have "uint (take_bit 16 n) < 2 ^ 16" by (simp only: take_bit_int_less_exp)
  then show ?thesis using sint_small_uint [of "take_bit 16 n"] by (simp add: sub_ns_eq)
qed

lemma sint_whole_ns:
  assumes "wire_time t"
  shows "sint (scaled_nsecs t - (scaled_nsecs t AND 0xffff)) = sint (scaled_nsecs t) - sint (scaled_nsecs t AND 0xffff)"
  using assms sint_sub_ns [of "scaled_nsecs t"] by (intro sint_sub_exact) (auto simp: wire_time_def)

section \<open>Properties\<close>

text \<open>
  C5: what a receiver decodes from an Announce frame is exactly what the sender has in its data sets:
  the grandmaster attributes, the steps removed, the UTC offset, the time source and the six flags of the
  time properties, under the identity of the sending port and the next sequence number.
\<close>

theorem announce_roundtrip:
  assumes "i < length (pp_instances ppg)" and "tx_ready (INST ppg i)"
    and "h_pack_announce (ext_hooks P i) = None" and "h_unpack_announce (ext_hooks P' j) = None"
  shows "let (len, ppg') = msg_pack_announce P ppg i;
             frame = ppi_tx_ptp (INST ppg' i); h = msg_header_of frame;
             ann = fst (msg_unpack_announce P' peer j frame);
             par = g_parentDS ppg; prop = g_timePropertiesDS ppg
         in len = 64 \<and> hdr_messageType h = PPM_ANNOUNCE \<and> hdr_messageLength h = 64 \<and>
            hdr_sourcePortIdentity h = por_portIdentity (ppi_portDS (INST ppg i)) \<and>
            hdr_sequenceId h = sent_seq (INST ppg i) ! unat PPM_ANNOUNCE + 1 \<and>
            hdr_flagField1 h = announce_flags prop \<and>
            ann_grandmasterPriority1 ann = par_grandmasterPriority1 par \<and>
            ann_grandmasterClockQuality ann = par_grandmasterClockQuality par \<and>
            ann_grandmasterPriority2 ann = par_grandmasterPriority2 par \<and>
            ann_grandmasterIdentity ann = par_grandmasterIdentity par \<and>
            ann_stepsRemoved ann = cur_stepsRemoved (g_currentDS ppg) \<and>
            ann_currentUtcOffset ann = tp_currentUtcOffset prop \<and>
            ann_timeSource ann = tp_timeSource prop"
proof -
  obtain len ppi where p: "msg_pack_announce0 ppg (INST ppg i) = (len, ppi)" by fastforce
  then have "len = 64" by (simp add: msg_pack_announce0_def pack_defs split: prod.splits)
  moreover note header_of_announce [OF assms(2), of ppg] flags_of_announce [OF assms(2), of ppg]
    announce_of_packed [OF assms(2), of ppg]
  ultimately show ?thesis
    using assms by (simp add: msg_pack_announce_def msg_unpack_announce_def p)
qed

theorem announce_roundtrip_witness:
  "let ppg = (pp_globals_0 config_default 1)\<lparr> g_currentDS := currentDS_0\<lparr> cur_stepsRemoved := 300 \<rparr> \<rparr>
   in ann_stepsRemoved (fst (msg_unpack_announce platform_idle ppg 0
        (ppi_tx_ptp (INST (snd (msg_pack_announce platform_idle ppg 0)) 0)))) = 300"
proof -
  let ?ppg = "(pp_globals_0 config_default 1)\<lparr> g_currentDS := currentDS_0\<lparr> cur_stepsRemoved := 300 \<rparr> \<rparr>"
  have "tx_ready (INST ?ppg 0)" using tx_ready_0 [of config_default] by (simp add: INST_def pp_globals_0_def)
  moreover have "h_pack_announce (ext_hooks platform_idle 0) = None" "h_unpack_announce (ext_hooks platform_idle 0) = None"
    by (simp_all add: platform_idle_def pp_hooks_def)
  ultimately show ?thesis
    using announce_roundtrip [of 0 ?ppg platform_idle platform_idle 0 ?ppg]
    by (simp add: Let_def case_prod_beta pp_globals_0_def)
qed

text \<open>
  C6: a Follow\_Up carries the transmit time of its Sync exactly: whole nanoseconds in the body and
  the remaining fraction in the correction field, under the sequence number of that Sync.
\<close>

theorem follow_up_exact:
  assumes "tx_ready ppi" and "wire_time t"
  shows "let (len, ppi') = msg_pack_follow_up t ppi; frame = ppi_tx_ptp ppi'; h = msg_header_of frame
         in len = 44 \<and> hdr_messageType h = PPM_FOLLOW_UP \<and>
            hdr_sequenceId h = sent_seq ppi ! unat PPM_SYNC \<and>
            time_val (msg_unpack_follow_up frame) + time_val (hdr_cField h) = time_val t"
  using assms(1) wire_time_words [OF assms(2)] sint_whole_ns [OF assms(2)]
  by (simp add: tx_ready_def msg_pack_follow_up_def pack_defs wire msg_header_of_def
      msg_unpack_follow_up_def unpack_origin_timestamp_def secs_on_wire nsecs_on_wire time_val_def)

theorem follow_up_exact_witness:
  "let (len, ppi') = msg_pack_follow_up \<lparr> secs = 1000, scaled_nsecs = 0x123456 \<rparr> (pp_instance_0 config_default)
   in time_val (msg_unpack_follow_up (ppi_tx_ptp ppi')) +
      time_val (hdr_cField (msg_header_of (ppi_tx_ptp ppi'))) = 65536000001193046"
proof -
  from follow_up_exact [OF tx_ready_0, of "\<lparr> secs = 1000, scaled_nsecs = 0x123456 \<rparr>" config_default] show ?thesis
    by (simp add: Let_def wire_time_def time_val_def split: prod.splits)
qed

text \<open>
  C7: a Delay\_Resp lets the requester recover the receive time: the decoded timestamp minus the decoded
  correction field is the receive time minus the correction field of the request; the frame names the
  requesting port and repeats the sequence number of the request.
\<close>

theorem delay_resp_exact:
  assumes "i < length (pp_instances ppg)" and "tx_ready (INST ppg i)" and "wire_time t"
    and "h_is_correction_field_compliant (ext_hooks P i) = None"
    and "secs (hdr_cField (received_ptp_header (INST ppg i))) = 0"
    and "\<bar>sint (scaled_nsecs (hdr_cField (received_ptp_header (INST ppg i))))\<bar> < 2 ^ 62"
  shows "let req = received_ptp_header (INST ppg i);
             (len, ppg') = msg_pack_delay_resp P ppg i t; frame = ppi_tx_ptp (INST ppg' i);
             h = msg_header_of frame; resp = msg_unpack_delay_resp frame
         in len = 54 \<and> hdr_sequenceId h = hdr_sequenceId req \<and>
            resp_requestingPortIdentity resp = hdr_sourcePortIdentity req \<and>
            time_val (resp_receiveTimestamp resp) - time_val (hdr_cField h) =
              time_val t - time_val (hdr_cField req)"
proof -
  let ?cf = "scaled_nsecs (hdr_cField (received_ptp_header (INST ppg i)))"
  have "sint (?cf - (scaled_nsecs t AND 0xffff)) = sint ?cf - sint (scaled_nsecs t AND 0xffff)"
    using assms(3,6) sint_sub_ns [of "scaled_nsecs t"] by (intro sint_sub_exact) (auto simp: wire_time_def)
  moreover have "pp_time_to_interval (hdr_cField (received_ptp_header (INST ppg i))) = ?cf"
    using assms(5) by (simp add: pp_time_to_interval_def)
  ultimately show ?thesis
    using assms wire_time_words [OF assms(3)] sint_whole_ns [OF assms(3)]
    by (simp add: tx_ready_def msg_pack_delay_resp_def cf_compliant_def pack_defs wire msg_header_of_def
      msg_unpack_delay_resp_def unpack_origin_timestamp_def secs_on_wire nsecs_on_wire time_val_def)
qed

theorem delay_resp_exact_witness:
  "let ppg = pp_globals_0 config_default 1; (len, ppg') = msg_pack_delay_resp platform_idle ppg 0 \<lparr> secs = 7, scaled_nsecs = 65537 \<rparr>
   in len = 54 \<and> time_val (resp_receiveTimestamp (msg_unpack_delay_resp (ppi_tx_ptp (INST ppg' 0)))) -
        time_val (hdr_cField (msg_header_of (ppi_tx_ptp (INST ppg' 0)))) = 458752000065537"
proof -
  have "tx_ready (INST (pp_globals_0 config_default 1) 0)" by (simp add: INST_0 tx_ready_0)
  with delay_resp_exact [of 0 "pp_globals_0 config_default 1" "\<lparr> secs = 7, scaled_nsecs = 65537 \<rparr>" platform_idle]
  show ?thesis
    by (simp add: Let_def wire_time_def time_val_def platform_idle_def pp_hooks_def INST_def pp_globals_0_def
      pp_instance_0_def MsgHeader_0_def pp_time_0_def split: prod.splits)
qed

lemma peek_take [wire]: "off + n \<le> k \<Longrightarrow> peek off n (take k buf) = peek off n buf"
  by (simp add: peek_def drop_take min_def)

lemma header_of_sync:
  assumes "tx_ready ppi"
  shows "hdr_sequenceId (msg_header_of (take 44 (ppi_tx_ptp (snd (msg_pack_sync t ppi))))) =
      sent_seq ppi ! unat PPM_SYNC + 1"
    "fst (msg_pack_sync t ppi) = 44"
    "sent_seq (snd (msg_pack_sync t ppi)) = (sent_seq ppi)[0 := sent_seq ppi ! 0 + 1]"
    "ppi_timestampCorrectionPortDS (snd (msg_pack_sync t ppi)) = ppi_timestampCorrectionPortDS ppi"
  using assms
  by (simp_all add: tx_ready_def msg_pack_sync_def pack_defs wire msg_header_of_def)

lemma send_and_log_events:
  "g_events (snd (send_and_log P ppg i len ch fmt)) =
    g_events ppg @ [Ev_send i fmt (take (nat (sint len)) (ppi_tx_ptp (INST ppg i)))]"
  by (simp add: send_and_log_def Let_def case_prod_beta)

lemma send_and_log_len: "length (pp_instances (snd (send_and_log P ppg i len ch fmt))) = length (pp_instances ppg)"
  by (simp add: send_and_log_def Let_def case_prod_beta)

text \<open>The correction of a transmit timestamp: the latency of the hook, or else the one of the port.\<close>

definition egress_adjust :: "platform \<Rightarrow> pp_globals \<Rightarrow> nat \<Rightarrow> TimeInterval" where
  "egress_adjust P ppg i = (case h_get_egress_latency (ext_hooks P i) of
     Some f \<Rightarrow> f ppg i | None \<Rightarrow> tc_egressLatency (ppi_timestampCorrectionPortDS (INST ppg i)))"

lemma send_and_log_event_channel:
  assumes i: "i < length (pp_instances ppg)"
    and send: "n_send P ppg i (take (nat (sint len)) (ppi_tx_ptp (INST ppg i))) fmt = (ret, ts)"
    and g: "g = log_event (Ev_send i fmt (take (nat (sint len)) (ppi_tx_ptp (INST ppg i))))
      (upd_inst i (\<lambda>ppi. ppi\<lparr> ppi_last_snt_time := ts \<rparr>) ppg)"
    and t: "t' = (if ret = PP_SEND_DROP then ts else pp_time_add_interval ts (egress_adjust P g i))"
  shows "if ret \<noteq> PP_SEND_DROP \<and> (sint ret < sint len \<or> is_incorrect t')
    then fst (send_and_log P ppg i len PP_NP_EVT fmt) \<noteq> 0
    else fst (send_and_log P ppg i len PP_NP_EVT fmt) = 0 \<and>
      (\<exists>n. INST (snd (send_and_log P ppg i len PP_NP_EVT fmt)) i =
        (INST ppg i)\<lparr> ppi_last_snt_time := t', ptp_tx_count := n \<rparr>)"
proof -
  have e: "PP_SEND_ERROR \<noteq> 0" "PP_SEND_NO_STAMP \<noteq> 0" by (simp_all add: PP_SEND_ERROR_def PP_SEND_NO_STAMP_def)
  have "INST g i = (INST ppg i)\<lparr> ppi_last_snt_time := ts \<rparr>" "i < length (pp_instances g)" using i by (simp_all add: g)
  moreover have "\<exists>n. r\<lparr> ppi_last_snt_time := ts \<rparr> = r\<lparr> ppi_last_snt_time := ts, ptp_tx_count := n \<rparr>" for r :: pp_instance
    by (rule exI [of _ "ptp_tx_count r"]) simp
  ultimately show ?thesis
    using e t unfolding send_and_log_def Let_def send case_prod_conv g [symmetric] egress_adjust_def [symmetric] by auto
qed

lemma upd_inst_twice:
  "i < length (pp_instances ppg) \<Longrightarrow> upd_inst i f (upd_inst i g ppg) = upd_inst i (\<lambda>ppi. f (g ppi)) ppg"
  by (simp add: upd_inst_def INST_def)

lemma follow_up_frame:
  assumes "tx_ready ppi" and "wire_time t"
  shows "fst (msg_pack_follow_up t ppi) = 44"
    and "hdr_sequenceId (msg_header_of (take 44 (ppi_tx_ptp (snd (msg_pack_follow_up t ppi))))) =
      sent_seq ppi ! unat PPM_SYNC"
    and "time_val (msg_unpack_follow_up (take 44 (ppi_tx_ptp (snd (msg_pack_follow_up t ppi))))) +
      time_val (hdr_cField (msg_header_of (take 44 (ppi_tx_ptp (snd (msg_pack_follow_up t ppi)))))) = time_val t"
  using assms(1) wire_time_words [OF assms(2)] sint_whole_ns [OF assms(2)]
  by (simp_all add: tx_ready_def msg_pack_follow_up_def pack_defs wire msg_header_of_def
      msg_unpack_follow_up_def unpack_origin_timestamp_def secs_on_wire nsecs_on_wire time_val_def)

lemma follow_up_head:
  assumes "tx_ready ppi"
  shows "fst (msg_pack_follow_up t ppi) = 44"
    and "hdr_sequenceId (msg_header_of (take 44 (ppi_tx_ptp (snd (msg_pack_follow_up t ppi))))) = sent_seq ppi ! unat PPM_SYNC"
  using assms by (simp_all add: tx_ready_def msg_pack_follow_up_def pack_defs wire msg_header_of_def)

text \<open>
  C19: a port hands a Sync with the next sequence number to the network.  When the platform cannot send
  it or returns an invalid transmit timestamp, the error is returned and nothing else is sent.  Otherwise
  the port hands over exactly one more frame, the Follow\_Up with the same sequence number.  It announces
  without loss the transmit timestamp that the platform returned for this Sync, corrected by the egress latency,
  provided that it fits the wire; for a Sync the platform dropped it announces the timestamp as it was returned.
\<close>

theorem sync_followup_pair:
  assumes "i < length (pp_instances ppg)" and "tx_ready (INST ppg i)"
    and "0 < length (sent_seq (INST ppg i))"
    and "g1 = upd_inst i (\<lambda>ppi. snd (msg_pack_sync (t_get P ppg i) ppi)) ppg"
    and "f1 = take 44 (ppi_tx_ptp (INST g1 i))"
    and "n_send P g1 i f1 PPM_SYNC_FMT = (ret, ts)"
    and "sent = log_event (Ev_send i PPM_SYNC_FMT f1) (upd_inst i (\<lambda>ppi. ppi\<lparr> ppi_last_snt_time := ts \<rparr>) g1)"
    and "t' = (if ret = PP_SEND_DROP then ts else pp_time_add_interval ts (egress_adjust P sent i))"
  shows "let (e, ppg') = msg_issue_sync_followup P ppg i; sq = sent_seq (INST ppg i) ! 0 + 1
    in hdr_sequenceId (msg_header_of f1) = sq \<and>
       (if ret \<noteq> PP_SEND_DROP \<and> (sint ret < 44 \<or> is_incorrect t')
        then e \<noteq> 0 \<and> g_events ppg' = g_events ppg @ [Ev_send i PPM_SYNC_FMT f1]
        else \<exists>f2. g_events ppg' = g_events ppg @ [Ev_send i PPM_SYNC_FMT f1, Ev_send i PPM_FOLLOW_UP_FMT f2] \<and>
          hdr_sequenceId (msg_header_of f2) = sq \<and>
          (wire_time t' \<longrightarrow> time_val (msg_unpack_follow_up f2) + time_val (hdr_cField (msg_header_of f2)) = time_val t'))"
proof -
  define p1 where "p1 = msg_pack_sync (t_get P ppg i) (INST ppg i)"
  note sync = header_of_sync [OF assms(2), of "t_get P ppg i", folded p1_def]
  have g1: "INST g1 i = snd p1" "i < length (pp_instances g1)" "g_events g1 = g_events ppg"
    using assms(1,4) by (simp_all add: p1_def)
  obtain e g2 where s: "send_and_log P g1 i 44 PP_NP_EVT PPM_SYNC_FMT = (e, g2)" by fastforce
  have f: "f1 = take (nat (sint (44 :: s32))) (ppi_tx_ptp (INST g1 i))" using assms(5) by simp
  have g2: "g_events g2 = g_events ppg @ [Ev_send i PPM_SYNC_FMT f1]"
    using send_and_log_events [of P g1 i 44 PP_NP_EVT PPM_SYNC_FMT] s g1(3) f by simp
  note out = send_and_log_event_channel [OF g1(2) assms(6) [unfolded f] assms(7) [unfolded f] assms(8), unfolded s fst_conv snd_conv]
  have pack: "upd_pack (msg_pack_sync (t_get P ppg i)) ppg i = (44, g1)"
    using assms(1,4) sync(2) by (simp add: upd_pack_def p1_def [symmetric] case_prod_beta) (simp add: upd_inst_def p1_def)
  have sq: "hdr_sequenceId (msg_header_of f1) = sent_seq (INST ppg i) ! 0 + 1"
    using sync(1) assms(5) g1(1) by (simp add: PPM_SYNC_def)
  show ?thesis
  proof (cases "ret \<noteq> PP_SEND_DROP \<and> (sint ret < 44 \<or> is_incorrect t')")
    case True
    then have "msg_issue_sync_followup P ppg i = (e, g2)" "e \<noteq> 0"
      using out by (simp_all add: msg_issue_sync_followup_def pack s)
    then show ?thesis using True g2 sq by simp
  next
    case False
    then obtain n where e: "e = 0" and i2: "INST g2 i = (snd p1)\<lparr> ppi_last_snt_time := t', ptp_tx_count := n \<rparr>"
      using out g1(1) by auto
    define g3 where "g3 = upd_inst i (\<lambda>_. snd (msg_pack_follow_up t' (INST g2 i))) g2"
    define f2 where "f2 = take 44 (ppi_tx_ptp (snd (msg_pack_follow_up t' (INST g2 i))))"
    have rdy: "tx_ready (INST g2 i)" using tx_ready_sync [OF assms(2)] by (simp add: i2 tx_ready_def p1_def)
    have len: "fst (msg_pack_follow_up t' (INST g2 i)) = 44" by (rule follow_up_head(1) [OF rdy])
    have i3: "INST g3 i = snd (msg_pack_follow_up t' (INST g2 i))"
      using g1(2) s send_and_log_len [of P g1 i 44 PP_NP_EVT PPM_SYNC_FMT] by (simp add: g3_def)
    have run: "msg_issue_sync_followup P ppg i = send_and_log P g3 i 44 PP_NP_GEN PPM_FOLLOW_UP_FMT"
      using e len i2 by (simp add: msg_issue_sync_followup_def pack s) (simp add: upd_pack_def case_prod_beta g3_def)
    have "g_events (snd (msg_issue_sync_followup P ppg i)) =
        g_events ppg @ [Ev_send i PPM_SYNC_FMT f1, Ev_send i PPM_FOLLOW_UP_FMT f2]"
      unfolding run send_and_log_events i3 using g2 by (simp add: g3_def f2_def)
    moreover have "sent_seq (INST g2 i) ! unat PPM_SYNC = sent_seq (INST ppg i) ! 0 + 1"
      using sync(3) assms(3) by (simp add: i2 PPM_SYNC_def)
    ultimately show ?thesis
      using False sq follow_up_head(2) [OF rdy, of t', folded f2_def] follow_up_frame(3) [OF rdy, of t', folded f2_def] by (auto simp: case_prod_beta)
  qed
qed

theorem sync_followup_pair_witness:
  "let P = platform_idle\<lparr> n_send := \<lambda>g _ _ _. (60, \<lparr> secs = 5 + word_of_nat (length (g_events g)), scaled_nsecs = 65543 \<rparr>) \<rparr>
   in \<exists>f1 f2. let (e, ppg') = msg_issue_sync_followup P (pp_globals_0 config_default 1) 0
    in g_events ppg' = [Ev_send 0 PPM_SYNC_FMT f1, Ev_send 0 PPM_FOLLOW_UP_FMT f2] \<and>
       hdr_sequenceId (msg_header_of f2) = 1 \<and>
       time_val (msg_unpack_follow_up f2) + time_val (hdr_cField (msg_header_of f2)) = 327680000065543"
proof -
  let ?P = "platform_idle\<lparr> n_send := \<lambda>g _ _ _. (60, \<lparr> secs = 5 + word_of_nat (length (g_events g)), scaled_nsecs = 65543 \<rparr>) \<rparr>"
  let ?ppg = "pp_globals_0 config_default 1" and ?t = "\<lparr> secs = 5, scaled_nsecs = 65543 \<rparr>"
  let ?g1 = "upd_inst 0 (\<lambda>ppi. snd (msg_pack_sync (t_get ?P ?ppg 0) ppi)) ?ppg"
  have l: "0 < length (pp_instances ?ppg)" and ev: "g_events ?ppg = []" by (simp_all add: pp_globals_0_def)
  have rdy: "tx_ready (INST ?ppg 0)" by (simp add: INST_0 tx_ready_0)
  have sq: "sent_seq (INST ?ppg 0) = replicate 14 0" "tc_egressLatency (ppi_timestampCorrectionPortDS (INST ?ppg 0)) = 0"
    by (simp_all add: INST_0 pp_instance_0_def PP_NR_MESSAGES_TYPES_def timestampCorrectionPortDS_0_def)
  have adj: "egress_adjust ?P (log_event x (upd_inst 0 (\<lambda>ppi. ppi\<lparr> ppi_last_snt_time := y \<rparr>) ?g1)) 0 = 0" for x y
    using l sq header_of_sync(4) [OF rdy] by (simp add: egress_adjust_def platform_idle_def pp_hooks_def)
  have t: "pp_time_add_interval ?t 0 = ?t" "\<not> is_incorrect ?t" by code_simp+
  have w: "wire_time ?t" "time_val ?t = 327680000065543" "(60 :: s32) \<noteq> PP_SEND_DROP" "sint (60 :: s32) = 60"
    by (simp_all add: wire_time_def time_val_def PP_SEND_DROP_def)
  show ?thesis
    using sync_followup_pair [OF l rdy _ refl refl, of ?P 60 ?t _ ?t] l sq ev adj t w by (auto simp: Let_def case_prod_beta)
qed

text \<open>
  C39: a signaling message does not convert the port number of its target: the two bytes on the wire
  are in host order, so a peer that follows the standard reads the number with its bytes swapped, while
  this implementation reads back its own.
\<close>

theorem signaling_port_number_host_order:
  assumes "64 \<le> length (ppi_tx_ptp ppi)"
  shows "let (len, ppi') = msg_pack_signaling target tlv_type tlv_len ppi; frame = ppi_tx_ptp ppi'
         in fst (msg_unpack_signaling frame) = target \<and>
            from_be (peek 42 2 frame) = push_bit 8 (portNumber target) OR drop_bit 8 (portNumber target) \<and>
            from_be (peek 44 2 frame) = tlv_type \<and> from_be (peek 46 2 frame) = tlv_len"
proof -
  have "from_be (le16 w) = push_bit 8 w OR drop_bit 8 w" for w :: u16
    unfolding le16_def be16_def numeral_2_eq_2 by (simp add: from_be_Cons) 
      (rule bit_word_eqI, auto simp: bit_simps from_be_def dest: bit_imp_le_length)
  then show ?thesis
    using assms by (simp add: msg_pack_signaling_def msg_pack_signaling0_def msg_unpack_signaling_def pack_defs wire)
qed

theorem signaling_port_number_host_order_witness:
  "let (len, ppi') = msg_pack_signaling \<lparr> clockIdentity = ClockId 1 2 3 4 5 6 7 8, portNumber = 1 \<rparr> 3 8 (pp_instance_0 config_default)
   in from_be (peek 42 2 (ppi_tx_ptp ppi')) = (256 :: u16)"
  using signaling_port_number_host_order [of "pp_instance_0 config_default" "\<lparr> clockIdentity = ClockId 1 2 3 4 5 6 7 8, portNumber = 1 \<rparr>" 3 8]
  by (simp add: pp_instance_0_def Let_def split: prod.splits)

end
