(* ===== verification/Clock_Quality.thy ===== *)
theory Clock_Quality
  imports Ppsi_Types
begin

text \<open>
  The attributes of the local clock (\<^verbatim>\<open>proto-standard/bmc_clock_quality.c\<close>): the defaults of a clock class, the
  values announced while the oscillator is locked, and their degradation while it is in holdover or
  unlocked.
\<close>

section \<open>Constants\<close>

definition PP_CLASS_SLAVE_ONLY :: "'a :: len word" where "PP_CLASS_SLAVE_ONLY = 255"
definition PP_CLASS_DEFAULT :: "'a :: len word" where "PP_CLASS_DEFAULT = 248"
definition PP_PTP_CLASS_GM_LOCKED :: "'a :: len word" where "PP_PTP_CLASS_GM_LOCKED = 6"
definition PP_PTP_CLASS_GM_HOLDOVER :: "'a :: len word" where "PP_PTP_CLASS_GM_HOLDOVER = 7"
definition PP_PTP_CLASS_GM_UNLOCKED_A :: "'a :: len word" where "PP_PTP_CLASS_GM_UNLOCKED_A = 52"
definition PP_PTP_CLASS_GM_UNLOCKED_B :: "'a :: len word" where "PP_PTP_CLASS_GM_UNLOCKED_B = 187"
definition PP_ARB_CLASS_GM_LOCKED :: "'a :: len word" where "PP_ARB_CLASS_GM_LOCKED = 13"
definition PP_ARB_CLASS_GM_HOLDOVER :: "'a :: len word" where "PP_ARB_CLASS_GM_HOLDOVER = 14"
definition PP_ARB_CLASS_GM_UNLOCKED_A :: "'a :: len word" where "PP_ARB_CLASS_GM_UNLOCKED_A = 58"
definition PP_ARB_CLASS_GM_UNLOCKED_B :: "'a :: len word" where "PP_ARB_CLASS_GM_UNLOCKED_B = 193"

definition CLOCK_ACCURACY_25_NS :: u8 where "CLOCK_ACCURACY_25_NS = 0x20"
definition CLOCK_ACCURACY_100_NS :: u8 where "CLOCK_ACCURACY_100_NS = 0x21"
definition CLOCK_ACCURACY_UNKNOWN :: u8 where "CLOCK_ACCURACY_UNKNOWN = 0xFE"

definition TIME_SRC_ATOMIC_CLOCK :: u8 where "TIME_SRC_ATOMIC_CLOCK = 0x10"
definition TIME_SRC_GNSS :: u8 where "TIME_SRC_GNSS = 0x20"
definition TIME_SRC_INTERNAL_OSCILLATOR :: u8 where "TIME_SRC_INTERNAL_OSCILLATOR = 0xA0"

definition PP_VARIANCE_GM_LOCKED :: u16 where "PP_VARIANCE_GM_LOCKED = 0xB900"
definition PP_VARIANCE_DEFAULT :: u16 where "PP_VARIANCE_DEFAULT = 0xC71D"

definition TRUE :: u8 where "TRUE = 1"
definition FALSE :: u8 where "FALSE = 0"

lemmas class_defs = PP_CLASS_SLAVE_ONLY_def PP_CLASS_DEFAULT_def PP_PTP_CLASS_GM_LOCKED_def
  PP_PTP_CLASS_GM_HOLDOVER_def PP_PTP_CLASS_GM_UNLOCKED_A_def PP_PTP_CLASS_GM_UNLOCKED_B_def
  PP_ARB_CLASS_GM_LOCKED_def PP_ARB_CLASS_GM_HOLDOVER_def PP_ARB_CLASS_GM_UNLOCKED_A_def
  PP_ARB_CLASS_GM_UNLOCKED_B_def

lemmas attribute_defs = CLOCK_ACCURACY_25_NS_def CLOCK_ACCURACY_100_NS_def CLOCK_ACCURACY_UNKNOWN_def
  TIME_SRC_ATOMIC_CLOCK_def TIME_SRC_GNSS_def TIME_SRC_INTERNAL_OSCILLATOR_def
  PP_VARIANCE_GM_LOCKED_def PP_VARIANCE_DEFAULT_def TRUE_def FALSE_def

section \<open>Tables\<close>

record deviceAttributesDegradation =
  da_clockQuality :: ClockQuality
  da_timeSource :: u8
  da_ptpTimeScale :: u8
  da_frequencyTraceable :: u8
  da_timeTraceable :: u8

record clockDegradation_t =
  cd_clockClass :: u8
  cd_enable_timing_output :: bool
  cd_holdover :: deviceAttributesDegradation
  cd_unlocked :: deviceAttributesDegradation

definition degraded :: "u8 \<Rightarrow> u8 \<Rightarrow> u16 \<Rightarrow> u8 \<Rightarrow> u8 \<Rightarrow> u8 \<Rightarrow> u8 \<Rightarrow> deviceAttributesDegradation" where
  "degraded class accuracy variance source scale freq time = \<lparr>
     da_clockQuality = \<lparr> clockClass = class, clockAccuracy = accuracy, offsetScaledLogVariance = variance \<rparr>,
     da_timeSource = source, da_ptpTimeScale = scale, da_frequencyTraceable = freq, da_timeTraceable = time \<rparr>"

definition clockDegradation :: "config \<Rightarrow> clockDegradation_t list" where
  "clockDegradation cf =
     [\<lparr> cd_clockClass = PP_PTP_CLASS_GM_LOCKED, cd_enable_timing_output = True,
        cd_holdover = degraded PP_PTP_CLASS_GM_HOLDOVER CLOCK_ACCURACY_100_NS PP_VARIANCE_DEFAULT
          TIME_SRC_INTERNAL_OSCILLATOR TRUE TRUE TRUE,
        cd_unlocked = degraded PP_PTP_CLASS_GM_UNLOCKED_B CLOCK_ACCURACY_UNKNOWN PP_VARIANCE_DEFAULT
          TIME_SRC_INTERNAL_OSCILLATOR TRUE FALSE FALSE \<rparr>] @
     (if CONFIG_WRPC_SIZE cf then [] else
     [\<lparr> cd_clockClass = PP_ARB_CLASS_GM_LOCKED, cd_enable_timing_output = False,
        cd_holdover = degraded PP_ARB_CLASS_GM_HOLDOVER CLOCK_ACCURACY_25_NS PP_VARIANCE_DEFAULT
          TIME_SRC_INTERNAL_OSCILLATOR FALSE FALSE FALSE,
        cd_unlocked = degraded PP_ARB_CLASS_GM_UNLOCKED_B CLOCK_ACCURACY_UNKNOWN PP_VARIANCE_DEFAULT
          TIME_SRC_INTERNAL_OSCILLATOR FALSE FALSE FALSE \<rparr>,
      \<lparr> cd_clockClass = PP_ARB_CLASS_GM_UNLOCKED_A, cd_enable_timing_output = False,
        cd_holdover = degraded PP_ARB_CLASS_GM_UNLOCKED_A CLOCK_ACCURACY_UNKNOWN PP_VARIANCE_DEFAULT
          TIME_SRC_INTERNAL_OSCILLATOR FALSE FALSE FALSE,
        cd_unlocked = degraded PP_ARB_CLASS_GM_UNLOCKED_A CLOCK_ACCURACY_UNKNOWN PP_VARIANCE_DEFAULT
          TIME_SRC_INTERNAL_OSCILLATOR FALSE FALSE FALSE \<rparr>]) @
     [\<lparr> cd_clockClass = PP_ARB_CLASS_GM_UNLOCKED_B, cd_enable_timing_output = False,
        cd_holdover = degraded PP_ARB_CLASS_GM_UNLOCKED_B CLOCK_ACCURACY_UNKNOWN PP_VARIANCE_DEFAULT
          TIME_SRC_INTERNAL_OSCILLATOR FALSE FALSE FALSE,
        cd_unlocked = degraded PP_ARB_CLASS_GM_UNLOCKED_B CLOCK_ACCURACY_UNKNOWN PP_VARIANCE_DEFAULT
          TIME_SRC_INTERNAL_OSCILLATOR FALSE FALSE FALSE \<rparr>]"

text \<open>The state last seen per class of the table, -1 before the first time.\<close>

definition clockDeg_lastTimingModeState :: "config \<Rightarrow> s8 list" where
  "clockDeg_lastTimingModeState cf = replicate (if CONFIG_WRPC_SIZE cf then 2 else 4) (- 1)"

record defaultDeviceAttributes_t =
  dda_clockClass :: s16
  dda_clockAccuracy :: u8
  dda_timeSource :: u8
  dda_offsetScaledLogVariance :: u16
  dda_ptpTimeScale :: u8
  dda_frequencyTraceable :: u8
  dda_timeTraceable :: u8

definition dev_attr :: "s16 \<Rightarrow> u8 \<Rightarrow> u16 \<Rightarrow> u8 \<Rightarrow> u8 \<Rightarrow> u8 \<Rightarrow> u8 \<Rightarrow> defaultDeviceAttributes_t" where
  "dev_attr class accuracy variance source scale freq time = \<lparr>
     dda_clockClass = class, dda_clockAccuracy = accuracy, dda_timeSource = source,
     dda_offsetScaledLogVariance = variance, dda_ptpTimeScale = scale,
     dda_frequencyTraceable = freq, dda_timeTraceable = time \<rparr>"

definition defaultDeviceAttributes :: "config \<Rightarrow> defaultDeviceAttributes_t list" where
  "defaultDeviceAttributes cf =
     [dev_attr PP_PTP_CLASS_GM_LOCKED CLOCK_ACCURACY_100_NS PP_VARIANCE_GM_LOCKED TIME_SRC_GNSS TRUE TRUE TRUE,
      dev_attr PP_PTP_CLASS_GM_HOLDOVER CLOCK_ACCURACY_100_NS PP_VARIANCE_DEFAULT
        TIME_SRC_INTERNAL_OSCILLATOR TRUE TRUE TRUE] @
     (if CONFIG_WRPC_SIZE cf then [] else
     [dev_attr PP_PTP_CLASS_GM_UNLOCKED_A CLOCK_ACCURACY_UNKNOWN PP_VARIANCE_DEFAULT
        TIME_SRC_INTERNAL_OSCILLATOR TRUE FALSE FALSE]) @
     [dev_attr PP_PTP_CLASS_GM_UNLOCKED_B CLOCK_ACCURACY_UNKNOWN PP_VARIANCE_DEFAULT
        TIME_SRC_INTERNAL_OSCILLATOR TRUE FALSE FALSE] @
     (if CONFIG_WRPC_SIZE cf then [] else
     [dev_attr PP_ARB_CLASS_GM_LOCKED CLOCK_ACCURACY_25_NS PP_VARIANCE_GM_LOCKED TIME_SRC_ATOMIC_CLOCK
        FALSE FALSE FALSE,
      dev_attr PP_ARB_CLASS_GM_HOLDOVER CLOCK_ACCURACY_25_NS PP_VARIANCE_DEFAULT
        TIME_SRC_INTERNAL_OSCILLATOR FALSE FALSE FALSE,
      dev_attr PP_ARB_CLASS_GM_UNLOCKED_A CLOCK_ACCURACY_25_NS PP_VARIANCE_DEFAULT
        TIME_SRC_INTERNAL_OSCILLATOR FALSE FALSE FALSE]) @
     [dev_attr PP_ARB_CLASS_GM_UNLOCKED_B CLOCK_ACCURACY_25_NS PP_VARIANCE_DEFAULT
        TIME_SRC_INTERNAL_OSCILLATOR FALSE FALSE FALSE,
      dev_attr (- 1) CLOCK_ACCURACY_UNKNOWN PP_VARIANCE_DEFAULT TIME_SRC_INTERNAL_OSCILLATOR
        FALSE FALSE FALSE]"

section \<open>Operations\<close>

definition bmc_apply_configured_device_attributes :: "pp_globals \<Rightarrow> pp_globals" where
  "bmc_apply_configured_device_attributes ppg =
     (let o' = rt_opts ppg
      in ppg\<lparr> g_defaultDS := (g_defaultDS ppg)\<lparr>
               dd_clockQuality := \<lparr> clockClass = ucast (opt_clock_quality_clockClass o'),
                 clockAccuracy = ucast (opt_clock_quality_clockAccuracy o'),
                 offsetScaledLogVariance = ucast (opt_clock_quality_offsetScaledLogVariance o') \<rparr>,
               dd_priority1 := ucast (opt_priority1 o'), dd_priority2 := ucast (opt_priority2 o'),
               dd_domainNumber := ucast (opt_domainNumber o') \<rparr>,
             g_timePropertiesDS := (g_timePropertiesDS ppg)\<lparr>
               tp_timeSource := ucast (opt_timeSource o'), tp_ptpTimescale := opt_ptpTimeScale o',
               tp_frequencyTraceable := opt_frequencyTraceable o',
               tp_timeTraceable := opt_timeTraceable o' \<rparr> \<rparr>)"

text \<open>The part of \<^verbatim>\<open>bmc_update_clock_quality\<close> that degrades the attributes, in holdover or unlocked.\<close>

definition bmc_degrade :: "deviceAttributesDegradation \<Rightarrow> pp_globals \<Rightarrow> pp_globals" where
  "bmc_degrade dev ppg =
     (let o' = rt_opts ppg; q = da_clockQuality dev;
          cq = dd_clockQuality (g_defaultDS ppg);
          cq = cq\<lparr> clockClass := clockClass q \<rparr>;
          cq = (if clockAccuracy q > ucast (opt_clock_quality_clockAccuracy o')
                then cq\<lparr> clockAccuracy := clockAccuracy q \<rparr> else cq);
          cq = (if offsetScaledLogVariance q > ucast (opt_clock_quality_offsetScaledLogVariance o')
                then cq\<lparr> offsetScaledLogVariance := offsetScaledLogVariance q \<rparr> else cq);
          tp = g_timePropertiesDS ppg;
          tp = (if uint (da_timeSource dev) > sint (opt_timeSource o')
                then tp\<lparr> tp_timeSource := da_timeSource dev \<rparr> else tp);
          tp = (if opt_ptpTimeScale o' \<noteq> 0 then tp\<lparr> tp_ptpTimescale := da_ptpTimeScale dev \<rparr> else tp);
          tp = (if opt_frequencyTraceable o' \<noteq> 0
                then tp\<lparr> tp_frequencyTraceable := da_frequencyTraceable dev \<rparr> else tp);
          tp = (if opt_timeTraceable o' \<noteq> 0 then tp\<lparr> tp_timeTraceable := da_timeTraceable dev \<rparr> else tp)
      in ppg\<lparr> g_defaultDS := (g_defaultDS ppg)\<lparr> dd_clockQuality := cq \<rparr>, g_timePropertiesDS := tp \<rparr>)"

fun timing_mode_val :: "pp_timing_mode_state \<Rightarrow> s8" where
  "timing_mode_val PP_TIMING_MODE_STATE_UNLOCKED = 0"
| "timing_mode_val PP_TIMING_MODE_STATE_HOLDOVER = 1"
| "timing_mode_val PP_TIMING_MODE_STATE_LOCKED = 2"

definition find_degradation :: "pp_globals \<Rightarrow> nat option" where
  "find_degradation ppg =
     (let deg = clockDegradation (g_config ppg)
      in find (\<lambda>k. sint (opt_clock_quality_clockClass (rt_opts ppg)) = uint (cd_clockClass (deg ! k)))
           [0..<length deg])"

definition bmc_update_clock_quality :: "platform \<Rightarrow> pp_globals \<Rightarrow> pp_globals" where
  "bmc_update_clock_quality P ppg =
     (case find_degradation ppg of
        None \<Rightarrow> ppg
      | Some k \<Rightarrow>
         (case t_get_GM_lock_state P ppg of
            None \<Rightarrow> ppg
          | Some state \<Rightarrow>
             let clkDeg = clockDegradation (g_config ppg) ! k
             in if g_lastTimingModeState ppg ! k \<noteq> timing_mode_val state
                then let ppg =
                       (if state = PP_TIMING_MODE_STATE_LOCKED
                        then let ppg = bmc_apply_configured_device_attributes ppg
                             in if cd_enable_timing_output clkDeg
                                then log_event (Ev_enable_timing_output True) ppg else ppg
                        else bmc_degrade (if state = PP_TIMING_MODE_STATE_UNLOCKED
                                          then cd_unlocked clkDeg else cd_holdover clkDeg) ppg)
                     in ppg\<lparr> g_lastTimingModeState := (g_lastTimingModeState ppg)[k := timing_mode_val state] \<rparr>
                else ppg))"

fun find_default_attr :: "s32 \<Rightarrow> defaultDeviceAttributes_t list \<Rightarrow> defaultDeviceAttributes_t" where
  "find_default_attr class [d] = d"
| "find_default_attr class (d # ds) =
     (if sint (dda_clockClass d) \<noteq> sint class \<and> dda_clockClass d \<noteq> - 1
      then find_default_attr class ds else d)"

text \<open>
  The comparisons of the three Boolean options with -1 are on an unsigned byte promoted to \<^verbatim>\<open>int\<close>.
\<close>

definition bmc_set_default_device_attributes :: "pp_globals \<Rightarrow> pp_globals" where
  "bmc_set_default_device_attributes ppg =
     (let o' = rt_opts ppg;
          pDef = find_default_attr (opt_clock_quality_clockClass o') (defaultDeviceAttributes (g_config ppg));
          o' = (if opt_clock_quality_clockAccuracy o' = - 1
                then o'\<lparr> opt_clock_quality_clockAccuracy := ucast (dda_clockAccuracy pDef) \<rparr> else o');
          o' = (if opt_clock_quality_offsetScaledLogVariance o' = - 1
                then o'\<lparr> opt_clock_quality_offsetScaledLogVariance := ucast (dda_offsetScaledLogVariance pDef) \<rparr>
                else o');
          o' = (if opt_timeSource o' = - 1 then o'\<lparr> opt_timeSource := ucast (dda_timeSource pDef) \<rparr> else o');
          o' = (if uint (opt_ptpTimeScale o') = - 1
                then o'\<lparr> opt_ptpTimeScale := dda_ptpTimeScale pDef \<rparr> else o');
          o' = (if uint (opt_frequencyTraceable o') = - 1
                then o'\<lparr> opt_frequencyTraceable := dda_frequencyTraceable pDef \<rparr> else o');
          o' = (if uint (opt_timeTraceable o') = - 1
                then o'\<lparr> opt_timeTraceable := dda_timeTraceable pDef \<rparr> else o')
      in ppg\<lparr> rt_opts := o' \<rparr>)"

end
