(* ===== verification/Bmc_Frgn.thy ===== *)
theory Bmc_Frgn
  imports Msg Clock_Quality
begin

text \<open>
  The foreign masters of a port (\<^verbatim>\<open>proto-standard/bmc.c\<close>, \<^verbatim>\<open>bmc_setup_local_frgn_master\<close> and
  \<^verbatim>\<open>bmc_store_frgn_master\<close> to \<^verbatim>\<open>bmc_update_ebest\<close>): the table of announced masters, their qualification,
  ageing and removal, and the choice of the best one per port (Erbest) and over all ports (Ebest).
  The table is an array of a fixed size of which the first \<^verbatim>\<open>frgn_rec_num\<close> records are live.
\<close>

section \<open>Records\<close>

text \<open>
  The data set of the clock itself as a record; \<open>fm\<close> is the memory it is written over.
\<close>

definition bmc_setup_local_frgn_master :: "pp_globals \<Rightarrow> nat \<Rightarrow> pp_frgn_master \<Rightarrow> pp_frgn_master" where
  "bmc_setup_local_frgn_master ppg i fm =
     (let def = g_defaultDS ppg; pid = por_portIdentity (ppi_portDS (INST ppg i));
          fm = (if \<not> is_externalPortConfigurationEnabled ppg then fm\<lparr> fm_qualified := True \<rparr> else fm)
      in fm\<lparr> fm_receivePortIdentity := pid, fm_sequenceId := 0, fm_sourcePortIdentity := pid,
             fm_flagField0 := 0, fm_flagField1 := 0, fm_currentUtcOffset := 0,
             fm_grandmasterPriority1 := dd_priority1 def,
             fm_grandmasterClockQuality := dd_clockQuality def,
             fm_grandmasterPriority2 := dd_priority2 def,
             fm_grandmasterIdentity := dd_clockIdentity def,
             fm_stepsRemoved := 0, fm_timeSource := TIME_SRC_INTERNAL_OSCILLATOR,
             fm_ext_specific := replicate 4 0 \<rparr>)"

definition bmc_store_frgn_master ::
  "platform \<Rightarrow> pp_globals \<Rightarrow> nat \<Rightarrow> u8 list \<Rightarrow> pp_frgn_master \<times> pp_globals" where
  "bmc_store_frgn_master P ppg i buf =
     (let (ann, ppg) = msg_unpack_announce P ppg i buf;
          ppi = INST ppg i; hdr = received_ptp_header ppi
      in (\<lparr> fm_sequenceId = hdr_sequenceId hdr,
            fm_stepsRemoved = ann_stepsRemoved ann,
            fm_currentUtcOffset = ann_currentUtcOffset ann,
            fm_receivePortIdentity = por_portIdentity (ppi_portDS ppi),
            fm_sourcePortIdentity = hdr_sourcePortIdentity hdr,
            fm_grandmasterClockQuality = ann_grandmasterClockQuality ann,
            fm_grandmasterIdentity = ann_grandmasterIdentity ann,
            fm_grandmasterPriority1 = ann_grandmasterPriority1 ann,
            fm_grandmasterPriority2 = ann_grandmasterPriority2 ann,
            fm_timeSource = ann_timeSource ann,
            fm_flagField0 = hdr_flagField0 hdr, fm_flagField1 = hdr_flagField1 hdr,
            fm_qualified = False, fm_lastAnnounceMsgMs = 0,
            fm_ext_specific = ann_ext_specific ann, fm_peer_mac = ppi_peer ppi \<rparr>, ppg))"

section \<open>Adding a master\<close>

definition set_frgn :: "nat \<Rightarrow> pp_frgn_master \<Rightarrow> pp_instance \<Rightarrow> pp_instance" where
  "set_frgn k fm ppi = ppi\<lparr> frgn_master := (frgn_master ppi)[k := fm] \<rparr>"

text \<open>The worst record of a full table, all of them compared as qualified.\<close>

definition bmc_worst :: "pp_globals \<Rightarrow> pp_frgn_master list \<Rightarrow> nat \<Rightarrow> nat" where
  "bmc_worst ppg fms num =
     fold (\<lambda>k worst. if bmc_dataset_cmp ppg ((fms ! k)\<lparr> fm_qualified := True \<rparr>)
                            ((fms ! worst)\<lparr> fm_qualified := True \<rparr>) > 0
                     then k else worst) [1..<num] 0"

text \<open>
  An announce of a known master refreshes its record; the sequence number must be the successor of the
  last one, compared as integers.
\<close>

definition bmc_refresh ::
  "platform \<Rightarrow> pp_globals \<Rightarrow> nat \<Rightarrow> pp_frgn_master \<Rightarrow> pp_frgn_master \<Rightarrow> pp_frgn_master" where
  "bmc_refresh P ppg i old fm =
     (let fm = fm\<lparr> fm_qualified := fm_qualified old, fm_lastAnnounceMsgMs := fm_lastAnnounceMsgMs old \<rparr>;
          hdr = received_ptp_header (INST ppg i)
      in if uint (hdr_sequenceId hdr) = uint (fm_sequenceId old) + 1
         then let now = t_calc_timeout P ppg i 0
              in fm\<lparr> fm_qualified := time_before_eq now
                       (fm_lastAnnounceMsgMs fm + ucast (frgn_master_time_window_ms (INST ppg i))),
                     fm_lastAnnounceMsgMs := now \<rparr>
         else fm)"

text \<open>
  The announce comes from this clock itself: from a better port, the port goes passive and the record
  is kept; otherwise it is ignored.  \<^const>\<open>None\<close>: the announce is dropped.
\<close>

definition bmc_own_clock_check :: "platform \<Rightarrow> pp_globals \<Rightarrow> nat \<Rightarrow> pp_globals option" where
  "bmc_own_clock_check P ppg i =
     (let pid = hdr_sourcePortIdentity (received_ptp_header (INST ppg i));
          same = bmc_idcmp (clockIdentity pid) (dd_clockIdentity (g_defaultDS ppg)) = 0
      in if get_numberPorts ppg > 1
         then if same
              then if bmc_pidcmp pid (por_portIdentity (ppi_portDS (INST ppg i))) < 0
                   then Some (pp_timeout_reset P
                          (upd_inst i (\<lambda>ppi. ppi\<lparr> ppi_next_state := PPS_PASSIVE \<rparr>) ppg) i PP_TO_ANN_RECEIPT)
                   else None
              else Some ppg
         else if same then None else Some ppg)"

definition bmc_find_frgn :: "PortIdentity \<Rightarrow> pp_instance \<Rightarrow> nat option" where
  "bmc_find_frgn pid ppi =
     find (\<lambda>k. bmc_pidcmp pid (fm_sourcePortIdentity (frgn_master ppi ! k)) = 0) [0..<unat (frgn_rec_num ppi)]"

text \<open>The slot for a new master and the port with its record count; \<^const>\<open>None\<close>: worse than all.\<close>

definition bmc_select_slot :: "pp_globals \<Rightarrow> pp_instance \<Rightarrow> pp_frgn_master \<Rightarrow> (nat \<times> pp_instance) option" where
  "bmc_select_slot ppg ppi fm =
     (let num = unat (frgn_rec_num ppi)
      in if \<not> CONFIG_SINGLE_FMASTER (g_config ppg)
         then if num < CONFIG_NR_FOREIGN_RECORDS (g_config ppg)
              then Some (num, ppi\<lparr> frgn_rec_num := frgn_rec_num ppi + 1 \<rparr>)
              else let worst = bmc_worst ppg (frgn_master ppi) num
                   in if bmc_dataset_cmp ppg ((frgn_master ppi ! worst)\<lparr> fm_qualified := True \<rparr>) fm < 0
                      then None else Some (worst, ppi)
         else Some (0, ppi\<lparr> frgn_rec_num := 1 \<rparr>))"

definition bmc_add_frgn_master ::
  "platform \<Rightarrow> pp_globals \<Rightarrow> nat \<Rightarrow> pp_frgn_master \<Rightarrow> nat option \<times> pp_globals" where
  "bmc_add_frgn_master P ppg i fm =
     (let pid = hdr_sourcePortIdentity (received_ptp_header (INST ppg i))
      in if is_externalPortConfigurationEnabled ppg
         then if bmc_idcmp (clockIdentity pid) (dd_clockIdentity (g_defaultDS ppg)) = 0 \<and>
                 uint (portNumber pid) = sint (port_idx (INST ppg i))
              then (None, ppg)
              else (Some 0, upd_inst i (\<lambda>ppi. set_frgn 0 fm (ppi\<lparr> frgn_rec_num := 1, frgn_rec_best := 0 \<rparr>)) ppg)
         else case bmc_own_clock_check P ppg i of
           None \<Rightarrow> (None, ppg)
         | Some ppg \<Rightarrow>
             if uint (fm_stepsRemoved fm) \<ge> 255 then (None, ppg)
             else case bmc_find_frgn pid (INST ppg i) of
               Some k \<Rightarrow>
                 (None, upd_inst i (set_frgn k (bmc_refresh P ppg i (frgn_master (INST ppg i) ! k) fm)) ppg)
             | None \<Rightarrow>
                 (let fm = fm\<lparr> fm_qualified := True \<rparr>
                  in case bmc_select_slot ppg (INST ppg i) fm of
                       None \<Rightarrow> (None, ppg)
                     | Some (sel, ppi) \<Rightarrow>
                         let fm = fm\<lparr> fm_qualified := False, fm_lastAnnounceMsgMs := t_calc_timeout P ppg i 0 \<rparr>
                         in (Some sel, upd_inst i (\<lambda>_. set_frgn sel fm ppi) ppg)))"

section \<open>Removing masters\<close>

definition bmc_flush_frgn_master :: "config \<Rightarrow> pp_instance \<Rightarrow> pp_instance" where
  "bmc_flush_frgn_master cf ppi =
     ppi\<lparr> frgn_master := replicate (CONFIG_NR_FOREIGN_RECORDS cf) pp_frgn_master_0, frgn_rec_num := 0 \<rparr>"

text \<open>
  One round of the loop of \<^verbatim>\<open>bmc_remove_foreign_master\<close>.  Its condition tests the removed index, not
  the loop index, so that the last round copies what follows the table in memory, \<open>past\<close>.
\<close>

definition bmc_remove_step :: "pp_frgn_master \<Rightarrow> nat \<Rightarrow> nat \<Rightarrow> pp_instance \<Rightarrow> pp_instance" where
  "bmc_remove_step past idx k ppi =
     (if int idx < uint (frgn_rec_num ppi) - 1
      then let ppi = set_frgn k ((frgn_master ppi @ [past]) ! (k + 1)) ppi
           in if sint (frgn_rec_best ppi) = int k + 1
              then ppi\<lparr> frgn_rec_best := word_of_nat k \<rparr> else ppi
      else set_frgn k pp_frgn_master_0 ppi)"

definition bmc_remove_foreign_master :: "config \<Rightarrow> pp_frgn_master \<Rightarrow> nat \<Rightarrow> pp_instance \<Rightarrow> pp_instance" where
  "bmc_remove_foreign_master cf past idx ppi =
     (let ppi = (if sint (frgn_rec_best ppi) = int idx then ppi\<lparr> frgn_rec_best := - 1 \<rparr> else ppi);
          ppi = fold (bmc_remove_step past idx) [idx..<CONFIG_NR_FOREIGN_RECORDS cf] ppi
      in ppi\<lparr> frgn_rec_num := frgn_rec_num ppi - 1 \<rparr>)"

definition bmc_flush_erbest :: "platform \<Rightarrow> pp_globals \<Rightarrow> nat \<Rightarrow> pp_globals" where
  "bmc_flush_erbest P ppg i =
     upd_inst i (\<lambda>ppi.
       let ppi = (if frgn_rec_best ppi \<noteq> - 1 \<and> sint (frgn_rec_best ppi) < uint (frgn_rec_num ppi)
                  then bmc_remove_foreign_master (g_config ppg) (mem_past_frgn P)
                         (nat (sint (frgn_rec_best ppi))) ppi else ppi)
       in ppi\<lparr> frgn_rec_best := - 1 \<rparr>) ppg"

lemma fold_bmc_remove_step_num [simp]:
  "frgn_rec_num (fold (bmc_remove_step past idx) ks ppi) = frgn_rec_num ppi"
  by (induction ks arbitrary: ppi) (simp_all add: bmc_remove_step_def set_frgn_def Let_def)

lemma bmc_remove_foreign_master_num [simp]:
  "frgn_rec_num (bmc_remove_foreign_master cf past idx ppi) = frgn_rec_num ppi - 1"
  by (simp add: bmc_remove_foreign_master_def Let_def)

text \<open>The ageing loop: a record that is not the Ebest and too old is removed, and its slot looked at again.\<close>

function bmc_age_loop ::
  "platform \<Rightarrow> pp_globals \<Rightarrow> nat \<Rightarrow> u64 \<Rightarrow> nat \<Rightarrow> pp_instance \<Rightarrow> pp_instance" where
  "bmc_age_loop P ppg i now k ppi =
     (if k < unat (frgn_rec_num ppi)
      then let fm = frgn_master ppi ! k
           in if \<not> is_ebest (upd_inst i (\<lambda>_. ppi) ppg) fm \<and>
                 time_after now (fm_lastAnnounceMsgMs fm + ucast (frgn_master_time_window_ms ppi))
              then bmc_age_loop P ppg i now k (bmc_remove_foreign_master (g_config ppg) (mem_past_frgn P) k ppi)
              else bmc_age_loop P ppg i now (k + 1) ppi
      else ppi)"
  by pat_completeness auto
termination
proof (relation "measure (\<lambda>(P, ppg, i, now, k, ppi). unat (frgn_rec_num ppi) - k)")
  fix P :: platform and ppg :: pp_globals and i k :: nat and now :: u64 and ppi :: pp_instance and fm
  assume k: "k < unat (frgn_rec_num ppi)"
  then have "frgn_rec_num ppi \<noteq> 0" by auto
  with k have "unat (frgn_rec_num ppi - 1) < unat (frgn_rec_num ppi)" by (simp add: unat_minus_one)
  with k show "((P, ppg, i, now, k, bmc_remove_foreign_master (g_config ppg) (mem_past_frgn P) k ppi),
      (P, ppg, i, now, k, ppi)) \<in> measure (\<lambda>(P, ppg, i, now, k, ppi). unat (frgn_rec_num ppi) - k)"
    by auto
qed auto

definition bmc_age_frgn_master :: "platform \<Rightarrow> pp_globals \<Rightarrow> nat \<Rightarrow> pp_globals" where
  "bmc_age_frgn_master P ppg i =
     upd_inst i (bmc_age_loop P ppg i (t_calc_timeout P ppg i 0) 0) ppg"

definition bmc_age_frgn_masters :: "platform \<Rightarrow> pp_globals \<Rightarrow> pp_globals" where
  "bmc_age_frgn_masters P ppg = fold (\<lambda>i ppg. bmc_age_frgn_master P ppg i) [0..<get_numberPorts ppg] ppg"

section \<open>The best masters\<close>

definition bmc_check_frgn_master :: "pp_globals \<Rightarrow> nat \<Rightarrow> bool" where
  "bmc_check_frgn_master ppg i =
     (let ppi = INST ppg i
      in list_ex (\<lambda>k. let pid = fm_sourcePortIdentity (frgn_master ppi ! k)
                     in bmc_idcmp (clockIdentity pid) (dd_clockIdentity (g_defaultDS ppg)) = 0 \<and>
                        bmc_pidcmp pid (por_portIdentity (ppi_portDS ppi)) < 0)
           [0..<unat (frgn_rec_num ppi)])"

definition bmc_any_port_initializing :: "pp_globals \<Rightarrow> nat option" where
  "bmc_any_port_initializing ppg =
     find (\<lambda>i. link_up (INST ppg i) \<and> ppi_state (INST ppg i) = PPS_INITIALIZING) [0..<get_numberPorts ppg]"

definition bmc_is_erbest :: "pp_globals \<Rightarrow> nat \<Rightarrow> PortIdentity \<Rightarrow> bool" where
  "bmc_is_erbest ppg i srcPortIdentity =
     (let ppi = INST ppg i
      in frgn_rec_num ppi > 0 \<and> frgn_rec_best ppi \<noteq> - 1 \<and>
         bmc_pidcmp (fm_sourcePortIdentity (erbest_of ppi)) srcPortIdentity = 0)"

text \<open>The loop over the records of a port that keeps the better one.\<close>

definition bmc_scan_erbest :: "pp_globals \<Rightarrow> pp_frgn_master list \<Rightarrow> nat \<Rightarrow> nat" where
  "bmc_scan_erbest ppg fms num =
     fold (\<lambda>j best. if bmc_dataset_cmp ppg (fms ! j) (fms ! best) < 0 then j else best) [1..<num] 0"

text \<open>The choice among the live records; an unqualified best record is none.\<close>

definition erbest_choice :: "pp_globals \<Rightarrow> pp_instance \<Rightarrow> pp_instance" where
  "erbest_choice ppg ppi =
     (let best = (if \<not> CONFIG_SINGLE_FMASTER (g_config ppg)
                  then bmc_scan_erbest ppg (frgn_master ppi) (unat (frgn_rec_num ppi)) else 0)
      in ppi\<lparr> frgn_rec_best := (if is_qualified ppg (frgn_master ppi ! best) then word_of_nat best else - 1) \<rparr>)"

definition erbest_peer :: "pp_instance \<Rightarrow> pp_instance" where
  "erbest_peer ppi =
     (if sint (frgn_rec_best ppi) \<ge> 0 then ppi\<lparr> ppi_activePeer := fm_peer_mac (erbest_of ppi) \<rparr> else ppi)"

definition bmc_update_erbest_inst :: "pp_globals \<Rightarrow> nat \<Rightarrow> pp_globals" where
  "bmc_update_erbest_inst ppg i =
     (let cf = g_config ppg;
          ppg = (if \<not> link_up (INST ppg i) \<and> frgn_rec_num (INST ppg i) > 0
                 then upd_inst i (bmc_flush_frgn_master cf) ppg else ppg);
          ppi = INST ppg i;
          ppi = (if frgn_rec_num ppi > 0
                 then if ppi_state ppi \<noteq> PPS_FAULTY \<and> ppi_state ppi \<noteq> PPS_DISABLED
                      then if \<not> is_externalPortConfigurationEnabled ppg then erbest_choice ppg ppi
                           else ppi\<lparr> frgn_rec_best := 0 \<rparr>
                      else (bmc_flush_frgn_master cf ppi)\<lparr> frgn_rec_best := - 1 \<rparr>
                 else ppi\<lparr> frgn_rec_best := - 1 \<rparr>)
      in upd_inst i (\<lambda>_. erbest_peer ppi) ppg)"

definition bmc_update_erbest :: "pp_globals \<Rightarrow> pp_globals" where
  "bmc_update_erbest ppg = fold (\<lambda>i ppg. bmc_update_erbest_inst ppg i) [0..<get_numberPorts ppg] ppg"

definition bmc_ebest_step :: "pp_globals \<Rightarrow> nat \<Rightarrow> int \<Rightarrow> int" where
  "bmc_ebest_step ppg i best =
     (let tppi = INST ppg i
      in if best = - 1 \<and> frgn_rec_best tppi \<noteq> - 1 then int i
         else let ppi_best = INST ppg (nat best)
              in if frgn_rec_best tppi \<noteq> - 1 \<and>
                    (bmc_dataset_cmp ppg (erbest_of tppi) (erbest_of ppi_best) < 0 \<or> frgn_rec_num ppi_best = 0)
                 then int i else best)"

definition bmc_update_ebest :: "pp_globals \<Rightarrow> pp_globals" where
  "bmc_update_ebest ppg =
     (let best = word_of_int (fold (bmc_ebest_step ppg) [0..<get_numberPorts ppg] (- 1)) :: s32;
          ppg = (if ebest_idx ppg \<noteq> best then ppg\<lparr> ebest_updated := True \<rparr> else ppg)
      in ppg\<lparr> ebest_idx := best \<rparr>)"


section \<open>The table as a list\<close>

definition live :: "pp_instance \<Rightarrow> pp_frgn_master list" where
  "live ppi = take (unat (frgn_rec_num ppi)) (frgn_master ppi)"

definition frgn_wf :: "config \<Rightarrow> pp_instance \<Rightarrow> bool" where
  "frgn_wf cf ppi \<longleftrightarrow>
     0 < CONFIG_NR_FOREIGN_RECORDS cf \<and> CONFIG_NR_FOREIGN_RECORDS cf < 2 ^ 15 \<and>
     length (frgn_master ppi) = CONFIG_NR_FOREIGN_RECORDS cf \<and>
     unat (frgn_rec_num ppi) \<le> CONFIG_NR_FOREIGN_RECORDS cf \<and>
     - 1 \<le> sint (frgn_rec_best ppi) \<and> sint (frgn_rec_best ppi) < uint (frgn_rec_num ppi) \<and>
     distinct (map fm_sourcePortIdentity (live ppi)) \<and>
     (CONFIG_SINGLE_FMASTER cf \<longrightarrow> unat (frgn_rec_num ppi) \<le> 1)"

lemma length_live: "frgn_wf cf ppi \<Longrightarrow> length (live ppi) = unat (frgn_rec_num ppi)"
  by (simp add: live_def frgn_wf_def)

lemma nth_live: "frgn_wf cf ppi \<Longrightarrow> k < unat (frgn_rec_num ppi) \<Longrightarrow> live ppi ! k = frgn_master ppi ! k"
  by (simp add: live_def)

lemma remove_shift:
  assumes "int idx < uint (frgn_rec_num ppi) - 1" and "idx \<le> n" and "n \<le> length (frgn_master ppi)" and "n < 2 ^ 15"
  shows "frgn_master (fold (bmc_remove_step past idx) [idx..<n] ppi) = take idx (frgn_master ppi) @
           take (n - idx) (drop (Suc idx) (frgn_master ppi @ [past])) @ drop n (frgn_master ppi) \<and>
         sint (frgn_rec_best (fold (bmc_remove_step past idx) [idx..<n] ppi)) =
           (if int idx < sint (frgn_rec_best ppi) \<and> sint (frgn_rec_best ppi) \<le> int n
            then sint (frgn_rec_best ppi) - 1 else sint (frgn_rec_best ppi))"
  using assms(2-4)
proof (induction n)
  case 0
  then show ?case by simp
next
  case (Suc n)
  show ?case
  proof (cases "idx = Suc n")
    case True
    then show ?thesis by simp
  next
    case False
    then have le: "idx \<le> n" using Suc.prems by simp
    define q where "q = fold (bmc_remove_step past idx) [idx..<n] ppi"
    have fm: "frgn_master q = take idx (frgn_master ppi) @
        take (n - idx) (drop (Suc idx) (frgn_master ppi @ [past])) @ drop n (frgn_master ppi)"
      and be: "sint (frgn_rec_best q) = (if int idx < sint (frgn_rec_best ppi) \<and> sint (frgn_rec_best ppi) \<le> int n
           then sint (frgn_rec_best ppi) - 1 else sint (frgn_rec_best ppi))"
      using Suc le by (simp_all add: q_def)
    have num: "frgn_rec_num q = frgn_rec_num ppi" by (simp add: q_def)
    have q: "frgn_master q = (take idx (frgn_master ppi) @
        take (n - idx) (drop (Suc idx) (frgn_master ppi @ [past]))) @ drop n (frgn_master ppi)"
      using fm by simp
    have nl: "n < length (frgn_master ppi)" using Suc.prems by simp
    note nth = shift_one(1) [OF le nl, of past, folded q]
      and upd = shift_one(2) [OF le nl, of past, folded q]
    have sn: "sint (word_of_nat n :: s16) = int n" using Suc.prems by (intro sint_of_nat16) simp
    have step: "fold (bmc_remove_step past idx) [idx..<Suc n] ppi = bmc_remove_step past idx n q"
      using le by (simp add: q_def)
    show ?thesis unfolding step
      using assms(1) be sn le
      by (auto simp: bmc_remove_step_def num Let_def set_frgn_def nth upd simp del: append_assoc)
  qed
qed

lemma remove_clear:
  assumes "\<not> int idx < uint (frgn_rec_num ppi) - 1" and "\<forall>k \<in> set ks. idx \<le> k"
  shows "take idx (frgn_master (fold (bmc_remove_step past idx) ks ppi)) = take idx (frgn_master ppi) \<and>
    length (frgn_master (fold (bmc_remove_step past idx) ks ppi)) = length (frgn_master ppi) \<and>
    frgn_rec_best (fold (bmc_remove_step past idx) ks ppi) = frgn_rec_best ppi"
  using assms
  by (induction ks arbitrary: ppi) (simp_all add: bmc_remove_step_def set_frgn_def)

lemma remove_fold:
  fixes past :: pp_frgn_master
  assumes wf: "frgn_wf cf ppi" and idx: "idx < unat (frgn_rec_num ppi)"
  defines "q \<equiv> fold (bmc_remove_step past idx) [idx..<CONFIG_NR_FOREIGN_RECORDS cf] ppi"
  shows "take (unat (frgn_rec_num ppi) - 1) (frgn_master q) = take idx (live ppi) @ drop (Suc idx) (live ppi)"
    and "length (frgn_master q) = length (frgn_master ppi)"
    and "sint (frgn_rec_best q) =
      (if int idx < sint (frgn_rec_best ppi) then sint (frgn_rec_best ppi) - 1 else sint (frgn_rec_best ppi))"
proof -
  let ?n = "CONFIG_NR_FOREIGN_RECORDS cf" and ?num = "unat (frgn_rec_num ppi)"
  have len: "length (frgn_master ppi) = ?n" and num: "?num \<le> ?n" and n: "?n < 2 ^ 15"
    and best: "sint (frgn_rec_best ppi) < int ?num"
    using wf by (simp_all add: frgn_wf_def)
  have "take (?num - 1) (frgn_master q) = take idx (live ppi) @ drop (Suc idx) (live ppi) \<and>
    length (frgn_master q) = length (frgn_master ppi) \<and>
    sint (frgn_rec_best q) =
      (if int idx < sint (frgn_rec_best ppi) then sint (frgn_rec_best ppi) - 1 else sint (frgn_rec_best ppi))"
  proof (cases "int idx < uint (frgn_rec_num ppi) - 1")
    case True
    have sh: "frgn_master q = take idx (frgn_master ppi) @
           take (?n - idx) (drop (Suc idx) (frgn_master ppi @ [past])) @ drop ?n (frgn_master ppi)"
      and be: "sint (frgn_rec_best q) = (if int idx < sint (frgn_rec_best ppi) \<and> sint (frgn_rec_best ppi) \<le> int ?n
           then sint (frgn_rec_best ppi) - 1 else sint (frgn_rec_best ppi))"
      using remove_shift [OF True, of ?n past] idx num len n by (simp_all add: q_def)
    have "int (Suc idx) < int ?num" using True by simp
    then have lt: "Suc idx < ?num" by (simp only: of_nat_less_iff)
    then have "\<not> ?num - Suc 0 \<le> idx" by linarith
    with lt have "take (?num - 1) (frgn_master q) = take idx (live ppi) @ drop (Suc idx) (live ppi)"
      using num len by (simp add: sh live_def take_append drop_take min_def)
    then show ?thesis using be best num len idx by (simp add: sh)
  next
    case False
    then have "\<not> int (Suc idx) < int ?num" by simp
    then have eq: "?num = Suc idx" using idx by (simp only: of_nat_less_iff)
    have "\<not> int idx < sint (frgn_rec_best ppi)" using best unfolding eq by simp
    then show ?thesis
      using remove_clear [OF False, of "[idx..<?n]" past] by (simp add: q_def live_def eq)
  qed
  then show "take (?num - 1) (frgn_master q) = take idx (live ppi) @ drop (Suc idx) (live ppi)"
    and "length (frgn_master q) = length (frgn_master ppi)"
    and "sint (frgn_rec_best q) =
      (if int idx < sint (frgn_rec_best ppi) then sint (frgn_rec_best ppi) - 1 else sint (frgn_rec_best ppi))"
    by simp_all
qed

text \<open>Removal takes exactly the record at the index out of the list and moves the Erbest along.\<close>

lemma remove_live:
  assumes "frgn_wf cf ppi" and "idx < unat (frgn_rec_num ppi)"
  shows "live (bmc_remove_foreign_master cf past idx ppi) = take idx (live ppi) @ drop (Suc idx) (live ppi)"
proof -
  define p where "p = (if sint (frgn_rec_best ppi) = int idx then ppi\<lparr> frgn_rec_best := - 1 \<rparr> else ppi)"
  have p: "frgn_wf cf p" "idx < unat (frgn_rec_num p)" "live p = live ppi" "frgn_rec_num p = frgn_rec_num ppi"
    using assms by (auto simp: p_def frgn_wf_def live_def)
  show ?thesis
    using remove_fold(1) [OF p(1,2), of past] unat_pred16 [OF assms(2)] p(3,4)
    by (simp add: bmc_remove_foreign_master_def p_def [symmetric] Let_def live_def [of "_\<lparr> frgn_rec_num := _ \<rparr>"])
qed

lemma remove_best:
  assumes "frgn_wf cf ppi" and "idx < unat (frgn_rec_num ppi)"
  shows "sint (frgn_rec_best (bmc_remove_foreign_master cf past idx ppi)) =
    (if sint (frgn_rec_best ppi) = int idx then - 1
     else if int idx < sint (frgn_rec_best ppi) then sint (frgn_rec_best ppi) - 1 else sint (frgn_rec_best ppi))"
proof -
  define p where "p = (if sint (frgn_rec_best ppi) = int idx then ppi\<lparr> frgn_rec_best := - 1 \<rparr> else ppi)"
  have p: "frgn_wf cf p" "idx < unat (frgn_rec_num p)"
    using assms by (auto simp: p_def frgn_wf_def live_def)
  show ?thesis
    using remove_fold(3) [OF p, of past]
    by (auto simp: bmc_remove_foreign_master_def p_def [symmetric] Let_def) (auto simp: p_def split: if_splits)
qed

lemma remove_length:
  assumes "frgn_wf cf ppi" and "idx < unat (frgn_rec_num ppi)"
  shows "length (frgn_master (bmc_remove_foreign_master cf past idx ppi)) = length (frgn_master ppi)"
proof -
  define p where "p = (if sint (frgn_rec_best ppi) = int idx then ppi\<lparr> frgn_rec_best := - 1 \<rparr> else ppi)"
  have p: "frgn_wf cf p" "idx < unat (frgn_rec_num p)" "frgn_master p = frgn_master ppi"
    using assms by (auto simp: p_def frgn_wf_def live_def)
  show ?thesis
    using remove_fold(2) [OF p(1,2), of past] p(3)
    by (simp add: bmc_remove_foreign_master_def p_def [symmetric] Let_def)
qed

lemma remove_wf:
  assumes wf: "frgn_wf cf ppi" and idx: "idx < unat (frgn_rec_num ppi)"
  shows "frgn_wf cf (bmc_remove_foreign_master cf past idx ppi)"
proof -
  have "int idx < uint (frgn_rec_num ppi)" using idx by (simp only: int_less_uint)
  then show ?thesis
    using wf remove_best [OF assms, of past] remove_length [OF assms, of past] remove_live [OF assms, of past]
      unat_pred16 [OF idx] distinct_map_remove [of fm_sourcePortIdentity "live ppi" idx] idx
    unfolding frgn_wf_def by (auto simp del: map_append)
qed

section \<open>Tables that are swept\<close>

text \<open>
  The contract of a table of records with removal by index, and of a loop over it that removes the old
  ones and looks at a slot again after a removal.
\<close>

locale record_table =
  fixes recs :: "'p \<Rightarrow> 'r list" and remove :: "nat \<Rightarrow> 'p \<Rightarrow> 'p" and ok :: "'p \<Rightarrow> bool"
  assumes recs_remove: "ok p \<Longrightarrow> k < length (recs p) \<Longrightarrow>
      recs (remove k p) = take k (recs p) @ drop (Suc k) (recs p)"
    and ok_remove: "ok p \<Longrightarrow> k < length (recs p) \<Longrightarrow> ok (remove k p)"
begin

lemma length_remove: "ok p \<Longrightarrow> k < length (recs p) \<Longrightarrow> length (recs (remove k p)) = length (recs p) - 1"
  by (simp add: recs_remove)

end

locale swept_table = record_table +
  fixes old :: "'a \<Rightarrow> 'b \<Rightarrow> bool" and sweep :: "nat \<Rightarrow> 'a \<Rightarrow> 'a"
  assumes sweep_eq: "ok p \<Longrightarrow> sweep k p =
      (if k < length (recs p) then if old p (recs p ! k) then sweep k (remove k p) else sweep (Suc k) p else p)"
    and old_remove: "ok p \<Longrightarrow> k < length (recs p) \<Longrightarrow> old p (recs p ! k) \<Longrightarrow> old (remove k p) r = old p r"
begin

lemma sweep_filters:
  assumes "ok p"
  shows "recs (sweep k p) = take k (recs p) @ filter (\<lambda>r. \<not> old p r) (drop k (recs p)) \<and> ok (sweep k p)"
  using assms
proof (induction "length (recs p) - k" arbitrary: k p rule: less_induct)
  case less
  show ?case
  proof (cases "k < length (recs p)")
    case k: True
    then have dk: "drop k (recs p) = recs p ! k # drop (Suc k) (recs p)" by (simp add: Cons_nth_drop_Suc)
    show ?thesis
    proof (cases "old p (recs p ! k)")
      case True
      have "length (recs (remove k p)) - k < length (recs p) - k"
        using k less.prems by (simp add: length_remove)
      moreover have "old (remove k p) = old p"
        using old_remove [OF less.prems k True] by (intro ext)
      ultimately show ?thesis
        using less.hyps [of "remove k p" k] ok_remove [OF less.prems k] recs_remove [OF less.prems k]
          sweep_eq [OF less.prems, of k] k True dk by simp
    next
      case False
      then show ?thesis
        using less.hyps [of p "Suc k"] sweep_eq [OF less.prems, of k] k less.prems dk
        by (simp add: take_Suc_conv_app_nth diff_less_mono2)
    qed
  next
    case False
    then show ?thesis using sweep_eq [OF less.prems, of k] less.prems by simp
  qed
qed

end

lemma remove_step_frame [simp]:
  "frgn_master_time_window_ms (fold (bmc_remove_step past idx) ks ppi) = frgn_master_time_window_ms ppi"
  by (induction ks arbitrary: ppi) (simp_all add: bmc_remove_step_def set_frgn_def Let_def)

lemma remove_frame [simp]:
  "frgn_master_time_window_ms (bmc_remove_foreign_master cf past idx ppi) = frgn_master_time_window_ms ppi"
  by (simp add: bmc_remove_foreign_master_def Let_def)

lemma frgn_best_cases:
  assumes "frgn_wf cf ppi" and "frgn_rec_best ppi \<noteq> - 1"
  obtains b where "b < unat (frgn_rec_num ppi)" and "sint (frgn_rec_best ppi) = int b" and "erbest_of ppi = live ppi ! b"
proof -
  have "sint (frgn_rec_best ppi) \<noteq> - 1" using assms(2) by (simp add: sint_m1_iff)
  then have "0 \<le> sint (frgn_rec_best ppi)" using assms(1) by (simp add: frgn_wf_def)
  then obtain b where b: "sint (frgn_rec_best ppi) = int b" by (metis nat_0_le)
  then have "b < unat (frgn_rec_num ppi)" using assms(1) by (simp add: frgn_wf_def int_less_uint)
  then show thesis using b that nth_live [OF assms(1)] by (simp add: erbest_of_def)
qed

lemma remove_erbest:
  fixes past :: pp_frgn_master
  assumes wf: "frgn_wf cf ppi" and k: "k < unat (frgn_rec_num ppi)"
    and best: "frgn_rec_best ppi \<noteq> - 1 \<Longrightarrow> sint (frgn_rec_best ppi) \<noteq> int k"
  defines "q \<equiv> bmc_remove_foreign_master cf past k ppi"
  shows "frgn_rec_best q = - 1 \<longleftrightarrow> frgn_rec_best ppi = - 1"
    and "frgn_rec_best ppi \<noteq> - 1 \<Longrightarrow> erbest_of q = erbest_of ppi"
proof -
  have wq: "frgn_wf cf q" using remove_wf [OF wf k] by (simp add: q_def)
  have bq: "sint (frgn_rec_best q) = (if sint (frgn_rec_best ppi) = int k then - 1
     else if int k < sint (frgn_rec_best ppi) then sint (frgn_rec_best ppi) - 1 else sint (frgn_rec_best ppi))"
    using remove_best [OF wf k] by (simp add: q_def)
  show iff: "frgn_rec_best q = - 1 \<longleftrightarrow> frgn_rec_best ppi = - 1"
  proof (cases "frgn_rec_best ppi = - 1")
    case False
    then obtain b where "sint (frgn_rec_best ppi) = int b" using frgn_best_cases [OF wf] by blast
    then show ?thesis using bq best [OF False] False by (simp add: sint_m1_iff [symmetric] split: if_splits)
  qed (use bq in \<open>simp add: sint_m1_iff [symmetric]\<close>)
  assume nb: "frgn_rec_best ppi \<noteq> - 1"
  then obtain b where b: "b < unat (frgn_rec_num ppi)" "sint (frgn_rec_best ppi) = int b" "erbest_of ppi = live ppi ! b"
    using frgn_best_cases [OF wf] by blast
  from nb iff obtain c where c: "sint (frgn_rec_best q) = int c" "erbest_of q = live q ! c"
    using frgn_best_cases [OF wq] by blast
  have "b \<noteq> k" using best [OF nb] b by simp
  with bq b c have "c = (if k < b then b - 1 else b)" by (auto split: if_splits)
  then have "live q ! c = live ppi ! b"
    using \<open>b \<noteq> k\<close> b k remove_live [OF wf k, of past] length_live [OF wf]
    by (auto simp: q_def nth_append min_def)
  then show "erbest_of q = erbest_of ppi" using b c by simp
qed

text \<open>A record is aged out when it is not the Ebest and its last announce is older than the window.\<close>

definition aged :: "pp_globals \<Rightarrow> nat \<Rightarrow> u64 \<Rightarrow> pp_instance \<Rightarrow> pp_frgn_master \<Rightarrow> bool" where
  "aged ppg i now ppi fm \<longleftrightarrow> \<not> is_ebest (upd_inst i (\<lambda>_. ppi) ppg) fm \<and>
     time_after now (fm_lastAnnounceMsgMs fm + ucast (frgn_master_time_window_ms ppi))"

lemma is_ebest_remove:
  assumes wf: "frgn_wf cf ppi" and k: "k < unat (frgn_rec_num ppi)"
    and no: "\<not> is_ebest (upd_inst i (\<lambda>_. ppi) ppg) (live ppi ! k)"
  shows "is_ebest (upd_inst i (\<lambda>_. bmc_remove_foreign_master cf past k ppi) ppg) fm =
    is_ebest (upd_inst i (\<lambda>_. ppi) ppg) fm"
proof (cases "i < length (pp_instances ppg) \<and> nat (sint (ebest_idx ppg)) = i \<and> ebest_idx ppg \<noteq> - 1")
  case True
  have "frgn_rec_best ppi \<noteq> - 1 \<Longrightarrow> sint (frgn_rec_best ppi) \<noteq> int k"
  proof
    assume "frgn_rec_best ppi \<noteq> - 1" and "sint (frgn_rec_best ppi) = int k"
    moreover from this have "erbest_of ppi = live ppi ! k" by (simp add: erbest_of_def nth_live [OF wf k])
    ultimately show False using no True by (simp add: is_ebest_def)
  qed
  from remove_erbest [OF wf k this, of past] True show ?thesis by (auto simp: is_ebest_def)
next
  case False
  then show ?thesis
    by (cases "i < length (pp_instances ppg)") (auto simp: is_ebest_def upd_inst_beyond)
qed

interpretation frgn: record_table live "bmc_remove_foreign_master cf past" "frgn_wf cf" for cf past
  by unfold_locales (simp_all add: remove_live remove_wf length_live)

interpretation ageing: swept_table live "bmc_remove_foreign_master (g_config ppg) (mem_past_frgn P)"
    "frgn_wf (g_config ppg)" "aged ppg i now" "bmc_age_loop P ppg i now" for P ppg i now
proof unfold_locales
  fix p k
  assume wf: "frgn_wf (g_config ppg) p"
  show "bmc_age_loop P ppg i now k p = (if k < length (live p) then if aged ppg i now p (live p ! k)
      then bmc_age_loop P ppg i now k (bmc_remove_foreign_master (g_config ppg) (mem_past_frgn P) k p)
      else bmc_age_loop P ppg i now (Suc k) p else p)"
    by (subst bmc_age_loop.simps) (simp add: length_live [OF wf] nth_live [OF wf] aged_def Let_def)
next
  fix p k r
  assume wf: "frgn_wf (g_config ppg) p" and k: "k < length (live p)" and o: "aged ppg i now p (live p ! k)"
  then show "aged ppg i now (bmc_remove_foreign_master (g_config ppg) (mem_past_frgn P) k p) r = aged ppg i now p r"
    using is_ebest_remove [OF wf, of k i ppg "mem_past_frgn P" r] by (simp add: aged_def length_live [OF wf])
qed

section \<open>The invariant of the table\<close>

lemma frgn_wf_cong:
  assumes "frgn_master q = frgn_master p" "frgn_rec_num q = frgn_rec_num p" "frgn_rec_best q = frgn_rec_best p"
  shows "frgn_wf cf q \<longleftrightarrow> frgn_wf cf p" "live q = live p" "bmc_find_frgn pid q = bmc_find_frgn pid p"
  using assms by (simp_all add: frgn_wf_def live_def bmc_find_frgn_def)

lemma own_clock_check_frame:
  assumes "bmc_own_clock_check P ppg i = Some ppg'" and "i < length (pp_instances ppg)"
  shows "frgn_master (INST ppg' i) = frgn_master (INST ppg i)" "frgn_rec_num (INST ppg' i) = frgn_rec_num (INST ppg i)"
    "frgn_rec_best (INST ppg' i) = frgn_rec_best (INST ppg i)"
    "received_ptp_header (INST ppg' i) = received_ptp_header (INST ppg i)"
    "g_config ppg' = g_config ppg" "length (pp_instances ppg') = length (pp_instances ppg)"
  using assms by (auto simp: bmc_own_clock_check_def Let_def split: if_splits)

lemma find_frgn_Some:
  assumes "bmc_find_frgn pid ppi = Some k"
  shows "k < unat (frgn_rec_num ppi) \<and> fm_sourcePortIdentity (frgn_master ppi ! k) = pid"
  using assms by (auto simp: bmc_find_frgn_def find_Some_iff)

lemma find_frgn_None:
  assumes "frgn_wf cf ppi" and "bmc_find_frgn pid ppi = None"
  shows "pid \<notin> set (map fm_sourcePortIdentity (live ppi))"
  using assms nth_live [OF assms(1)] length_live [OF assms(1)]
  by (fastforce simp: bmc_find_frgn_def find_None_iff in_set_conv_nth)

lemma live_set_frgn: "live (set_frgn k fm ppi) = (live ppi)[k := fm]"
  by (simp add: live_def set_frgn_def take_update_swap)

lemma set_frgn_wf:
  assumes wf: "frgn_wf cf ppi"
    and "fm_sourcePortIdentity fm \<notin> set (map fm_sourcePortIdentity (live ppi)) \<or>
      k < unat (frgn_rec_num ppi) \<and> fm_sourcePortIdentity (frgn_master ppi ! k) = fm_sourcePortIdentity fm"
  shows "frgn_wf cf (set_frgn k fm ppi)"
proof -
  have "distinct ((map fm_sourcePortIdentity (live ppi))[k := fm_sourcePortIdentity fm])"
    using assms length_live [OF wf] nth_live [OF wf]
    by (intro distinct_replace) (auto simp: frgn_wf_def)
  then show ?thesis using wf unfolding frgn_wf_def live_set_frgn map_update by (simp add: set_frgn_def)
qed

lemma append_frgn_wf:
  assumes wf: "frgn_wf cf ppi" and space: "unat (frgn_rec_num ppi) < CONFIG_NR_FOREIGN_RECORDS cf"
    and new: "fm_sourcePortIdentity fm \<notin> set (map fm_sourcePortIdentity (live ppi))"
    and single: "\<not> CONFIG_SINGLE_FMASTER cf"
  defines "q \<equiv> set_frgn (unat (frgn_rec_num ppi)) fm (ppi\<lparr> frgn_rec_num := frgn_rec_num ppi + 1 \<rparr>)"
  shows "live q = live ppi @ [fm]" and "frgn_wf cf q"
proof -
  have "unat (frgn_rec_num ppi) + 1 < 2 ^ 16" using wf space by (simp add: frgn_wf_def)
  then have num: "unat (frgn_rec_num ppi + 1) = Suc (unat (frgn_rec_num ppi))"
    by (simp add: unat_word_ariths)
  then have unum: "uint (frgn_rec_num ppi + 1) = uint (frgn_rec_num ppi) + 1"
    unfolding uint_nat num by simp
  show lq: "live q = live ppi @ [fm]"
    using space wf by (simp add: q_def live_def set_frgn_def num take_Suc_conv_app_nth frgn_wf_def)
  show "frgn_wf cf q"
    using wf space new single unfolding frgn_wf_def lq by (simp add: q_def set_frgn_def num unum)
qed

lemma worst_bound:
  assumes "0 < num"
  shows "bmc_worst ppg fms num < num"
proof -
  have "fold (\<lambda>k worst. if P k worst then k else worst) ks w < num" if "\<forall>k \<in> set ks. k < num" "w < num" for P ks w
    using that by (induction ks arbitrary: w) auto
  from this [of "[1..<num]" 0] assms show ?thesis by (auto simp: bmc_worst_def)
qed

lemma single_frgn_wf:
  assumes "frgn_wf cf ppi" and "best \<in> {- 1, 0}"
  shows "frgn_wf cf (set_frgn 0 fm (ppi\<lparr> frgn_rec_num := 1, frgn_rec_best := best \<rparr>))"
proof -
  have "live (set_frgn 0 fm (ppi\<lparr> frgn_rec_num := 1, frgn_rec_best := best \<rparr>)) = [fm]"
    using assms(1) by (cases "frgn_master ppi") (auto simp: live_def set_frgn_def frgn_wf_def)
  then show ?thesis using assms unfolding frgn_wf_def by (auto simp: set_frgn_def)
qed

lemma single_best:
  assumes "frgn_wf cf ppi" and "unat (frgn_rec_num ppi) \<le> 1"
  shows "frgn_rec_best ppi \<in> {- 1, 0}"
proof (cases "frgn_rec_best ppi = - 1")
  case False
  then obtain b where "b < unat (frgn_rec_num ppi)" "sint (frgn_rec_best ppi) = int b"
    using frgn_best_cases [OF assms(1)] by blast
  then show ?thesis using assms(2) sint_0_iff [of "frgn_rec_best ppi"] by auto
qed simp

lemma select_slot_wf:
  assumes wf: "frgn_wf (g_config ppg) ppi" and sel: "bmc_select_slot ppg ppi fm' = Some (k, q)"
    and new: "fm_sourcePortIdentity fm \<notin> set (map fm_sourcePortIdentity (live ppi))"
  shows "frgn_wf (g_config ppg) (set_frgn k fm q) \<and> k < CONFIG_NR_FOREIGN_RECORDS (g_config ppg)"
proof -
  let ?num = "unat (frgn_rec_num ppi)" and ?n = "CONFIG_NR_FOREIGN_RECORDS (g_config ppg)"
  have n: "0 < ?n" "?num \<le> ?n" using wf by (simp_all add: frgn_wf_def)
  consider "CONFIG_SINGLE_FMASTER (g_config ppg)"
    | "\<not> CONFIG_SINGLE_FMASTER (g_config ppg)" "?num < ?n"
    | "\<not> CONFIG_SINGLE_FMASTER (g_config ppg)" "?num = ?n" using n by linarith
  then show ?thesis
  proof cases
    case 1
    then have "?num \<le> 1" using wf by (simp add: frgn_wf_def)
    from single_frgn_wf [OF wf single_best [OF wf this], of fm] show ?thesis
      using sel 1 n by (simp add: bmc_select_slot_def Let_def)
  next
    case 2
    then show ?thesis using append_frgn_wf(2) [OF wf _ new] sel by (auto simp: bmc_select_slot_def Let_def)
  next
    case 3
    then have "k = bmc_worst ppg (frgn_master ppi) ?num" "q = ppi"
      using sel by (auto simp: bmc_select_slot_def Let_def split: if_splits)
    then show ?thesis using set_frgn_wf [OF wf] new worst_bound [of ?num ppg "frgn_master ppi"] 3 n by simp
  qed
qed

lemma add_frgn_wf:
  assumes wf: "frgn_wf (g_config ppg) (INST ppg i)" and i: "i < length (pp_instances ppg)"
    and src: "fm_sourcePortIdentity fm = hdr_sourcePortIdentity (received_ptp_header (INST ppg i))"
  shows "frgn_wf (g_config ppg) (INST (snd (bmc_add_frgn_master P ppg i fm)) i)"
proof (cases "is_externalPortConfigurationEnabled ppg")
  case True
  then show ?thesis using wf i single_frgn_wf [OF wf, of 0 fm] by (simp add: bmc_add_frgn_master_def Let_def)
next
  case epc: False
  show ?thesis
  proof (cases "bmc_own_clock_check P ppg i")
    case None
    then show ?thesis using epc wf by (simp add: bmc_add_frgn_master_def Let_def)
  next
    case (Some ppg')
    note fr = own_clock_check_frame [OF Some i]
    have wf': "frgn_wf (g_config ppg) (INST ppg' i)" using wf frgn_wf_cong(1) [OF fr(1-3)] by simp
    have i': "i < length (pp_instances ppg')" using i fr(6) by simp
    let ?pid = "hdr_sourcePortIdentity (received_ptp_header (INST ppg i))"
    show ?thesis
    proof (cases "bmc_find_frgn ?pid (INST ppg' i)")
      case None
      have "frgn_wf (g_config ppg) (set_frgn k (fm\<lparr> fm_qualified := b, fm_lastAnnounceMsgMs := t \<rparr>) q)"
        if "bmc_select_slot ppg' (INST ppg' i) fm' = Some (k, q)" for k q fm' b t
        using select_slot_wf [of ppg' "INST ppg' i" fm' k q] that wf' fr(5) find_frgn_None [OF wf' None] src by simp
      then show ?thesis using epc Some None wf' i'
        by (auto simp: bmc_add_frgn_master_def Let_def fr(5) split: option.split prod.split)
    next
      case (Some k)
      have "frgn_wf (g_config ppg) (set_frgn k (bmc_refresh P ppg' i old fm) (INST ppg' i))" for old
        using find_frgn_Some [OF Some] src by (intro set_frgn_wf [OF wf']) (simp add: bmc_refresh_def Let_def)
      then show ?thesis using epc \<open>bmc_own_clock_check P ppg i = Some ppg'\<close> Some wf' i'
        by (simp add: bmc_add_frgn_master_def Let_def)
    qed
  qed
qed

lemma clear_best_wf: "frgn_wf cf ppi \<Longrightarrow> frgn_wf cf (ppi\<lparr> frgn_rec_best := - 1 \<rparr>)"
  using uint_ge_0 [of "frgn_rec_num ppi"] by (simp add: frgn_wf_def live_def)

lemma flush_erbest_wf:
  assumes wf: "frgn_wf (g_config ppg) (INST ppg i)" and i: "i < length (pp_instances ppg)"
  shows "frgn_wf (g_config ppg) (INST (bmc_flush_erbest P ppg i) i)"
proof (cases "frgn_rec_best (INST ppg i) = - 1")
  case False
  then obtain b where "b < unat (frgn_rec_num (INST ppg i))" "sint (frgn_rec_best (INST ppg i)) = int b"
    using frgn_best_cases [OF wf] by blast
  then show ?thesis using wf i clear_best_wf [OF remove_wf [OF wf]]
    by (simp add: bmc_flush_erbest_def Let_def clear_best_wf)
qed (use wf i in \<open>simp add: bmc_flush_erbest_def Let_def clear_best_wf\<close>)

lemma flush_frgn_wf:
  assumes "0 < CONFIG_NR_FOREIGN_RECORDS cf" and "CONFIG_NR_FOREIGN_RECORDS cf < 2 ^ 15"
  shows "frgn_wf cf ((bmc_flush_frgn_master cf ppi)\<lparr> frgn_rec_best := - 1 \<rparr>)"
  using assms by (simp add: frgn_wf_def live_def bmc_flush_frgn_master_def)

lemma scan_erbest_bound:
  assumes "0 < num"
  shows "bmc_scan_erbest ppg fms num < num"
proof -
  have "fold (\<lambda>k best. if P k best then k else best) ks w < num" if "\<forall>k \<in> set ks. k < num" "w < num" for P ks w
    using that by (induction ks arbitrary: w) auto
  from this [of "[1..<num]" 0] assms show ?thesis by (auto simp: bmc_scan_erbest_def)
qed

lemma set_best_wf:
  assumes "frgn_wf cf ppi" and "k < unat (frgn_rec_num ppi)"
  shows "frgn_wf cf (ppi\<lparr> frgn_rec_best := word_of_nat k \<rparr>)"
proof -
  have "k < 2 ^ 15" using assms by (simp add: frgn_wf_def)
  then have "sint (word_of_nat k :: s16) = int k" by (rule sint_of_nat16)
  moreover have "int k < uint (frgn_rec_num ppi)" using assms(2) by (simp only: int_less_uint)
  ultimately show ?thesis using assms(1) by (simp add: frgn_wf_def live_def)
qed

text \<open>The cases of the update of the Erbest of a port.\<close>

lemma erbest_peer_frgn [simp]:
  "frgn_master (erbest_peer ppi) = frgn_master ppi" "frgn_rec_num (erbest_peer ppi) = frgn_rec_num ppi"
  "frgn_rec_best (erbest_peer ppi) = frgn_rec_best ppi" "frgn_wf cf (erbest_peer ppi) = frgn_wf cf ppi"
  "live (erbest_peer ppi) = live ppi" "erbest_of (erbest_peer ppi) = erbest_of ppi"
  by (simp_all add: erbest_peer_def frgn_wf_def live_def erbest_of_def)

lemma update_erbest_cases:
  assumes i: "i < length (pp_instances ppg)"
  shows "INST (bmc_update_erbest_inst ppg i) i = erbest_peer
    (let ppi = INST ppg i; cf = g_config ppg
     in if frgn_rec_num ppi = 0 then ppi\<lparr> frgn_rec_best := - 1 \<rparr>
        else if \<not> link_up ppi \<or> ppi_state ppi = PPS_FAULTY \<or> ppi_state ppi = PPS_DISABLED
        then (bmc_flush_frgn_master cf ppi)\<lparr> frgn_rec_best := - 1 \<rparr>
        else if is_externalPortConfigurationEnabled ppg then ppi\<lparr> frgn_rec_best := 0 \<rparr>
        else erbest_choice ppg ppi)"
proof (cases "\<not> link_up (INST ppg i) \<and> frgn_rec_num (INST ppg i) > 0")
  case True
  then show ?thesis using i by (auto simp: bmc_update_erbest_inst_def Let_def bmc_flush_frgn_master_def)
next
  case False
  then have "\<not> (\<not> link_up (INST ppg i) \<and> frgn_rec_num (INST ppg i) \<noteq> 0)" by (simp add: word_gt_0)
  then show ?thesis using i by (simp add: bmc_update_erbest_inst_def Let_def word_gt_0) blast
qed

lemma update_erbest_wf:
  assumes wf: "frgn_wf (g_config ppg) (INST ppg i)" and i: "i < length (pp_instances ppg)"
  shows "frgn_wf (g_config ppg) (INST (bmc_update_erbest_inst ppg i) i)"
proof -
  have n: "0 < CONFIG_NR_FOREIGN_RECORDS (g_config ppg)" "CONFIG_NR_FOREIGN_RECORDS (g_config ppg) < 2 ^ 15"
    using wf by (simp_all add: frgn_wf_def)
  have "0 < unat (frgn_rec_num (INST ppg i))" if "frgn_rec_num (INST ppg i) \<noteq> 0"
    using that by (simp add: unat_gt_0)
  then have "frgn_wf (g_config ppg) (erbest_choice ppg (INST ppg i))"
    "frgn_wf (g_config ppg) ((INST ppg i)\<lparr> frgn_rec_best := 0 \<rparr>)"
    if "frgn_rec_num (INST ppg i) \<noteq> 0"
    using that set_best_wf [OF wf, of 0] set_best_wf [OF wf scan_erbest_bound] clear_best_wf [OF wf]
    by (simp_all add: erbest_choice_def Let_def)
  then show ?thesis using i flush_frgn_wf [OF n] clear_best_wf [OF wf]
    by (simp add: update_erbest_cases Let_def)
qed

lemma age_frgn_wf:
  assumes "frgn_wf (g_config ppg) (INST ppg i)" and "i < length (pp_instances ppg)"
  shows "frgn_wf (g_config ppg) (INST (bmc_age_frgn_master P ppg i) i)"
  using ageing.sweep_filters [OF assms(1)] assms(2) by (simp add: bmc_age_frgn_master_def)

section \<open>The best records\<close>

lemma qualified_key: "fst (dataset_key ppg fm) \<longleftrightarrow> \<not> is_qualified ppg fm"
  by (simp add: dataset_key_def)

lemma key_le_qualified:
  assumes "dataset_key ppg a \<le> dataset_key ppg b" and "is_qualified ppg b"
  shows "is_qualified ppg a"
  using assms qualified_key [of ppg a] qualified_key [of ppg b]
  by (cases "dataset_key ppg a"; cases "dataset_key ppg b") (auto simp: less_eq_prod_def)

lemma scan_erbest_least:
  fixes ppg :: pp_globals
  assumes wf: "frgn_wf cf ppi" and num: "0 < unat (frgn_rec_num ppi)"
    and con: "set (live ppi) \<subseteq> consistent tab"
  defines "b \<equiv> bmc_scan_erbest ppg (frgn_master ppi) (unat (frgn_rec_num ppi))"
  shows "b < unat (frgn_rec_num ppi)"
    and "fm \<in> set (live ppi) \<Longrightarrow> dataset_key ppg (live ppi ! b) \<le> dataset_key ppg fm"
proof -
  from num obtain n where n: "unat (frgn_rec_num ppi) = Suc n" by (cases "unat (frgn_rec_num ppi)") auto
  have in_con: "frgn_master ppi ! j \<in> consistent tab" if "j < Suc n" for j
    using that con nth_live [OF wf, of j] length_live [OF wf] n nth_mem [of j "live ppi"] by auto
  have s: "b \<le> n \<and> (\<forall>j \<le> n. dataset_key ppg (frgn_master ppi ! b) \<le> dataset_key ppg (frgn_master ppi ! j))"
    using dataset.scan_best [of n "\<lambda>j. frgn_master ppi ! j" tab ppg] in_con
    by (simp add: b_def bmc_scan_erbest_def n)
  then show "b < unat (frgn_rec_num ppi)" by (simp add: n)
  assume "fm \<in> set (live ppi)"
  then obtain j where "j < Suc n" "fm = frgn_master ppi ! j"
    using nth_live [OF wf] length_live [OF wf] n by (auto simp: in_set_conv_nth)
  with s show "dataset_key ppg (live ppi ! b) \<le> dataset_key ppg fm"
    using nth_live [OF wf, of b] n by simp
qed

lemma erbest_of_set:
  assumes "frgn_wf cf ppi" and "b < unat (frgn_rec_num ppi)"
  shows "erbest_of (ppi\<lparr> frgn_rec_best := word_of_nat b \<rparr>) = live ppi ! b \<and> (word_of_nat b :: s16) \<noteq> - 1"
proof -
  have "b < 2 ^ 15" using assms by (simp add: frgn_wf_def)
  then have s: "sint (word_of_nat b :: s16) = int b" by (rule sint_of_nat16)
  then have "(word_of_nat b :: s16) \<noteq> - 1" by (simp add: sint_m1_iff [symmetric])
  then show ?thesis using s nth_live [OF assms] by (simp add: erbest_of_def)
qed

definition is_erbest_of :: "pp_globals \<Rightarrow> pp_instance \<Rightarrow> pp_instance \<Rightarrow> bool" where
  "is_erbest_of ppg ppi q \<longleftrightarrow>
     (if \<exists>fm \<in> set (live ppi). is_qualified ppg fm
      then frgn_rec_best q \<noteq> - 1 \<and> erbest_of q \<in> set (live ppi) \<and> is_qualified ppg (erbest_of q) \<and>
           (\<forall>fm \<in> set (live ppi). bmc_dataset_cmp ppg (erbest_of q) fm \<le> 0)
      else frgn_rec_best q = - 1)"

lemma erbest_choice_best:
  assumes wf: "frgn_wf (g_config ppg) ppi" and num: "0 < unat (frgn_rec_num ppi)"
    and con: "set (live ppi) \<subseteq> consistent tab"
  shows "is_erbest_of ppg ppi (erbest_choice ppg ppi)"
proof -
  define b where "b = (if \<not> CONFIG_SINGLE_FMASTER (g_config ppg)
    then bmc_scan_erbest ppg (frgn_master ppi) (unat (frgn_rec_num ppi)) else 0)"
  have single: "unat (frgn_rec_num ppi) = 1" if "CONFIG_SINGLE_FMASTER (g_config ppg)"
    using wf num that by (simp add: frgn_wf_def)
  have b: "b < unat (frgn_rec_num ppi)"
    using scan_erbest_least(1) [OF wf num con, of ppg] num by (simp add: b_def)
  have least: "dataset_key ppg (live ppi ! b) \<le> dataset_key ppg fm" if "fm \<in> set (live ppi)" for fm
  proof (cases "CONFIG_SINGLE_FMASTER (g_config ppg)")
    case True
    then have "length (live ppi) = 1" using single length_live [OF wf] by simp
    then have "fm = live ppi ! 0" using that by (cases "live ppi") auto
    then show ?thesis using True by (simp add: b_def)
  next
    case False
    then show ?thesis using scan_erbest_least(2) [OF wf num con that, of ppg] by (simp add: b_def)
  qed
  have mem: "live ppi ! b \<in> set (live ppi)" using b length_live [OF wf] by simp
  have choice: "erbest_choice ppg ppi = ppi\<lparr> frgn_rec_best :=
      (if is_qualified ppg (live ppi ! b) then word_of_nat b else - 1) \<rparr>"
    using nth_live [OF wf b] by (simp add: erbest_choice_def Let_def b_def [symmetric])
  show ?thesis
  proof (cases "is_qualified ppg (live ppi ! b)")
    case True
    have "bmc_dataset_cmp ppg (live ppi ! b) fm \<le> 0" if "fm \<in> set (live ppi)" for fm
      using dataset.cmp_le [of "live ppi ! b" tab fm ppg] least [OF that] mem con that by auto
    then show ?thesis using True mem erbest_of_set [OF wf b] by (auto simp: is_erbest_of_def choice)
  next
    case False
    then have "\<not> is_qualified ppg fm" if "fm \<in> set (live ppi)" for fm
      using key_le_qualified [OF least [OF that]] by blast
    then show ?thesis using False by (simp add: is_erbest_of_def choice)
  qed
qed

lemma ebest_scan:
  assumes "\<And>j. j < n \<Longrightarrow> frgn_rec_best (INST ppg j) \<noteq> - 1 \<Longrightarrow>
    frgn_rec_num (INST ppg j) \<noteq> 0 \<and> erbest_of (INST ppg j) \<in> consistent tab"
  shows "fold (bmc_ebest_step ppg) [0..<n] (- 1) = - 1 \<and> (\<forall>j < n. frgn_rec_best (INST ppg j) = - 1) \<or>
    (\<exists>b < n. fold (bmc_ebest_step ppg) [0..<n] (- 1) = int b \<and> frgn_rec_best (INST ppg b) \<noteq> - 1 \<and>
      (\<forall>j < n. frgn_rec_best (INST ppg j) \<noteq> - 1 \<longrightarrow>
        dataset_key ppg (erbest_of (INST ppg b)) \<le> dataset_key ppg (erbest_of (INST ppg j))))"
  using assms
proof (induction n)
  case (Suc n)
  define r where "r = fold (bmc_ebest_step ppg) [0..<n] (- 1)"
  have step: "fold (bmc_ebest_step ppg) [0..<Suc n] (- 1) = bmc_ebest_step ppg n r" by (simp add: r_def)
  from Suc consider (none) "r = - 1" "\<forall>j < n. frgn_rec_best (INST ppg j) = - 1"
    | (some) b where "b < n" "r = int b" "frgn_rec_best (INST ppg b) \<noteq> - 1"
      "\<forall>j < n. frgn_rec_best (INST ppg j) \<noteq> - 1 \<longrightarrow>
        dataset_key ppg (erbest_of (INST ppg b)) \<le> dataset_key ppg (erbest_of (INST ppg j))"
    by (auto simp: r_def)
  then show ?case
  proof cases
    case none
    then show ?thesis unfolding step by (auto simp: bmc_ebest_step_def Let_def less_Suc_eq)
  next
    case some
    show ?thesis
    proof (cases "frgn_rec_best (INST ppg n) = - 1")
      case True
      then show ?thesis unfolding step using some by (auto simp: bmc_ebest_step_def Let_def less_Suc_eq)
    next
      case False
      have "frgn_rec_num (INST ppg b) \<noteq> 0" "erbest_of (INST ppg b) \<in> consistent tab"
        "erbest_of (INST ppg n) \<in> consistent tab"
        using Suc.prems [of b] Suc.prems [of n] some False by simp_all
      moreover from this have "bmc_dataset_cmp ppg (erbest_of (INST ppg n)) (erbest_of (INST ppg b)) < 0 \<longleftrightarrow>
          dataset_key ppg (erbest_of (INST ppg n)) < dataset_key ppg (erbest_of (INST ppg b))"
        by (intro dataset.cmp_less)
      ultimately have s: "bmc_ebest_step ppg n r =
          (if dataset_key ppg (erbest_of (INST ppg n)) < dataset_key ppg (erbest_of (INST ppg b)) then int n else r)"
        using some False by (simp add: bmc_ebest_step_def Let_def)
      show ?thesis
      proof (cases "dataset_key ppg (erbest_of (INST ppg n)) < dataset_key ppg (erbest_of (INST ppg b))")
        case True
        then have "\<forall>j < Suc n. frgn_rec_best (INST ppg j) \<noteq> - 1 \<longrightarrow>
            dataset_key ppg (erbest_of (INST ppg n)) \<le> dataset_key ppg (erbest_of (INST ppg j))"
          using some(4) by (auto simp: less_Suc_eq intro: order.trans [OF less_imp_le])
        then show ?thesis unfolding step s using True False by auto
      next
        case ge: False
        then show ?thesis unfolding step s using some by (auto simp: less_Suc_eq not_less)
      qed
    qed
  qed
qed simp

lemma ebest_unbeaten:
  assumes wf: "\<forall>j < get_numberPorts ppg. frgn_wf (g_config ppg) (INST ppg j)"
    and con: "\<forall>j < get_numberPorts ppg. frgn_rec_best (INST ppg j) \<noteq> - 1 \<longrightarrow> erbest_of (INST ppg j) \<in> consistent tab"
    and b: "fold (bmc_ebest_step ppg) [0..<get_numberPorts ppg] (- 1) = int b"
    and j: "j < get_numberPorts ppg" "frgn_rec_best (INST ppg j) \<noteq> - 1"
  shows "bmc_dataset_cmp ppg (erbest_of (INST ppg b)) (erbest_of (INST ppg j)) \<le> 0"
proof -
  have "frgn_rec_num (INST ppg k) \<noteq> 0" if k: "k < get_numberPorts ppg" "frgn_rec_best (INST ppg k) \<noteq> - 1" for k
  proof -
    have "frgn_wf (g_config ppg) (INST ppg k)" using k(1) wf by blast
    then obtain m where "m < unat (frgn_rec_num (INST ppg k))" using k(2) by (rule frgn_best_cases)
    then show ?thesis by auto
  qed
  then have "fold (bmc_ebest_step ppg) [0..<get_numberPorts ppg] (- 1) = - 1 \<and>
      (\<forall>j < get_numberPorts ppg. frgn_rec_best (INST ppg j) = - 1) \<or>
    (\<exists>b < get_numberPorts ppg. fold (bmc_ebest_step ppg) [0..<get_numberPorts ppg] (- 1) = int b \<and>
      frgn_rec_best (INST ppg b) \<noteq> - 1 \<and> (\<forall>j < get_numberPorts ppg. frgn_rec_best (INST ppg j) \<noteq> - 1 \<longrightarrow>
        dataset_key ppg (erbest_of (INST ppg b)) \<le> dataset_key ppg (erbest_of (INST ppg j))))"
    using con by (intro ebest_scan [where tab = tab]) blast
  then have "b < get_numberPorts ppg" "frgn_rec_best (INST ppg b) \<noteq> - 1"
      "dataset_key ppg (erbest_of (INST ppg b)) \<le> dataset_key ppg (erbest_of (INST ppg j))"
    unfolding b using j by simp_all
  moreover from this con j have "erbest_of (INST ppg b) \<in> consistent tab" "erbest_of (INST ppg j) \<in> consistent tab" by blast+
  ultimately show ?thesis by (subst dataset.cmp_le [where tab = tab])
qed

text \<open>
  Two facts that hold for any records, consistent or not: the scan ends on a qualified record when there
  is one, and the Ebest is a port that has an Erbest.
\<close>

lemma cmp_qualified:
  assumes "bmc_dataset_cmp ppg a b < 0" and "is_qualified ppg b"
  shows "is_qualified ppg a"
proof (rule ccontr)
  assume "\<not> is_qualified ppg a"
  then have "are_qualified ppg a b = Some 1" using assms(2) by (simp add: are_qualified_def)
  then show False using assms(1) by (simp add: bmc_dataset_cmp_def bmc_topology_cmp_def bmc_gm_cmp_def split: if_splits)
qed

lemma cmp_unqualified:
  assumes "is_qualified ppg a" and "\<not> is_qualified ppg b"
  shows "bmc_dataset_cmp ppg a b < 0"
proof -
  have "are_qualified ppg a b = Some (- 1)" using assms by (simp add: are_qualified_def)
  then show ?thesis by (simp add: bmc_dataset_cmp_def bmc_topology_cmp_def bmc_gm_cmp_def)
qed

lemma scan_qualified:
  assumes "j < num" and "is_qualified ppg (fms ! j)"
  shows "is_qualified ppg (fms ! bmc_scan_erbest ppg fms num)"
proof -
  have "is_qualified ppg (fms ! fold (\<lambda>j best. if bmc_dataset_cmp ppg (fms ! j) (fms ! best) < 0 then j else best) ks w)"
    if "\<exists>k \<in> insert w (set ks). is_qualified ppg (fms ! k)" for ks w
    using that
  proof (induction ks arbitrary: w)
    case (Cons k ks)
    show ?case
    proof (cases "bmc_dataset_cmp ppg (fms ! k) (fms ! w) < 0")
      case True
      then show ?thesis using Cons.IH [of k] Cons.prems cmp_qualified [OF True] by auto
    next
      case False
      then have "is_qualified ppg (fms ! k) \<Longrightarrow> is_qualified ppg (fms ! w)" using cmp_unqualified by blast
      then show ?thesis using Cons.IH [of w] Cons.prems False by auto
    qed
  qed simp
  moreover have "j \<in> insert 0 (set [1..<num])" using assms(1) by auto
  ultimately show ?thesis unfolding bmc_scan_erbest_def using assms(2) by blast
qed

definition selects_qualified :: "pp_globals \<Rightarrow> pp_instance \<Rightarrow> pp_instance \<Rightarrow> bool" where
  "selects_qualified ppg ppi q \<longleftrightarrow>
     (if \<exists>fm \<in> set (live ppi). is_qualified ppg fm
      then frgn_rec_best q \<noteq> - 1 \<and> erbest_of q \<in> set (live ppi) \<and> is_qualified ppg (erbest_of q)
      else frgn_rec_best q = - 1)"

lemma erbest_choice_qualified:
  assumes wf: "frgn_wf (g_config ppg) ppi" and num: "0 < unat (frgn_rec_num ppi)"
  shows "selects_qualified ppg ppi (erbest_choice ppg ppi)"
proof -
  define b where "b = (if \<not> CONFIG_SINGLE_FMASTER (g_config ppg)
    then bmc_scan_erbest ppg (frgn_master ppi) (unat (frgn_rec_num ppi)) else 0)"
  have b: "b < unat (frgn_rec_num ppi)" using scan_erbest_bound [OF num] num by (simp add: b_def)
  have mem: "live ppi ! b \<in> set (live ppi)" using b length_live [OF wf] by simp
  have choice: "erbest_choice ppg ppi = ppi\<lparr> frgn_rec_best :=
      (if is_qualified ppg (live ppi ! b) then word_of_nat b else - 1) \<rparr>"
    using nth_live [OF wf b] by (simp add: erbest_choice_def Let_def b_def [symmetric])
  have "is_qualified ppg (live ppi ! b)" if fm: "fm \<in> set (live ppi)" "is_qualified ppg fm" for fm
  proof (cases "CONFIG_SINGLE_FMASTER (g_config ppg)")
    case True
    then have "length (live ppi) = 1" using wf num length_live [OF wf] by (simp add: frgn_wf_def)
    then show ?thesis using fm True by (cases "live ppi") (auto simp: b_def)
  next
    case False
    from fm obtain j where "j < unat (frgn_rec_num ppi)" "is_qualified ppg (frgn_master ppi ! j)"
      using nth_live [OF wf] length_live [OF wf] by (auto simp: in_set_conv_nth)
    from scan_qualified [OF this] show ?thesis using False nth_live [OF wf b] by (simp add: b_def)
  qed
  then show ?thesis using mem erbest_of_set [OF wf b] by (auto simp: selects_qualified_def choice)
qed

lemma erbest_of_peer:
  "live (erbest_peer q) = live q" "frgn_rec_best (erbest_peer q) = frgn_rec_best q"
  "is_erbest_of ppg ppi (erbest_peer q) = is_erbest_of ppg ppi q"
  "selects_qualified ppg ppi (erbest_peer q) = selects_qualified ppg ppi q"
  "live (q\<lparr> frgn_rec_best := b \<rparr>) = live q"
  by (simp_all add: is_erbest_of_def selects_qualified_def erbest_peer_def live_def erbest_of_def)

lemma ebest_scan_valid:
  "(if \<exists>j < n. frgn_rec_best (INST ppg j) \<noteq> - 1
    then \<exists>b < n. fold (bmc_ebest_step ppg) [0..<n] (- 1) = int b \<and> frgn_rec_best (INST ppg b) \<noteq> - 1
    else fold (bmc_ebest_step ppg) [0..<n] (- 1) = - 1)"
proof (induction n)
  case (Suc n)
  then show ?case
    by (cases "\<exists>j < n. frgn_rec_best (INST ppg j) \<noteq> - 1"; cases "frgn_rec_best (INST ppg n) = - 1")
      (auto simp: bmc_ebest_step_def Let_def less_Suc_eq)
qed simp

section \<open>Properties\<close>

text \<open>A clock with one port that knows two masters, the second of them the Erbest.\<close>

definition example_port :: pp_instance where
  "example_port = (pp_instance_0 config_default)\<lparr>
     frgn_master := [example_master 128 5 1, example_master 10 7 0] @ replicate 3 pp_frgn_master_0,
     frgn_rec_num := 2, frgn_rec_best := 1, link_up := True, ppi_state := PPS_LISTENING \<rparr>"

definition example_clock :: pp_globals where
  "example_clock = (pp_globals_0 config_default 1)\<lparr> pp_instances := [example_port],
     g_defaultDS := defaultDS_0\<lparr> dd_numberPorts := 1 \<rparr> \<rparr>"

lemma example_clock_facts [simp]:
  "INST example_clock 0 = example_port" "length (pp_instances example_clock) = Suc 0"
  "g_config example_clock = config_default" "get_numberPorts example_clock = 1"
  "is_externalPortConfigurationEnabled example_clock = False" "ebest_idx example_clock = 0"
  by (simp_all add: INST_def example_clock_def pp_globals_0_def get_numberPorts_def config_default_def
    is_externalPortConfigurationEnabled_def defaultDS_0_def)

lemma example_port_facts [simp]:
  "live example_port = [example_master 128 5 1, example_master 10 7 0]" "frgn_rec_num example_port = 2"
  "frgn_rec_best example_port = 1" "link_up example_port" "ppi_state example_port = PPS_LISTENING"
  "erbest_of example_port = example_master 10 7 0"
  by (simp_all add: example_port_def live_def erbest_of_def)

lemma example_port_wf: "frgn_wf config_default example_port"
  unfolding frgn_wf_def
  by (simp add: config_default_def example_master_def) (simp add: example_port_def)

lemma example_consistent:
  "{example_master 10 7 0, example_master 128 5 1} \<subseteq>
   consistent (\<lambda>g. (if g = ClockId 7 0 0 0 0 0 0 0 then 10 else 128, 0, 0, 0, 0))"
  by (simp add: consistent_def gm_attr_def example_master_def cleared_defs)

text \<open>
  C22: removing a foreign master deletes exactly the record at that index from the list of live records
  and keeps the others in order, although the loop copies what lies behind the array; the Erbest stays
  the same record, or becomes none when it is the one removed.
\<close>

theorem foreign_removal_exact:
  assumes "frgn_wf cf ppi" and "k < unat (frgn_rec_num ppi)"
  shows "live (bmc_remove_foreign_master cf past k ppi) = take k (live ppi) @ drop (Suc k) (live ppi) \<and>
    frgn_wf cf (bmc_remove_foreign_master cf past k ppi) \<and>
    (if sint (frgn_rec_best ppi) = int k
     then frgn_rec_best (bmc_remove_foreign_master cf past k ppi) = - 1
     else frgn_rec_best ppi \<noteq> - 1 \<longrightarrow>
       frgn_rec_best (bmc_remove_foreign_master cf past k ppi) \<noteq> - 1 \<and>
       erbest_of (bmc_remove_foreign_master cf past k ppi) = erbest_of ppi)"
  using remove_live [OF assms, of past] remove_wf [OF assms, of past] remove_best [OF assms, of past]
    remove_erbest [OF assms, of past] sint_m1_iff [of "frgn_rec_best (bmc_remove_foreign_master cf past k ppi)"]
  by auto

theorem foreign_removal_exact_witness:
  "frgn_wf config_default example_port \<and> 0 < unat (frgn_rec_num example_port) \<and>
   live (bmc_remove_foreign_master config_default (example_master 1 1 1) 0 example_port) = [example_master 10 7 0]"
  using foreign_removal_exact [OF example_port_wf, of 0 "example_master 1 1 1"] example_port_wf by simp

text \<open>
  C21: ageing removes exactly the masters that are not the Ebest and whose last announce is older than
  the time window, and keeps the others in order.
\<close>

theorem foreign_ageing_exact:
  assumes "i < length (pp_instances ppg)" and "frgn_wf (g_config ppg) (INST ppg i)"
  shows "live (INST (bmc_age_frgn_master P ppg i) i) =
    filter (\<lambda>fm. is_ebest ppg fm \<or> \<not> time_after (t_calc_timeout P ppg i 0)
        (fm_lastAnnounceMsgMs fm + ucast (frgn_master_time_window_ms (INST ppg i)))) (live (INST ppg i))"
proof -
  have "upd_inst i (\<lambda>_. INST ppg i) ppg = ppg" by (simp add: upd_inst_def INST_def)
  then show ?thesis
    using ageing.sweep_filters [OF assms(2), of P i "t_calc_timeout P ppg i 0" 0] assms(1)
    by (simp add: bmc_age_frgn_master_def aged_def de_Morgan_conj)
qed

theorem foreign_ageing_exact_witness:
  "frgn_wf config_default example_port \<and>
   live (INST (bmc_age_frgn_master (platform_idle\<lparr> t_calc_timeout := \<lambda>_ _ _. 5000 \<rparr>) example_clock 0) 0) =
     [example_master 10 7 0]"
proof -
  have e: "is_ebest example_clock fm \<longleftrightarrow> fm_sourcePortIdentity fm = fm_sourcePortIdentity (example_master 10 7 0)" for fm
    by (simp add: is_ebest_def)
  have w: "frgn_master_time_window_ms example_port = 0" by (simp add: example_port_def pp_instance_0_def)
  show ?thesis
    using foreign_ageing_exact [of 0 example_clock "platform_idle\<lparr> t_calc_timeout := \<lambda>_ _ _. 5000 \<rparr>"] example_port_wf
    by (simp add: e w) (simp add: example_master_def time_after_def pp_frgn_master_0_def)
qed

text \<open>
  C8: every operation on the foreign master table of a port (adding an announced master, flushing the
  Erbest, ageing, and the update of the Erbest) keeps it well-formed: the array has its size, at most
  that many records are live, no two of them come from the same port, and the Erbest is a live record
  or none.
\<close>

theorem foreign_table_invariant:
  assumes "i < length (pp_instances ppg)" and "frgn_wf (g_config ppg) (INST ppg i)"
    and "fm_sourcePortIdentity fm = hdr_sourcePortIdentity (received_ptp_header (INST ppg i))"
  shows "frgn_wf (g_config ppg) (INST (snd (bmc_add_frgn_master P ppg i fm)) i) \<and>
    frgn_wf (g_config ppg) (INST (bmc_flush_erbest P ppg i) i) \<and>
    frgn_wf (g_config ppg) (INST (bmc_age_frgn_master P ppg i) i) \<and>
    frgn_wf (g_config ppg) (INST (bmc_update_erbest_inst ppg i) i)"
  using assms by (simp add: add_frgn_wf flush_erbest_wf age_frgn_wf update_erbest_wf)

theorem foreign_table_invariant_witness:
  "frgn_wf config_default example_port \<and>
   frgn_wf config_default (INST (snd (bmc_add_frgn_master platform_idle example_clock 0 pp_frgn_master_0)) 0)"
proof -
  have "fm_sourcePortIdentity pp_frgn_master_0 = hdr_sourcePortIdentity (received_ptp_header (INST example_clock 0))"
    by (simp add: example_port_def cleared_defs)
  from foreign_table_invariant [OF _ _ this, of platform_idle] example_port_wf show ?thesis by simp
qed

text \<open>
  C9: the update of the Erbest of a port.  When the link is down or the port is faulty or disabled the
  table is emptied and there is no Erbest.  Otherwise the live records stay as they are.  With external
  port configuration the first record is taken, qualified or not.  Without it a qualified live record is
  selected whenever there is one, and none otherwise; and when all live records are consistent, that is
  records of the same grandmaster carry the same attributes and no record came from the port itself, no live
  record beats the selected one.  Without consistency the comparison may be cyclic and such a record need not
  exist.
\<close>

theorem erbest_is_best:
  assumes "i < length (pp_instances ppg)" and "frgn_wf (g_config ppg) (INST ppg i)"
  shows "let ppi = INST ppg i; q = INST (bmc_update_erbest_inst ppg i) i
    in if \<not> link_up ppi \<or> ppi_state ppi \<in> {PPS_FAULTY, PPS_DISABLED}
       then live q = [] \<and> frgn_rec_best q = - 1
       else live q = live ppi \<and>
         (if is_externalPortConfigurationEnabled ppg
          then frgn_rec_best q = (if live ppi = [] then - 1 else 0)
          else selects_qualified ppg ppi q \<and>
            (\<forall>tab. set (live ppi) \<subseteq> consistent tab \<longrightarrow> is_erbest_of ppg ppi q))"
proof (cases "frgn_rec_num (INST ppg i) = 0")
  case True
  then have "live (INST ppg i) = []" by (simp add: live_def)
  then show ?thesis using True assms(1)
    by (simp add: update_erbest_cases Let_def erbest_of_peer) (simp add: is_erbest_of_def selects_qualified_def)
next
  case num: False
  then have n: "0 < unat (frgn_rec_num (INST ppg i))" by (simp add: unat_gt_0)
  show ?thesis
  proof (cases "\<not> link_up (INST ppg i) \<or> ppi_state (INST ppg i) \<in> {PPS_FAULTY, PPS_DISABLED}")
    case True
    then show ?thesis using num assms(1)
      by (auto simp: update_erbest_cases Let_def live_def bmc_flush_frgn_master_def)
  next
    case False
    then have q: "INST (bmc_update_erbest_inst ppg i) i = erbest_peer
        (if is_externalPortConfigurationEnabled ppg then (INST ppg i)\<lparr> frgn_rec_best := 0 \<rparr> else erbest_choice ppg (INST ppg i))"
      using num assms(1) by (simp add: update_erbest_cases Let_def)
    have "live (INST ppg i) \<noteq> []" using n length_live [OF assms(2)] by auto
    moreover have "live (erbest_choice ppg (INST ppg i)) = live (INST ppg i)"
      by (simp add: live_def erbest_choice_def Let_def)
    ultimately show ?thesis
      using erbest_choice_qualified [OF assms(2) n] erbest_choice_best [OF assms(2) n] False
      unfolding q Let_def by (simp add: erbest_of_peer)
  qed
qed

theorem erbest_is_best_witness:
  "frgn_wf config_default example_port \<and>
   is_erbest_of example_clock example_port (INST (bmc_update_erbest_inst example_clock 0) 0)"
proof -
  have "\<exists>tab. set (live example_port) \<subseteq> consistent tab" using example_consistent by auto
  then show ?thesis using erbest_is_best [of 0 example_clock] example_port_wf by (auto simp: Let_def)
qed

text \<open>
  C10: the Ebest is a port that has an Erbest whenever there is one, and none otherwise, and a change of
  it is noted; when the Erbests of all ports are consistent, that is those of the same grandmaster
  carry the same attributes and none came from the port itself, no other port's Erbest beats the one of the Ebest.
\<close>

theorem ebest_is_best:
  assumes "\<forall>j < get_numberPorts ppg. frgn_wf (g_config ppg) (INST ppg j)"
  shows "let ppg' = bmc_update_ebest ppg; b = nat (sint (ebest_idx ppg'));
             known = {j. j < get_numberPorts ppg \<and> frgn_rec_best (INST ppg j) \<noteq> - 1}
    in (if known \<noteq> {}
        then ebest_idx ppg' \<noteq> - 1 \<and> b \<in> known \<and>
          (\<forall>tab. (\<forall>j \<in> known. erbest_of (INST ppg j) \<in> consistent tab) \<longrightarrow>
            (\<forall>j \<in> known. bmc_dataset_cmp ppg (erbest_of (INST ppg b)) (erbest_of (INST ppg j)) \<le> 0))
        else ebest_idx ppg' = - 1) \<and>
       (ebest_updated ppg' \<longleftrightarrow> ebest_updated ppg \<or> ebest_idx ppg' \<noteq> ebest_idx ppg)"
proof -
  let ?n = "get_numberPorts ppg"
  define r where "r = fold (bmc_ebest_step ppg) [0..<?n] (- 1)"
  have idx: "ebest_idx (bmc_update_ebest ppg) = word_of_int r"
    "ebest_updated (bmc_update_ebest ppg) \<longleftrightarrow> ebest_updated ppg \<or> word_of_int r \<noteq> ebest_idx ppg"
    by (auto simp: bmc_update_ebest_def Let_def r_def)
  show ?thesis
  proof (cases "\<exists>j < ?n. frgn_rec_best (INST ppg j) \<noteq> - 1")
    case False
    then have "r = - 1" using ebest_scan_valid [of ?n ppg] by (simp add: r_def)
    then show ?thesis using False idx by (auto simp: Let_def)
  next
    case True
    then obtain b where b: "b < ?n" "r = int b" "frgn_rec_best (INST ppg b) \<noteq> - 1"
      using ebest_scan_valid [of ?n ppg] by (auto simp: r_def)
    have "b < 2 ^ 31" using b(1) unsigned_less [where ?'a = nat, of "dd_numberPorts (g_defaultDS ppg)"]
      by (simp add: get_numberPorts_def split: if_splits)
    then have s: "sint (word_of_int r :: s32) = int b" using sint_of_nat32 [of b] by (simp add: b(2))
    then have m1: "(word_of_int r :: s32) \<noteq> - 1" by (simp add: sint_m1_iff [symmetric])
    have "bmc_dataset_cmp ppg (erbest_of (INST ppg b)) (erbest_of (INST ppg j)) \<le> 0"
      if "\<forall>j < ?n. frgn_rec_best (INST ppg j) \<noteq> - 1 \<longrightarrow> erbest_of (INST ppg j) \<in> consistent tab"
        and j: "j < ?n" "frgn_rec_best (INST ppg j) \<noteq> - 1" for tab j
      using ebest_unbeaten [OF assms that(1) _ j, of b] b by (simp add: r_def)
    then show ?thesis using b idx s m1 by (auto simp: Let_def)
  qed
qed

theorem ebest_is_best_witness:
  "let ppg' = bmc_update_ebest example_clock; b = nat (sint (ebest_idx ppg'))
   in ebest_idx ppg' \<noteq> - 1 \<and> b < 1 \<and> frgn_rec_best (INST example_clock b) \<noteq> - 1 \<and>
     bmc_dataset_cmp example_clock (erbest_of (INST example_clock b)) (erbest_of (INST example_clock 0)) \<le> 0"
proof -
  have "\<forall>j < get_numberPorts example_clock. frgn_wf (g_config example_clock) (INST example_clock j)"
    using example_port_wf by simp
  note best = ebest_is_best [OF this, unfolded Let_def]
  have known: "{j. j < get_numberPorts example_clock \<and> frgn_rec_best (INST example_clock j) \<noteq> - 1} = {0}" by auto
  have "\<exists>tab. erbest_of (INST example_clock 0) \<in> consistent tab" using example_consistent by auto
  then show ?thesis using best unfolding known Let_def by auto
qed

end
