(* ===== verification/Bmc_Decision.thy ===== *)
theory Bmc_Decision
  imports Bmc_Frgn
begin

text \<open>
  The state decision of the best master clock algorithm (\<^verbatim>\<open>proto-standard/bmc.c\<close>): the updates of the
  data sets for a master (M1, M2, M3) and a slave (S1), the decision itself, and its application to a
  port.  The targets of the \<^verbatim>\<open>goto\<close>s of \<^verbatim>\<open>bmc_state_decision\<close> are definitions of their own.  Shifts by
  the announce interval are defined for the configured range, which is not negative.
\<close>

section \<open>Updates of the data sets\<close>

definition PP_DEFAULT_UTC_OFFSET :: s32 where "PP_DEFAULT_UTC_OFFSET = 37"
definition FFB_LI61 :: u8 where "FFB_LI61 = 0x01"
definition FFB_LI59 :: u8 where "FFB_LI59 = 0x02"
definition FFB_UTCV :: u8 where "FFB_UTCV = 0x04"
definition FFB_PTP :: u8 where "FFB_PTP = 0x08"
definition FFB_TTRA :: u8 where "FFB_TTRA = 0x10"
definition FFB_FTRA :: u8 where "FFB_FTRA = 0x20"

lemmas ffb_defs = FFB_LI61_def FFB_LI59_def FFB_UTCV_def FFB_PTP_def FFB_TTRA_def FFB_FTRA_def

definition flag_of :: "bool \<Rightarrow> u8" where
  "flag_of b = (if b then 1 else 0)"

text \<open>The time properties of a master, with whether the UTC offset changed.\<close>

definition bmc_m1_prop ::
  "(s32 \<times> s32 \<times> s32) option \<Rightarrow> pp_runtime_opts \<Rightarrow> timePropertiesDS \<Rightarrow> timePropertiesDS \<times> bool" where
  "bmc_m1_prop utc o' prop =
     (let (prop, changed) =
        (if tp_ptpTimescale prop \<noteq> 0
         then let offset = (case utc of None \<Rightarrow> PP_DEFAULT_UTC_OFFSET | Some (offset, _, _) \<Rightarrow> offset);
                  changed = sint (tp_currentUtcOffset prop) \<noteq> sint offset;
                  prop = (if changed then prop\<lparr> tp_currentUtcOffset := ucast offset \<rparr> else prop)
              in (case utc of
                    None \<Rightarrow> prop\<lparr> tp_currentUtcOffsetValid := 0, tp_leap59 := 0, tp_leap61 := 0 \<rparr>
                  | Some (_, leap59, leap61) \<Rightarrow>
                      prop\<lparr> tp_currentUtcOffsetValid := 1, tp_leap59 := flag_of (leap59 \<noteq> 0),
                            tp_leap61 := flag_of (leap61 \<noteq> 0) \<rparr>, changed)
         else (prop\<lparr> tp_currentUtcOffset := ucast PP_DEFAULT_UTC_OFFSET, tp_currentUtcOffsetValid := 0,
                     tp_leap59 := 0, tp_leap61 := 0 \<rparr>, False))
      in (prop\<lparr> tp_timeTraceable := opt_timeTraceable o', tp_frequencyTraceable := opt_frequencyTraceable o',
                tp_timeSource := ucast (opt_timeSource o') \<rparr>, changed))"

definition bmc_m1 :: "platform \<Rightarrow> pp_globals \<Rightarrow> nat \<Rightarrow> pp_globals" where
  "bmc_m1 P ppg i =
     (let def = g_defaultDS ppg;
          ppg = ppg\<lparr> g_currentDS := \<lparr> cur_stepsRemoved = 0, cur_offsetFromMaster = 0, cur_meanDelay = 0 \<rparr> \<rparr>;
          ppg = upd_inst i (\<lambda>ppi. ppi\<lparr> ppi_servo := (ppi_servo ppi)\<lparr>
                  srv_meanDelay := clear_time (srv_meanDelay (ppi_servo ppi)),
                  srv_offsetFromMaster := clear_time (srv_offsetFromMaster (ppi_servo ppi)) \<rparr> \<rparr>) ppg;
          ppg = ppg\<lparr> g_parentDS := parentDS_0\<lparr>
                  par_parentPortIdentity := \<lparr> clockIdentity = dd_clockIdentity def, portNumber = 0 \<rparr>,
                  par_grandmasterIdentity := dd_clockIdentity def,
                  par_grandmasterClockQuality := dd_clockQuality def,
                  par_grandmasterPriority1 := dd_priority1 def,
                  par_grandmasterPriority2 := dd_priority2 def \<rparr> \<rparr>;
          (prop, changed) = bmc_m1_prop (t_get_utc_offset P ppg i) (rt_opts ppg) (g_timePropertiesDS ppg);
          ppg = (if changed then log_event (Ev_set None) ppg else ppg)
      in ppg\<lparr> g_timePropertiesDS := prop \<rparr>)"

definition bmc_m2 :: "platform \<Rightarrow> pp_globals \<Rightarrow> nat \<Rightarrow> pp_globals" where
  "bmc_m2 P ppg i =
     (let ppg = bmc_m1 P ppg i
      in if sint (opt_gmDelayToGenPpsSec (rt_opts ppg)) > 0
         then if pp_timeout_is_disabled ppg 0 PP_TO_GM_BY_BMCA
              then pp_timeout_set P ppg 0 PP_TO_GM_BY_BMCA (opt_gmDelayToGenPpsSec (rt_opts ppg) * 1000)
              else if pp_timeout P ppg 0 PP_TO_GM_BY_BMCA
              then log_event (Ev_enable_timing_output True) (pp_timeout_disable P ppg 0 PP_TO_GM_BY_BMCA)
              else ppg
         else ppg)"

definition bmc_m3 :: "platform \<Rightarrow> pp_globals \<Rightarrow> nat \<Rightarrow> pp_globals" where
  "bmc_m3 P ppg i =
     (if sint (opt_gmDelayToGenPpsSec (rt_opts ppg)) > 0
      then pp_timeout_disable P ppg 0 PP_TO_GM_BY_BMCA else ppg)"

definition bmc_p1 :: "pp_globals \<Rightarrow> nat \<Rightarrow> pp_globals" where "bmc_p1 ppg i = ppg"
definition bmc_p2 :: "pp_globals \<Rightarrow> nat \<Rightarrow> pp_globals" where "bmc_p2 ppg i = ppg"

text \<open>The leap flags and the UTC offset a slave takes from its master, with the event on the platform.\<close>

definition take_received :: "pp_frgn_master \<Rightarrow> timePropertiesDS \<Rightarrow> timePropertiesDS" where
  "take_received fm prop = prop\<lparr>
     tp_leap59 := flag_of (fm_flagField1 fm AND FFB_LI59 \<noteq> 0),
     tp_leap61 := flag_of (fm_flagField1 fm AND FFB_LI61 \<noteq> 0),
     tp_currentUtcOffset := fm_currentUtcOffset fm \<rparr>"

definition bmc_s1_utc ::
  "platform \<Rightarrow> pp_globals \<Rightarrow> nat \<Rightarrow> pp_frgn_master \<Rightarrow> timePropertiesDS \<Rightarrow> timePropertiesDS \<times> pp_event list" where
  "bmc_s1_utc P ppg i fm prop =
     (case t_get_utc_time P ppg i of
        None \<Rightarrow> (take_received fm prop, [])
      | Some (hours, minutes, seconds) \<Rightarrow>
         let guard = 2 * push_bit (nat (sint (por_logAnnounceInterval (ppi_portDS (INST ppg i))))) 1 :: s32;
             utc = t_get_utc_offset P ppg i
         in if sint hours \<ge> 12
            then if hours = 23 \<and> minutes = 59 \<and> sint seconds \<ge> sint (60 - guard)
                 then (prop, [])
                 else (case utc of
                         None \<Rightarrow> (take_received fm prop, [])
                       | Some (offset, leap59, leap61) \<Rightarrow>
                          if (leap59 \<noteq> 0) \<noteq> (fm_flagField1 fm AND FFB_LI59 \<noteq> 0) \<or>
                             (leap61 \<noteq> 0) \<noteq> (fm_flagField1 fm AND FFB_LI61 \<noteq> 0) \<or>
                             sint offset \<noteq> sint (fm_currentUtcOffset fm)
                          then let prop = take_received fm prop
                               in (prop, [Ev_set_utc_offset (scast (tp_currentUtcOffset prop))
                                     (if tp_leap59 prop \<noteq> 0 then 1 else 0) (if tp_leap61 prop \<noteq> 0 then 1 else 0)])
                          else (prop, []))
            else if hours = 0 \<and> minutes = 0 \<and> sint seconds \<le> sint (0 + guard)
                 then let prop = (case utc of None \<Rightarrow> prop
                                  | Some (offset, _, _) \<Rightarrow> prop\<lparr> tp_currentUtcOffset := ucast offset \<rparr>)
                      in (prop\<lparr> tp_leap59 := 0, tp_leap61 := 0 \<rparr>, [])
                 else (take_received fm prop,
                       if tp_currentUtcOffset prop \<noteq> fm_currentUtcOffset fm then [Ev_set None] else []))"

text \<open>The current and the parent data set of a slave of the master \<open>fm\<close>.\<close>

definition s1_data_sets :: "pp_frgn_master \<Rightarrow> pp_globals \<Rightarrow> pp_globals" where
  "s1_data_sets fm ppg = ppg\<lparr>
     g_currentDS := (g_currentDS ppg)\<lparr> cur_stepsRemoved := fm_stepsRemoved fm + 1 \<rparr>,
     g_parentDS := (g_parentDS ppg)\<lparr>
       par_newGrandmaster :=
         bmc_pidcmp (par_parentPortIdentity (g_parentDS ppg)) (fm_sourcePortIdentity fm) \<noteq> 0,
       par_parentPortIdentity := fm_sourcePortIdentity fm,
       par_grandmasterIdentity := fm_grandmasterIdentity fm,
       par_grandmasterClockQuality := fm_grandmasterClockQuality fm,
       par_grandmasterPriority1 := fm_grandmasterPriority1 fm,
       par_grandmasterPriority2 := fm_grandmasterPriority2 fm \<rparr> \<rparr>"

text \<open>Its time properties, with the events on the platform; \<open>ppg\<close> has the time scale stored.\<close>

definition s1_properties ::
  "platform \<Rightarrow> pp_globals \<Rightarrow> nat \<Rightarrow> pp_frgn_master \<Rightarrow> timePropertiesDS \<times> pp_event list" where
  "s1_properties P ppg i fm =
     (let ptp = fm_flagField1 fm AND FFB_PTP \<noteq> 0; prop = g_timePropertiesDS ppg;
          (prop, evs) = (if ptp then bmc_s1_utc P ppg i fm prop else (take_received fm prop, []))
      in (prop\<lparr> tp_currentUtcOffsetValid := flag_of (fm_flagField1 fm AND FFB_UTCV \<noteq> 0),
                tp_timeTraceable := flag_of (fm_flagField1 fm AND FFB_TTRA \<noteq> 0),
                tp_frequencyTraceable := flag_of (fm_flagField1 fm AND FFB_FTRA \<noteq> 0),
                tp_ptpTimescale := flag_of ptp,
                tp_timeSource := fm_timeSource fm \<rparr>, evs))"

text \<open>
  The decision S1.  \<open>fm\<close> is the record at \<open>loc\<close>, a port and an index of its table, which the hook of an
  extension may write.
\<close>

definition bmc_s1 ::
  "platform \<Rightarrow> pp_globals \<Rightarrow> nat \<Rightarrow> pp_frgn_master \<Rightarrow> nat \<times> nat \<Rightarrow> pp_globals" where
  "bmc_s1 P ppg i fm loc =
     (let ppg = s1_data_sets fm ppg;
          ppg = ppg\<lparr> g_timePropertiesDS := (g_timePropertiesDS ppg)\<lparr>
                  tp_ptpTimescale := flag_of (fm_flagField1 fm AND FFB_PTP \<noteq> 0) \<rparr> \<rparr>;
          (prop, evs) = s1_properties P ppg i fm;
          ppg = (fold log_event evs ppg)\<lparr> g_timePropertiesDS := prop \<rparr>;
          ppg = pp_timeout_disable P ppg 0 PP_TO_GM_BY_BMCA
      in case h_bmca_s1 (ext_hooks P i) of
           Some bmca_s1 \<Rightarrow> snd (bmca_s1 ppg i fm loc)
         | None \<Rightarrow> ppg)"

section \<open>State decision\<close>

definition slave_only_class :: "pp_globals \<Rightarrow> bool" where
  "slave_only_class ppg \<longleftrightarrow> clockClass (dd_clockQuality (g_defaultDS ppg)) = PP_CLASS_SLAVE_ONLY"

definition to_listening :: "platform \<Rightarrow> pp_globals \<Rightarrow> nat \<Rightarrow> pp_std_states \<times> pp_globals" where
  "to_listening P ppg i =
     (PPS_LISTENING, if ppi_state (INST ppg i) \<noteq> PPS_LISTENING
                     then pp_timeout_reset P ppg i PP_TO_ANN_RECEIPT else ppg)"

definition passive_p1 :: "platform \<Rightarrow> pp_globals \<Rightarrow> nat \<Rightarrow> pp_std_states \<times> pp_globals" where
  "passive_p1 P ppg i =
     (if slave_only_class ppg then to_listening P ppg i
      else (PPS_PASSIVE, bmc_p1 (if ppi_state (INST ppg i) \<noteq> PPS_PASSIVE
                                 then pp_timeout_reset P ppg i PP_TO_ANN_RECEIPT else ppg) i))"

definition passive_p2 :: "platform \<Rightarrow> pp_globals \<Rightarrow> nat \<Rightarrow> pp_std_states \<times> pp_globals" where
  "passive_p2 P ppg i =
     (if slave_only_class ppg then to_listening P ppg i
      else (PPS_PASSIVE, bmc_p2 (if ppi_state (INST ppg i) \<noteq> PPS_PASSIVE
                                 then pp_timeout_reset P ppg i PP_TO_ANN_RECEIPT else ppg) i))"

definition is_master_state :: "pp_std_states \<Rightarrow> bool" where
  "is_master_state s \<longleftrightarrow> s = PPS_MASTER \<or> s = PPS_PRE_MASTER"

definition master_m1 :: "platform \<Rightarrow> pp_globals \<Rightarrow> nat \<Rightarrow> pp_std_states \<times> pp_globals" where
  "master_m1 P ppg i =
     (if slave_only_class ppg then to_listening P ppg i
      else let ppg = bmc_m1 P ppg i
           in if \<not> is_master_state (ppi_state (INST ppg i))
              then (PPS_PRE_MASTER, pp_timeout_reset_N P ppg i PP_TO_QUALIFICATION 0)
              else (ppi_state (INST ppg i), ppg))"

definition master_m2 :: "platform \<Rightarrow> pp_globals \<Rightarrow> nat \<Rightarrow> pp_std_states \<times> pp_globals" where
  "master_m2 P ppg i =
     (if slave_only_class ppg then to_listening P ppg i
      else let ppg = bmc_m2 P ppg i
           in if \<not> is_master_state (ppi_state (INST ppg i))
              then (PPS_PRE_MASTER, pp_timeout_reset_N P ppg i PP_TO_QUALIFICATION 0)
              else (ppi_state (INST ppg i), ppg))"

definition master_m3 :: "platform \<Rightarrow> pp_globals \<Rightarrow> nat \<Rightarrow> pp_std_states \<times> pp_globals" where
  "master_m3 P ppg i =
     (if slave_only_class ppg then to_listening P ppg i
      else let ppg = bmc_m3 P ppg i
           in if \<not> is_master_state (ppi_state (INST ppg i))
              then let ppg = pp_timeout_init ppg i
                   in (PPS_PRE_MASTER, pp_timeout_reset_N P ppg i PP_TO_QUALIFICATION
                         (ucast (cur_stepsRemoved (g_currentDS ppg)) + 1))
              else (ppi_state (INST ppg i), ppg))"

definition erbest_loc :: "pp_globals \<Rightarrow> nat \<Rightarrow> nat \<times> nat" where
  "erbest_loc ppg i = (i, nat (sint (frgn_rec_best (INST ppg i))))"

definition slave_s1 ::
  "platform \<Rightarrow> pp_globals \<Rightarrow> nat \<Rightarrow> pp_frgn_master \<Rightarrow> nat \<times> nat \<Rightarrow> pp_std_states \<times> pp_globals" where
  "slave_s1 P ppg i ebest loc =
     (let (cmpres, ppg) =
        (if port_idx (INST ppg i) = ebest_idx ppg
         then (bmc_pidcmp (par_parentPortIdentity (g_parentDS ppg)) (fm_sourcePortIdentity ebest),
               bmc_s1 P ppg i ebest loc)
         else (0, ppg));
          st = ppi_state (INST ppg i)
      in if st \<noteq> PPS_SLAVE \<and> st \<noteq> PPS_UNCALIBRATED
         then (PPS_UNCALIBRATED, pp_timeout_reset P ppg i PP_TO_ANN_RECEIPT)
         else if cmpres \<noteq> 0
         then (PPS_UNCALIBRATED,
               if st \<noteq> PPS_UNCALIBRATED then pp_timeout_reset P ppg i PP_TO_ANN_RECEIPT else ppg)
         else (st, if st \<noteq> PPS_SLAVE then pp_timeout_reset P ppg i PP_TO_ANN_RECEIPT else ppg))"

definition check_boundary_clk ::
  "platform \<Rightarrow> pp_globals \<Rightarrow> nat \<Rightarrow> pp_frgn_master \<Rightarrow> pp_frgn_master \<Rightarrow> pp_std_states \<times> pp_globals" where
  "check_boundary_clk P ppg i ebest erbest =
     (if port_idx (INST ppg i) = ebest_idx ppg
      then slave_s1 P ppg i ebest (erbest_loc ppg (nat (sint (ebest_idx ppg))))
      else if bmc_gm_cmp ppg ebest erbest < 0 then master_m3 P ppg i
      else let cmpres = bmc_topology_cmp ppg ebest erbest
           in if cmpres < 0 then passive_p2 P ppg i
              else if cmpres > 0 then master_m3 P ppg i
              else (PPS_FAULTY, ppg))"

text \<open>
  The local record \<^verbatim>\<open>d0\<close> is uninitialised memory before \<^verbatim>\<open>bmc_setup_local_frgn_master\<close>; every member that is
  read afterwards has been written, the cleared record stands for it.
\<close>

definition bmc_state_decision :: "platform \<Rightarrow> pp_globals \<Rightarrow> nat \<Rightarrow> pp_std_states \<times> pp_globals" where
  "bmc_state_decision P ppg i =
     (let ppi = INST ppg i;
          erbestValid = frgn_rec_best ppi \<noteq> - 1;
          erbest = (if erbestValid then erbest_of ppi else pp_frgn_master_0)
      in if ppi_state ppi = PPS_FAULTY \<or> ppi_state ppi = PPS_INITIALIZING then (ppi_state ppi, ppg)
         else if is_slaveOnly ppg
         then if \<not> erbestValid then (PPS_LISTENING, ppg)
              else if port_idx ppi = ebest_idx ppg then slave_s1 P ppg i erbest (erbest_loc ppg i)
              else (PPS_LISTENING, ppg)
         else if \<not> erbestValid \<and> ppi_state ppi = PPS_LISTENING then (PPS_LISTENING, ppg)
         else let d0 = bmc_setup_local_frgn_master ppg i pp_frgn_master_0
              in if is_masterOnly ppg i
                 then if sint (ebest_idx ppg) \<ge> 0 then master_m3 P ppg i else master_m1 P ppg i
                 else if \<not> (CONFIG_SO_ENABLED (g_config ppg) \<or> CONFIG_EPC_ENABLED (g_config ppg))
                 then if sint (ebest_idx ppg) \<ge> 0
                      then let ebest = erbest_of (INST ppg (nat (sint (ebest_idx ppg))))
                           in if clockClass (dd_clockQuality (g_defaultDS ppg)) < 128
                              then let cmpres = bmc_dataset_cmp ppg d0 erbest
                                   in if cmpres < 0 then master_m1 P ppg i
                                      else if cmpres > 0 then passive_p1 P ppg i
                                      else (PPS_FAULTY, ppg)
                              else let cmpres = bmc_dataset_cmp ppg d0 ebest
                                   in if cmpres < 0 then master_m2 P ppg i
                                      else if cmpres > 0
                                      then if get_numberPorts ppg = 1
                                           then slave_s1 P ppg i ebest (erbest_loc ppg (nat (sint (ebest_idx ppg))))
                                           else check_boundary_clk P ppg i ebest erbest
                                      else (PPS_FAULTY, ppg)
                      else master_m1 P ppg i
                 else (PPS_FAULTY, ppg))"

definition bmc_state_descision_epc :: "platform \<Rightarrow> pp_globals \<Rightarrow> nat \<Rightarrow> pp_std_states \<times> pp_globals" where
  "bmc_state_descision_epc P ppg i =
     (let ppi = INST ppg i;
          ppg = (if ppi_state ppi \<in> {PPS_SLAVE, PPS_UNCALIBRATED}
                 then if frgn_rec_num ppi > 0 then bmc_s1 P ppg i (frgn_master ppi ! 0) (i, 0) else ppg
                 else if ppi_state ppi \<in> {PPS_MASTER, PPS_PRE_MASTER, PPS_PASSIVE}
                 then if list_ex (\<lambda>j. ppi_state (INST ppg j) \<in> {PPS_SLAVE, PPS_UNCALIBRATED}) [0..<get_numberPorts ppg]
                      then ppg else bmc_m2 P ppg i
                 else ppg)
      in (ppi_desiredState (INST ppg i), ppg))"

definition bmc_apply_state_descision :: "platform \<Rightarrow> pp_globals \<Rightarrow> nat \<Rightarrow> pp_std_states \<times> pp_globals" where
  "bmc_apply_state_descision P ppg i =
     (let epc = is_externalPortConfigurationEnabled ppg;
          (next_state, ppg) =
            (if \<not> link_up (INST ppg i) then (Some PPS_INITIALIZING, ppg)
             else if epc then let (s, ppg) = bmc_state_descision_epc P ppg i in (Some s, ppg)
             else if get_numberPorts ppg > 1 \<and> bmc_check_frgn_master ppg i
             then (Some PPS_PASSIVE, bmc_p1 ppg i)
             else (None, ppg));
          (next_state, ppg) =
            (case next_state of
               None \<Rightarrow> bmc_state_decision P ppg i
             | Some s \<Rightarrow> (s, ppg));
          (next_state, ppg) =
            (case h_state_decision (ext_hooks P i) of
               Some state_decision \<Rightarrow> state_decision ppg i (ppi_next_state (INST ppg i))
             | None \<Rightarrow> (next_state, ppg))
      in (if is_externalPortConfigurationEnabled ppg then ppi_state (INST ppg i) else next_state, ppg))"

section \<open>Calculation of the Ebest\<close>

definition bmc_calculate_ebest :: "platform \<Rightarrow> pp_globals \<Rightarrow> pp_globals" where
  "bmc_calculate_ebest P ppg =
     (let ppg = bmc_update_clock_quality P ppg;
          ppg = (if \<not> is_externalPortConfigurationEnabled ppg then bmc_age_frgn_masters P ppg else ppg)
      in case bmc_any_port_initializing ppg of
           Some _ \<Rightarrow> ppg
         | None \<Rightarrow>
             let ppg = (if \<not> is_externalPortConfigurationEnabled ppg
                        then bmc_update_ebest (bmc_update_erbest ppg) else ppg)
             in fold (\<lambda>i. upd_inst i (\<lambda>ppi. ppi\<lparr> bmca_execute := True \<rparr>)) [0..<get_numberPorts ppg] ppg)"

section \<open>Properties\<close>

lemma master_decisions:
  "fst (master_m1 P ppg i) \<notin> {PPS_SLAVE, PPS_UNCALIBRATED}" "fst (master_m2 P ppg i) \<notin> {PPS_SLAVE, PPS_UNCALIBRATED}"
  "fst (master_m3 P ppg i) \<notin> {PPS_SLAVE, PPS_UNCALIBRATED}" "fst (passive_p1 P ppg i) \<notin> {PPS_SLAVE, PPS_UNCALIBRATED}"
  "fst (passive_p2 P ppg i) \<notin> {PPS_SLAVE, PPS_UNCALIBRATED}"
  by (auto simp: master_m1_def master_m2_def master_m3_def passive_p1_def passive_p2_def to_listening_def is_master_state_def
    Let_def split: if_splits)

lemma slave_only_decisions:
  assumes "slave_only_class ppg"
  shows "fst (master_m1 P ppg i) = PPS_LISTENING" "fst (master_m2 P ppg i) = PPS_LISTENING"
    "fst (master_m3 P ppg i) = PPS_LISTENING" "fst (passive_p1 P ppg i) = PPS_LISTENING"
    "fst (passive_p2 P ppg i) = PPS_LISTENING"
  using assms by (simp_all add: master_m1_def master_m2_def master_m3_def passive_p1_def passive_p2_def to_listening_def)

lemma slave_decision: "fst (slave_s1 P ppg i fm loc) \<in> {PPS_SLAVE, PPS_UNCALIBRATED}"
  by (auto simp: slave_s1_def Let_def case_prod_beta)

text \<open>
  C11: the state decision keeps the roles apart.  A faulty or initializing port keeps its state.  On a slave-only
  clock, or one of the slave-only class, no port is told to become master or passive.  Unless the clock is
  slave-only, a master-only port, and any port of a clock of a class below 128, is never told to become slave.
  And on a clock with several ports, or a slave-only one, only the port of the Ebest is told to become slave.
\<close>

theorem state_decision_safe:
  "let s = fst (bmc_state_decision P ppg i); p = INST ppg i
   in if ppi_state p \<in> {PPS_FAULTY, PPS_INITIALIZING} then s = ppi_state p
      else (is_slaveOnly ppg \<or> slave_only_class ppg \<longrightarrow> s \<notin> {PPS_MASTER, PPS_PRE_MASTER, PPS_PASSIVE}) \<and>
        (\<not> is_slaveOnly ppg \<and> (is_masterOnly ppg i \<or> clockClass (dd_clockQuality (g_defaultDS ppg)) < 128) \<longrightarrow>
           s \<notin> {PPS_SLAVE, PPS_UNCALIBRATED}) \<and>
        (get_numberPorts ppg \<noteq> 1 \<or> is_slaveOnly ppg \<longrightarrow> s \<in> {PPS_SLAVE, PPS_UNCALIBRATED} \<longrightarrow> port_idx p = ebest_idx ppg)"
proof -
  note m = master_decisions [where ppg = ppg and P = P and i = i]
  have s: "fst (slave_s1 P ppg i fm loc) \<notin> {PPS_MASTER, PPS_PRE_MASTER, PPS_PASSIVE}" for fm loc
    using slave_decision [of P ppg i fm loc] by auto
  note o' = slave_only_decisions [where ppg = ppg and P = P and i = i]
  show ?thesis
    unfolding bmc_state_decision_def check_boundary_clk_def Let_def
    using m s o' by (auto split: if_splits)
qed

theorem state_decision_safe_witness:
  "let ppg = example_clock\<lparr> g_defaultDS := (g_defaultDS example_clock)\<lparr> dd_slaveOnly := True \<rparr> \<rparr>
   in is_slaveOnly ppg \<and> fst (bmc_state_decision platform_idle ppg 0) \<notin> {PPS_MASTER, PPS_PRE_MASTER, PPS_PASSIVE}"
proof -
  let ?ppg = "example_clock\<lparr> g_defaultDS := (g_defaultDS example_clock)\<lparr> dd_slaveOnly := True \<rparr> \<rparr>"
  have "INST ?ppg 0 = example_port" by (simp add: INST_def example_clock_def)
  moreover have "is_slaveOnly ?ppg"
    by (simp add: is_slaveOnly_def config_default_def example_clock_def pp_globals_0_def)
  ultimately show ?thesis using state_decision_safe [of platform_idle ?ppg 0] by (simp add: Let_def)
qed

end
