(* ===== verification/Fsm_Lib.thy ===== *)
theory Fsm_Lib
  imports Bmc_Decision Servo
begin

text \<open>
  What the states of a port share (\<^verbatim>\<open>proto-standard/common-fun.c\<close>, \<^verbatim>\<open>common-fun-p2p.c\<close> and
  \<^verbatim>\<open>fsm-lib.c\<close>): the timeout of the announce messages, the handlers of the peer delay messages, and the
  messages sent when their timers expire.  A received frame is the byte list of the receive buffer
  with the length of the message; the empty list is the null pointer.
\<close>

definition PPI_FLAG_WAITING_FOR_F_UP :: u8 where "PPI_FLAG_WAITING_FOR_F_UP = 0x02"
definition PPI_FLAG_WAITING_FOR_RF_UP :: u8 where "PPI_FLAG_WAITING_FOR_RF_UP = 0x04"
definition PPI_FLAGS_WAITING :: u8 where "PPI_FLAGS_WAITING = 0x06"
definition INT_MAX :: s32 where "INT_MAX = 0x7fffffff"

type_synonym pp_action = "pp_globals \<Rightarrow> nat \<Rightarrow> u8 list \<Rightarrow> nat \<Rightarrow> s32 \<times> pp_globals"

section \<open>Announce messages\<close>

definition is_grand_master :: "pp_globals \<Rightarrow> bool" where
  "is_grand_master ppg =
     (let states = map (\<lambda>i. ppi_state (INST ppg i)) [0..<get_numberPorts ppg];
          has_slave = list_ex (\<lambda>s. s \<in> {PPS_UNCALIBRATED, PPS_SLAVE}) states;
          has_master = list_ex (\<lambda>s. s \<in> {PPS_MASTER, PPS_PRE_MASTER, PPS_PASSIVE}) states
      in has_master \<and> \<not> has_slave)"

definition set_next_state :: "nat \<Rightarrow> pp_std_states \<Rightarrow> pp_globals \<Rightarrow> pp_globals" where
  "set_next_state i s = upd_inst i (\<lambda>ppi. ppi\<lparr> ppi_next_state := s \<rparr>)"

definition set_next_delay :: "nat \<Rightarrow> s32 \<Rightarrow> pp_globals \<Rightarrow> pp_globals" where
  "set_next_delay i d = upd_inst i (\<lambda>ppi. ppi\<lparr> ppi_next_delay := d \<rparr>)"

definition st_com_check_announce_receive_timeout :: "platform \<Rightarrow> pp_globals \<Rightarrow> nat \<Rightarrow> pp_globals" where
  "st_com_check_announce_receive_timeout P ppg i =
     (if pp_timeout P ppg i PP_TO_ANN_RECEIPT
      then let ppg = pp_timeout_reset P ppg i PP_TO_ANN_RECEIPT;
               ppg = (if \<not> is_slaveOnly ppg
                      then let ppg = (if is_grand_master ppg then bmc_m1 P ppg i else bmc_m3 P ppg i)
                           in set_next_state i PPS_MASTER ppg
                      else set_next_state i PPS_LISTENING ppg)
           in bmc_flush_erbest P ppg i
      else ppg)"

definition st_com_handle_announce :: "platform \<Rightarrow> pp_globals \<Rightarrow> nat \<Rightarrow> s32 \<times> pp_globals" where
  "st_com_handle_announce P ppg i =
     (case h_handle_announce (ext_hooks P i) of Some f \<Rightarrow> f ppg i | None \<Rightarrow> (0, ppg))"

definition st_com_handle_signaling :: "platform \<Rightarrow> pp_action" where
  "st_com_handle_signaling P ppg i buf len =
     (case h_handle_signaling (ext_hooks P i) of Some f \<Rightarrow> f ppg i buf len | None \<Rightarrow> (0, ppg))"

section \<open>Peer delay messages\<close>

definition presp_call_servo :: "platform \<Rightarrow> pp_globals \<Rightarrow> nat \<Rightarrow> s32 \<times> pp_globals" where
  "presp_call_servo P ppg i =
     (if is_incorrect (ppi_t4 (INST ppg i)) then (0, ppg)
      else let (ret, ppg) = (case h_handle_presp (ext_hooks P i) of
                               Some f \<Rightarrow> f ppg i
                             | None \<Rightarrow> (0, snd (pp_servo_got_presp ppg i)));
               ppg = (if ppi_state (INST ppg i) = PPS_MASTER
                      then snd (pp_servo_calculate_delays ppg i) else ppg)
           in (ret, ppg))"

text \<open>The response answers the last request of this port.\<close>

definition matches_pdelay_req :: "pp_instance \<Rightarrow> PortIdentity \<Rightarrow> bool" where
  "matches_pdelay_req ppi pid \<longleftrightarrow>
     bmc_idcmp (clockIdentity (por_portIdentity (ppi_portDS ppi))) (clockIdentity pid) = 0 \<and>
     sent_seq ppi ! unat PPM_PDELAY_REQ = hdr_sequenceId (received_ptp_header ppi) \<and>
     portNumber (por_portIdentity (ppi_portDS ppi)) = portNumber pid"

text \<open>A received timestamp corrected by the correction field and the asymmetry.\<close>

definition correct_t4 :: "platform \<Rightarrow> pp_globals \<Rightarrow> nat \<Rightarrow> pp_time \<Rightarrow> pp_time" where
  "correct_t4 P ppg i t =
     (let hdr = received_ptp_header (INST ppg i)
      in if \<not> cf_compliant P ppg i then pp_time_add t (hdr_cField hdr)
         else pp_time_sub (pp_time_sub t (hdr_cField hdr))
                \<lparr> secs = 0, scaled_nsecs = por_delayAsymmetry (ppi_portDS (INST ppg i)) \<rparr>)"

definition st_com_peer_handle_pres :: "platform \<Rightarrow> pp_action" where
  "st_com_peer_handle_pres P ppg i buf len =
     (if ppi_delayMechanism (INST ppg i) \<noteq> MECH_P2P then (0, ppg)
      else let resp = msg_unpack_pdelay_resp buf; hdr = received_ptp_header (INST ppg i)
      in if \<not> matches_pdelay_req (INST ppg i) (resp_requestingPortIdentity resp) then (0, ppg)
      else if received_dresp (INST ppg i) \<noteq> 0 \<and> \<not> is_externalPortConfigurationEnabled ppg
      then (0, set_next_state i PPS_FAULTY ppg)
      else let ppg = upd_inst i (\<lambda>ppi. ppi\<lparr> received_dresp := 1, ppi_t4 := resp_receiveTimestamp resp \<rparr>) ppg;
               t4 = correct_t4 P ppg i (resp_receiveTimestamp resp);
               ppg = upd_inst i (\<lambda>ppi. ppi\<lparr> ppi_t4 := t4, ppi_t6 := ppi_last_rcv_time ppi \<rparr>) ppg;
               two_step = hdr_flagField0 hdr AND PP_TWO_STEP_FLAG \<noteq> 0;
               ppg = (if two_step
                      then upd_inst i (\<lambda>ppi. ppi\<lparr> ppi_flags := ppi_flags ppi OR PPI_FLAG_WAITING_FOR_RF_UP \<rparr>) ppg
                      else upd_inst i (\<lambda>ppi. ppi\<lparr> ppi_flags := ppi_flags ppi AND NOT PPI_FLAG_WAITING_FOR_RF_UP,
                                                   ppi_t5 := pp_time_0 \<rparr>) ppg);
               (e, ppg) = (if \<not> two_step then presp_call_servo P ppg i else (0, ppg))
           in (e, upd_inst i (\<lambda>ppi. ppi\<lparr> ppi_activePeer := ppi_peer ppi \<rparr>) ppg))"

definition st_com_peer_handle_pres_followup :: "platform \<Rightarrow> pp_action" where
  "st_com_peer_handle_pres_followup P ppg i buf len =
     (if ppi_delayMechanism (INST ppg i) \<noteq> MECH_P2P then (0, ppg)
      else let respFllw = msg_unpack_pdelay_resp_follow_up buf; hdr = received_ptp_header (INST ppg i)
      in if \<not> matches_pdelay_req (INST ppg i) (resp_requestingPortIdentity respFllw) then (0, ppg)
      else if received_dresp_fup (INST ppg i) \<noteq> 0 \<and> \<not> is_externalPortConfigurationEnabled ppg
      then (0, set_next_state i PPS_FAULTY ppg)
      else let ppg = upd_inst i (\<lambda>ppi. ppi\<lparr> received_dresp_fup := 1,
                        ppi_t5 := pp_time_add (resp_receiveTimestamp respFllw) (hdr_cField hdr) \<rparr>) ppg
           in presp_call_servo P ppg i)"

definition st_com_peer_handle_preq :: "platform \<Rightarrow> pp_action" where
  "st_com_peer_handle_preq P ppg i buf len =
     (if ppi_delayMechanism (INST ppg i) \<noteq> MECH_P2P then (0, ppg)
      else let (e, ppg) = (case h_handle_preq (ext_hooks P i) of Some f \<Rightarrow> f ppg i | None \<Rightarrow> (0, ppg))
           in if e \<noteq> 0 then (e, ppg)
              else let (_, ppg) = msg_issue_pdelay_resp P ppg i (ppi_last_rcv_time (INST ppg i));
                       (_, ppg) = msg_issue_pdelay_resp_followup P ppg i (ppi_last_snt_time (INST ppg i))
                   in (0, ppg))"

section \<open>Messages sent on timers\<close>

definition issue_on_vlan ::
  "(pp_globals \<Rightarrow> nat \<Rightarrow> s32 \<times> pp_globals) \<Rightarrow> nat \<Rightarrow> s32 \<Rightarrow> pp_globals \<Rightarrow> s32 \<times> pp_globals" where
  "issue_on_vlan issue i vlan ppg = issue (upd_inst i (\<lambda>ppi. ppi\<lparr> ppi_peer_vid := ucast vlan \<rparr>) ppg) i"

text \<open>The two functions that send on every vlan differ in the message only.\<close>

definition pp_vlan_issue ::
  "(pp_globals \<Rightarrow> nat \<Rightarrow> s32 \<times> pp_globals) \<Rightarrow> pp_globals \<Rightarrow> nat \<Rightarrow> s32 \<times> pp_globals" where
  "pp_vlan_issue issue ppg i =
     (let vlans = ppi_vlans (INST ppg i); size = CONFIG_VLAN_ARRAY_SIZE (g_config ppg);
          vlan = (if size \<noteq> 0 \<and> length vlans = 1 then vlans ! 0 else 0)
      in if size \<le> 1 \<or> length vlans \<le> 1 then issue_on_vlan issue i vlan ppg
         else (0, fold (\<lambda>vlan ppg. snd (issue_on_vlan issue i vlan ppg)) vlans ppg))"

definition pp_vlan_issue_announce :: "platform \<Rightarrow> pp_globals \<Rightarrow> nat \<Rightarrow> s32 \<times> pp_globals" where
  "pp_vlan_issue_announce P = pp_vlan_issue (msg_issue_announce P)"

definition pp_vlan_issue_sync_followup :: "platform \<Rightarrow> pp_globals \<Rightarrow> nat \<Rightarrow> s32 \<times> pp_globals" where
  "pp_vlan_issue_sync_followup P = pp_vlan_issue (msg_issue_sync_followup P)"

definition pp_lib_may_issue_sync :: "platform \<Rightarrow> pp_globals \<Rightarrow> nat \<Rightarrow> s32 \<times> pp_globals" where
  "pp_lib_may_issue_sync P ppg i =
     (if \<not> pp_timeout P ppg i PP_TO_SYNC_SEND then (0, ppg)
      else pp_vlan_issue_sync_followup P (pp_timeout_reset P ppg i PP_TO_SYNC_SEND) i)"

text \<open>Shortly after midnight the UTC offset is read from the system and the leap flags are cleared.\<close>

definition announce_utc_check :: "platform \<Rightarrow> pp_globals \<Rightarrow> nat \<Rightarrow> pp_globals" where
  "announce_utc_check P ppg i =
     (let prop = g_timePropertiesDS ppg
      in if tp_ptpTimescale prop \<noteq> 0
         then (case t_get_utc_time P ppg i of
                 None \<Rightarrow> ppg
               | Some (hours, minutes, seconds) \<Rightarrow>
                   let guard = 2 * push_bit (nat (sint (por_logAnnounceInterval (ppi_portDS (INST ppg i))))) 1 :: s32
                   in if hours = 0 \<and> minutes = 0 \<and> sint seconds \<le> sint (0 + guard)
                      then let prop = (case t_get_utc_offset P ppg i of
                                         None \<Rightarrow> prop
                                       | Some (offset, _, _) \<Rightarrow> prop\<lparr> tp_currentUtcOffset := ucast offset \<rparr>)
                           in ppg\<lparr> g_timePropertiesDS := prop\<lparr> tp_leap59 := 0, tp_leap61 := 0 \<rparr> \<rparr>
                      else ppg)
         else ppg)"

definition pp_lib_may_issue_announce :: "platform \<Rightarrow> pp_globals \<Rightarrow> nat \<Rightarrow> s32 \<times> pp_globals" where
  "pp_lib_may_issue_announce P ppg i =
     (if \<not> pp_timeout P ppg i PP_TO_ANN_SEND then (0, ppg)
      else let ppg = pp_timeout_reset P ppg i PP_TO_ANN_SEND;
               ppg = announce_utc_check P ppg i
           in pp_vlan_issue_announce P ppg i)"

definition pp_lib_may_issue_request :: "platform \<Rightarrow> pp_globals \<Rightarrow> nat \<Rightarrow> s32 \<times> pp_globals" where
  "pp_lib_may_issue_request P ppg i =
     (if \<not> pp_timeout P ppg i PP_TO_REQUEST then (0, ppg)
      else let ppg = pp_timeout_reset P ppg i PP_TO_REQUEST;
               (e, ppg) = msg_issue_request P ppg i;
               ppg = upd_inst i (\<lambda>ppi. ppi\<lparr> ppi_t3 := ppi_last_snt_time ppi \<rparr>) ppg
           in if e = PP_SEND_ERROR then (e, ppg) else (0, ppg))"

end
