(* ===== verification/States.thy ===== *)
theory States
  imports Fsm_Lib
begin

text \<open>
  The states of a port (\<^verbatim>\<open>proto-standard/state-*.c\<close>).  A state is a function that is called with the
  received frame, or without one; it handles the message by a table of actions and sets the next state
  and the delay to the next activation.
\<close>

section \<open>Tables of actions\<close>

text \<open>
  The entries for the peer delay messages are the same in every state; they exist when the mechanism is
  compiled.
\<close>

definition peer_action :: "platform \<Rightarrow> config \<Rightarrow> u8 \<Rightarrow> pp_action option" where
  "peer_action P cf mt =
     (if \<not> CONFIG_HAS_P2P cf then None
      else if mt = PPM_PDELAY_REQ then Some (st_com_peer_handle_preq P)
      else if mt = PPM_PDELAY_RESP then Some (st_com_peer_handle_pres P)
      else if mt = PPM_PDELAY_R_FUP then Some (st_com_peer_handle_pres_followup P)
      else None)"

definition run_action ::
  "(config \<Rightarrow> u8 \<Rightarrow> pp_action option) \<Rightarrow> s32 \<Rightarrow> pp_globals \<Rightarrow> nat \<Rightarrow> u8 list \<Rightarrow> nat \<Rightarrow> s32 \<times> pp_globals" where
  "run_action actions e ppg i buf len =
     (case actions (g_config ppg) (hdr_messageType (received_ptp_header (INST ppg i))) of
        Some f \<Rightarrow> f ppg i buf len
      | None \<Rightarrow> (e, ppg))"

section \<open>Slave and uncalibrated\<close>

text \<open>A hook that may take over: 1 is done, a negative value an error, otherwise the default follows.\<close>

definition hook_takes_over ::
  "hook \<Rightarrow> (pp_globals \<Rightarrow> pp_globals) \<Rightarrow> pp_globals \<Rightarrow> nat \<Rightarrow> s32 \<times> pp_globals" where
  "hook_takes_over h dflt ppg i =
     (case h of
        Some f \<Rightarrow> let (ret, ppg) = f ppg i
                  in if ret = 1 then (0, ppg) else if sint ret < 0 then (ret, ppg) else (0, dflt ppg)
      | None \<Rightarrow> (0, dflt ppg))"

definition slave_handle_sync :: "platform \<Rightarrow> pp_action" where
  "slave_handle_sync P ppg i buf len =
     (if \<not> msg_from_current_master ppg i then (0, ppg)
      else let hdr = received_ptp_header (INST ppg i);
               ppg = upd_inst i (\<lambda>ppi. ppi\<lparr> ppi_t2 := ppi_last_rcv_time ppi \<rparr>) ppg;
               originTimestamp = msg_unpack_sync buf
           in if hdr_flagField0 hdr AND PP_TWO_STEP_FLAG \<noteq> 0
              then (0, upd_inst i (\<lambda>ppi. ppi\<lparr> ppi_flags := ppi_flags ppi OR PPI_FLAG_WAITING_FOR_F_UP,
                          recv_sync_sequence_id := hdr_sequenceId hdr, ppi_t1 := hdr_cField hdr \<rparr>) ppg)
              else let ppg = upd_inst i (\<lambda>ppi. ppi\<lparr>
                          ppi_flags := ppi_flags ppi AND NOT PPI_FLAG_WAITING_FOR_F_UP,
                          ppi_t1 := pp_time_add originTimestamp (hdr_cField hdr), ppi_syncCF := 0 \<rparr>) ppg;
                       (bad, ppg) = timestamps_incorrect EC_handle_sync 3 ppg i
                   in if bad then (0, ppg)
                      else hook_takes_over (h_handle_sync (ext_hooks P i))
                             (\<lambda>ppg. pp_servo_got_sync P ppg i True) ppg i)"

definition slave_handle_followup :: "platform \<Rightarrow> pp_action" where
  "slave_handle_followup P ppg i buf len =
     (let hdr = received_ptp_header (INST ppg i)
      in if \<not> msg_from_current_master ppg i then (0, ppg)
         else if ppi_flags (INST ppg i) AND PPI_FLAG_WAITING_FOR_F_UP = 0 then (0, ppg)
         else if recv_sync_sequence_id (INST ppg i) \<noteq> hdr_sequenceId hdr then (0, ppg)
         else let preciseOriginTimestamp = msg_unpack_follow_up buf;
                  ppg = upd_inst i (\<lambda>ppi. ppi\<lparr>
                     ppi_flags := ppi_flags ppi AND NOT PPI_FLAG_WAITING_FOR_F_UP,
                     ppi_t1 := pp_time_add (pp_time_add (ppi_t1 ppi) preciseOriginTimestamp) (hdr_cField hdr),
                     ppi_syncCF := scaled_nsecs (hdr_cField hdr) \<rparr>) ppg;
                  (bad, ppg) = timestamps_incorrect EC_handle_followup 3 ppg i
              in if bad then (0, ppg)
                 else hook_takes_over (h_handle_followup (ext_hooks P i))
                        (\<lambda>ppg. pp_servo_got_sync P ppg i False) ppg i)"

definition slave_handle_response :: "platform \<Rightarrow> pp_action" where
  "slave_handle_response P ppg i buf len =
     (let resp = msg_unpack_delay_resp buf; hdr = received_ptp_header (INST ppg i);
          pid = por_portIdentity (ppi_portDS (INST ppg i)); rid = resp_requestingPortIdentity resp
      in if bmc_idcmp (clockIdentity pid) (clockIdentity rid) \<noteq> 0 \<or>
            sent_seq (INST ppg i) ! unat PPM_DELAY_REQ \<noteq> hdr_sequenceId hdr \<or>
            portNumber pid \<noteq> portNumber rid \<or> \<not> msg_from_current_master ppg i
         then (0, ppg)
         else let ppg = upd_inst i (\<lambda>ppi. ppi\<lparr> ppi_t4 := resp_receiveTimestamp resp \<rparr>) ppg;
                  t4 = correct_t4 P ppg i (resp_receiveTimestamp resp);
                  ppg = upd_inst i (\<lambda>ppi. ppi\<lparr> ppi_t4 := t4 \<rparr>) ppg;
                  (ret, ppg) = (case h_handle_resp (ext_hooks P i) of
                                  Some f \<Rightarrow> f ppg i
                                | None \<Rightarrow> let (ok, ppg) = pp_servo_got_resp P ppg i True
                                          in (if ok then 1 else 0, ppg));
                  ppg = (if ret = 0 \<and>
                            por_logMinDelayReqInterval (ppi_portDS (INST ppg i)) \<noteq> hdr_logMessageInterval hdr
                         then pp_timeout_init (upd_inst i (\<lambda>ppi. ppi\<lparr> ppi_portDS := (ppi_portDS ppi)\<lparr>
                                por_logMinDelayReqInterval := hdr_logMessageInterval hdr \<rparr> \<rparr>) ppg) i
                         else ppg)
              in (0, ppg))"

definition slave_handle_announce :: "platform \<Rightarrow> pp_action" where
  "slave_handle_announce P ppg i buf len =
     (let (ret, ppg) = st_com_handle_announce P ppg i
      in if ret \<noteq> 0 then (ret, ppg)
         else let (fm, ppg) = bmc_store_frgn_master P ppg i buf
              in if \<not> is_externalPortConfigurationEnabled ppg \<and> \<not> msg_from_current_master ppg i
                 then (0, if \<not> is_masterOnly ppg i then snd (bmc_add_frgn_master P ppg i fm) else ppg)
                 else let ppg = (if \<not> is_externalPortConfigurationEnabled ppg
                                 then pp_timeout_reset P ppg i PP_TO_ANN_RECEIPT else ppg);
                          (reg, ppg) = bmc_add_frgn_master P ppg i fm
                      in (0, case reg of
                               Some k \<Rightarrow> upd_inst i (\<lambda>ppi. ppi\<lparr> ppi_activePeer := ppi_peer ppi \<rparr>)
                                          (bmc_s1 P ppg i (frgn_master (INST ppg i) ! k) (i, k))
                             | None \<Rightarrow> ppg))"

definition slave_actions :: "platform \<Rightarrow> config \<Rightarrow> u8 \<Rightarrow> pp_action option" where
  "slave_actions P cf mt =
     (if mt = PPM_SYNC then Some (slave_handle_sync P)
      else if mt = PPM_FOLLOW_UP then Some (slave_handle_followup P)
      else if mt = PPM_DELAY_RESP then Some (slave_handle_response P)
      else if mt = PPM_ANNOUNCE then Some (slave_handle_announce P)
      else if mt = PPM_SIGNALING then Some (st_com_handle_signaling P)
      else peer_action P cf mt)"

text \<open>The change between UNCALIBRATED and SLAVE at the start of \<^verbatim>\<open>pp_slave\<close>.\<close>

definition slave_upgrade :: "platform \<Rightarrow> bool \<Rightarrow> pp_globals \<Rightarrow> nat \<Rightarrow> pp_globals" where
  "slave_upgrade P uncalibrated ppg i =
     (let ppg =
        (if uncalibrated
         then (case h_ready_for_slave (ext_hooks P i) of
                 Some f \<Rightarrow> let (ready, ppg) = f ppg i in if ready \<noteq> 0 then set_next_state i PPS_SLAVE ppg else ppg
               | None \<Rightarrow> set_next_state i PPS_SLAVE ppg)
         else if par_newGrandmaster (g_parentDS ppg)
         then set_next_state i PPS_UNCALIBRATED
                (ppg\<lparr> g_parentDS := (g_parentDS ppg)\<lparr> par_newGrandmaster := False \<rparr> \<rparr>)
         else ppg)
      in if is_externalPortConfigurationEnabled ppg \<and> ppi_next_state (INST ppg i) = PPS_SLAVE \<and>
            ppi_desiredState (INST ppg i) = PPS_UNCALIBRATED
         then set_next_state i PPS_UNCALIBRATED ppg else ppg)"

text \<open>The label \<^verbatim>\<open>out\<close> of \<^verbatim>\<open>pp_slave\<close>.\<close>

definition slave_out :: "platform \<Rightarrow> s32 \<Rightarrow> pp_globals \<Rightarrow> nat \<Rightarrow> s32 \<times> pp_globals" where
  "slave_out P ret ppg i =
     (let ret = (if ret = PP_SEND_NO_STAMP then PP_SEND_OK else ret);
          d = (if is_externalPortConfigurationEnabled ppg then pp_next_delay_1 P ppg i PP_TO_REQUEST
               else pp_next_delay_2 P ppg i PP_TO_ANN_RECEIPT PP_TO_REQUEST)
      in (ret, set_next_delay i d ppg))"

definition pp_slave :: "platform \<Rightarrow> pp_action" where
  "pp_slave P ppg i buf len =
     (let uncalibrated = (ppi_state (INST ppg i) = PPS_UNCALIBRATED);
          ppg = slave_upgrade P uncalibrated ppg i;
          (ret, ppg) =
            (if uncalibrated \<and> ppi_is_new_state (INST ppg i)
             then let ppg = upd_inst i (\<lambda>ppi. ppi\<lparr> ppi_t1 := pp_time_0 \<rparr>) ppg;
                      ppg = pp_servo_init P ppg i
                  in (case h_new_slave (ext_hooks P i) of Some f \<Rightarrow> f ppg i buf len | None \<Rightarrow> (PP_SEND_OK, ppg))
             else (PP_SEND_OK, ppg))
      in if ret \<noteq> PP_SEND_OK then slave_out P ret ppg i
         else let (_, ppg) = pp_lib_may_issue_request P ppg i;
                  (ret, ppg) = run_action (slave_actions P) ret ppg i buf len;
                  ppg = (if \<not> is_externalPortConfigurationEnabled ppg
                         then st_com_check_announce_receive_timeout P ppg i else ppg)
              in slave_out P ret ppg i)"

section \<open>Listening\<close>

text \<open>The announce handler of the listening and the master state are the same code.\<close>

definition listening_handle_announce :: "platform \<Rightarrow> pp_action" where
  "listening_handle_announce P ppg i buf len =
     (let (ret, ppg) = st_com_handle_announce P ppg i
      in if ret \<noteq> 0 then (ret, ppg)
         else if \<not> is_masterOnly ppg i
         then let (fm, ppg) = bmc_store_frgn_master P ppg i buf
              in (0, snd (bmc_add_frgn_master P ppg i fm))
         else (0, ppg))"

definition listening_actions :: "platform \<Rightarrow> config \<Rightarrow> u8 \<Rightarrow> pp_action option" where
  "listening_actions P cf mt =
     (if mt = PPM_ANNOUNCE then Some (listening_handle_announce P)
      else if mt = PPM_SIGNALING then Some (st_com_handle_signaling P)
      else peer_action P cf mt)"

definition listening_out :: "platform \<Rightarrow> s32 \<Rightarrow> pp_globals \<Rightarrow> nat \<Rightarrow> s32 \<times> pp_globals" where
  "listening_out P e ppg i =
     (let ppg = (if e \<noteq> 0 then set_next_state i PPS_FAULTY ppg else ppg);
          d = (if is_delayMechanismP2P ppg i then pp_next_delay_2 P ppg i PP_TO_ANN_RECEIPT PP_TO_REQUEST
               else pp_next_delay_1 P ppg i PP_TO_ANN_RECEIPT)
      in (e, set_next_delay i d ppg))"

definition listening_epc_out :: "platform \<Rightarrow> s32 \<Rightarrow> pp_globals \<Rightarrow> nat \<Rightarrow> s32 \<times> pp_globals" where
  "listening_epc_out P e ppg i =
     (e, set_next_delay i (if is_delayMechanismP2P ppg i then pp_next_delay_1 P ppg i PP_TO_REQUEST else INT_MAX) ppg)"

definition pp_listening :: "platform \<Rightarrow> pp_action" where
  "pp_listening P ppg i buf len =
     (let (e, ppg) = (case h_listening (ext_hooks P i) of Some f \<Rightarrow> f ppg i buf len | None \<Rightarrow> (0, ppg))
      in if e \<noteq> 0
         then if is_externalPortConfigurationEnabled ppg then listening_epc_out P e ppg i
              else listening_out P e ppg i
         else let (e, ppg) = (if is_delayMechanismP2P ppg i then pp_lib_may_issue_request P ppg i else (e, ppg));
                  (e, ppg) = run_action (listening_actions P) e ppg i buf len
              in if \<not> is_externalPortConfigurationEnabled ppg
                 then listening_out P e (st_com_check_announce_receive_timeout P ppg i) i
                 else listening_epc_out P e ppg i)"

section \<open>Passive\<close>

text \<open>
  The Erbest is a pointer into the table taken before the announce is added: the comparison afterwards
  reads what is in that slot then.
\<close>

definition passive_handle_announce :: "platform \<Rightarrow> pp_action" where
  "passive_handle_announce P ppg i buf len =
     (let best = frgn_rec_best (INST ppg i);
          (ret, ppg) = st_com_handle_announce P ppg i
      in if ret \<noteq> 0 then (ret, ppg)
         else let ppg = (if \<not> is_masterOnly ppg i
                         then let (fm, ppg) = bmc_store_frgn_master P ppg i buf
                              in snd (bmc_add_frgn_master P ppg i fm)
                         else ppg)
              in (0, if \<not> is_externalPortConfigurationEnabled ppg \<and> best \<noteq> - 1 \<and>
                        bmc_pidcmp (hdr_sourcePortIdentity (received_ptp_header (INST ppg i)))
                          (fm_sourcePortIdentity (frgn_master (INST ppg i) ! nat (sint best))) = 0
                     then pp_timeout_reset P ppg i PP_TO_ANN_RECEIPT else ppg))"

definition passive_actions :: "platform \<Rightarrow> config \<Rightarrow> u8 \<Rightarrow> pp_action option" where
  "passive_actions P cf mt =
     (if mt = PPM_ANNOUNCE then Some (passive_handle_announce P) else peer_action P cf mt)"

definition pp_passive :: "platform \<Rightarrow> pp_action" where
  "pp_passive P ppg i buf len =
     (let (e, ppg) = (if is_delayMechanismP2P ppg i then pp_lib_may_issue_request P ppg i else (0, ppg));
          (e, ppg) = run_action (passive_actions P) e ppg i buf len
      in if is_externalPortConfigurationEnabled ppg
         then (e, set_next_delay i (if is_delayMechanismP2P ppg i then pp_next_delay_1 P ppg i PP_TO_REQUEST
                                    else INT_MAX) ppg)
         else let ppg = st_com_check_announce_receive_timeout P ppg i;
                  ppg = set_next_delay i (if is_delayMechanismP2P ppg i
                                          then pp_next_delay_2 P ppg i PP_TO_ANN_RECEIPT PP_TO_REQUEST
                                          else pp_next_delay_1 P ppg i PP_TO_ANN_RECEIPT) ppg
              in (e, if e \<noteq> 0 then set_next_state i PPS_FAULTY ppg else ppg))"

section \<open>Master and pre-master\<close>

definition master_handle_announce :: "platform \<Rightarrow> pp_action" where
  "master_handle_announce P ppg i buf len =
     (let (ret, ppg) = st_com_handle_announce P ppg i
      in if ret \<noteq> 0 then (ret, ppg)
         else if \<not> is_masterOnly ppg i
         then let (fm, ppg) = bmc_store_frgn_master P ppg i buf
              in (0, snd (bmc_add_frgn_master P ppg i fm))
         else (0, ppg))"

definition master_handle_delay_request :: "platform \<Rightarrow> pp_action" where
  "master_handle_delay_request P ppg i buf len =
     (if is_delayMechanismE2E ppg i \<and> ppi_state (INST ppg i) = PPS_MASTER
      then let (e, ppg) = msg_issue_delay_resp P ppg i (ppi_last_rcv_time (INST ppg i))
           in if e = 0
              then let ppg = (case h_handle_dreq (ext_hooks P i) of Some f \<Rightarrow> snd (f ppg i) | None \<Rightarrow> ppg)
                   in (0, upd_inst i (\<lambda>ppi. ppi\<lparr> ppi_activePeer := ppi_peer ppi \<rparr>) ppg)
              else (0, ppg)
      else (0, ppg))"

definition master_actions :: "platform \<Rightarrow> config \<Rightarrow> u8 \<Rightarrow> pp_action option" where
  "master_actions P cf mt =
     (if mt = PPM_DELAY_REQ then Some (master_handle_delay_request P)
      else if mt = PPM_ANNOUNCE then Some (master_handle_announce P)
      else if mt = PPM_SIGNALING then Some (st_com_handle_signaling P)
      else peer_action P cf mt)"

definition master_delay :: "platform \<Rightarrow> bool \<Rightarrow> pp_globals \<Rightarrow> nat \<Rightarrow> s32" where
  "master_delay P pre ppg i =
     (if pre
      then if is_externalPortConfigurationEnabled ppg
           then if is_delayMechanismP2P ppg i then pp_next_delay_1 P ppg i PP_TO_REQUEST else INT_MAX
           else if is_delayMechanismP2P ppg i then pp_next_delay_2 P ppg i PP_TO_QUALIFICATION PP_TO_REQUEST
                else pp_next_delay_1 P ppg i PP_TO_QUALIFICATION
      else if is_delayMechanismP2P ppg i then pp_next_delay_3 P ppg i PP_TO_ANN_SEND PP_TO_SYNC_SEND PP_TO_REQUEST
           else pp_next_delay_2 P ppg i PP_TO_ANN_SEND PP_TO_SYNC_SEND)"

definition pp_master :: "platform \<Rightarrow> pp_action" where
  "pp_master P ppg i buf len =
     (let pre = (ppi_state (INST ppg i) = PPS_PRE_MASTER)
      in if \<not> is_externalPortConfigurationEnabled ppg \<and> pre \<and> pp_timeout P ppg i PP_TO_QUALIFICATION
         then let ppg = set_next_state i PPS_MASTER ppg;
                  ppg = pp_timeout_reset_N P ppg i PP_TO_SYNC_SEND 0;
                  ppg = pp_timeout_reset_N P ppg i PP_TO_ANN_SEND 0
              in (0, set_next_delay i 0 ppg)
         else
           let ppg = (if \<not> pre
                      then snd (pp_lib_may_issue_announce P (snd (pp_lib_may_issue_sync P ppg i)) i) else ppg);
               ppg = (if is_delayMechanismP2P ppg i then snd (pp_lib_may_issue_request P ppg i) else ppg);
               (e, ppg) = run_action (master_actions P) 0 ppg i buf len;
               ppg = (if \<not> is_externalPortConfigurationEnabled ppg \<and> e = PP_SEND_OK \<and> is_slaveOnly ppg
                      then set_next_state i PPS_LISTENING ppg else ppg);
               e = (if e = PP_SEND_ERROR \<or> e = PP_SEND_NO_STAMP then 0 else e)
           in (e, set_next_delay i (master_delay P pre ppg i) ppg))"

section \<open>Faulty and disabled\<close>

definition TIMEOUT_FAULTY_STATE_MS :: s32 where "TIMEOUT_FAULTY_STATE_MS = 60 * 1000"

text \<open>A clock of class below 128 cannot be a slave when its ports are configured from outside.\<close>

definition slave_not_allowed :: "pp_globals \<Rightarrow> nat \<Rightarrow> bool" where
  "slave_not_allowed ppg i \<longleftrightarrow>
     clockClass (dd_clockQuality (g_defaultDS ppg)) < 128 \<and>
     (ppi_desiredState (INST ppg i) = PPS_SLAVE \<or> ppi_desiredState (INST ppg i) = PPS_UNCALIBRATED)"

definition pp_faulty :: "platform \<Rightarrow> pp_action" where
  "pp_faulty P ppg i buf len =
     (if is_externalPortConfigurationEnabled ppg \<and> slave_not_allowed ppg i
      then (0, set_next_delay i 1000 ppg)
      else if \<not> ppi_is_new_state (INST ppg i) \<and> pp_timeout P ppg i PP_TO_IN_STATE
      then (0, set_next_state i PPS_INITIALIZING (pp_timeout_disable P ppg i PP_TO_IN_STATE))
      else let ppg = (if ppi_is_new_state (INST ppg i)
                      then pp_timeout_set P ppg i PP_TO_IN_STATE TIMEOUT_FAULTY_STATE_MS else ppg)
           in (0, set_next_delay i (pp_next_delay_1 P ppg i PP_TO_IN_STATE) ppg))"

definition PP_DEFAULT_NEXT_DELAY_MS :: s32 where "PP_DEFAULT_NEXT_DELAY_MS = 1000"

definition pp_disabled :: pp_action where
  "pp_disabled ppg i buf len = (0, set_next_delay i PP_DEFAULT_NEXT_DELAY_MS ppg)"

section \<open>Initializing\<close>

definition init_parent_ds :: "pp_globals \<Rightarrow> pp_globals" where
  "init_parent_ds ppg =
     (let def = g_defaultDS ppg
      in ppg\<lparr> g_parentDS := (g_parentDS ppg)\<lparr>
           par_parentPortIdentity := \<lparr> clockIdentity = dd_clockIdentity def, portNumber = 0 \<rparr>,
           par_observedParentOffsetScaledLogVariance := 0xffff,
           par_observedParentClockPhaseChangeRate := 0x7fffffff,
           par_grandmasterIdentity := dd_clockIdentity def,
           par_grandmasterClockQuality := dd_clockQuality def,
           par_grandmasterPriority1 := dd_priority1 def,
           par_grandmasterPriority2 := dd_priority2 def \<rparr> \<rparr>)"

text \<open>
  The address of port 0 from the one of port \<open>remainder\<close>: a subtraction with borrow from the last byte,
  on the bytes in reverse order.
\<close>

fun mac_minus :: "u8 \<Rightarrow> u8 list \<Rightarrow> u8 list" where
  "mac_minus remainder [] = []"
| "mac_minus remainder (m # ms) = (m - remainder) # mac_minus (if m \<ge> remainder then 0 else 1) ms"

definition mac_port1 :: "pp_globals \<Rightarrow> nat \<Rightarrow> u8 list" where
  "mac_port1 ppg i =
     (let mac = ppi_gen_addr (INST ppg i); portIdx = word_of_nat i :: u8
      in if get_numberPorts ppg > 1 \<and> portIdx \<noteq> 0 then rev (mac_minus portIdx (rev mac)) else mac)"

text \<open>The clock identity of a MAC address.\<close>

definition cid_of_mac :: "u8 list \<Rightarrow> ClockIdentity" where
  "cid_of_mac mac = ClockId (mac ! 0) (mac ! 1) (mac ! 2) 0xff 0xfe (mac ! 3) (mac ! 4) (mac ! 5)"

definition PP_VERSION_PTP :: u8 where "PP_VERSION_PTP = 2"
definition PP_MINOR_VERSION_PTP :: u8 where "PP_MINOR_VERSION_PTP = 0"
definition PP_FOREIGN_MASTER_TIME_WINDOW :: s32 where "PP_FOREIGN_MASTER_TIME_WINDOW = 4"
definition PPSI_EXT_NONE :: s32 where "PPSI_EXT_NONE = 0"

definition init_failure :: "pp_globals \<Rightarrow> nat \<Rightarrow> s32 \<times> pp_globals" where
  "init_failure ppg i = (0, set_next_delay i 1000 ppg)"

text \<open>No other port has left INITIALIZING with its link up.\<close>

definition first_to_initialize :: "pp_globals \<Rightarrow> bool" where
  "first_to_initialize ppg \<longleftrightarrow> \<not> (get_numberPorts ppg > 1 \<and>
     list_ex (\<lambda>j. ppi_state (INST ppg j) \<noteq> PPS_INITIALIZING \<and> link_up (INST ppg j)) [0..<get_numberPorts ppg])"

definition init_port_ds :: "platform \<Rightarrow> pp_globals \<Rightarrow> nat \<Rightarrow> pp_globals" where
  "init_port_ds P ppg i =
     (let cid = dd_clockIdentity (g_defaultDS ppg);
          ppg = upd_inst i (\<lambda>ppi. ppi\<lparr> ppi_portDS := (ppi_portDS ppi)\<lparr>
                  por_portIdentity := \<lparr> clockIdentity = cid, portNumber = word_of_nat (1 + i) \<rparr>,
                  por_versionNumber := PP_VERSION_PTP, por_minorVersionNumber := PP_MINOR_VERSION_PTP,
                  por_logAnnounceInterval := ucast (cfg_announce_interval (ppi_cfg ppi)),
                  por_announceReceiptTimeout := ucast (cfg_announce_receipt_timeout (ppi_cfg ppi)),
                  por_logSyncInterval := ucast (cfg_sync_interval (ppi_cfg ppi)),
                  por_logMinDelayReqInterval := ucast (cfg_min_delay_req_interval (ppi_cfg ppi)),
                  por_logMinPdelayReqInterval := ucast (cfg_min_pdelay_req_interval (ppi_cfg ppi)) \<rparr> \<rparr>) ppg;
          ppg = pp_timeout_init ppg i;
          ppg = pp_timeout_setall P ppg i
      in upd_inst i (\<lambda>ppi. ppi\<lparr>
           frgn_master_time_window_ms :=
             pp_timeout_log_to_ms (por_logAnnounceInterval (ppi_portDS ppi)) * PP_FOREIGN_MASTER_TIME_WINDOW,
           ppi_pdstate := PP_PDSTATE_NONE,
           ppi_extState := (if ppi_protocol_extension ppi = PPSI_EXT_NONE then PP_EXSTATE_DISABLE
                            else PP_EXSTATE_ACTIVE) \<rparr>) ppg)"

definition init_next_state :: "pp_globals \<Rightarrow> nat \<Rightarrow> pp_std_states" where
  "init_next_state ppg i =
     (if is_externalPortConfigurationEnabled ppg
      then if slave_not_allowed ppg i then PPS_FAULTY
           else if ppi_desiredState (INST ppg i) = PPS_SLAVE then PPS_UNCALIBRATED
           else ppi_desiredState (INST ppg i)
      else PPS_LISTENING)"

text \<open>The identity of the clock, which the first port sets.\<close>

definition init_clock_identity :: "pp_globals \<Rightarrow> nat \<Rightarrow> pp_globals" where
  "init_clock_identity ppg i =
     (if first_to_initialize ppg
      then init_parent_ds (ppg\<lparr> g_defaultDS := (g_defaultDS ppg)\<lparr>
             dd_clockIdentity := cid_of_mac (mac_port1 ppg i) \<rparr> \<rparr>)
      else ppg)"

definition init_tx_header :: "nat \<Rightarrow> pp_globals \<Rightarrow> pp_globals" where
  "init_tx_header i ppg = upd_inst i (\<lambda>ppi. ppi\<lparr> ppi_tx_ptp := msg_init_header ppg i (ppi_tx_ptp ppi) \<rparr>) ppg"

definition pp_initializing :: "platform \<Rightarrow> pp_action" where
  "pp_initializing P ppg i buf len =
     (if opt_clock_quality_clockClass (rt_opts ppg) = PP_PTP_CLASS_GM_LOCKED \<and>
         clockClass (dd_clockQuality (g_defaultDS ppg)) \<noteq> PP_PTP_CLASS_GM_LOCKED
      then init_failure ppg i
      else let (ret, addr) = n_init P ppg i;
               ppg = upd_inst i (\<lambda>ppi. ppi\<lparr> ppi_gen_addr := addr \<rparr>) ppg
      in if sint ret < 0 then init_failure ppg i
      else let ppg = init_port_ds P (init_clock_identity ppg i) i;
               (ret, ppg) = (case h_init (ext_hooks P i) of Some f \<Rightarrow> f ppg i buf len | None \<Rightarrow> (0, ppg))
      in if ret \<noteq> 0 then init_failure ppg i
      else let ppg = init_tx_header i ppg
           in (0, set_next_state i (init_next_state ppg i) ppg))"

end
