(* ===== verification/Fsm.thy ===== *)
theory Fsm
  imports States
begin

text \<open>
  The state machine of a port (\<^verbatim>\<open>fsm.c\<close> and the table of \<^verbatim>\<open>proto-standard/fsm-table.c\<close>).  One activation
  checks the received frame, runs the function of the current state, the decision of the best master
  algorithm when it is due and the state machine of the extension, and returns the delay in ms to the
  next activation.  The entry of the table for \<^const>\<open>PPS_END_OF_TABLE\<close> is a null pointer: a call through
  it is \<^const>\<open>None\<close>.
\<close>

section \<open>The table of states\<close>

definition pp_state_table :: "platform \<Rightarrow> pp_std_states \<Rightarrow> pp_action option" where
  "pp_state_table P s =
     (case s of
        PPS_END_OF_TABLE \<Rightarrow> None
      | PPS_INITIALIZING \<Rightarrow> Some (pp_initializing P)
      | PPS_FAULTY \<Rightarrow> Some (pp_faulty P)
      | PPS_DISABLED \<Rightarrow> Some pp_disabled
      | PPS_LISTENING \<Rightarrow> Some (pp_listening P)
      | PPS_PRE_MASTER \<Rightarrow> Some (pp_master P)
      | PPS_MASTER \<Rightarrow> Some (pp_master P)
      | PPS_PASSIVE \<Rightarrow> Some (pp_passive P)
      | PPS_UNCALIBRATED \<Rightarrow> Some (pp_slave P)
      | PPS_SLAVE \<Rightarrow> Some (pp_slave P))"

text \<open>The item of the table is the state it is for; no item yet is the null pointer.\<close>

definition get_current_state_table_item :: "pp_instance \<Rightarrow> pp_instance" where
  "get_current_state_table_item ppi =
     (if ppi_current_state_item ppi = Some (ppi_state ppi) then ppi\<lparr> ppi_is_new_state := False \<rparr>
      else ppi\<lparr> ppi_is_new_state := True, ppi_current_state_item := Some (ppi_state ppi) \<rparr>)"

section \<open>Leaving a state\<close>

text \<open>The states of the model are all below \<^verbatim>\<open>PPS_LAST_STATE\<close>, so the timers are not reset.\<close>

definition pp_leave_current_state :: "platform \<Rightarrow> pp_globals \<Rightarrow> nat \<Rightarrow> s32 \<times> pp_globals" where
  "pp_leave_current_state P ppg i =
     (let ppg = (case h_state_change (ext_hooks P i) of
                   Some state_change \<Rightarrow>
                     state_change
                       (if ppi_state (INST ppg i) = PPS_MASTER \<or> ppi_state (INST ppg i) = PPS_SLAVE
                        then upd_inst i (\<lambda>ppi. ppi\<lparr> ppi_activePeer := replicate 6 0 \<rparr>) ppg else ppg) i
                 | None \<Rightarrow> ppg);
          ppg = upd_inst i (\<lambda>ppi. ppi\<lparr> ppi_state := ppi_next_state ppi \<rparr>) ppg;
          ppg = (if ppi_state (INST ppg i) = PPS_DISABLED
                 then upd_inst i (\<lambda>ppi. ppi\<lparr> ppi_pdstate := PP_PDSTATE_NONE, ppi_extState := PP_EXSTATE_DISABLE \<rparr>) ppg
                 else ppg)
      in (0, upd_inst i (\<lambda>ppi. ppi\<lparr> ppi_flags := ppi_flags ppi AND NOT PPI_FLAGS_WAITING \<rparr>) ppg))"

section \<open>Checks of a received frame\<close>

definition PP_ALTERNATE_MASTER_FLAG :: u8 where "PP_ALTERNATE_MASTER_FLAG = 1"
definition PP_MANAGEMENT_LENGTH :: u16 where "PP_MANAGEMENT_LENGTH = 48"

definition pp_packet_prefilter :: "pp_globals \<Rightarrow> nat \<Rightarrow> s32" where
  "pp_packet_prefilter ppg i =
     (let ppi = INST ppg i; hdr = received_ptp_header ppi; pid = por_portIdentity (ppi_portDS ppi)
      in if hdr_domainNumber hdr \<noteq> dd_domainNumber (g_defaultDS ppg) then - 1
         else if hdr_flagField0 hdr AND PP_ALTERNATE_MASTER_FLAG \<noteq> 0 then - 1
         else if hdr_sourcePortIdentity hdr = pid then - 1
         else if clockIdentity (hdr_sourcePortIdentity hdr) = clockIdentity pid \<and> get_numberPorts ppg > 1 \<and>
                 hdr_messageType hdr \<noteq> PPM_ANNOUNCE then - 1
         else if ppi_state ppi = PPS_INITIALIZING \<or> ppi_state ppi = PPS_DISABLED \<or> ppi_state ppi = PPS_FAULTY
         then - 1 else 0)"

definition type_length :: "u8 \<Rightarrow> u16" where
  "type_length mt =
     (if mt = PPM_SYNC then PP_SYNC_LENGTH
      else if mt = PPM_DELAY_REQ then PP_DELAY_REQ_LENGTH
      else if mt = PPM_PDELAY_REQ then PP_PDELAY_REQ_LENGTH
      else if mt = PPM_PDELAY_RESP then PP_PDELAY_RESP_LENGTH
      else if mt = PPM_FOLLOW_UP then PP_FOLLOW_UP_LENGTH
      else if mt = PPM_DELAY_RESP then PP_DELAY_RESP_LENGTH
      else if mt = PPM_PDELAY_R_FUP then PP_PDELAY_RESP_FOLLOW_UP_LENGTH
      else if mt = PPM_ANNOUNCE then PP_ANNOUNCE_LENGTH
      else if mt = PPM_SIGNALING then word_of_nat PP_HEADER_LENGTH
      else if mt = PPM_MANAGEMENT then PP_MANAGEMENT_LENGTH
      else 0)"

definition fsm_unpack_verify_frame :: "pp_globals \<Rightarrow> nat \<Rightarrow> u8 list \<Rightarrow> nat \<Rightarrow> s32 \<times> pp_globals" where
  "fsm_unpack_verify_frame ppg i buf len =
     (let msgtype = (if len \<noteq> 0 then (buf ! 0) AND 0x0F else 0)
      in if PP_NR_MESSAGES_TYPES \<le> unat msgtype \<or> len < unat (type_length msgtype) then (1, ppg)
         else if (buf ! 1) AND 0x0F \<noteq> 2 then (1, ppg)
         else (0, upd_inst i (msg_unpack_header buf) ppg))"

section \<open>Protocol detection of the extensions\<close>

definition set_pdstate :: "nat \<Rightarrow> pp_pdstate \<Rightarrow> pp_globals \<Rightarrow> pp_globals" where
  "set_pdstate i s = upd_inst i (\<lambda>ppi. ppi\<lparr> ppi_pdstate := s \<rparr>)"

definition set_extState :: "nat \<Rightarrow> pp_exstate \<Rightarrow> pp_globals \<Rightarrow> pp_globals" where
  "set_extState i s = upd_inst i (\<lambda>ppi. ppi\<lparr> ppi_extState := s \<rparr>)"

definition ext_changed :: "platform \<Rightarrow> pp_globals \<Rightarrow> nat \<Rightarrow> pp_globals" where
  "ext_changed P ppg i =
     (case h_extension_state_changed (ext_hooks P i) of Some f \<Rightarrow> snd (f ppg i) | None \<Rightarrow> ppg)"

definition pdstate_disable_extension :: "platform \<Rightarrow> pp_globals \<Rightarrow> nat \<Rightarrow> pp_globals" where
  "pdstate_disable_extension P ppg i =
     (let ppg = set_pdstate i PP_PDSTATE_FAILURE ppg
      in if ppi_extState (INST ppg i) = PP_EXSTATE_ACTIVE
         then ext_changed P (pp_servo_init P (set_extState i PP_EXSTATE_PTP ppg) i) i
         else ppg)"

definition pdstate_set_state_pdetection :: "platform \<Rightarrow> pp_globals \<Rightarrow> nat \<Rightarrow> pp_globals" where
  "pdstate_set_state_pdetection P ppg i =
     (if ppi_pdstate (INST ppg i) \<noteq> PP_PDSTATE_NONE
      then pp_timeout_reset P (set_pdstate i PP_PDSTATE_PDETECTION ppg) i PP_TO_PROT_STATE else ppg)"

definition pdstate_set_state_pdetected :: "platform \<Rightarrow> pp_globals \<Rightarrow> nat \<Rightarrow> pp_globals" where
  "pdstate_set_state_pdetected P ppg i =
     (if ppi_pdstate (INST ppg i) \<noteq> PP_PDSTATE_NONE
      then pp_timeout_reset P (set_pdstate i PP_PDSTATE_PDETECTED ppg) i PP_TO_PROT_STATE else ppg)"

definition pdstate_enable_extension :: "platform \<Rightarrow> pp_globals \<Rightarrow> nat \<Rightarrow> pp_globals" where
  "pdstate_enable_extension P ppg i =
     (if ppi_pdstate (INST ppg i) = PP_PDSTATE_NONE then ppg
      else let ppg = pp_timeout_reset P (set_pdstate i PP_PDSTATE_PDETECTED ppg) i PP_TO_PROT_STATE
           in if ppi_extState (INST ppg i) \<noteq> PP_EXSTATE_ACTIVE
              then ext_changed P (set_extState i PP_EXSTATE_ACTIVE ppg) i else ppg)"

section \<open>One activation\<close>

text \<open>
  The first part, up to the call of the state function: the frame that is left (the empty list is the
  null pointer) and its length.
\<close>

definition fsm_receive :: "pp_globals \<Rightarrow> nat \<Rightarrow> u8 list \<Rightarrow> s32 \<Rightarrow> u8 list \<times> nat \<times> pp_globals" where
  "fsm_receive ppg i buf len =
     (let (buf, len) = (if sint len < int PP_HEADER_LENGTH then ([], 0) else (buf, nat (sint len)));
          (err, ppg) = fsm_unpack_verify_frame ppg i buf len;
          (buf, len) = (if err \<noteq> 0 then ([], 0)
                        else (buf, unat (hdr_messageLength (received_ptp_header (INST ppg i)))));
          ppg = upd_inst i get_current_state_table_item ppg;
          ppg = upd_inst i (\<lambda>ppi. ppi\<lparr> ppi_next_state := ppi_state ppi, ppi_next_delay := 0 \<rparr>) ppg
      in if buf \<noteq> [] \<and> sint (pp_packet_prefilter ppg i) < 0 then ([], 0, ppg) else (buf, len, ppg))"

text \<open>The first frame after the initialisation starts the detection; without a frame the type says so.\<close>

definition fsm_note_frame :: "platform \<Rightarrow> pp_globals \<Rightarrow> nat \<Rightarrow> nat \<Rightarrow> pp_globals" where
  "fsm_note_frame P ppg i len =
     (if len \<noteq> 0
      then if ppi_pdstate (INST ppg i) = PP_PDSTATE_WAIT_MSG
           then let tmo = (case h_get_tmo_lstate_detection (ext_hooks P i) of Some f \<Rightarrow> f ppg i | None \<Rightarrow> 20000)
                in pdstate_set_state_pdetection P (pp_timeout_set P ppg i PP_TO_PROT_STATE tmo) i
           else ppg
      else upd_inst i (\<lambda>ppi. ppi\<lparr> received_ptp_header := (received_ptp_header ppi)\<lparr>
             hdr_messageType := PPM_NO_MESSAGE \<rparr> \<rparr>) ppg)"

definition state_changes :: "pp_globals \<Rightarrow> nat \<Rightarrow> bool" where
  "state_changes ppg i \<longleftrightarrow> ppi_state (INST ppg i) \<noteq> ppi_next_state (INST ppg i)"

definition fsm_check_protocol :: "platform \<Rightarrow> pp_globals \<Rightarrow> nat \<Rightarrow> pp_globals" where
  "fsm_check_protocol P ppg i =
     (if ppi_extState (INST ppg i) = PP_EXSTATE_ACTIVE \<and>
         (ppi_pdstate (INST ppg i) = PP_PDSTATE_PDETECTION \<or> ppi_pdstate (INST ppg i) = PP_PDSTATE_PDETECTED) \<and>
         pp_timeout P ppg i PP_TO_PROT_STATE
      then pdstate_disable_extension P ppg i else ppg)"

definition fsm_run_bmca :: "platform \<Rightarrow> pp_globals \<Rightarrow> nat \<Rightarrow> pp_globals" where
  "fsm_run_bmca P ppg i =
     (if bmca_execute (INST ppg i)
      then let ppg = upd_inst i (\<lambda>ppi. ppi\<lparr> bmca_execute := False \<rparr>) ppg;
               (s, ppg) = bmc_apply_state_descision P ppg i
           in set_next_state i s ppg
      else ppg)"

definition fsm_run_extension ::
  "platform \<Rightarrow> pp_globals \<Rightarrow> nat \<Rightarrow> u8 list \<Rightarrow> nat \<Rightarrow> s32 \<times> pp_globals" where
  "fsm_run_extension P ppg i buf len =
     (case h_run_ext_state_machine (ext_hooks P i) of
        None \<Rightarrow> (ppi_next_delay (INST ppg i), ppg)
      | Some f \<Rightarrow>
          let (delay, ppg) = f ppg i buf len
          in if state_changes ppg i then pp_leave_current_state P ppg i
             else let ppg = (if sint delay < sint (ppi_next_delay (INST ppg i)) then set_next_delay i delay ppg else ppg)
                  in (ppi_next_delay (INST ppg i), ppg))"

text \<open>The part after the call of the state function.\<close>

definition fsm_finish :: "platform \<Rightarrow> pp_globals \<Rightarrow> nat \<Rightarrow> u8 list \<Rightarrow> nat \<Rightarrow> s32 \<times> pp_globals" where
  "fsm_finish P ppg i buf len =
     (if state_changes ppg i then pp_leave_current_state P ppg i
      else let ppg = fsm_check_protocol P ppg i; execute = bmca_execute (INST ppg i);
               ppg = fsm_run_bmca P ppg i
           in if execute \<and> state_changes ppg i then pp_leave_current_state P ppg i
              else fsm_run_extension P ppg i buf len)"

definition pp_state_machine :: "platform \<Rightarrow> pp_globals \<Rightarrow> nat \<Rightarrow> u8 list \<Rightarrow> s32 \<Rightarrow> (s32 \<times> pp_globals) option" where
  "pp_state_machine P ppg i buf len =
     (let state = ppi_state (INST ppg i);
          (buf, len, ppg) = fsm_receive ppg i buf len
      in if state_changes ppg i then Some (pp_leave_current_state P ppg i)
         else let ppg = fsm_note_frame P ppg i len
              in (case pp_state_table P state of
                    None \<Rightarrow> None
                  | Some f1 \<Rightarrow> let (err, ppg) = f1 ppg i buf len in Some (fsm_finish P ppg i buf len)))"

end
