(* ===== verification/Wr_Msg.thy ===== *)
theory Wr_Msg
  imports Wrh_Servo Fsm
begin

text \<open>
  The White Rabbit extension, first part: the constants, the TLV of the announce messages and the
  signalling messages (\<^verbatim>\<open>wr-constants.h\<close>, \<^verbatim>\<open>wr-msg.c\<close>), the servo with the fixed delays
  (\<^verbatim>\<open>wr-servo.c\<close>) and the start and the failure of a handshake (\<^verbatim>\<open>common-fun.c\<close>).
\<close>

section \<open>Constants and the port data set\<close>

definition WR_IS_CALIBRATED :: u16 where "WR_IS_CALIBRATED = 0x04"
definition WR_IS_WR_MODE :: u16 where "WR_IS_WR_MODE = 0x08"
definition WR_NODE_MODE :: u16 where "WR_NODE_MODE = 0x03"
definition WR_DEFAULT_STATE_TIMEOUT_MS :: u32 where "WR_DEFAULT_STATE_TIMEOUT_MS = 300"
definition WR_PRESENT_TIMEOUT_MS :: s32 where "WR_PRESENT_TIMEOUT_MS = 1000"
definition WR_M_LOCK_TIMEOUT_MS :: s32 where "WR_M_LOCK_TIMEOUT_MS = 15000"
definition WR_S_LOCK_TIMEOUT_MS :: s32 where "WR_S_LOCK_TIMEOUT_MS = 15000"
definition WR_LOCKED_TIMEOUT_MS :: s32 where "WR_LOCKED_TIMEOUT_MS = 300"
definition WR_RESP_CALIB_REQ_TIMEOUT_MS :: s32 where "WR_RESP_CALIB_REQ_TIMEOUT_MS = 300"
definition WR_CALIBRATED_TIMEOUT_MS :: s32 where "WR_CALIBRATED_TIMEOUT_MS = 300"
definition WR_DEFAULT_CAL_PERIOD :: u32 where "WR_DEFAULT_CAL_PERIOD = 3000"
definition WR_STATE_RETRY :: u8 where "WR_STATE_RETRY = 3"
definition WR_ANNOUNCE_TLV_LENGTH :: u16 where "WR_ANNOUNCE_TLV_LENGTH = 0x0A"
definition WR_ANNOUNCE_LENGTH :: u16 where
  "WR_ANNOUNCE_LENGTH = PP_ANNOUNCE_LENGTH + WR_ANNOUNCE_TLV_LENGTH + 4"
definition TLV_TYPE_ORG_EXTENSION :: u16 where "TLV_TYPE_ORG_EXTENSION = 0x0003"
definition WR_TLV_ORGANIZATION_ID :: u32 where "WR_TLV_ORGANIZATION_ID = 0x080030"
definition WR_TLV_MAGIC_NUMBER :: u16 where "WR_TLV_MAGIC_NUMBER = 0xDEAD"
definition WR_TLV_WR_VERSION_NUMBER :: u16 where "WR_TLV_WR_VERSION_NUMBER = 0x01"
definition WR_SIGNALING_MSG_BASE_LENGTH :: u16 where "WR_SIGNALING_MSG_BASE_LENGTH = 48"
definition NON_WR :: u8 where "NON_WR = 0"
definition WR_M_ONLY :: u8 where "WR_M_ONLY = 1"
definition WR_S_ONLY :: u8 where "WR_S_ONLY = 2"
definition WR_M_AND_S :: u8 where "WR_M_AND_S = 3"
definition SLAVE_PRESENT :: u16 where "SLAVE_PRESENT = 0x1000"
definition LOCK :: u16 where "LOCK = 0x1001"
definition LOCKED :: u16 where "LOCKED = 0x1002"
definition CALIBRATE :: u16 where "CALIBRATE = 0x1003"
definition CALIBRATED :: u16 where "CALIBRATED = 0x1004"
definition WR_MODE_ON :: u16 where "WR_MODE_ON = 0x1005"
definition ANN_SUFIX :: u16 where "ANN_SUFIX = 0x2000"

lemmas wr_tlv_defs = TLV_TYPE_ORG_EXTENSION_def WR_TLV_ORGANIZATION_ID_def WR_TLV_MAGIC_NUMBER_def
  WR_TLV_WR_VERSION_NUMBER_def ANN_SUFIX_def
lemmas wr_msg_ids = SLAVE_PRESENT_def LOCK_def LOCKED_def CALIBRATE_def CALIBRATED_def WR_MODE_ON_def
lemmas wr_length_defs = WR_ANNOUNCE_LENGTH_def WR_ANNOUNCE_TLV_LENGTH_def WR_SIGNALING_MSG_BASE_LENGTH_def

definition WR_DSPOR :: "pp_globals \<Rightarrow> nat \<Rightarrow> wr_dsport" where
  "WR_DSPOR ppg i = ppi_wr (INST ppg i)"

definition upd_wr :: "nat \<Rightarrow> (wr_dsport \<Rightarrow> wr_dsport) \<Rightarrow> pp_globals \<Rightarrow> pp_globals" where
  "upd_wr i f = upd_inst i (\<lambda>ppi. ppi\<lparr> ppi_wr := f (ppi_wr ppi) \<rparr>)"

definition WRE_SRV :: "pp_globals \<Rightarrow> nat \<Rightarrow> wr_servo_ext" where
  "WRE_SRV ppg i = ppi_wr_servo_ext (INST ppg i)"

definition upd_wre :: "nat \<Rightarrow> (wr_servo_ext \<Rightarrow> wr_servo_ext) \<Rightarrow> pp_globals \<Rightarrow> pp_globals" where
  "upd_wre i f = upd_inst i (\<lambda>ppi. ppi\<lparr> ppi_wr_servo_ext := f (ppi_wr_servo_ext ppi) \<rparr>)"

definition set_wr_next :: "nat \<Rightarrow> wr_state \<Rightarrow> pp_globals \<Rightarrow> pp_globals" where
  "set_wr_next i s = upd_wr i (\<lambda>wrp. wrp\<lparr> wr_next_state := s \<rparr>)"

section \<open>The TLV\<close>

definition get16 :: "nat \<Rightarrow> u8 list \<Rightarrow> u16" where
  "get16 off buf = from_be (peek off 2 buf)"

text \<open>The words after the type and the length: organization, magic number and version; and their reading.\<close>

definition wr_put_id :: "nat \<Rightarrow> pp_instance \<Rightarrow> pp_instance" where
  "wr_put_id off ppi =
     (let ppi = tx_put off (be16 (ucast (drop_bit 8 WR_TLV_ORGANIZATION_ID))) ppi;
          ppi = tx_put (off + 2) (be16 (ucast (push_bit 8 WR_TLV_ORGANIZATION_ID) OR drop_bit 8 WR_TLV_MAGIC_NUMBER)) ppi
      in tx_put (off + 4) (be16 (push_bit 8 WR_TLV_MAGIC_NUMBER OR WR_TLV_WR_VERSION_NUMBER)) ppi)"

definition tlv_organizationID :: "nat \<Rightarrow> u8 list \<Rightarrow> u32" where
  "tlv_organizationID off buf =
     ucast (drop_bit 8 (get16 (off + 2) buf)) OR push_bit 8 (ucast (get16 off buf))"

definition tlv_magicNumber :: "nat \<Rightarrow> u8 list \<Rightarrow> u16" where
  "tlv_magicNumber off buf =
     drop_bit 8 (get16 (off + 4) buf) OR (0xFF00 AND push_bit 8 (get16 (off + 2) buf))"

definition tlv_versionNumber :: "nat \<Rightarrow> u8 list \<Rightarrow> u16" where
  "tlv_versionNumber off buf = 0xFF AND get16 (off + 4) buf"

definition wr_flags_of :: "wr_dsport \<Rightarrow> u16" where
  "wr_flags_of wrp =
     (let wr_flags = ucast (wr_wrConfig wrp);
          wr_flags = (if wr_calibrated wrp then wr_flags OR WR_IS_CALIBRATED else wr_flags)
      in if wr_wrModeOn wrp then wr_flags OR WR_IS_WR_MODE else wr_flags)"

definition msg_pack_announce_wr_tlv :: "pp_instance \<Rightarrow> pp_instance" where
  "msg_pack_announce_wr_tlv ppi =
     (let ppi = tx_put 2 (be16 WR_ANNOUNCE_LENGTH) ppi;
          ppi = tx_put 64 (be16 TLV_TYPE_ORG_EXTENSION) ppi;
          ppi = tx_put 66 (be16 WR_ANNOUNCE_TLV_LENGTH) ppi;
          ppi = wr_put_id 68 ppi;
          ppi = tx_put 74 (be16 ANN_SUFIX) ppi
      in tx_put 76 (be16 (wr_flags_of (ppi_wr ppi))) ppi)"

definition msg_unpack_announce_wr_tlv :: "u8 list \<Rightarrow> u16" where
  "msg_unpack_announce_wr_tlv buf =
     (if get16 64 buf = TLV_TYPE_ORG_EXTENSION \<and> tlv_organizationID 68 buf = WR_TLV_ORGANIZATION_ID \<and>
         tlv_magicNumber 68 buf = WR_TLV_MAGIC_NUMBER \<and> tlv_versionNumber 68 buf = WR_TLV_WR_VERSION_NUMBER \<and>
         get16 74 buf = ANN_SUFIX
      then get16 76 buf else 0)"

section \<open>Signalling messages\<close>

text \<open>
  The payload after the message identifier, with the length of the TLV.  The calibration period is
  written as the two halves of the word in network order.
\<close>

definition wrsig_payload :: "u16 \<Rightarrow> pp_instance \<Rightarrow> u16 \<times> pp_instance" where
  "wrsig_payload wr_msg_id ppi =
     (let wrp = ppi_wr ppi
      in if wr_msg_id = CALIBRATE
         then let ppi = tx_put 56 (be16 (ucast (wr_calRetry wrp) OR (if wr_calibrated wrp then 0x0000 else 0x0100))) ppi;
                  ppi = tx_put 58 (take 2 (be32 (wr_calPeriod wrp))) ppi
              in (14, tx_put 60 (drop 2 (be32 (wr_calPeriod wrp))) ppi)
         else if wr_msg_id = CALIBRATED
         then let ppi = tx_put 56 (be32 (fd_msb (wr_deltaTx wrp))) ppi;
                  ppi = tx_put 60 (be32 (fd_lsb (wr_deltaTx wrp))) ppi;
                  ppi = tx_put 64 (be32 (fd_msb (wr_deltaRx wrp))) ppi
              in (24, tx_put 68 (be32 (fd_lsb (wr_deltaRx wrp))) ppi)
         else (8, ppi))"

definition msg_pack_wrsig :: "PortIdentity \<Rightarrow> u16 \<Rightarrow> pp_instance \<Rightarrow> s32 \<times> pp_instance" where
  "msg_pack_wrsig parent wr_msg_id ppi =
     (let ppi = tx_put 0 [(ppi_tx_ptp ppi ! 0) AND 0xF0] ppi;
          ppi = tx_put 0 [(ppi_tx_ptp ppi ! 0) OR 0x0C] ppi;
          ppi = tx_put 32 [0x05] ppi;
          ppi = tx_put 33 [0x7F] ppi;
          ppi = tx_put 34 (cid_bytes (clockIdentity parent)) ppi;
          ppi = tx_put 42 (be16 (portNumber parent)) ppi;
          ppi = tx_put 44 (be16 TLV_TYPE_ORG_EXTENSION) ppi;
          ppi = wr_put_id 48 ppi;
          ppi = tx_put 54 (be16 wr_msg_id) ppi;
          (len, ppi) = wrsig_payload wr_msg_id ppi;
          ppi = tx_put 2 (be16 (WR_SIGNALING_MSG_BASE_LENGTH + len)) ppi;
          ppi = tx_put 46 (be16 len) ppi
      in (ucast (WR_SIGNALING_MSG_BASE_LENGTH + len), ppi))"

text \<open>What a received message stores in the port data set.\<close>

definition wrsig_store :: "u16 \<Rightarrow> u8 list \<Rightarrow> wr_dsport \<Rightarrow> wr_dsport" where
  "wrsig_store wr_msg_id buf wrp =
     (if wr_msg_id = CALIBRATE
      then wrp\<lparr> wr_otherNodeCalSendPattern := 0x00FF AND drop_bit 8 (get16 56 buf),
             wr_otherNodeCalRetry := ucast (0x00FF AND get16 56 buf),
             wr_otherNodeCalPeriod := push_bit 16 (ucast (get16 58 buf)) OR ucast (get16 60 buf) \<rparr>
      else if wr_msg_id = CALIBRATED
      then wrp\<lparr> wr_otherNodeDeltaTx := \<lparr> fd_msb = from_be (peek 56 4 buf), fd_lsb = from_be (peek 60 4 buf) \<rparr>,
             wr_otherNodeDeltaRx := \<lparr> fd_msb = from_be (peek 64 4 buf), fd_lsb = from_be (peek 68 4 buf) \<rparr> \<rparr>
      else wrp)"

definition wrsig_valid :: "u8 list \<Rightarrow> bool" where
  "wrsig_valid buf \<longleftrightarrow>
     get16 44 buf = TLV_TYPE_ORG_EXTENSION \<and> tlv_organizationID 48 buf = WR_TLV_ORGANIZATION_ID \<and>
     tlv_magicNumber 48 buf = WR_TLV_MAGIC_NUMBER \<and> tlv_versionNumber 48 buf = WR_TLV_WR_VERSION_NUMBER"

text \<open>The target of the message, which no caller reads, is left out; the result is the message identifier.\<close>

definition msg_unpack_wrsig :: "platform \<Rightarrow> pp_globals \<Rightarrow> nat \<Rightarrow> u8 list \<Rightarrow> u16 option \<times> pp_globals" where
  "msg_unpack_wrsig P ppg i buf =
     (if \<not> wrsig_valid buf then (None, ppg)
      else let wr_msg_id = get16 54 buf;
               ppg = upd_wr i (wrsig_store wr_msg_id buf) ppg
           in (Some wr_msg_id,
               if ppi_pdstate (INST ppg i) = PP_PDSTATE_PDETECTION then pdstate_set_state_pdetected P ppg i else ppg))"

definition msg_issue_wrsig :: "platform \<Rightarrow> pp_globals \<Rightarrow> nat \<Rightarrow> u16 \<Rightarrow> s32 \<times> pp_globals" where
  "msg_issue_wrsig P ppg i wr_msg_id =
     (let (len, ppg) = upd_pack (msg_pack_wrsig (par_parentPortIdentity (g_parentDS ppg)) wr_msg_id) ppg i
      in send_and_log P ppg i len PP_NP_GEN PPM_SIGNALING_FMT)"

section \<open>The servo\<close>

text \<open>The raw round trip \<open>(td - ta) - (tc - tb)\<close>.\<close>

definition calculate_raw_delayMM :: "nat \<Rightarrow> pp_time \<Rightarrow> pp_time \<Rightarrow> pp_time \<Rightarrow> pp_time \<Rightarrow> pp_globals \<Rightarrow> pp_globals" where
  "calculate_raw_delayMM i ta tb tc td =
     upd_wre i (\<lambda>se. se\<lparr> wre_rawDelayMM := pp_time_sub (pp_time_sub td ta) (pp_time_sub tc tb) \<rparr>)"

definition wr_servo_init :: "platform \<Rightarrow> pp_globals \<Rightarrow> nat \<Rightarrow> bool \<times> pp_globals" where
  "wr_servo_init P ppg i =
     (let (ret, ppg) = wrh_servo_init P ppg i
      in if ret \<noteq> 0 then (True, upd_wre i (\<lambda>_. wr_servo_ext_0) ppg) else (False, ppg))"

definition wr_servo_reset :: "pp_globals \<Rightarrow> nat \<Rightarrow> pp_globals" where
  "wr_servo_reset ppg i = wrh_servo_reset ppg i"

definition wr_servo_got_sync :: "platform \<Rightarrow> pp_globals \<Rightarrow> nat \<Rightarrow> pp_globals" where
  "wr_servo_got_sync P ppg i =
     (let ppi = INST ppg i;
          ppg = upd_wre i (\<lambda>se. se\<lparr> wre_rawT1 := ppi_t1 ppi, wre_rawT2 := ppi_t2 ppi \<rparr>) ppg;
          se = WRE_SRV ppg i;
          ppg = (if is_delayMechanismP2P ppg i \<and> srv_got_sync (SRV ppg i)
                 then calculate_raw_delayMM i (wre_rawT3 se) (wre_rawT4 se) (wre_rawT5 se) (wre_rawT6 se) ppg else ppg);
          ppg = upd_inst i (\<lambda>ppi. ppi\<lparr> ppi_t1 := pp_time_add (ppi_t1 ppi) (wre_delta_txm se),
                  ppi_t2 := pp_time_sub (ppi_t2 ppi) (wre_delta_rxs se) \<rparr>) ppg
      in wrh_servo_got_sync P ppg i)"

definition wr_servo_got_resp :: "platform \<Rightarrow> pp_globals \<Rightarrow> nat \<Rightarrow> bool \<times> pp_globals" where
  "wr_servo_got_resp P ppg i =
     (let ppi = INST ppg i;
          ppg = upd_wre i (\<lambda>se. se\<lparr> wre_rawT3 := ppi_t3 ppi, wre_rawT4 := ppi_t4 ppi \<rparr>) ppg;
          se = WRE_SRV ppg i;
          ppg = (if is_delayMechanismE2E ppg i \<and> srv_got_sync (SRV ppg i)
                 then calculate_raw_delayMM i (wre_rawT1 se) (wre_rawT2 se) (wre_rawT3 se) (wre_rawT4 se) ppg else ppg);
          ppg = upd_inst i (\<lambda>ppi. ppi\<lparr> ppi_t3 := pp_time_add (ppi_t3 ppi) (wre_delta_txs se),
                  ppi_t4 := pp_time_sub (ppi_t4 ppi) (wre_delta_rxm se) \<rparr>) ppg
      in wrh_servo_got_resp P ppg i)"

definition wr_servo_got_presp :: "pp_globals \<Rightarrow> nat \<Rightarrow> bool \<times> pp_globals" where
  "wr_servo_got_presp ppg i =
     (let ppi = INST ppg i;
          ppg = upd_wre i (\<lambda>se. se\<lparr> wre_rawT3 := ppi_t3 ppi, wre_rawT4 := ppi_t4 ppi,
                  wre_rawT5 := ppi_t5 ppi, wre_rawT6 := ppi_t6 ppi \<rparr>) ppg;
          se = WRE_SRV ppg i;
          ppg = upd_inst i (\<lambda>ppi. ppi\<lparr> ppi_t3 := pp_time_add (ppi_t3 ppi) (wre_delta_txs se),
                  ppi_t4 := pp_time_sub (ppi_t4 ppi) (wre_delta_rxm se),
                  ppi_t5 := pp_time_add (ppi_t5 ppi) (wre_delta_txm se),
                  ppi_t6 := pp_time_sub (ppi_t6 ppi) (wre_delta_rxs se) \<rparr>) ppg
      in wrh_servo_got_presp ppg i)"

section \<open>Start, failure and retry of a handshake\<close>

definition reset_wr :: "wr_role \<Rightarrow> wr_dsport \<Rightarrow> wr_dsport" where
  "reset_wr role wrp =
     (let wrp = wrp\<lparr> wr_wrStateTimeout := WR_DEFAULT_STATE_TIMEOUT_MS, wr_calPeriod := WR_DEFAULT_CAL_PERIOD,
                  wr_wrMode := role, wr_wrModeOn := False, wr_calibrated := True \<rparr>
      in if role \<noteq> WR_SLAVE
         then wrp\<lparr> wr_parentWrConfig := NON_WR, wr_parentIsWRnode := False, wr_parentWrModeOn := False,
                wr_parentCalibrated := False \<rparr>
         else wrp)"

definition wr_reset_process :: "nat \<Rightarrow> wr_role \<Rightarrow> pp_globals \<Rightarrow> pp_globals" where
  "wr_reset_process i role = upd_wr i (reset_wr role)"

definition set_doRestart :: "nat \<Rightarrow> bool \<Rightarrow> pp_globals \<Rightarrow> pp_globals" where
  "set_doRestart i b = upd_wrh i (\<lambda>s. s\<lparr> wrh_doRestart := b \<rparr>)"

definition wr_handshake_fail :: "platform \<Rightarrow> pp_globals \<Rightarrow> nat \<Rightarrow> pp_globals" where
  "wr_handshake_fail P ppg i =
     (let ppg = set_wr_next i WRS_IDLE ppg
      in if \<not> ppi_ptp_fallback (INST ppg i) then set_doRestart i True ppg
         else pdstate_disable_extension P (wr_servo_reset (wr_reset_process i WR_ROLE_NONE ppg) i) i)"

definition wr_handshake_retry :: "pp_globals \<Rightarrow> nat \<Rightarrow> bool \<times> pp_globals" where
  "wr_handshake_retry ppg i =
     (if wr_wrStateRetry (WR_DSPOR ppg i) > 0
      then (True, upd_wr i (\<lambda>wrp. wrp\<lparr> wr_wrStateRetry := wr_wrStateRetry wrp - 1 \<rparr>) ppg)
      else (False, ppg))"

section \<open>Words of the TLV\<close>

lemma be32_halves:
  "push_bit 16 (ucast (from_be (take 2 (be32 p)) :: u16)) OR ucast (from_be (drop 2 (be32 p)) :: u16) = p"
proof -
  have "from_be (take 2 (be32 p)) = (push_bit 8 (ucast (ucast (drop_bit 24 p) :: u8)) OR ucast (ucast (drop_bit 16 p) :: u8) :: u16)"
    "from_be (drop 2 (be32 p)) = (push_bit 8 (ucast (ucast (drop_bit 8 p) :: u8)) OR ucast (ucast p :: u8) :: u16)"
    by (simp_all add: be32_def numeral_eq_Suc from_be_def)
  then show ?thesis
    by (simp only:) (rule bit_word_eqI; rename_tac n; case_tac "16 \<le> n"; auto simp: bit_simps)
qed

lemma wr_put_id_words:
  "wr_put_id off ppi = tx_put (off + 4) (be16 0xAD01) (tx_put (off + 2) (be16 0x30DE) (tx_put off (be16 0x0800) ppi))"
proof -
  have "ucast (drop_bit 8 WR_TLV_ORGANIZATION_ID) = (0x0800 :: u16)" by code_simp
  moreover have "ucast (push_bit 8 WR_TLV_ORGANIZATION_ID) OR drop_bit 8 WR_TLV_MAGIC_NUMBER = (0x30DE :: u16)" by code_simp
  moreover have "push_bit 8 WR_TLV_MAGIC_NUMBER OR WR_TLV_WR_VERSION_NUMBER = (0xAD01 :: u16)" by code_simp
  ultimately show ?thesis by (simp add: wr_put_id_def)
qed

lemma wr_id_read:
  assumes "get16 off buf = 0x0800" "get16 (off + 2) buf = 0x30DE" "get16 (off + 4) buf = 0xAD01"
  shows "tlv_organizationID off buf = WR_TLV_ORGANIZATION_ID" "tlv_magicNumber off buf = WR_TLV_MAGIC_NUMBER"
    "tlv_versionNumber off buf = WR_TLV_WR_VERSION_NUMBER"
proof -
  have "ucast (drop_bit 8 (0x30DE :: u16)) OR push_bit 8 (ucast (0x0800 :: u16)) = WR_TLV_ORGANIZATION_ID"
    "drop_bit 8 0xAD01 OR (0xFF00 AND push_bit 8 0x30DE) = WR_TLV_MAGIC_NUMBER"
    "0xFF AND 0xAD01 = WR_TLV_WR_VERSION_NUMBER" by code_simp+
  with assms show "tlv_organizationID off buf = WR_TLV_ORGANIZATION_ID" "tlv_magicNumber off buf = WR_TLV_MAGIC_NUMBER"
    "tlv_versionNumber off buf = WR_TLV_WR_VERSION_NUMBER"
    by (simp_all only: tlv_organizationID_def tlv_magicNumber_def tlv_versionNumber_def)
qed

lemma pdetected_wr [simp]: "ppi_wr (INST (pdstate_set_state_pdetected P ppg i) j) = ppi_wr (INST ppg j)"
  by (cases "i < length (pp_instances ppg)") (simp_all add: pdstate_set_state_pdetected_def set_pdstate_def upd_inst_beyond)

section \<open>Messages on the wire\<close>

text \<open>The length of a signalling message and what its receiver stores of the data set of the sender.\<close>

definition wrsig_len :: "u16 \<Rightarrow> u16" where
  "wrsig_len m = (if m = CALIBRATE then 62 else if m = CALIBRATED then 72 else 56)"

definition wrsig_copy :: "u16 \<Rightarrow> wr_dsport \<Rightarrow> wr_dsport \<Rightarrow> wr_dsport" where
  "wrsig_copy m w wrp =
     (if m = CALIBRATE
      then wrp\<lparr> wr_otherNodeCalSendPattern := (if wr_calibrated w then 0 else 1),
             wr_otherNodeCalRetry := wr_calRetry w, wr_otherNodeCalPeriod := wr_calPeriod w \<rparr>
      else if m = CALIBRATED
      then wrp\<lparr> wr_otherNodeDeltaTx := wr_deltaTx w, wr_otherNodeDeltaRx := wr_deltaRx w \<rparr> else wrp)"

lemma byte_word:
  "drop_bit 8 (ucast r) = (0 :: u16)" "(0x00FF :: u16) AND ucast r = ucast r" "ucast (ucast r :: u16) = r"
  for r :: u8
proof -
  have "(0x00FF :: u16) = mask 8" by code_simp
  moreover have "mask 8 AND ucast r = (ucast r :: u16)"
    by (rule bit_word_eqI) (auto simp: bit_simps dest: bit_imp_le_length)
  ultimately show "(0x00FF :: u16) AND ucast r = ucast r" by simp
qed (rule bit_word_eqI, auto simp: bit_simps dest: bit_imp_le_length)+

lemma peek_0: "peek 0 n bs = take n bs"
  by (simp add: peek_def)

lemma wrsig_valid_of:
  assumes "get16 44 buf = TLV_TYPE_ORG_EXTENSION" "get16 48 buf = 0x0800" "get16 50 buf = 0x30DE" "get16 52 buf = 0xAD01"
  shows "wrsig_valid buf"
  using wr_id_read [of 48 buf] assms by (simp add: wrsig_valid_def)

text \<open>The bytes of a message: the part all messages have, the payload, and the two lengths.\<close>

definition wrsig_head :: "PortIdentity \<Rightarrow> u16 \<Rightarrow> u8 list \<Rightarrow> u8 list" where
  "wrsig_head parent m buf =
     put 54 (be16 m) (put 52 (be16 0xAD01) (put 50 (be16 0x30DE) (put 48 (be16 0x0800) (put 44 (be16 TLV_TYPE_ORG_EXTENSION)
       (put 42 (be16 (portNumber parent)) (put 34 (cid_bytes (clockIdentity parent)) (put 33 [0x7F] (put 32 [0x05]
         (put 0 [(buf ! 0) AND 0xF0 OR 0x0C] buf)))))))))"

lemma wrsig_head_reads:
  assumes "56 \<le> length buf"
  shows "length (wrsig_head parent m buf) = length buf" "get16 44 (wrsig_head parent m buf) = TLV_TYPE_ORG_EXTENSION"
    "get16 48 (wrsig_head parent m buf) = 0x0800" "get16 50 (wrsig_head parent m buf) = 0x30DE"
    "get16 52 (wrsig_head parent m buf) = 0xAD01" "get16 54 (wrsig_head parent m buf) = m"
    "wrsig_head parent m buf ! 0 AND 0xF = 0xC"
proof -
  have "((x AND 0xF0) OR 0x0C) AND 0xF = (0xC :: u8)" for x
    by (simp add: word_ao_dist and.assoc)
  moreover from assms have "buf \<noteq> []" by auto
  ultimately show "wrsig_head parent m buf ! 0 AND 0xF = 0xC"
    using assms by (simp add: wrsig_head_def wire)
qed (use assms in \<open>simp_all add: wrsig_head_def get16_def wire\<close>)


definition wrsig_body :: "u16 \<Rightarrow> wr_dsport \<Rightarrow> u8 list \<Rightarrow> u8 list" where
  "wrsig_body m w buf =
     (if m = CALIBRATE
      then put 60 (drop 2 (be32 (wr_calPeriod w))) (put 58 (take 2 (be32 (wr_calPeriod w)))
             (put 56 (be16 (ucast (wr_calRetry w) OR (if wr_calibrated w then 0x0000 else 0x0100))) buf))
      else if m = CALIBRATED
      then put 68 (be32 (fd_lsb (wr_deltaRx w))) (put 64 (be32 (fd_msb (wr_deltaRx w)))
             (put 60 (be32 (fd_lsb (wr_deltaTx w))) (put 56 (be32 (fd_msb (wr_deltaTx w))) buf)))
      else buf)"

lemma wrsig_body_reads:
  assumes "72 \<le> length buf"
  shows "length (wrsig_body m w buf) = length buf" "off + n \<le> 56 \<Longrightarrow> peek off n (wrsig_body m w buf) = peek off n buf"
    "wrsig_body m w buf ! 0 = buf ! 0" "wrsig_store m (wrsig_body m w buf) wrp = wrsig_copy m w wrp"
proof -
  from assms have "buf \<noteq> []" by auto
  with assms show "length (wrsig_body m w buf) = length buf" "off + n \<le> 56 \<Longrightarrow> peek off n (wrsig_body m w buf) = peek off n buf"
    "wrsig_body m w buf ! 0 = buf ! 0"
    by (simp_all add: wrsig_body_def wire)
  show "wrsig_store m (wrsig_body m w buf) wrp = wrsig_copy m w wrp"
    using assms by (simp add: wrsig_store_def wrsig_copy_def wrsig_body_def get16_def wire word_ao_dist2 byte_word peek_0 be32_halves)
qed

lemma wrsig_packed:
  "msg_pack_wrsig parent m ppi = (ucast (wrsig_len m), ppi\<lparr> ppi_tx_ptp :=
     put 46 (be16 (wrsig_len m - 48)) (put 2 (be16 (wrsig_len m)) (wrsig_body m (ppi_wr ppi) (wrsig_head parent m (ppi_tx_ptp ppi)))) \<rparr>)"
  if "56 \<le> length (ppi_tx_ptp ppi)"
proof -
  have "ppi_tx_ptp ppi \<noteq> []" using that by auto
  moreover have "put 0 [x] (put 0 [y] buf) = put 0 [x] buf" for x y :: u8 and buf by (simp add: put.simps)
  ultimately show ?thesis
    by (simp add: msg_pack_wrsig_def wrsig_payload_def wrsig_head_def wrsig_body_def wrsig_len_def wr_length_defs wr_put_id_words
      tx_put_def nth_put Let_def wr_msg_ids)
qed

lemma wrsig_len_cases: "m = CALIBRATE \<and> wrsig_len m = 62 \<or> m = CALIBRATED \<and> CALIBRATED \<noteq> CALIBRATE \<and> wrsig_len m = 72 \<or>
  m \<noteq> CALIBRATE \<and> m \<noteq> CALIBRATED \<and> wrsig_len m = 56"
  by (simp add: wrsig_len_def wr_msg_ids)

lemma wrsig_frame_reads:
  fixes x :: u16
  assumes "n \<le> length b" and "56 \<le> n"
  defines "frame \<equiv> take n (put 46 (be16 (x - 48)) (put 2 (be16 x) b))"
  shows "48 \<le> off \<or> off = 44 \<Longrightarrow> 0 < k \<Longrightarrow> off = 44 \<longrightarrow> k = 2 \<Longrightarrow> off + k \<le> n \<Longrightarrow> peek off k frame = peek off k b"
    "frame ! 0 = b ! 0" "from_be (peek 2 2 frame) = x" "length frame = n"
proof -
  from assms(1,2) have "b \<noteq> []" by auto
  with assms(1,2) show "frame ! 0 = b ! 0" "from_be (peek 2 2 frame) = x" "length frame = n"
    by (simp_all add: frame_def wire nth_put)
  show "48 \<le> off \<or> off = 44 \<Longrightarrow> 0 < k \<Longrightarrow> off = 44 \<longrightarrow> k = 2 \<Longrightarrow> off + k \<le> n \<Longrightarrow> peek off k frame = peek off k b"
    using assms(1,2) by (auto simp: frame_def wire)
qed

text \<open>
  C15: a White Rabbit signalling message arrives as it was sent: the receiver finds a signalling message of the
  length in its header, accepts the TLV, reads the identifier, and stores the calibration parameters or the
  fixed delays of the sender as those of the other node; everything else in its port data set stays.  The
  transmit buffer holds at least 72 bytes.
\<close>

theorem wrsig_roundtrip:
  assumes "72 \<le> length (ppi_tx_ptp ppi)" and "j < length (pp_instances rx)"
  shows "let (len, ppi') = msg_pack_wrsig parent m ppi; frame = take (nat (sint len)) (ppi_tx_ptp ppi');
             (r, rx') = msg_unpack_wrsig P rx j frame
         in length frame = unat (wrsig_len m) \<and>
            hdr_messageType (msg_header_of frame) = PPM_SIGNALING \<and>
            hdr_messageLength (msg_header_of frame) = wrsig_len m \<and>
            r = Some m \<and> WR_DSPOR rx' j = wrsig_copy m (ppi_wr ppi) (WR_DSPOR rx j)"
proof -
  define h b n where "h = wrsig_head parent m (ppi_tx_ptp ppi)" and "b = wrsig_body m (ppi_wr ppi) h" and "n = unat (wrsig_len m)"
  define frame where "frame = take n (put 46 (be16 (wrsig_len m - 48)) (put 2 (be16 (wrsig_len m)) b))"
  note hr = wrsig_head_reads [of "ppi_tx_ptp ppi" parent m, folded h_def]
    and br = wrsig_body_reads [where buf = h and m = m and w = "ppi_wr ppi", folded b_def]
  have lb: "72 \<le> length h" "length b = length h" "n \<le> length h" "56 \<le> n"
    using assms(1) hr(1) br(1) by (auto simp: n_def wrsig_len_def)
  note f = wrsig_frame_reads [OF lb(3) [folded lb(2)] lb(4), where x = "wrsig_len m", folded frame_def]
  have g: "get16 off frame = get16 off h" if "off \<in> {44, 48, 50, 52, 54}" for off
    using that lb(1,4) br(2) f(1) by (auto simp: get16_def)
  have "56 \<le> length (ppi_tx_ptp ppi)" using assms(1) by simp
  note hs = hr [OF this]
  have "wrsig_valid frame" by (rule wrsig_valid_of) (simp_all add: g hs(2-5))
  moreover have "get16 54 frame = m" by (simp add: g hs(6))
  moreover have "wrsig_store m frame wrp = wrsig_copy m (ppi_wr ppi) wrp" for wrp
  proof -
    have "wrsig_store m frame wrp = wrsig_store m b wrp"
      using wrsig_len_cases [of m] by (elim disjE conjE) (simp_all add: wrsig_store_def get16_def f(1) n_def)
    then show ?thesis using br(4) lb(1) by simp
  qed
  moreover have "frame ! 0 AND 0xF = 0xC" "from_be (peek 2 2 frame) = wrsig_len m" "length frame = n"
    using lb f(2-4) hs(7) br(3) by simp_all
  moreover from this(1) lb(4) have "put 46 (be16 (wrsig_len m - 48)) (put 2 (be16 (wrsig_len m)) b) ! 0 AND 0xF = 0xC"
    by (simp add: frame_def)
  moreover have "nat (sint (ucast (wrsig_len m) :: s32)) = n" by (simp add: n_def wrsig_len_def)
  ultimately show ?thesis
    using assms wrsig_packed [of ppi parent m] lb
    by (simp add: frame_def [symmetric] b_def [symmetric] h_def [symmetric] n_def [symmetric]
      msg_unpack_wrsig_def WR_DSPOR_def upd_wr_def msg_header_of_def PPM_SIGNALING_def Let_def)
qed

theorem wrsig_roundtrip_witness:
  "let ppi = (pp_instance_0 config_default)\<lparr> ppi_wr := wr_dsport_0\<lparr> wr_deltaTx := \<lparr> fd_msb = 3, fd_lsb = 7 \<rparr> \<rparr> \<rparr>;
       (len, ppi') = msg_pack_wrsig PortIdentity_0 CALIBRATED ppi;
       (r, rx') = msg_unpack_wrsig platform_idle (pp_globals_0 config_default 1) 0 (take (nat (sint len)) (ppi_tx_ptp ppi'))
   in r = Some CALIBRATED \<and> wr_otherNodeDeltaTx (WR_DSPOR rx' 0) = \<lparr> fd_msb = 3, fd_lsb = 7 \<rparr>"
  using wrsig_roundtrip [of "(pp_instance_0 config_default)\<lparr> ppi_wr := wr_dsport_0\<lparr> wr_deltaTx := \<lparr> fd_msb = 3, fd_lsb = 7 \<rparr> \<rparr> \<rparr>"
     0 "pp_globals_0 config_default 1" PortIdentity_0 CALIBRATED platform_idle]
  by (simp add: pp_globals_0_def pp_instance_0_def wrsig_copy_def Let_def case_prod_beta wr_msg_ids)

lemma wr_tlv_packed:
  assumes "78 \<le> length (ppi_tx_ptp ppi)"
  defines "ppi' \<equiv> msg_pack_announce_wr_tlv ppi" and "frame \<equiv> take 78 (ppi_tx_ptp (msg_pack_announce_wr_tlv ppi))"
  shows "length (ppi_tx_ptp ppi') = length (ppi_tx_ptp ppi)" "get16 2 frame = 78"
    "msg_unpack_announce_wr_tlv frame = wr_flags_of (ppi_wr ppi)" "msg_announce_of frame = msg_announce_of (ppi_tx_ptp ppi)"
    "ppi_wr ppi' = ppi_wr ppi"
proof -
  note d = msg_pack_announce_wr_tlv_def wr_put_id_words tx_put_def Let_def wire get16_def
  show "length (ppi_tx_ptp ppi') = length (ppi_tx_ptp ppi)" "ppi_wr ppi' = ppi_wr ppi" by (simp_all add: ppi'_def d)
  show "get16 2 frame = 78" using assms(1) by (simp add: frame_def d wr_length_defs msg_const_defs)
  have "get16 64 frame = TLV_TYPE_ORG_EXTENSION" "get16 68 frame = 0x0800" "get16 70 frame = 0x30DE"
    "get16 72 frame = 0xAD01" "get16 74 frame = ANN_SUFIX" "get16 76 frame = wr_flags_of (ppi_wr ppi)"
    using assms(1) by (simp_all add: frame_def d)
  then show "msg_unpack_announce_wr_tlv frame = wr_flags_of (ppi_wr ppi)"
    using wr_id_read [of 68 frame] by (simp add: msg_unpack_announce_wr_tlv_def)
  show "msg_announce_of frame = msg_announce_of (ppi_tx_ptp ppi)"
    using assms(1) by (simp add: frame_def d msg_announce_of_def unpack_origin_timestamp_def)
qed

end
