(* ===== verification/Wr_Ext.thy ===== *)
theory Wr_Ext
  imports Wr_Msg
begin

text \<open>
  The White Rabbit extension, second part: the states of the handshake (\<^verbatim>\<open>state-wr-*.c\<close>), its state machine
  (\<^verbatim>\<open>wr-state-machine.c\<close>) and the hooks the standard state machine calls (\<^verbatim>\<open>hooks.c\<close>).
\<close>

section \<open>Waiting for a message\<close>

text \<open>
  The states that wait for a message have the same text but for the message they send, the time-out
  and what they do with the answer.  The remaining time is compared with the time of the retries left.
\<close>

datatype wr_tmo = TMO_WAIT | TMO_RETRY | TMO_FAILED

definition tmo_of :: "s32 \<Rightarrow> pp_globals \<Rightarrow> nat \<Rightarrow> s32" where
  "tmo_of tmo_ms ppg i = ucast (wr_wrStateRetry (WR_DSPOR ppg i)) * tmo_ms"

definition wr_check_tmo :: "platform \<Rightarrow> s32 \<Rightarrow> pp_globals \<Rightarrow> nat \<Rightarrow> wr_tmo \<times> pp_globals" where
  "wr_check_tmo P tmo_ms ppg i =
     (let rms = pp_next_delay_1 P ppg i PP_TO_WR_EXT_0
      in if sint rms \<le> sint (tmo_of tmo_ms ppg i)
         then if rms = 0 then (TMO_FAILED, wr_handshake_fail P ppg i)
              else let (again, ppg) = wr_handshake_retry ppg i in (if again then TMO_RETRY else TMO_WAIT, ppg)
         else (TMO_WAIT, ppg))"

definition wr_enter :: "platform \<Rightarrow> s32 \<Rightarrow> pp_globals \<Rightarrow> nat \<Rightarrow> pp_globals" where
  "wr_enter P tmo_ms ppg i =
     pp_timeout_set P (upd_wr i (\<lambda>wrp. wrp\<lparr> wr_wrStateRetry := WR_STATE_RETRY \<rparr>) ppg) i PP_TO_WR_EXT_0
       (tmo_ms * (ucast WR_STATE_RETRY + 1))"

definition wr_delay :: "platform \<Rightarrow> s32 \<Rightarrow> pp_globals \<Rightarrow> nat \<Rightarrow> s32" where
  "wr_delay P tmo_ms ppg i = pp_next_delay_1 P ppg i PP_TO_WR_EXT_0 - tmo_of tmo_ms ppg i"

definition wr_received :: "platform \<Rightarrow> pp_globals \<Rightarrow> nat \<Rightarrow> u8 list \<Rightarrow> u16 option \<times> pp_globals" where
  "wr_received P ppg i buf =
     (if hdr_messageType (received_ptp_header (INST ppg i)) = PPM_SIGNALING
      then msg_unpack_wrsig P ppg i buf else (None, ppg))"

definition wr_send :: "platform \<Rightarrow> s32 \<Rightarrow> u16 \<Rightarrow> bool \<Rightarrow> pp_globals \<Rightarrow> nat \<Rightarrow> s32 \<times> pp_globals" where
  "wr_send P tmo_ms msg sendmsg ppg i =
     (let ppg = (if sendmsg then snd (msg_issue_wrsig P ppg i msg) else ppg)
      in (wr_delay P tmo_ms ppg i, ppg))"

definition wr_exchange ::
  "platform \<Rightarrow> s32 \<Rightarrow> u16 \<Rightarrow> (u16 \<Rightarrow> wr_dsport \<Rightarrow> wr_state option) \<Rightarrow> pp_globals \<Rightarrow> nat \<Rightarrow> u8 list \<Rightarrow> s32 \<times> pp_globals" where
  "wr_exchange P tmo_ms msg next ppg i buf =
     (case wr_received P ppg i buf of
        (Some wrMsgId, ppg) \<Rightarrow>
          (0, case next wrMsgId (WR_DSPOR ppg i) of Some s \<Rightarrow> set_wr_next i s ppg | None \<Rightarrow> ppg)
      | (None, ppg) \<Rightarrow>
          (case wr_check_tmo P tmo_ms ppg i of
             (TMO_FAILED, ppg) \<Rightarrow> (0, ppg)
           | (t, ppg) \<Rightarrow> wr_send P tmo_ms msg (t = TMO_RETRY) ppg i))"

section \<open>The states\<close>

definition wr_present :: "platform \<Rightarrow> pp_globals \<Rightarrow> nat \<Rightarrow> u8 list \<Rightarrow> bool \<Rightarrow> s32 \<times> pp_globals" where
  "wr_present P ppg i buf new_state =
     (if new_state
      then wr_send P WR_PRESENT_TIMEOUT_MS SLAVE_PRESENT True
             (wr_enter P WR_PRESENT_TIMEOUT_MS (snd (wr_servo_init P ppg i)) i) i
      else wr_exchange P WR_PRESENT_TIMEOUT_MS SLAVE_PRESENT
             (\<lambda>wrMsgId _. if wrMsgId = LOCK then Some WRS_S_LOCK else None) ppg i buf)"

definition wr_m_lock :: "platform \<Rightarrow> pp_globals \<Rightarrow> nat \<Rightarrow> u8 list \<Rightarrow> bool \<Rightarrow> s32 \<times> pp_globals" where
  "wr_m_lock P ppg i buf new_state =
     (if new_state
      then wr_send P WR_M_LOCK_TIMEOUT_MS LOCK True
             (wr_enter P WR_M_LOCK_TIMEOUT_MS (wr_reset_process i WR_MASTER ppg) i) i
      else wr_exchange P WR_M_LOCK_TIMEOUT_MS LOCK
             (\<lambda>wrMsgId _. if wrMsgId = LOCKED then Some WRS_CALIBRATION else None) ppg i buf)"

definition wr_locked :: "platform \<Rightarrow> pp_globals \<Rightarrow> nat \<Rightarrow> u8 list \<Rightarrow> bool \<Rightarrow> s32 \<times> pp_globals" where
  "wr_locked P ppg i buf new_state =
     (if new_state
      then wr_send P WR_LOCKED_TIMEOUT_MS LOCKED True
             (wr_enter P WR_LOCKED_TIMEOUT_MS (upd_wrh i (\<lambda>s. s\<lparr> wrh_readyForSync := True \<rparr>) ppg) i) i
      else wr_exchange P WR_LOCKED_TIMEOUT_MS LOCKED
             (\<lambda>wrMsgId _. if wrMsgId = CALIBRATE then Some WRS_RESP_CALIB_REQ else None) ppg i buf)"

definition wr_calibrated_state :: "platform \<Rightarrow> pp_globals \<Rightarrow> nat \<Rightarrow> u8 list \<Rightarrow> bool \<Rightarrow> s32 \<times> pp_globals" where
  "wr_calibrated_state P ppg i buf new_state =
     (if new_state
      then wr_send P WR_CALIBRATED_TIMEOUT_MS CALIBRATED True (wr_enter P WR_CALIBRATED_TIMEOUT_MS ppg i) i
      else wr_exchange P WR_CALIBRATED_TIMEOUT_MS CALIBRATED
             (\<lambda>wrMsgId wrp. if wrMsgId = CALIBRATE \<and> wr_wrMode wrp = WR_MASTER then Some WRS_RESP_CALIB_REQ
                else if wrMsgId = WR_MODE_ON \<and> wr_wrMode wrp = WR_SLAVE then Some WRS_WR_LINK_ON else None) ppg i buf)"

definition s_lock_enable :: "bool \<Rightarrow> pp_globals \<Rightarrow> nat \<Rightarrow> s32 \<times> pp_globals" where
  "s_lock_enable enable ppg i = (0, if enable then log_event (Ev_locking_enable i) ppg else ppg)"

definition wr_s_lock :: "platform \<Rightarrow> pp_globals \<Rightarrow> nat \<Rightarrow> u8 list \<Rightarrow> bool \<Rightarrow> s32 \<times> pp_globals" where
  "wr_s_lock P ppg i buf new_state =
     (if new_state then s_lock_enable True (wr_enter P WR_S_LOCK_TIMEOUT_MS ppg i) i
      else if w_locking_poll P ppg i = WRH_SPLL_LOCKED then (0, set_wr_next i WRS_LOCKED ppg)
      else let rms = pp_next_delay_1 P ppg i PP_TO_WR_EXT_0
      in if sint rms \<le> sint (tmo_of WR_S_LOCK_TIMEOUT_MS ppg i)
         then let ppg = log_event (Ev_locking_disable i) ppg
              in if rms = 0 then (0, wr_handshake_fail P ppg i)
                 else let (again, ppg) = wr_handshake_retry ppg i in s_lock_enable again ppg i
         else s_lock_enable False ppg i)"

text \<open>The fixed delay of a latency: the scaled nanoseconds times thousand, split in two words.\<close>

definition delta_of :: "TimeInterval \<Rightarrow> FixedDelta" where
  "delta_of latency =
     (let ti = latency * 1000 in \<lparr> fd_msb = ucast (signed_drop_bit 32 ti), fd_lsb = ucast (ti AND 0xFFFFFFFF) \<rparr>)"

definition wr_calibration :: "platform \<Rightarrow> pp_globals \<Rightarrow> nat \<Rightarrow> s32 \<times> pp_globals" where
  "wr_calibration P ppg i =
     (let cor = ppi_timestampCorrectionPortDS (INST ppg i);
          deltaTx = delta_of (tc_egressLatency cor);
          deltaRx = delta_of (tc_ingressLatency cor + tc_semistaticLatency cor);
          ppg = upd_wr i (\<lambda>wrp. wrp\<lparr> wr_deltaTx := deltaTx, wr_deltaRx := deltaRx \<rparr>) ppg;
          ppg = upd_wre i (\<lambda>se. se\<lparr> wre_delta_txs := fixedDelta_to_pp_time deltaTx,
                  wre_delta_rxs := fixedDelta_to_pp_time deltaRx \<rparr>) ppg;
          ppg = upd_wr i (\<lambda>wrp. wrp\<lparr> wr_next_state := WRS_CALIBRATED, wr_calibrated := True \<rparr>) ppg;
          (_, ppg) = msg_issue_wrsig P ppg i CALIBRATE
      in (0, upd_wr i (\<lambda>wrp. wrp\<lparr> wr_wrPortState := 0 \<rparr>) ppg))"

text \<open>The fixed delays of the other node go to the servo once it is calibrated.\<close>

definition take_other_deltas :: "nat \<Rightarrow> pp_globals \<Rightarrow> pp_globals" where
  "take_other_deltas i ppg =
     (let wrp = WR_DSPOR ppg i;
          ppg = upd_wre i (\<lambda>se. se\<lparr> wre_delta_txm := fixedDelta_to_pp_time (wr_otherNodeDeltaTx wrp),
                  wre_delta_rxm := fixedDelta_to_pp_time (wr_otherNodeDeltaRx wrp) \<rparr>) ppg
      in set_wr_next i (if wr_wrMode wrp = WR_MASTER then WRS_WR_LINK_ON else WRS_CALIBRATION) ppg)"

definition wr_resp_calib_req :: "platform \<Rightarrow> pp_globals \<Rightarrow> nat \<Rightarrow> u8 list \<Rightarrow> bool \<Rightarrow> s32 \<times> pp_globals" where
  "wr_resp_calib_req P ppg i buf new_state =
     (let ppg = (if new_state then wr_enter P WR_RESP_CALIB_REQ_TIMEOUT_MS ppg i else ppg)
      in case wr_received P ppg i buf of
           (Some wrMsgId, ppg) \<Rightarrow> (0, if wrMsgId = CALIBRATED then take_other_deltas i ppg else ppg)
         | (None, ppg) \<Rightarrow>
             (case wr_check_tmo P WR_RESP_CALIB_REQ_TIMEOUT_MS ppg i of
                (TMO_FAILED, ppg) \<Rightarrow> (0, ppg)
              | (_, ppg) \<Rightarrow> (wr_delay P WR_RESP_CALIB_REQ_TIMEOUT_MS ppg i, ppg)))"

definition wr_link_on :: "platform \<Rightarrow> pp_globals \<Rightarrow> nat \<Rightarrow> s32 \<times> pp_globals" where
  "wr_link_on P ppg i =
     (let (e, ppg) = (if wr_wrMode (WR_DSPOR ppg i) = WR_MASTER then msg_issue_wrsig P ppg i WR_MODE_ON else (0, ppg))
      in if e \<noteq> 0 then (0, ppg)
         else (0, upd_wr i (\<lambda>wrp. wrp\<lparr> wr_wrModeOn := True, wr_parentWrModeOn := True, wr_next_state := WRS_IDLE \<rparr>)
                    (log_event (Ev_enable_ptracker i) ppg)))"

definition set_parentDetection :: "nat \<Rightarrow> ParentDetection \<Rightarrow> pp_globals \<Rightarrow> pp_globals" where
  "set_parentDetection i d = upd_wr i (\<lambda>wrp. wrp\<lparr> wr_parentDetection := d \<rparr>)"

text \<open>A slave asks to be calibrated again.\<close>

definition recalibrate :: "nat \<Rightarrow> pp_globals \<Rightarrow> pp_globals" where
  "recalibrate i ppg = (if ppi_state (INST ppg i) = PPS_SLAVE then set_next_state i PPS_UNCALIBRATED ppg else ppg)"

definition wr_idle_master :: "platform \<Rightarrow> pp_globals \<Rightarrow> nat \<Rightarrow> u8 list \<Rightarrow> s32 \<times> pp_globals" where
  "wr_idle_master P ppg i buf =
     (case wr_received P ppg i buf of
        (Some wrMsgId, ppg) \<Rightarrow>
          if wrMsgId = SLAVE_PRESENT then (0, pdstate_enable_extension P (set_wr_next i WRS_M_LOCK ppg) i)
          else (1000, pdstate_enable_extension P ppg i)
      | (None, ppg) \<Rightarrow> (1000, ppg))"

definition wr_idle :: "platform \<Rightarrow> pp_globals \<Rightarrow> nat \<Rightarrow> u8 list \<Rightarrow> s32 \<times> pp_globals" where
  "wr_idle P ppg i buf =
     (if ppi_state (INST ppg i) = PPS_MASTER then wr_idle_master P ppg i buf
      else if wr_parentDetection (WR_DSPOR ppg i) = PD_WR_PARENT
      then let ppg = (if ppi_extState (INST ppg i) = PP_EXSTATE_PTP then pdstate_enable_extension P ppg i else ppg)
           in (0, if ppi_extState (INST ppg i) = PP_EXSTATE_ACTIVE
                  then if wr_st (WR_DSPOR ppg i) = WRS_IDLE
                       then set_parentDetection i PD_NO_DETECTION (set_wr_next i WRS_PRESENT
                              (wr_reset_process i WR_SLAVE (recalibrate i ppg)))
                       else ppg
                  else set_parentDetection i PD_NO_DETECTION ppg)
      else if wr_parentDetection (WR_DSPOR ppg i) = PD_NOT_WR_PARENT
      then let ppg = (if ppi_extState (INST ppg i) = PP_EXSTATE_ACTIVE then pdstate_disable_extension P ppg i else ppg)
           in (1000, set_parentDetection i PD_NO_DETECTION (recalibrate i ppg))
      else (1000, ppg))"

section \<open>The state machine\<close>

definition wr_state_actions ::
  "platform \<Rightarrow> wr_state \<Rightarrow> pp_globals \<Rightarrow> nat \<Rightarrow> u8 list \<Rightarrow> bool \<Rightarrow> s32 \<times> pp_globals" where
  "wr_state_actions P s ppg i buf new_state =
     (case s of
        WRS_IDLE \<Rightarrow> wr_idle P ppg i buf
      | WRS_PRESENT \<Rightarrow> wr_present P ppg i buf new_state
      | WRS_S_LOCK \<Rightarrow> wr_s_lock P ppg i buf new_state
      | WRS_M_LOCK \<Rightarrow> wr_m_lock P ppg i buf new_state
      | WRS_LOCKED \<Rightarrow> wr_locked P ppg i buf new_state
      | WRS_CALIBRATION \<Rightarrow> wr_calibration P ppg i
      | WRS_CALIBRATED \<Rightarrow> wr_calibrated_state P ppg i buf new_state
      | WRS_RESP_CALIB_REQ \<Rightarrow> wr_resp_calib_req P ppg i buf new_state
      | WRS_WR_LINK_ON \<Rightarrow> wr_link_on P ppg i)"

definition wr_run_state_machine :: "platform \<Rightarrow> pp_globals \<Rightarrow> nat \<Rightarrow> u8 list \<Rightarrow> nat \<Rightarrow> s32 \<times> pp_globals" where
  "wr_run_state_machine P ppg i buf len =
     (let ppg = (if ppi_state (INST ppg i) = PPS_INITIALIZING \<or> ppi_extState (INST ppg i) \<noteq> PP_EXSTATE_ACTIVE
                 then set_wr_next i WRS_IDLE ppg else ppg);
          wrp = WR_DSPOR ppg i;
          newState = (wr_st wrp \<noteq> wr_next_state wrp);
          ppg = (if newState then upd_wr i (\<lambda>wrp. wrp\<lparr> wr_st := wr_next_state wrp \<rparr>) ppg else ppg)
      in wr_state_actions P (wr_next_state wrp) ppg i buf newState)"

section \<open>The hooks\<close>

definition wr_init :: "platform \<Rightarrow> pp_globals \<Rightarrow> nat \<Rightarrow> u8 list \<Rightarrow> nat \<Rightarrow> s32 \<times> pp_globals" where
  "wr_init P ppg i buf len =
     (let (_, ppg) = pp_timeout_get_timer ppg i PP_TO_WR_EXT_0 TO_RAND_NONE;
          ppg = wr_reset_process i WR_ROLE_NONE ppg
      in (0, set_pdstate i PP_PDSTATE_WAIT_MSG ppg))"

definition wr_open :: "pp_globals \<Rightarrow> nat \<Rightarrow> s32 \<times> pp_globals" where
  "wr_open ppg i =
     (let epc = is_externalPortConfigurationEnabled ppg; desired = ppi_desiredState (INST ppg i);
          c = (if is_slaveOnly ppg \<or> epc \<and> desired = PPS_SLAVE then WR_S_ONLY
               else if is_masterOnly ppg i \<or> epc \<and> desired = PPS_MASTER then WR_M_ONLY
               else WR_M_AND_S)
      in (0, upd_wr i (\<lambda>wrp. wrp\<lparr> wr_wrConfig := c \<rparr>) ppg))"

text \<open>The detected protocol is confirmed by messages of the peer.\<close>

definition keep_detected :: "platform \<Rightarrow> pp_globals \<Rightarrow> nat \<Rightarrow> pp_globals" where
  "keep_detected P ppg i =
     (if ppi_pdstate (INST ppg i) = PP_PDSTATE_PDETECTED then pdstate_set_state_pdetected P ppg i else ppg)"

definition ext_active :: "pp_globals \<Rightarrow> nat \<Rightarrow> bool" where
  "ext_active ppg i \<longleftrightarrow> ppi_extState (INST ppg i) = PP_EXSTATE_ACTIVE"

definition wr_handle_resp :: "platform \<Rightarrow> pp_globals \<Rightarrow> nat \<Rightarrow> s32 \<times> pp_globals" where
  "wr_handle_resp P ppg i =
     (0, if ext_active ppg i then keep_detected P (snd (wr_servo_got_resp P ppg i)) i
         else snd (pp_servo_got_resp P ppg i (opt_ptpFallbackPpsGen (rt_opts ppg))))"

definition wr_handle_dreq :: "platform \<Rightarrow> pp_globals \<Rightarrow> nat \<Rightarrow> s32 \<times> pp_globals" where
  "wr_handle_dreq P ppg i = (0, if ext_active ppg i then keep_detected P ppg i else ppg)"

definition wr_sync_followup :: "platform \<Rightarrow> pp_globals \<Rightarrow> nat \<Rightarrow> s32 \<times> pp_globals" where
  "wr_sync_followup P ppg i =
     (1, if ext_active ppg i then wr_servo_got_sync P ppg i
         else pp_servo_got_sync P ppg i (opt_ptpFallbackPpsGen (rt_opts ppg)))"

definition wr_handle_presp :: "platform \<Rightarrow> pp_globals \<Rightarrow> nat \<Rightarrow> s32 \<times> pp_globals" where
  "wr_handle_presp P ppg i =
     (0, if ext_active ppg i then keep_detected P (snd (wr_servo_got_presp ppg i)) i
         else snd (pp_servo_got_presp ppg i))"

definition wr_pack_announce :: "pp_globals \<Rightarrow> nat \<Rightarrow> s32 \<times> pp_globals" where
  "wr_pack_announce ppg i =
     (if wr_wrConfig (WR_DSPOR ppg i) \<noteq> WR_S_ONLY
      then (ucast WR_ANNOUNCE_LENGTH, upd_inst i msg_pack_announce_wr_tlv ppg)
      else (ucast PP_ANNOUNCE_LENGTH, ppg))"

text \<open>The specific part of an announce message holds that it is not treated yet and the flags.\<close>

definition wr_unpack_announce :: "pp_globals \<Rightarrow> nat \<Rightarrow> u8 list \<Rightarrow> MsgAnnounce \<Rightarrow> MsgAnnounce \<times> pp_globals" where
  "wr_unpack_announce ppg i buf ann =
     (let msg_len = get16 2 buf;
          wr_flags = (if msg_len \<ge> WR_ANNOUNCE_LENGTH then msg_unpack_announce_wr_tlv buf else 0)
      in (ann\<lparr> ann_ext_specific := (ann_ext_specific ann)[0 := 1, 1 := wr_flags] \<rparr>, ppg))"

text \<open>A new parent is another port, a gap in the sequence of its messages, or a restart the servo asked for.\<close>

definition new_parent :: "pp_globals \<Rightarrow> nat \<Rightarrow> pp_frgn_master \<Rightarrow> bool" where
  "new_parent ppg i fm =
     (let wrp = WR_DSPOR ppg i;
          samePid = (bmc_pidcmp (fm_receivePortIdentity fm) (wr_parentAnnPortIdentity wrp) = 0);
          contSeqId = (samePid \<and> (fm_sequenceId fm = wr_parentAnnSequenceId wrp + 1 \<or>
                                  fm_sequenceId fm = wr_parentAnnSequenceId wrp + 2))
      in wrh_doRestart (WRH_SRV ppg i) \<or> \<not> samePid \<or> samePid \<and> \<not> contSeqId)"

text \<open>The flags that are left and the detection, for the flags of the announce message.\<close>

definition detect_parent :: "bool \<Rightarrow> u16 \<Rightarrow> wr_dsport \<Rightarrow> u16 \<times> wr_dsport" where
  "detect_parent new wr_flags wrp =
     (if ucast (wr_flags AND WR_NODE_MODE) \<noteq> NON_WR
      then if new \<and> wr_parentDetection wrp \<noteq> PD_WR_PARENT
           then let wr_flags = wr_flags AND WR_NODE_MODE
                in (wr_flags, if wr_flags = ucast WR_M_ONLY \<or> wr_flags = ucast WR_M_AND_S
                              then wrp\<lparr> wr_parentDetection := PD_WR_PARENT \<rparr> else wrp)
           else (wr_flags, wrp)
      else (0, if new \<and> wr_parentDetection wrp \<noteq> PD_NOT_WR_PARENT
               then wrp\<lparr> wr_parentDetection := PD_NOT_WR_PARENT \<rparr> else wrp))"

definition note_parent :: "bool \<Rightarrow> pp_frgn_master \<Rightarrow> wr_dsport \<Rightarrow> wr_dsport" where
  "note_parent new fm wrp =
     (let (wr_flags, wrp) = detect_parent new (fm_ext_specific fm ! 1) wrp
      in wrp\<lparr> wr_parentIsWRnode := (ucast (wr_flags AND WR_NODE_MODE) \<noteq> NON_WR),
            wr_parentWrModeOn := (wr_flags AND WR_IS_WR_MODE \<noteq> 0),
            wr_parentCalibrated := (wr_flags AND WR_IS_CALIBRATED \<noteq> 0),
            wr_parentWrConfig := ucast (wr_flags AND WR_NODE_MODE),
            wr_parentAnnPortIdentity := fm_receivePortIdentity fm,
            wr_parentAnnSequenceId := fm_sequenceId fm \<rparr>)"

definition mark_treated :: "nat \<times> nat \<Rightarrow> pp_globals \<Rightarrow> pp_globals" where
  "mark_treated loc = upd_inst (fst loc) (\<lambda>ppi. ppi\<lparr> frgn_master := list_update (frgn_master ppi) (snd loc)
     ((frgn_master ppi ! snd loc)\<lparr> fm_ext_specific := (fm_ext_specific (frgn_master ppi ! snd loc))[0 := 0] \<rparr>) \<rparr>)"

definition wr_bmca_s1 :: "pp_globals \<Rightarrow> nat \<Rightarrow> pp_frgn_master \<Rightarrow> nat \<times> nat \<Rightarrow> s32 \<times> pp_globals" where
  "wr_bmca_s1 ppg i fm loc =
     (0, if fm_ext_specific fm ! 0 \<noteq> 0
         then let new = new_parent ppg i fm;
                  ppg = (if wrh_doRestart (WRH_SRV ppg i) then set_doRestart i False ppg else ppg)
              in mark_treated loc (upd_wr i (note_parent new fm) ppg)
         else ppg)"

definition is_wr_master :: "u8 \<Rightarrow> bool" where
  "is_wr_master c \<longleftrightarrow> c = WR_M_ONLY \<or> c = WR_M_AND_S"

definition wr_enter_state :: "platform \<Rightarrow> pp_globals \<Rightarrow> nat \<Rightarrow> pp_globals" where
  "wr_enter_state P ppg i =
     (let ppi = INST ppg i; wrp = WR_DSPOR ppg i
      in if ppi_next_state ppi = PPS_MASTER then wr_reset_process i WR_MASTER (set_wr_next i WRS_IDLE ppg)
         else if ppi_next_state ppi = PPS_UNCALIBRATED
         then if ppi_state ppi = PPS_SLAVE
              then if is_wr_master (wr_parentWrConfig wrp)
                   then wr_reset_process i WR_SLAVE (set_wr_next i WRS_PRESENT ppg) else ppg
              else if \<not> is_wr_master (wr_parentWrConfig wrp) then wr_handshake_fail P ppg i else ppg
         else if ppi_next_state ppi = PPS_LISTENING then wr_reset_process i WR_ROLE_NONE ppg
         else ppg)"

definition wr_state_change :: "platform \<Rightarrow> pp_globals \<Rightarrow> nat \<Rightarrow> pp_globals" where
  "wr_state_change P ppg i =
     (let ppi = INST ppg i;
          ppg = (if ppi_state ppi = PPS_SLAVE \<and> ppi_next_state ppi = PPS_UNCALIBRATED \<and> wr_parentIsWRnode (ppi_wr ppi)
                 then pdstate_enable_extension P ppg i else ppg);
          ppg = (if ext_active ppg i
                 then wr_enter_state P
                        (if wr_wrModeOn (WR_DSPOR ppg i) \<and>
                            (ppi_state (INST ppg i) = PPS_SLAVE \<or> ppi_state (INST ppg i) = PPS_MASTER)
                         then wr_reset_process i WR_ROLE_NONE ppg else ppg) i
                 else wr_reset_process i WR_ROLE_NONE ppg)
      in if ppi_state (INST ppg i) = PPS_SLAVE
         then let ppg = log_event (Ev_locking_reset i) ppg
              in if \<not> opt_forcePpsGen (rt_opts ppg) then log_event (Ev_enable_timing_output False) ppg else ppg
         else ppg)"

definition wr_ready_for_slave :: "pp_globals \<Rightarrow> nat \<Rightarrow> s32 \<times> pp_globals" where
  "wr_ready_for_slave ppg i =
     (let wrp = WR_DSPOR ppg i
      in (if ext_active ppg i
          then if wr_wrModeOn wrp \<and> wr_parentWrModeOn wrp \<and> wr_st wrp = WRS_IDLE then 1 else 0
          else 1, ppg))"

definition wr_require_precise_timestamp :: "pp_globals \<Rightarrow> nat \<Rightarrow> bool" where
  "wr_require_precise_timestamp ppg i \<longleftrightarrow> ext_active ppg i \<and> wr_wrModeOn (WR_DSPOR ppg i)"

definition wr_get_tmo_lstate_detection :: "pp_globals \<Rightarrow> nat \<Rightarrow> s32" where
  "wr_get_tmo_lstate_detection ppg i =
     (if is_externalPortConfigurationEnabled ppg then 20000 else push_bit 3 (pp_timeout_get ppg i PP_TO_ANN_RECEIPT))"

definition wr_get_latency :: "pp_globals \<Rightarrow> nat \<Rightarrow> TimeInterval" where
  "wr_get_latency ppg i = 0"

definition wr_is_correction_field_compliant :: "pp_globals \<Rightarrow> nat \<Rightarrow> bool" where
  "wr_is_correction_field_compliant ppg i = False"

definition wr_extension_state_changed :: "pp_globals \<Rightarrow> nat \<Rightarrow> s32 \<times> pp_globals" where
  "wr_extension_state_changed ppg i =
     (0, if ppi_extState (INST ppg i) = PP_EXSTATE_DISABLE \<or> ppi_extState (INST ppg i) = PP_EXSTATE_PTP
         then wr_reset_process i WR_ROLE_NONE ppg else ppg)"

definition wr_new_slave :: "platform \<Rightarrow> pp_globals \<Rightarrow> nat \<Rightarrow> u8 list \<Rightarrow> nat \<Rightarrow> s32 \<times> pp_globals" where
  "wr_new_slave P ppg i buf len =
     (0, if ext_active ppg i then set_doRestart i True (snd (wr_servo_init P ppg i)) else ppg)"

text \<open>
  The functions of the extension reach the hook table of their port through the members that do not
  depend on the platform; \<open>wr_own_platform\<close> has the table with these members.
\<close>

definition wr_own_hooks :: pp_ext_hooks where
  "wr_own_hooks = pp_hooks\<lparr>
     h_state_change := None,
     h_get_ingress_latency := Some wr_get_latency, h_get_egress_latency := Some wr_get_latency,
     h_is_correction_field_compliant := Some wr_is_correction_field_compliant,
     h_require_precise_timestamp := Some wr_require_precise_timestamp,
     h_get_tmo_lstate_detection := Some wr_get_tmo_lstate_detection,
     h_extension_state_changed := Some wr_extension_state_changed \<rparr>"

definition wr_own_platform :: "platform \<Rightarrow> platform" where
  "wr_own_platform P = P\<lparr> ext_hooks := \<lambda>_. wr_own_hooks \<rparr>"

definition wr_ext_hooks :: "platform \<Rightarrow> pp_ext_hooks" where
  "wr_ext_hooks P = (let P = wr_own_platform P in wr_own_hooks\<lparr>
     h_init := Some (wr_init P), h_open := Some wr_open,
     h_handle_resp := Some (wr_handle_resp P), h_handle_dreq := Some (wr_handle_dreq P),
     h_handle_sync := Some (wr_sync_followup P), h_handle_followup := Some (wr_sync_followup P),
     h_ready_for_slave := Some wr_ready_for_slave,
     h_run_ext_state_machine := Some (wr_run_state_machine P),
     h_new_slave := Some (wr_new_slave P), h_handle_presp := Some (wr_handle_presp P),
     h_pack_announce := Some wr_pack_announce, h_unpack_announce := Some wr_unpack_announce,
     h_state_change := Some (wr_state_change P), h_servo_reset := Some wr_servo_reset,
     h_bmca_s1 := Some wr_bmca_s1 \<rparr>)"

section \<open>What the operations leave of the port data set\<close>

lemma WR_upd_inst [simp]:
  "ppi_wr (f (INST ppg i)) = ppi_wr (INST ppg i) \<Longrightarrow> WR_DSPOR (upd_inst i f ppg) j = WR_DSPOR ppg j"
  by (cases "i < length (pp_instances ppg)") (simp_all add: WR_DSPOR_def upd_inst_beyond)

lemma WR_upd_wr [simp]:
  "i < length (pp_instances ppg) \<Longrightarrow> WR_DSPOR (upd_wr i f ppg) j = (if j = i then f (WR_DSPOR ppg i) else WR_DSPOR ppg j)"
  by (simp add: WR_DSPOR_def upd_wr_def)

lemma WR_simps [simp]:
  "WR_DSPOR (log_event ev ppg) j = WR_DSPOR ppg j"
  "WR_DSPOR (upd_srv i f ppg) j = WR_DSPOR ppg j"
  "WR_DSPOR (upd_wrh i g ppg) j = WR_DSPOR ppg j"
  "WR_DSPOR (upd_wre i h ppg) j = WR_DSPOR ppg j"
  "WR_DSPOR (set_doRestart i b ppg) j = WR_DSPOR ppg j"
  "WR_DSPOR (set_pdstate i ps ppg) j = WR_DSPOR ppg j"
  "WR_DSPOR (set_extState i es ppg) j = WR_DSPOR ppg j"
  "WR_DSPOR (set_next_state i st ppg) j = WR_DSPOR ppg j"
  "WR_DSPOR (setState i st' ppg) j = WR_DSPOR ppg j"
  "WR_DSPOR (pp_timeout_set P ppg i t ms) j = WR_DSPOR ppg j"
  "WR_DSPOR (pp_timeout_reset P ppg i t) j = WR_DSPOR ppg j"
  by (simp_all add: upd_srv_def upd_wrh_def upd_wre_def set_doRestart_def set_pdstate_def set_extState_def
      set_next_state_def setState_def) (simp_all add: WR_DSPOR_def)

lemma WR_servo [simp]:
  "WR_DSPOR (pp_servo_init P ppg i) j = WR_DSPOR ppg j"
  "WR_DSPOR (wr_servo_reset ppg i) j = WR_DSPOR ppg j"
  by (simp_all add: pp_servo_init_def wr_servo_reset_def wrh_servo_reset_def Let_def split: option.split)

lemma tx_put_wr [simp]: "ppi_wr (tx_put off bs ppi) = ppi_wr ppi"
  by (simp add: tx_put_def)

lemma WR_send [simp]: "WR_DSPOR (snd (msg_issue_wrsig P ppg i m)) j = WR_DSPOR ppg j"
proof -
  have "ppi_wr (snd (msg_pack_wrsig parent m ppi)) = ppi_wr ppi" for parent ppi
    by (simp add: msg_pack_wrsig_def wrsig_payload_def wr_put_id_def Let_def case_prod_beta)
  then show ?thesis
    by (simp add: msg_issue_wrsig_def upd_pack_def send_and_log_def Let_def case_prod_beta)
qed

lemma len_simps [simp]:
  "length (pp_instances (upd_wr i f ppg)) = length (pp_instances ppg)"
  "length (pp_instances (set_wr_next i s ppg)) = length (pp_instances ppg)"
  "length (pp_instances (wr_reset_process i role ppg)) = length (pp_instances ppg)"
  "length (pp_instances (upd_wre i h ppg)) = length (pp_instances ppg)"
  "length (pp_instances (upd_wrh i g ppg)) = length (pp_instances ppg)"
  "length (pp_instances (pp_servo_init P ppg i)) = length (pp_instances ppg)"
  "length (pp_instances (wr_servo_reset ppg i)) = length (pp_instances ppg)"
  "length (pp_instances (set_pdstate i ps ppg)) = length (pp_instances ppg)"
  "length (pp_instances (set_extState i es ppg)) = length (pp_instances ppg)"
  by (simp_all add: upd_wr_def set_wr_next_def wr_reset_process_def upd_wre_def upd_wrh_def set_pdstate_def set_extState_def
      pp_servo_init_def upd_srv_def wr_servo_reset_def wrh_servo_reset_def setState_def Let_def split: option.split)

text \<open>A failed handshake goes back to the idle state and keeps the retry counter.\<close>

lemma reset_wr_fields [simp]:
  "wr_st (reset_wr role wrp) = wr_st wrp" "wr_next_state (reset_wr role wrp) = wr_next_state wrp"
  "wr_wrStateRetry (reset_wr role wrp) = wr_wrStateRetry wrp" "wr_wrMode (reset_wr role wrp) = role"
  "wr_wrModeOn (reset_wr role wrp) = False"
  by (simp_all add: reset_wr_def Let_def)

definition wr_changed :: "platform \<Rightarrow> nat \<Rightarrow> bool" where
  "wr_changed P i \<longleftrightarrow> h_extension_state_changed (ext_hooks P i) = Some wr_extension_state_changed"

lemma ext_changed_wr:
  assumes "wr_changed P i"
  shows "ext_changed P ppg i =
    (if ppi_extState (INST ppg i) = PP_EXSTATE_ACTIVE then ppg else wr_reset_process i WR_ROLE_NONE ppg)"
  using assms by (cases "ppi_extState (INST ppg i)") (simp_all add: wr_changed_def ext_changed_def wr_extension_state_changed_def)

lemma fail_goes_idle:
  assumes "wr_changed P i" and "i < length (pp_instances ppg)"
  shows "wr_next_state (WR_DSPOR (wr_handshake_fail P ppg i) i) = WRS_IDLE"
    "wr_st (WR_DSPOR (wr_handshake_fail P ppg i) i) = wr_st (WR_DSPOR ppg i)"
    "wr_wrStateRetry (WR_DSPOR (wr_handshake_fail P ppg i) i) = wr_wrStateRetry (WR_DSPOR ppg i)"
  using assms(2)
  by (simp_all add: wr_handshake_fail_def pdstate_disable_extension_def ext_changed_wr [OF assms(1)] Let_def
    set_wr_next_def wr_reset_process_def)

section \<open>The handshake as an automaton\<close>

text \<open>
  The handshake seen from one side: a state, the retries left, and the events of an activation.  The
  answer a state waits for leads on, any other message is ignored, a retry is due or all time is over.
\<close>

datatype hs_event = Got u16 | Silence | Due | Expired

definition hs_waits :: "wr_state set" where
  "hs_waits = {WRS_PRESENT, WRS_M_LOCK, WRS_LOCKED, WRS_CALIBRATED, WRS_RESP_CALIB_REQ}"

fun hs_reply :: "wr_role \<Rightarrow> wr_state \<Rightarrow> u16 \<Rightarrow> wr_state" where
  "hs_reply role WRS_PRESENT m = (if m = LOCK then WRS_S_LOCK else WRS_PRESENT)"
| "hs_reply role WRS_M_LOCK m = (if m = LOCKED then WRS_CALIBRATION else WRS_M_LOCK)"
| "hs_reply role WRS_LOCKED m = (if m = CALIBRATE then WRS_RESP_CALIB_REQ else WRS_LOCKED)"
| "hs_reply role WRS_RESP_CALIB_REQ m =
     (if m = CALIBRATED then if role = WR_MASTER then WRS_WR_LINK_ON else WRS_CALIBRATION else WRS_RESP_CALIB_REQ)"
| "hs_reply role WRS_CALIBRATED m =
     (if m = CALIBRATE \<and> role = WR_MASTER then WRS_RESP_CALIB_REQ
      else if m = WR_MODE_ON \<and> role = WR_SLAVE then WRS_WR_LINK_ON else WRS_CALIBRATED)"
| "hs_reply role s m = s"

fun hs_step :: "wr_role \<Rightarrow> hs_event \<Rightarrow> wr_state \<times> nat \<Rightarrow> wr_state \<times> nat" where
  "hs_step role (Got m) (s, r) = (hs_reply role s m, r)"
| "hs_step role Silence (s, r) = (s, r)"
| "hs_step role Due (s, r) = (s, r - 1)"
| "hs_step role Expired (s, r) = (WRS_IDLE, r)"

fun hs_tmo :: "wr_state \<Rightarrow> s32" where
  "hs_tmo WRS_PRESENT = WR_PRESENT_TIMEOUT_MS"
| "hs_tmo WRS_M_LOCK = WR_M_LOCK_TIMEOUT_MS"
| "hs_tmo WRS_LOCKED = WR_LOCKED_TIMEOUT_MS"
| "hs_tmo WRS_CALIBRATED = WR_CALIBRATED_TIMEOUT_MS"
| "hs_tmo s = WR_RESP_CALIB_REQ_TIMEOUT_MS"

definition hs_event_of :: "platform \<Rightarrow> pp_globals \<Rightarrow> nat \<Rightarrow> u8 list \<Rightarrow> hs_event" where
  "hs_event_of P ppg i buf =
     (if hdr_messageType (received_ptp_header (INST ppg i)) = PPM_SIGNALING \<and> wrsig_valid buf then Got (get16 54 buf)
      else let rms = pp_next_delay_1 P ppg i PP_TO_WR_EXT_0
           in if sint rms \<le> sint (tmo_of (hs_tmo (wr_st (WR_DSPOR ppg i))) ppg i)
              then if rms = 0 then Expired else Due else Silence)"

definition hs_abs :: "pp_globals \<Rightarrow> nat \<Rightarrow> wr_state \<times> nat" where
  "hs_abs ppg i = (wr_next_state (WR_DSPOR ppg i), unat (wr_wrStateRetry (WR_DSPOR ppg i)))"

definition hs_waiting :: "pp_globals \<Rightarrow> nat \<Rightarrow> bool" where
  "hs_waiting ppg i \<longleftrightarrow> i < length (pp_instances ppg) \<and> ppi_state (INST ppg i) \<noteq> PPS_INITIALIZING \<and> ext_active ppg i \<and>
     wr_st (WR_DSPOR ppg i) \<in> hs_waits \<and> wr_next_state (WR_DSPOR ppg i) = wr_st (WR_DSPOR ppg i)"

lemma wrsig_store_fields [simp]:
  "wr_st (wrsig_store m buf wrp) = wr_st wrp" "wr_next_state (wrsig_store m buf wrp) = wr_next_state wrp"
  "wr_wrStateRetry (wrsig_store m buf wrp) = wr_wrStateRetry wrp" "wr_wrMode (wrsig_store m buf wrp) = wr_wrMode wrp"
  by (simp_all add: wrsig_store_def)

lemma received_none:
  "wr_received P ppg i buf = (None, c) \<Longrightarrow>
   c = ppg \<and> \<not> (hdr_messageType (received_ptp_header (INST ppg i)) = PPM_SIGNALING \<and> wrsig_valid buf)"
  by (auto simp: wr_received_def msg_unpack_wrsig_def Let_def split: if_splits)

lemma received_some:
  assumes "wr_received P ppg i buf = (Some m, c)" and "i < length (pp_instances ppg)"
  shows "hdr_messageType (received_ptp_header (INST ppg i)) = PPM_SIGNALING \<and> wrsig_valid buf \<and> m = get16 54 buf"
    "WR_DSPOR c i = wrsig_store m buf (WR_DSPOR ppg i)" "length (pp_instances c) = length (pp_instances ppg)"
proof -
  have "WR_DSPOR (pdstate_set_state_pdetected P b i) i = WR_DSPOR b i" for b by (simp add: WR_DSPOR_def)
  moreover have "length (pp_instances (pdstate_set_state_pdetected P b i)) = length (pp_instances b)" for b
    by (simp add: pdstate_set_state_pdetected_def)
  ultimately show "hdr_messageType (received_ptp_header (INST ppg i)) = PPM_SIGNALING \<and> wrsig_valid buf \<and> m = get16 54 buf"
    "WR_DSPOR c i = wrsig_store m buf (WR_DSPOR ppg i)" "length (pp_instances c) = length (pp_instances ppg)"
    using assms by (auto simp: wr_received_def msg_unpack_wrsig_def Let_def split: if_splits)
qed

lemma check_tmo_step:
  assumes "wr_changed P i" and "i < length (pp_instances ppg)" and "wr_check_tmo P (hs_tmo (wr_st (WR_DSPOR ppg i))) ppg i = (t, c)"
    and "hs_event_of P ppg i buf \<in> {Silence, Due, Expired}" and "wr_next_state (WR_DSPOR ppg i) = s"
  shows "hs_abs c i = hs_step role (hs_event_of P ppg i buf) (s, unat (wr_wrStateRetry (WR_DSPOR ppg i)))"
    "wr_st (WR_DSPOR c i) = wr_st (WR_DSPOR ppg i)" "t = TMO_FAILED \<longleftrightarrow> hs_event_of P ppg i buf = Expired"
  using assms(2-5) fail_goes_idle [OF assms(1,2)]
  by (auto simp: wr_check_tmo_def hs_event_of_def wr_handshake_retry_def hs_abs_def Let_def word_gt_0 unat_minus_one
    split: if_splits)

lemma hs_abs_send [simp]: "hs_abs (snd (wr_send P t m x ppg i)) i = hs_abs ppg i"
  by (simp add: wr_send_def hs_abs_def Let_def)

lemma exchange_step:
  assumes "wr_changed P i" and "hs_waiting ppg i"
    and "\<And>m wrp. (case next m wrp of Some s \<Rightarrow> s | None \<Rightarrow> wr_st (WR_DSPOR ppg i)) = hs_reply (wr_wrMode wrp) (wr_st (WR_DSPOR ppg i)) m"
  shows "hs_abs (snd (wr_exchange P (hs_tmo (wr_st (WR_DSPOR ppg i))) msg next ppg i buf)) i =
    hs_step (wr_wrMode (WR_DSPOR ppg i)) (hs_event_of P ppg i buf) (hs_abs ppg i)"
proof -
  have i: "i < length (pp_instances ppg)" and s: "wr_next_state (WR_DSPOR ppg i) = wr_st (WR_DSPOR ppg i)"
    using assms(2) by (simp_all add: hs_waiting_def)
  obtain r c where r: "wr_received P ppg i buf = (r, c)" by (cases "wr_received P ppg i buf")
  show ?thesis
  proof (cases r)
    case None
    with r received_none have c: "c = ppg" and e: "hs_event_of P ppg i buf \<in> {Silence, Due, Expired}"
      by (auto simp: hs_event_of_def Let_def dest!: received_none)
    obtain t d where t: "wr_check_tmo P (hs_tmo (wr_st (WR_DSPOR ppg i))) ppg i = (t, d)"
      by (cases "wr_check_tmo P (hs_tmo (wr_st (WR_DSPOR ppg i))) ppg i")
    note k = check_tmo_step [OF assms(1) i t e s]
    show ?thesis using r None c t k(1) s
      by (cases t) (simp_all add: wr_exchange_def hs_abs_def [of ppg])
  next
    case (Some m)
    note q = received_some [OF r [unfolded Some] i]
    have "hs_event_of P ppg i buf = Got m" using q(1) by (simp add: hs_event_of_def)
    then show ?thesis using r Some q(2,3) i s assms(3) [of m "WR_DSPOR c i"]
      by (cases "next m (WR_DSPOR c i)") (simp_all add: wr_exchange_def hs_abs_def set_wr_next_def)
  qed
qed

lemma resp_calib_step:
  assumes "wr_changed P i" and "hs_waiting ppg i" and "wr_st (WR_DSPOR ppg i) = WRS_RESP_CALIB_REQ"
  shows "hs_abs (snd (wr_resp_calib_req P ppg i buf False)) i =
    hs_step (wr_wrMode (WR_DSPOR ppg i)) (hs_event_of P ppg i buf) (hs_abs ppg i)"
proof -
  have i: "i < length (pp_instances ppg)" and s: "wr_next_state (WR_DSPOR ppg i) = wr_st (WR_DSPOR ppg i)"
    using assms(2) by (simp_all add: hs_waiting_def)
  obtain r c where r: "wr_received P ppg i buf = (r, c)" by (cases "wr_received P ppg i buf")
  show ?thesis
  proof (cases r)
    case None
    with r received_none have c: "c = ppg" and e: "hs_event_of P ppg i buf \<in> {Silence, Due, Expired}"
      by (auto simp: hs_event_of_def Let_def dest!: received_none)
    obtain t d where t: "wr_check_tmo P WR_RESP_CALIB_REQ_TIMEOUT_MS ppg i = (t, d)"
      by (cases "wr_check_tmo P WR_RESP_CALIB_REQ_TIMEOUT_MS ppg i")
    note k = check_tmo_step [OF assms(1) i _ e s] 
    show ?thesis using r None c t k(1) [of t d] s assms(3)
      by (cases t) (simp_all add: wr_resp_calib_req_def hs_abs_def [of ppg])
  next
    case (Some m)
    note q = received_some [OF r [unfolded Some] i]
    have "hs_event_of P ppg i buf = Got m" using q(1) by (simp add: hs_event_of_def)
    then show ?thesis using r Some q(2,3) i s assms(3)
      by (simp add: wr_resp_calib_req_def hs_abs_def take_other_deltas_def set_wr_next_def Let_def)
  qed
qed

lemma waiting_run:
  assumes "hs_waiting ppg i"
  shows "wr_run_state_machine P ppg i buf len = wr_state_actions P (wr_st (WR_DSPOR ppg i)) ppg i buf False"
  using assms by (simp add: hs_waiting_def wr_run_state_machine_def ext_active_def Let_def)

section \<open>Properties\<close>

text \<open>
  C13: while a port waits for an answer of its peer, an activation of the White Rabbit state machine is a step
  of the handshake automaton: the expected message, and no other, leads to the next state, a due retry uses
  one of the retries, and the end of the time leads back to the idle state.  The port runs the hook of White
  Rabbit on a change of the extension state; it waits when it is not initializing, the extension is active, its state is one of
  the five that wait for the peer and no other state is pending.
\<close>

theorem wr_refines_handshake:
  assumes "wr_changed P i" and "hs_waiting ppg i"
  shows "hs_abs (snd (wr_run_state_machine P ppg i buf len)) i =
    hs_step (wr_wrMode (WR_DSPOR ppg i)) (hs_event_of P ppg i buf) (hs_abs ppg i)"
proof -
  let ?s = "wr_st (WR_DSPOR ppg i)"
  consider "?s = WRS_PRESENT" | "?s = WRS_M_LOCK" | "?s = WRS_LOCKED" | "?s = WRS_CALIBRATED" | "?s = WRS_RESP_CALIB_REQ"
    using assms(2) by (auto simp: hs_waiting_def hs_waits_def)
  then show ?thesis
  proof cases
    case 1
    then show ?thesis
      using exchange_step [OF assms, of "\<lambda>m _. if m = LOCK then Some WRS_S_LOCK else None" SLAVE_PRESENT buf]
      by (simp add: waiting_run [OF assms(2)] wr_state_actions_def wr_present_def)
  next
    case 2
    then show ?thesis
      using exchange_step [OF assms, of "\<lambda>m _. if m = LOCKED then Some WRS_CALIBRATION else None" LOCK buf]
      by (simp add: waiting_run [OF assms(2)] wr_state_actions_def wr_m_lock_def)
  next
    case 3
    then show ?thesis
      using exchange_step [OF assms, of "\<lambda>m _. if m = CALIBRATE then Some WRS_RESP_CALIB_REQ else None" LOCKED buf]
      by (simp add: waiting_run [OF assms(2)] wr_state_actions_def wr_locked_def)
  next
    case 4
    then show ?thesis
      using exchange_step [OF assms, of "\<lambda>m wrp. if m = CALIBRATE \<and> wr_wrMode wrp = WR_MASTER then Some WRS_RESP_CALIB_REQ
          else if m = WR_MODE_ON \<and> wr_wrMode wrp = WR_SLAVE then Some WRS_WR_LINK_ON else None" CALIBRATED buf]
      by (simp add: waiting_run [OF assms(2)] wr_state_actions_def wr_calibrated_state_def)
  next
    case 5
    then show ?thesis
      using resp_calib_step [OF assms] by (simp add: waiting_run [OF assms(2)] wr_state_actions_def)
  qed
qed

text \<open>A port in the first state of a slave that has received the lock request of its master.\<close>

definition wr_example :: "wr_state \<Rightarrow> u8 \<Rightarrow> pp_globals" where
  "wr_example s msg_type = upd_inst 0 (\<lambda>ppi. ppi\<lparr> ppi_state := PPS_UNCALIBRATED, ppi_extState := PP_EXSTATE_ACTIVE,
     ppi_ptp_fallback := True,
     received_ptp_header := (received_ptp_header ppi)\<lparr> hdr_messageType := msg_type \<rparr>,
     ppi_wr := wr_dsport_0\<lparr> wr_st := s, wr_next_state := s, wr_wrMode := WR_SLAVE, wr_wrStateRetry := 2 \<rparr> \<rparr>)
     (pp_globals_0 config_default 1)"

definition wr_lock_frame :: "u8 list" where
  "wr_lock_frame = ppi_tx_ptp (snd (msg_pack_wrsig PortIdentity_0 LOCK (pp_instance_0 config_default)))"

lemma wr_own_changed: "wr_changed (wr_own_platform P) i"
  by (simp add: wr_changed_def wr_own_platform_def wr_own_hooks_def)

lemma wr_example_waits: "s \<in> hs_waits \<Longrightarrow> hs_waiting (wr_example s mt) 0"
  by (simp add: wr_example_def hs_waiting_def ext_active_def WR_DSPOR_def pp_globals_0_def)

theorem wr_refines_handshake_witness:
  "hs_abs (snd (wr_run_state_machine (wr_own_platform platform_idle) (wr_example WRS_PRESENT PPM_SIGNALING) 0 wr_lock_frame 56)) 0 =
   (WRS_S_LOCK, 2)"
proof -
  have "hs_event_of (wr_own_platform platform_idle) (wr_example WRS_PRESENT PPM_SIGNALING) 0 wr_lock_frame = Got LOCK"
    by code_simp
  moreover have "hs_abs (wr_example WRS_PRESENT PPM_SIGNALING) 0 = (WRS_PRESENT, 2)"
    by (simp add: hs_abs_def wr_example_def WR_DSPOR_def pp_globals_0_def)
  ultimately show ?thesis
    using wr_refines_handshake [OF wr_own_changed [of platform_idle] wr_example_waits [of WRS_PRESENT PPM_SIGNALING], of wr_lock_frame 56]
    by (simp add: hs_waits_def)
qed

lemma ext_fields [simp]:
  "ppi_extState (INST (pp_servo_init P ppg i) j) = ppi_extState (INST ppg j)"
  "ppi_pdstate (INST (pp_servo_init P ppg i) j) = ppi_pdstate (INST ppg j)"
  "ppi_extState (INST (wr_servo_reset ppg i) j) = ppi_extState (INST ppg j)"
  "ppi_pdstate (INST (wr_servo_reset ppg i) j) = ppi_pdstate (INST ppg j)"
  "ppi_extState (INST (wr_reset_process i role ppg) j) = ppi_extState (INST ppg j)"
  "ppi_pdstate (INST (wr_reset_process i role ppg) j) = ppi_pdstate (INST ppg j)"
  "ppi_extState (INST (set_wr_next i s ppg) j) = ppi_extState (INST ppg j)"
  "ppi_ptp_fallback (INST (set_wr_next i s ppg) j) = ppi_ptp_fallback (INST ppg j)"
  "ppi_extState (INST (set_doRestart i b ppg) j) = ppi_extState (INST ppg j)"
proof -
  have u: "ppi_extState (INST (upd_inst i f ppg) j) = ppi_extState (INST ppg j)"
      "ppi_pdstate (INST (upd_inst i f ppg) j) = ppi_pdstate (INST ppg j)"
      "ppi_ptp_fallback (INST (upd_inst i f ppg) j) = ppi_ptp_fallback (INST ppg j)"
    if "\<And>p. ppi_extState (f p) = ppi_extState p \<and> ppi_pdstate (f p) = ppi_pdstate p \<and> ppi_ptp_fallback (f p) = ppi_ptp_fallback p"
    for f and ppg :: pp_globals
    using that by (cases "i < length (pp_instances ppg)"; simp add: upd_inst_beyond)+
  show "ppi_extState (INST (pp_servo_init P ppg i) j) = ppi_extState (INST ppg j)"
    "ppi_pdstate (INST (pp_servo_init P ppg i) j) = ppi_pdstate (INST ppg j)"
    "ppi_extState (INST (wr_servo_reset ppg i) j) = ppi_extState (INST ppg j)"
    "ppi_pdstate (INST (wr_servo_reset ppg i) j) = ppi_pdstate (INST ppg j)"
    "ppi_extState (INST (wr_reset_process i role ppg) j) = ppi_extState (INST ppg j)"
    "ppi_pdstate (INST (wr_reset_process i role ppg) j) = ppi_pdstate (INST ppg j)"
    "ppi_extState (INST (set_wr_next i s ppg) j) = ppi_extState (INST ppg j)"
    "ppi_ptp_fallback (INST (set_wr_next i s ppg) j) = ppi_ptp_fallback (INST ppg j)"
    "ppi_extState (INST (set_doRestart i b ppg) j) = ppi_extState (INST ppg j)"
    by (simp_all add: u pp_servo_init_def wr_servo_reset_def wrh_servo_reset_def wr_reset_process_def set_wr_next_def upd_wr_def
      upd_wrh_def upd_srv_def setState_def set_doRestart_def Let_def split: option.split)
qed

lemma WR_setters [simp]:
  "i < length (pp_instances ppg) \<Longrightarrow> WR_DSPOR (wr_reset_process i role ppg) i = reset_wr role (WR_DSPOR ppg i)"
  "i < length (pp_instances ppg) \<Longrightarrow> WR_DSPOR (set_wr_next i s ppg) i = (WR_DSPOR ppg i)\<lparr> wr_next_state := s \<rparr>"
  by (simp_all add: wr_reset_process_def set_wr_next_def)

lemma ext_setters [simp]:
  "i < length (pp_instances ppg) \<Longrightarrow> ppi_extState (INST (set_extState i es ppg) i) = es"
  "i < length (pp_instances ppg) \<Longrightarrow> ppi_pdstate (INST (set_pdstate i ps ppg) i) = ps"
  "i < length (pp_instances ppg) \<Longrightarrow> ppi_extState (INST (set_pdstate i ps ppg) i) = ppi_extState (INST ppg i)"
  "i < length (pp_instances ppg) \<Longrightarrow> ppi_pdstate (INST (set_extState i es ppg) i) = ppi_pdstate (INST ppg i)"
  "i < length (pp_instances ppg) \<Longrightarrow> wrh_doRestart (WRH_SRV (set_doRestart i b ppg) i) = b"
  by (simp_all add: set_extState_def set_pdstate_def set_doRestart_def WRH_SRV_def upd_wrh_def)

lemma fail_result:
  assumes "wr_changed P i" and "i < length (pp_instances ppg)" and "ext_active ppg i"
  shows "if ppi_ptp_fallback (INST ppg i)
     then ppi_extState (INST (wr_handshake_fail P ppg i) i) = PP_EXSTATE_PTP \<and>
       ppi_pdstate (INST (wr_handshake_fail P ppg i) i) = PP_PDSTATE_FAILURE \<and>
       wr_wrMode (WR_DSPOR (wr_handshake_fail P ppg i) i) = WR_ROLE_NONE
     else ext_active (wr_handshake_fail P ppg i) i \<and> wrh_doRestart (WRH_SRV (wr_handshake_fail P ppg i) i)"
  using assms(2,3)
  by (simp add: wr_handshake_fail_def pdstate_disable_extension_def ext_changed_wr [OF assms(1)] Let_def ext_active_def)

lemma expired_run:
  assumes "hs_waiting ppg i" and "hs_event_of P ppg i buf = Expired"
  shows "wr_run_state_machine P ppg i buf len = (0, wr_handshake_fail P ppg i)"
proof -
  let ?s = "wr_st (WR_DSPOR ppg i)"
  have e: "wr_received P ppg i buf = (None, ppg)" "wr_check_tmo P (hs_tmo ?s) ppg i = (TMO_FAILED, wr_handshake_fail P ppg i)"
    using assms(2) by (auto simp: hs_event_of_def wr_received_def msg_unpack_wrsig_def wr_check_tmo_def Let_def split: if_splits)
  have "?s \<in> hs_waits" using assms(1) by (simp add: hs_waiting_def)
  then show ?thesis using e
    by (auto simp: hs_waits_def waiting_run [OF assms(1)] wr_state_actions_def wr_present_def wr_m_lock_def wr_locked_def
      wr_calibrated_state_def wr_resp_calib_req_def wr_exchange_def)
qed

text \<open>
  C14: a handshake does not wait for ever: the activation that finds no message and no time left ends it.  The
  next state is the idle one; with the fallback to plain PTP the extension is switched off, the port has
  no White Rabbit role and may become slave without it, and otherwise a restart of the handshake is asked for.
  The port waits for its peer and runs the hook of White Rabbit on a change of the extension state.
\<close>

theorem wr_handshake_expires:
  assumes "wr_changed P i" and "hs_waiting ppg i" and "hs_event_of P ppg i buf = Expired"
  shows "let (delay, ppg') = wr_run_state_machine P ppg i buf len
    in delay = 0 \<and> wr_next_state (WR_DSPOR ppg' i) = WRS_IDLE \<and>
       (if ppi_ptp_fallback (INST ppg i)
        then ppi_extState (INST ppg' i) = PP_EXSTATE_PTP \<and> ppi_pdstate (INST ppg' i) = PP_PDSTATE_FAILURE \<and>
          wr_wrMode (WR_DSPOR ppg' i) = WR_ROLE_NONE \<and> fst (wr_ready_for_slave ppg' i) = 1
        else ext_active ppg' i \<and> wrh_doRestart (WRH_SRV ppg' i))"
proof -
  have i: "i < length (pp_instances ppg)" "ext_active ppg i" using assms(2) by (simp_all add: hs_waiting_def)
  show ?thesis
    using fail_result [OF assms(1) i] fail_goes_idle(1) [OF assms(1) i(1)]
    by (simp add: expired_run [OF assms(2,3)] wr_ready_for_slave_def ext_active_def Let_def split: if_splits)
qed

theorem wr_handshake_expires_witness:
  "let P = wr_own_platform (platform_idle\<lparr> t_calc_timeout := \<lambda>_ _ _. 5000 \<rparr>);
       (delay, ppg') = wr_run_state_machine P (wr_example WRS_LOCKED PPM_NO_MESSAGE) 0 [] 0
   in delay = 0 \<and> ppi_extState (INST ppg' 0) = PP_EXSTATE_PTP \<and> fst (wr_ready_for_slave ppg' 0) = 1"
proof -
  let ?P = "platform_idle\<lparr> t_calc_timeout := \<lambda>_ _ _. 5000 \<rparr>" let ?a = "wr_example WRS_LOCKED PPM_NO_MESSAGE"
  have "hs_event_of (wr_own_platform ?P) ?a 0 [] = Expired" by code_simp
  moreover have "ppi_ptp_fallback (INST ?a 0)" by (simp add: wr_example_def pp_globals_0_def)
  ultimately show ?thesis
    using wr_handshake_expires [OF wr_own_changed [of ?P] wr_example_waits [of WRS_LOCKED PPM_NO_MESSAGE], of "[]" 0]
    by (simp add: hs_waits_def Let_def case_prod_beta)
qed

text \<open>
  C16: the announce message of a White Rabbit port carries its flags: a White Rabbit receiver reads the
  configuration, the calibration and the mode of the sender, none from a port that is slave only, and marks the
  message as not treated; the attributes of the grandmaster are what the standard message carries.  The transmit
  buffer of the sender is initialised and holds at least 78 bytes, and both ports run the announce hooks of White Rabbit.
\<close>

theorem wr_announce_flags:
  assumes "i < length (pp_instances ppg)" and "tx_ready (INST ppg i)" and "78 \<le> length (ppi_tx_ptp (INST ppg i))"
    and "h_pack_announce (ext_hooks P i) = Some wr_pack_announce"
    and "h_unpack_announce (ext_hooks P' j) = Some wr_unpack_announce"
  shows "let (len, ppg') = msg_pack_announce P ppg i; frame = take (nat (sint len)) (ppi_tx_ptp (INST ppg' i));
             ann = fst (msg_unpack_announce P' peer j frame); wrp = WR_DSPOR ppg i
         in length frame = (if wr_wrConfig wrp = WR_S_ONLY then 64 else 78) \<and>
            ann_ext_specific ann = [1, if wr_wrConfig wrp = WR_S_ONLY then 0 else wr_flags_of wrp, 0, 0] \<and>
            ann_grandmasterIdentity ann = par_grandmasterIdentity (g_parentDS ppg) \<and>
            ann_grandmasterPriority1 ann = par_grandmasterPriority1 (g_parentDS ppg) \<and>
            ann_grandmasterClockQuality ann = par_grandmasterClockQuality (g_parentDS ppg) \<and>
            ann_stepsRemoved ann = cur_stepsRemoved (g_currentDS ppg)"
proof -
  obtain len ppi where p: "msg_pack_announce0 ppg (INST ppg i) = (len, ppi)" by fastforce
  have w: "ppi_wr ppi = ppi_wr (INST ppg i)" "length (ppi_tx_ptp ppi) = length (ppi_tx_ptp (INST ppg i))"
    using p by (auto simp: msg_pack_announce0_def msg_set_announce_flags_def pack_defs split: prod.splits)
  have l: "get16 2 (take 64 (ppi_tx_ptp ppi)) = 64" "msg_announce_of (take 64 (ppi_tx_ptp ppi)) = msg_announce_of (ppi_tx_ptp ppi)"
    using header_of_announce(2) [OF assms(2), of ppg] p assms(3) w(2)
    by (simp_all add: get16_def msg_header_of_def msg_announce_of_def unpack_origin_timestamp_def wire)
  have r: "(replicate 4 (0 :: u16))[0 := 1, Suc 0 := x] = [1, x, 0, 0]" for x by (simp add: numeral_eq_Suc)
  note t = wr_tlv_packed [of ppi, unfolded w]
  show ?thesis
    using announce_of_packed [OF assms(2), of ppg] p assms(1,3-5) w l t
    by (auto simp: r msg_pack_announce_def msg_unpack_announce_def wr_pack_announce_def wr_unpack_announce_def WR_DSPOR_def
      wr_length_defs msg_const_defs Let_def)
qed

theorem wr_announce_flags_witness:
  "let P = platform_idle\<lparr> ext_hooks := \<lambda>_. wr_ext_hooks platform_idle \<rparr>;
       ppg = upd_wr 0 (\<lambda>w. w\<lparr> wr_wrConfig := WR_M_AND_S, wr_calibrated := True \<rparr>) (pp_globals_0 config_default 1);
       (len, ppg') = msg_pack_announce P ppg 0
   in ann_ext_specific (fst (msg_unpack_announce P ppg 0 (take (nat (sint len)) (ppi_tx_ptp (INST ppg' 0))))) = [1, 7, 0, 0]"
proof -
  let ?P = "platform_idle\<lparr> ext_hooks := \<lambda>_. wr_ext_hooks platform_idle \<rparr>"
  let ?a = "upd_wr 0 (\<lambda>w. w\<lparr> wr_wrConfig := WR_M_AND_S, wr_calibrated := True \<rparr>) (pp_globals_0 config_default 1)"
  have i: "INST ?a 0 = (pp_instance_0 config_default)\<lparr> ppi_wr := wr_dsport_0\<lparr> wr_wrConfig := WR_M_AND_S, wr_calibrated := True \<rparr> \<rparr>"
  proof -
    have "0 < length (pp_instances (pp_globals_0 config_default 1))" by (simp add: pp_globals_0_def)
    then show ?thesis by (simp add: upd_wr_def INST_0 pp_instance_0_def)
  qed
  have "tx_ready (INST ?a 0)" using tx_ready_0 [of config_default] unfolding i by (simp add: tx_ready_def)
  moreover have "78 \<le> length (ppi_tx_ptp (INST ?a 0))" unfolding i by (simp add: pp_instance_0_def)
  moreover have "h_pack_announce (ext_hooks ?P 0) = Some wr_pack_announce" "h_unpack_announce (ext_hooks ?P 0) = Some wr_unpack_announce"
    by (simp_all add: wr_ext_hooks_def Let_def)
  moreover have "wr_flags_of (WR_DSPOR ?a 0) = 7" "wr_wrConfig (WR_DSPOR ?a 0) \<noteq> WR_S_ONLY"
    unfolding WR_DSPOR_def i by code_simp+
  ultimately show ?thesis
    using wr_announce_flags [of 0 ?a ?P ?P 0 ?a] by (simp add: Let_def case_prod_beta pp_globals_0_def)
qed

end
