(* ===== verification/L1e_Ext.thy ===== *)
theory L1e_Ext
  imports Wr_Ext
begin

text \<open>
  The L1Sync extension of the high-accuracy profile: its TLV (\<^verbatim>\<open>l1e-msg.c\<close>), its state machine
  (\<^verbatim>\<open>l1e-state-machine.c\<close>) and its hooks (\<^verbatim>\<open>l1e-hooks.c\<close>).  The loop-back of the state machine into itself through
  the disabled extension ends in the state \<open>L1SYNC_DISABLED\<close>, whose action calls no hook; the state machine is a
  function of the action it runs, so that the inner run is defined before the outer one.
\<close>

section \<open>The port data set\<close>

definition L1E_DSPOR :: "pp_globals \<Rightarrow> nat \<Rightarrow> l1e_ext_portDS" where
  "L1E_DSPOR ppg i = ppi_l1e (INST ppg i)"

definition L1E_DSPOR_BS :: "pp_globals \<Rightarrow> nat \<Rightarrow> L1SyncBasicPortDS" where
  "L1E_DSPOR_BS ppg i = l1_basic (L1E_DSPOR ppg i)"

definition upd_l1e :: "nat \<Rightarrow> (l1e_ext_portDS \<Rightarrow> l1e_ext_portDS) \<Rightarrow> pp_globals \<Rightarrow> pp_globals" where
  "upd_l1e i f = upd_inst i (\<lambda>ppi. ppi\<lparr> ppi_l1e := f (ppi_l1e ppi) \<rparr>)"

definition upd_bs :: "nat \<Rightarrow> (L1SyncBasicPortDS \<Rightarrow> L1SyncBasicPortDS) \<Rightarrow> pp_globals \<Rightarrow> pp_globals" where
  "upd_bs i f = upd_l1e i (\<lambda>ds. ds\<lparr> l1_basic := f (l1_basic ds) \<rparr>)"

definition set_l1_next :: "nat \<Rightarrow> l1_sync_state \<Rightarrow> pp_globals \<Rightarrow> pp_globals" where
  "set_l1_next i s = upd_bs i (\<lambda>bs. bs\<lparr> l1_next_state := s \<rparr>)"

definition set_execute :: "nat \<Rightarrow> bool \<Rightarrow> pp_globals \<Rightarrow> pp_globals" where
  "set_execute i b = upd_l1e i (\<lambda>ds. ds\<lparr> l1_execute_state_machine := b \<rparr>)"

text \<open>The receipt time-out in milliseconds; the interval is configured between \<open>-4\<close> and \<open>4\<close>.\<close>

definition l1e_get_rx_tmo_ms :: "L1SyncBasicPortDS \<Rightarrow> s32" where
  "l1e_get_rx_tmo_ms bds =
     push_bit (nat (sint (l1_logL1SyncInterval bds) + 8)) 4 * scast (l1_L1SyncReceiptTimeout bds)"

section \<open>The TLV\<close>

definition TLV_TYPE_L1_SYNC :: u16 where "TLV_TYPE_L1_SYNC = 0x8001"
definition MSG_L1SYNC_LEN :: u16 where "MSG_L1SYNC_LEN = 50"
definition MSG_L1SYNC_TLV_LENGTH :: u16 where "MSG_L1SYNC_TLV_LENGTH = 2"
definition MSG_L1SYNC_TLV_EXTENDED_LENGTH :: u16 where "MSG_L1SYNC_TLV_EXTENDED_LENGTH = 40"
definition L1E_TX_COHERENT :: u8 where "L1E_TX_COHERENT = 0x01"
definition L1E_RX_COHERENT :: u8 where "L1E_RX_COHERENT = 0x02"
definition L1E_CONGRUENT :: u8 where "L1E_CONGRUENT = 0x04"
definition L1E_OPT_PARAMS :: u8 where "L1E_OPT_PARAMS = 0x08"

lemmas l1e_const_defs = TLV_TYPE_L1_SYNC_def MSG_L1SYNC_LEN_def MSG_L1SYNC_TLV_LENGTH_def
  MSG_L1SYNC_TLV_EXTENDED_LENGTH_def L1E_TX_COHERENT_def L1E_RX_COHERENT_def L1E_CONGRUENT_def L1E_OPT_PARAMS_def

definition l1e_creat_L1Sync_bitmask :: "bool \<Rightarrow> bool \<Rightarrow> bool \<Rightarrow> u8" where
  "l1e_creat_L1Sync_bitmask tx_coh rx_coh congru =
     (let m = 0;
          m = (if tx_coh then m OR L1E_TX_COHERENT else m);
          m = (if rx_coh then m OR L1E_RX_COHERENT else m)
      in if congru then m OR L1E_CONGRUENT else m)"

definition local_config :: "L1SyncBasicPortDS \<Rightarrow> u8" where
  "local_config bds =
     (let m = l1e_creat_L1Sync_bitmask (l1_txCoherentIsRequired bds) (l1_rxCoherentIsRequired bds) (l1_congruentIsRequired bds)
      in if l1_optParamsEnabled bds then m OR L1E_OPT_PARAMS else m)"

definition local_active :: "L1SyncBasicPortDS \<Rightarrow> u8" where
  "local_active bds = l1e_creat_L1Sync_bitmask (l1_isTxCoherent bds) (l1_isRxCoherent bds) (l1_isCongruent bds)"

definition opt_config :: "L1SyncOptParamsPortDS \<Rightarrow> u8" where
  "opt_config ods =
     (if l1_timestampsCorrectedTx ods then 1 else 0) OR (if l1_phaseOffsetTxValid ods then 2 else 0) OR
     (if l1_frequencyOffsetTxValid ods then 4 else 0)"

text \<open>The target of the message is the identity with all bits set.\<close>

definition all_ports :: PortIdentity where
  "all_ports = \<lparr> clockIdentity = cid_of_bytes (replicate 8 (- 1)), portNumber = - 1 \<rparr>"

definition l1e_pack_signal :: "pp_instance \<Rightarrow> s32 \<times> pp_instance" where
  "l1e_pack_signal ppi =
     (let bds = l1_basic (ppi_l1e ppi);
          (_, ppi) = msg_pack_signaling_no_fowardable all_ports TLV_TYPE_L1_SYNC MSG_L1SYNC_TLV_LENGTH ppi;
          ppi = tx_put 48 [local_config bds] ppi;
          ppi = tx_put 49 [local_active bds] ppi;
          (msgLen, ppi) = (if l1_optParamsEnabled bds
                           then (MSG_L1SYNC_LEN + 38, tx_put 46 (be16 MSG_L1SYNC_TLV_EXTENDED_LENGTH)
                                   (tx_put 50 [opt_config (l1_opt_params (ppi_l1e ppi))] ppi))
                           else (MSG_L1SYNC_LEN, ppi))
      in (ucast msgLen, tx_put 2 (be16 msgLen) ppi))"

definition store_peer :: "u8 \<Rightarrow> u8 \<Rightarrow> L1SyncBasicPortDS \<Rightarrow> L1SyncBasicPortDS" where
  "store_peer conf acti bs = bs\<lparr>
     l1_peerTxCoherentIsRequired := (conf AND L1E_TX_COHERENT = L1E_TX_COHERENT),
     l1_peerRxCoherentIsRequired := (conf AND L1E_RX_COHERENT = L1E_RX_COHERENT),
     l1_peerCongruentIsRequired := (conf AND L1E_CONGRUENT = L1E_CONGRUENT),
     l1_peerIsTxCoherent := (acti AND L1E_TX_COHERENT = L1E_TX_COHERENT),
     l1_peerIsRxCoherent := (acti AND L1E_RX_COHERENT = L1E_RX_COHERENT),
     l1_peerIsCongruent := (acti AND L1E_CONGRUENT = L1E_CONGRUENT) \<rparr>"

text \<open>\<^const>\<open>None\<close> stands for the return value \<open>-1\<close>.\<close>

definition l1e_unpack_signal :: "pp_globals \<Rightarrow> nat \<Rightarrow> u8 list \<Rightarrow> nat \<Rightarrow> pp_globals option" where
  "l1e_unpack_signal ppg i buf plen =
     (if get16 44 buf \<noteq> TLV_TYPE_L1_SYNC then None
      else if get16 46 buf \<noteq> 2 \<or> plen \<noteq> unat MSG_L1SYNC_LEN then None
      else Some (upd_bs i (store_peer (buf ! 48) (buf ! 49)) ppg))"

section \<open>Events\<close>

definition le1_evt_L1_SYNC_RESET :: "pp_globals \<Rightarrow> nat \<Rightarrow> bool" where
  "le1_evt_L1_SYNC_RESET ppg i \<longleftrightarrow> \<not> link_up (INST ppg i) \<or> ppi_state (INST ppg i) = PPS_INITIALIZING"

definition le1_evt_L1_SYNC_ENABLED :: "pp_globals \<Rightarrow> nat \<Rightarrow> bool" where
  "le1_evt_L1_SYNC_ENABLED ppg i \<longleftrightarrow> l1_L1SyncEnabled (L1E_DSPOR_BS ppg i)"

definition le1_evt_CONFIG_OK :: "pp_globals \<Rightarrow> nat \<Rightarrow> bool" where
  "le1_evt_CONFIG_OK ppg i \<longleftrightarrow>
     (let bs = L1E_DSPOR_BS ppg i
      in l1_txCoherentIsRequired bs = l1_peerTxCoherentIsRequired bs \<and>
         l1_rxCoherentIsRequired bs = l1_peerRxCoherentIsRequired bs \<and>
         l1_congruentIsRequired bs = l1_peerCongruentIsRequired bs)"

definition le1_evt_LINK_OK :: "pp_globals \<Rightarrow> nat \<Rightarrow> bool" where
  "le1_evt_LINK_OK ppg i \<longleftrightarrow> l1_L1SyncLinkAlive (L1E_DSPOR_BS ppg i)"

text \<open>The coherence follows the state of the port and the lock of the PLL.\<close>

definition follow_pll :: "platform \<Rightarrow> pp_globals \<Rightarrow> nat \<Rightarrow> L1SyncBasicPortDS \<Rightarrow> L1SyncBasicPortDS" where
  "follow_pll P ppg i bs =
     (let st = ppi_state (INST ppg i)
      in if st = PPS_SLAVE \<or> st = PPS_UNCALIBRATED
         then let locked = (w_locking_poll P ppg i = WRH_SPLL_LOCKED)
              in bs\<lparr> l1_isRxCoherent := locked, l1_isCongruent := locked \<rparr>
         else if st = PPS_MASTER
         then bs\<lparr> l1_isRxCoherent := l1_peerIsTxCoherent bs \<and> l1_peerIsRxCoherent bs \<and> l1_isTxCoherent bs,
                l1_isCongruent := True \<rparr>
         else bs\<lparr> l1_isCongruent := False \<rparr>)"

definition coherence_ok :: "L1SyncBasicPortDS \<Rightarrow> bool" where
  "coherence_ok bs \<longleftrightarrow>
     (\<not> l1_txCoherentIsRequired bs \<or> l1_isTxCoherent bs \<and> l1_peerIsTxCoherent bs) \<and>
     (\<not> l1_rxCoherentIsRequired bs \<or> l1_isRxCoherent bs \<and> l1_peerIsRxCoherent bs) \<and>
     (\<not> l1_congruentIsRequired bs \<or> l1_isCongruent bs \<and> l1_peerIsCongruent bs)"

definition le1_evt_STATE_OK :: "platform \<Rightarrow> pp_globals \<Rightarrow> nat \<Rightarrow> bool \<times> pp_globals" where
  "le1_evt_STATE_OK P ppg i =
     (let ppg = upd_bs i (follow_pll P ppg i) ppg in (coherence_ok (L1E_DSPOR_BS ppg i), ppg))"

section \<open>Sending\<close>

definition measure_first_time :: "pp_time \<Rightarrow> s32" where
  "measure_first_time current_time =
     (let ms = ucast (secs current_time AND 0xFFFF) * 1000;
          ns = signed_drop_bit TIME_INTERVAL_FRACBITS (scaled_nsecs current_time + 0x8000)
      in ms + ucast (quot64 ns 1000000))"

definition measure_last_time :: "pp_time \<Rightarrow> s32 \<Rightarrow> s32" where
  "measure_last_time current_time fmeas =
     (let ms = measure_first_time current_time in if sint ms < sint fmeas then ms + 0xFFFF * 1000 else ms)"

definition l1e_send_sync_msg :: "platform \<Rightarrow> pp_globals \<Rightarrow> nat \<Rightarrow> bool \<Rightarrow> pp_globals" where
  "l1e_send_sync_msg P ppg i immediatSend =
     (if \<not> immediatSend \<and> \<not> pp_timeout P ppg i PP_TO_L1E_TX_SYNC then ppg
      else let fmeas = measure_first_time (t_get P ppg i);
               (len, ppg) = upd_pack l1e_pack_signal ppg i;
               (_, ppg) = send_and_log P ppg i len PP_NP_GEN PPM_SIGNALING_NO_FWD_FMT;
               lmeas = measure_last_time (t_get P ppg i) fmeas;
               tmo_ms = pp_timeout_log_to_ms (l1_logL1SyncInterval (L1E_DSPOR_BS ppg i));
               diff = lmeas - fmeas;
               tmo_ms = (if sint tmo_ms \<ge> sint diff then tmo_ms - diff else tmo_ms)
           in pp_timeout_set P ppg i PP_TO_L1E_TX_SYNC tmo_ms)"

definition l1e_delay :: "platform \<Rightarrow> pp_globals \<Rightarrow> nat \<Rightarrow> s32" where
  "l1e_delay P ppg i = pp_next_delay_2 P ppg i PP_TO_L1E_TX_SYNC PP_TO_L1E_RX_SYNC"

text \<open>The end of a state that stays: the next message when it is due, and the shorter time-out.\<close>

definition l1e_stay :: "platform \<Rightarrow> pp_globals \<Rightarrow> nat \<Rightarrow> s32 \<times> pp_globals" where
  "l1e_stay P ppg i = (let ppg = l1e_send_sync_msg P ppg i False in (l1e_delay P ppg i, ppg))"

section \<open>The state machine\<close>

definition clear_local :: "L1SyncBasicPortDS \<Rightarrow> L1SyncBasicPortDS" where
  "clear_local bs = bs\<lparr> l1_isTxCoherent := False, l1_isRxCoherent := False, l1_isCongruent := False \<rparr>"

definition clear_peer :: "L1SyncBasicPortDS \<Rightarrow> L1SyncBasicPortDS" where
  "clear_peer bs = bs\<lparr> l1_peerTxCoherentIsRequired := False, l1_peerRxCoherentIsRequired := False,
     l1_peerCongruentIsRequired := False, l1_peerIsTxCoherent := False, l1_peerIsRxCoherent := False,
     l1_peerIsCongruent := False \<rparr>"

definition l1e_handle_state_disabled :: "platform \<Rightarrow> pp_globals \<Rightarrow> nat \<Rightarrow> bool \<Rightarrow> s32 \<times> pp_globals" where
  "l1e_handle_state_disabled P ppg i new_state =
     (let ppg = (if new_state then upd_bs i (\<lambda>bs. clear_peer (clear_local bs)) ppg else ppg)
      in if le1_evt_L1_SYNC_ENABLED ppg i \<and> \<not> le1_evt_L1_SYNC_RESET ppg i
         then (0, set_l1_next i L1SYNC_IDLE ppg)
         else (l1e_delay P ppg i, ppg))"

text \<open>One run with the action \<open>act\<close> of the state that is entered.\<close>

definition check_rx_tmo :: "platform \<Rightarrow> pp_globals \<Rightarrow> nat \<Rightarrow> pp_globals" where
  "check_rx_tmo P ppg i =
     (if pp_timeout P ppg i PP_TO_L1E_RX_SYNC
      then set_execute i True (upd_bs i (\<lambda>bs. bs\<lparr> l1_L1SyncLinkAlive := False \<rparr>)
             (pp_timeout_set P ppg i PP_TO_L1E_RX_SYNC (l1e_get_rx_tmo_ms (L1E_DSPOR_BS ppg i))))
      else ppg)"

text \<open>The data independent of the state, the time-outs and the entry of the next state.\<close>

definition l1e_prepare :: "platform \<Rightarrow> pp_globals \<Rightarrow> nat \<Rightarrow> pp_globals" where
  "l1e_prepare P ppg i =
     (let nextState = l1_next_state (L1E_DSPOR_BS ppg i);
          newState = (nextState \<noteq> l1_L1SyncState (L1E_DSPOR_BS ppg i));
          ppg = upd_bs i (\<lambda>bs. bs\<lparr> l1_isTxCoherent := link_up (INST ppg i) \<rparr>) ppg;
          ppg = check_rx_tmo P ppg i;
          ppg = (if pp_timeout P ppg i PP_TO_L1E_TX_SYNC then set_execute i True ppg else ppg)
      in if newState then set_execute i True (upd_bs i (\<lambda>bs. bs\<lparr> l1_L1SyncState := nextState \<rparr>) ppg) else ppg)"

definition l1e_run ::
  "(l1_sync_state \<Rightarrow> pp_globals \<Rightarrow> nat \<Rightarrow> bool \<Rightarrow> s32 \<times> pp_globals) \<Rightarrow> platform \<Rightarrow> pp_globals \<Rightarrow> nat \<Rightarrow> s32 \<times> pp_globals" where
  "l1e_run act P ppg i =
     (let nextState = l1_next_state (L1E_DSPOR_BS ppg i);
          newState = (nextState \<noteq> l1_L1SyncState (L1E_DSPOR_BS ppg i))
      in if nextState \<noteq> L1SYNC_DISABLED \<and>
            (ppi_extState (INST ppg i) \<noteq> PP_EXSTATE_ACTIVE \<or> ppi_state (INST ppg i) = PPS_INITIALIZING)
         then (PP_DEFAULT_NEXT_DELAY_MS, ppg)
         else let ppg = l1e_prepare P ppg i;
                  (delay, ppg) = (if l1_execute_state_machine (L1E_DSPOR ppg i)
                                  then act (l1_L1SyncState (L1E_DSPOR_BS ppg i)) ppg i newState
                                  else (l1e_delay P ppg i, ppg))
              in (delay, set_execute i (delay = 0) ppg))"

text \<open>The run into the disabled state, and the hook that starts it when the extension is switched off.\<close>

definition l1e_run_disabled :: "platform \<Rightarrow> pp_globals \<Rightarrow> nat \<Rightarrow> s32 \<times> pp_globals" where
  "l1e_run_disabled P = l1e_run (\<lambda>_. l1e_handle_state_disabled P) P"

definition l1e_servo_init :: "platform \<Rightarrow> pp_globals \<Rightarrow> nat \<Rightarrow> pp_globals" where
  "l1e_servo_init P ppg i = snd (wrh_servo_init P ppg i)"

definition l1e_extension_state_changed :: "platform \<Rightarrow> pp_globals \<Rightarrow> nat \<Rightarrow> s32 \<times> pp_globals" where
  "l1e_extension_state_changed P ppg i =
     (0, if ext_active ppg i then l1e_servo_init P ppg i
         else if l1_L1SyncState (L1E_DSPOR_BS ppg i) \<noteq> L1SYNC_DISABLED
         then snd (l1e_run_disabled P (set_l1_next i L1SYNC_DISABLED ppg) i)
         else ppg)"

definition l1e_handle_state_idle :: "platform \<Rightarrow> pp_globals \<Rightarrow> nat \<Rightarrow> bool \<Rightarrow> s32 \<times> pp_globals" where
  "l1e_handle_state_idle P ppg i new_state =
     (let ppg = (if new_state then l1e_send_sync_msg P (upd_bs i clear_peer ppg) i True else ppg)
      in if \<not> le1_evt_L1_SYNC_ENABLED ppg i \<or> le1_evt_L1_SYNC_RESET ppg i
         then (0, pdstate_disable_extension P (set_l1_next i L1SYNC_DISABLED ppg) i)
         else if le1_evt_LINK_OK ppg i then (0, set_l1_next i L1SYNC_LINK_ALIVE ppg)
         else l1e_stay P ppg i)"

definition l1e_handle_state_link_alive :: "platform \<Rightarrow> pp_globals \<Rightarrow> nat \<Rightarrow> bool \<Rightarrow> s32 \<times> pp_globals" where
  "l1e_handle_state_link_alive P ppg i new_state =
     (let ppg = (if new_state then pp_timeout_set P ppg i PP_TO_L1E_RX_SYNC (l1e_get_rx_tmo_ms (L1E_DSPOR_BS ppg i)) else ppg)
      in if \<not> le1_evt_LINK_OK ppg i then (0, set_l1_next i L1SYNC_IDLE ppg)
         else if le1_evt_CONFIG_OK ppg i \<and> ppi_state (INST ppg i) \<in> {PPS_UNCALIBRATED, PPS_SLAVE, PPS_MASTER}
         then (0, set_l1_next i L1SYNC_CONFIG_MATCH ppg)
         else l1e_stay P ppg i)"

definition config_match_enter :: "platform \<Rightarrow> pp_globals \<Rightarrow> nat \<Rightarrow> pp_globals" where
  "config_match_enter P ppg i =
     (if ppi_state (INST ppg i) \<in> {PPS_SLAVE, PPS_UNCALIBRATED} \<and> l1_congruentIsRequired (L1E_DSPOR_BS ppg i)
      then l1e_servo_init P (log_event (Ev_locking_enable i) (upd_bs i (\<lambda>bs. bs\<lparr> l1_isRxCoherent := False \<rparr>) ppg)) i
      else ppg)"

definition l1e_handle_state_config_match :: "platform \<Rightarrow> pp_globals \<Rightarrow> nat \<Rightarrow> bool \<Rightarrow> s32 \<times> pp_globals" where
  "l1e_handle_state_config_match P ppg i new_state =
     (let ppg = (if new_state then config_match_enter P ppg i else ppg)
      in if \<not> le1_evt_LINK_OK ppg i then (0, set_l1_next i L1SYNC_IDLE ppg)
         else if \<not> le1_evt_CONFIG_OK ppg i then (0, set_l1_next i L1SYNC_LINK_ALIVE ppg)
         else let (ok, ppg) = le1_evt_STATE_OK P ppg i
              in if ok then (0, set_l1_next i L1SYNC_UP ppg) else l1e_stay P ppg i)"

text \<open>The state to leave \<open>L1SYNC_UP\<close> for, if any: the last check that fails decides.\<close>

definition up_next :: "platform \<Rightarrow> pp_globals \<Rightarrow> nat \<Rightarrow> l1_sync_state option \<times> pp_globals" where
  "up_next P ppg i =
     (let next = None;
          (next, ppg) = (if \<not> le1_evt_LINK_OK ppg i then (Some L1SYNC_IDLE, pdstate_disable_extension P ppg i)
                         else (next, ppg));
          next = (if \<not> le1_evt_CONFIG_OK ppg i then Some L1SYNC_LINK_ALIVE else next);
          (ok, ppg) = le1_evt_STATE_OK P ppg i
      in (if \<not> ok then Some L1SYNC_CONFIG_MATCH else next, ppg))"

definition l1e_handle_state_up :: "platform \<Rightarrow> pp_globals \<Rightarrow> nat \<Rightarrow> bool \<Rightarrow> s32 \<times> pp_globals" where
  "l1e_handle_state_up P ppg i new_state =
     (let ppg = (if new_state
                 then upd_wrh i (\<lambda>s. s\<lparr> wrh_readyForSync := True \<rparr>) (log_event (Ev_enable_ptracker i) ppg) else ppg)
      in case up_next P ppg i of
           (Some s, ppg) \<Rightarrow>
             let ppg = set_l1_next i s ppg
             in (0, if ppi_state (INST ppg i) \<in> {PPS_SLAVE, PPS_UNCALIBRATED}
                    then wrh_servo_reset (log_event (Ev_locking_disable i) ppg) i else ppg)
         | (None, ppg) \<Rightarrow> l1e_stay P (if new_state then pdstate_enable_extension P ppg i else ppg) i)"

definition le1_state_actions :: "platform \<Rightarrow> l1_sync_state \<Rightarrow> pp_globals \<Rightarrow> nat \<Rightarrow> bool \<Rightarrow> s32 \<times> pp_globals" where
  "le1_state_actions P s ppg i new_state =
     (case s of
        L1SYNC_MISSING \<Rightarrow> (l1e_delay P ppg i, ppg)
      | L1SYNC_DISABLED \<Rightarrow> l1e_handle_state_disabled P ppg i new_state
      | L1SYNC_IDLE \<Rightarrow> l1e_handle_state_idle P ppg i new_state
      | L1SYNC_LINK_ALIVE \<Rightarrow> l1e_handle_state_link_alive P ppg i new_state
      | L1SYNC_CONFIG_MATCH \<Rightarrow> l1e_handle_state_config_match P ppg i new_state
      | L1SYNC_UP \<Rightarrow> l1e_handle_state_up P ppg i new_state)"

definition l1e_run_state_machine :: "platform \<Rightarrow> pp_globals \<Rightarrow> nat \<Rightarrow> u8 list \<Rightarrow> nat \<Rightarrow> s32 \<times> pp_globals" where
  "l1e_run_state_machine P ppg i buf len = l1e_run (le1_state_actions P) P ppg i"

section \<open>The hooks\<close>

definition l1e_open :: "pp_globals \<Rightarrow> nat \<Rightarrow> s32 \<times> pp_globals" where
  "l1e_open ppg i = (0, ppg)"

definition init_bs :: "pp_instance_cfg \<Rightarrow> L1SyncBasicPortDS \<Rightarrow> L1SyncBasicPortDS" where
  "init_bs cfg bs = (clear_peer (clear_local bs))\<lparr> l1_L1SyncLinkAlive := False, l1_L1SyncState := L1SYNC_DISABLED,
     l1_logL1SyncInterval := ucast (cfg_l1syncInterval cfg), l1_L1SyncReceiptTimeout := ucast (cfg_l1syncReceiptTimeout cfg),
     l1_next_state := L1SYNC_DISABLED \<rparr>"

definition l1e_init :: "platform \<Rightarrow> pp_globals \<Rightarrow> nat \<Rightarrow> u8 list \<Rightarrow> nat \<Rightarrow> s32 \<times> pp_globals" where
  "l1e_init P ppg i buf len =
     (let (_, ppg) = pp_timeout_get_timer ppg i PP_TO_L1E_TX_SYNC TO_RAND_NONE;
          (_, ppg) = pp_timeout_get_timer ppg i PP_TO_L1E_RX_SYNC TO_RAND_NONE;
          ppg = pp_timeout_set P ppg i PP_TO_L1E_TX_SYNC 100;
          ppg = pp_timeout_set P ppg i PP_TO_L1E_RX_SYNC 100;
          ppg = upd_bs i (init_bs (ppi_cfg (INST ppg i))) ppg;
          ppg = upd_l1e i (\<lambda>ds. ds\<lparr> l1_opt_params := (l1_opt_params ds)\<lparr> l1_timestampsCorrectedTx := True \<rparr> \<rparr>) ppg
      in (0, set_pdstate i PP_PDSTATE_WAIT_MSG ppg))"

definition l1e_handle_signaling :: "platform \<Rightarrow> pp_globals \<Rightarrow> nat \<Rightarrow> u8 list \<Rightarrow> nat \<Rightarrow> s32 \<times> pp_globals" where
  "l1e_handle_signaling P ppg i buf len =
     (0, case l1e_unpack_signal ppg i buf len of
           None \<Rightarrow> ppg
         | Some ppg \<Rightarrow>
             let ppg = pp_timeout_set P ppg i PP_TO_L1E_RX_SYNC (l1e_get_rx_tmo_ms (L1E_DSPOR_BS ppg i));
                 ppg = upd_bs i (\<lambda>bs. bs\<lparr> l1_L1SyncLinkAlive := True \<rparr>) ppg;
                 ppg = (if ppi_extState (INST ppg i) = PP_EXSTATE_PTP then pdstate_enable_extension P ppg i else ppg)
             in if ppi_pdstate (INST ppg i) = PP_PDSTATE_PDETECTION then pdstate_set_state_pdetected P ppg i else ppg)"

definition l1e_handle_resp :: "platform \<Rightarrow> pp_globals \<Rightarrow> nat \<Rightarrow> s32 \<times> pp_globals" where
  "l1e_handle_resp P ppg i =
     (0, if ext_active ppg i then keep_detected P (snd (wrh_servo_got_resp P ppg i)) i
         else snd (pp_servo_got_resp P ppg i (opt_ptpFallbackPpsGen (rt_opts ppg))))"

definition l1e_handle_dreq :: "platform \<Rightarrow> pp_globals \<Rightarrow> nat \<Rightarrow> s32 \<times> pp_globals" where
  "l1e_handle_dreq P ppg i = (0, if ext_active ppg i then keep_detected P ppg i else ppg)"

definition l1e_sync_followup :: "platform \<Rightarrow> pp_globals \<Rightarrow> nat \<Rightarrow> s32 \<times> pp_globals" where
  "l1e_sync_followup P ppg i =
     (1, if ext_active ppg i then wrh_servo_got_sync P ppg i
         else pp_servo_got_sync P ppg i (opt_ptpFallbackPpsGen (rt_opts ppg)))"

definition l1e_handle_presp :: "platform \<Rightarrow> pp_globals \<Rightarrow> nat \<Rightarrow> s32 \<times> pp_globals" where
  "l1e_handle_presp P ppg i =
     (0, if ext_active ppg i then keep_detected P (snd (wrh_servo_got_presp ppg i)) i
         else snd (pp_servo_got_presp ppg i))"

definition l1e_ready_for_slave :: "pp_globals \<Rightarrow> nat \<Rightarrow> s32 \<times> pp_globals" where
  "l1e_ready_for_slave ppg i = (1, ppg)"

definition l1e_leave_slave :: "pp_globals \<Rightarrow> nat \<Rightarrow> pp_globals" where
  "l1e_leave_slave ppg i =
     (let ppg = (if \<not> opt_forcePpsGen (rt_opts ppg) then log_event (Ev_enable_timing_output False) ppg else ppg)
      in wrh_servo_reset (log_event (Ev_locking_reset i) (log_event (Ev_locking_disable i) ppg)) i)"

definition l1e_state_change :: "platform \<Rightarrow> pp_globals \<Rightarrow> nat \<Rightarrow> pp_globals" where
  "l1e_state_change P ppg i =
     (let ppg = (if ppi_extState (INST ppg i) = PP_EXSTATE_PTP \<and> ppi_next_state (INST ppg i) = PPS_UNCALIBRATED
                 then pdstate_enable_extension P ppg i else ppg);
          next = ppi_next_state (INST ppg i); st = l1_L1SyncState (L1E_DSPOR_BS ppg i)
      in if (next = PPS_DISABLED \<or> \<not> ext_active ppg i) \<and> st \<noteq> L1SYNC_DISABLED
         then snd (l1e_run_state_machine P (set_l1_next i L1SYNC_DISABLED ppg) i [] 0)
         else if ext_active ppg i \<and> next = PPS_INITIALIZING
         then upd_bs i (\<lambda>bs. bs\<lparr> l1_L1SyncState := L1SYNC_DISABLED, l1_next_state := L1SYNC_DISABLED \<rparr>) ppg
         else if ppi_state (INST ppg i) = PPS_SLAVE \<and> next \<noteq> PPS_UNCALIBRATED \<and> st \<noteq> L1SYNC_DISABLED
         then l1e_leave_slave ppg i
         else ppg)"

definition l1e_new_slave :: "platform \<Rightarrow> pp_globals \<Rightarrow> nat \<Rightarrow> u8 list \<Rightarrow> nat \<Rightarrow> s32 \<times> pp_globals" where
  "l1e_new_slave P ppg i buf len = (0, if ext_active ppg i then l1e_servo_init P ppg i else ppg)"

definition l1e_require_precise_timestamp :: "pp_globals \<Rightarrow> nat \<Rightarrow> bool" where
  "l1e_require_precise_timestamp ppg i \<longleftrightarrow> ext_active ppg i \<and> l1_L1SyncState (L1E_DSPOR_BS ppg i) = L1SYNC_UP"

definition l1e_get_tmo_lstate_detection :: "pp_globals \<Rightarrow> nat \<Rightarrow> s32" where
  "l1e_get_tmo_lstate_detection ppg i =
     (if is_externalPortConfigurationEnabled ppg then 10000 else l1e_get_rx_tmo_ms (L1E_DSPOR_BS ppg i))"

definition l1e_get_ingress_latency :: "pp_globals \<Rightarrow> nat \<Rightarrow> TimeInterval" where
  "l1e_get_ingress_latency ppg i =
     (let cor = ppi_timestampCorrectionPortDS (INST ppg i) in tc_ingressLatency cor + tc_semistaticLatency cor)"

definition l1e_get_egress_latency :: "pp_globals \<Rightarrow> nat \<Rightarrow> TimeInterval" where
  "l1e_get_egress_latency ppg i = tc_egressLatency (ppi_timestampCorrectionPortDS (INST ppg i))"

definition l1e_is_correction_field_compliant :: "pp_globals \<Rightarrow> nat \<Rightarrow> bool" where
  "l1e_is_correction_field_compliant ppg i = True"

text \<open>
  The members the functions of the extension reach themselves, as for White Rabbit; the change of the
  extension state calls no hook.
\<close>

definition l1e_own_hooks :: "platform \<Rightarrow> pp_ext_hooks" where
  "l1e_own_hooks P = pp_hooks\<lparr>
     h_state_change := None,
     h_get_ingress_latency := Some l1e_get_ingress_latency, h_get_egress_latency := Some l1e_get_egress_latency,
     h_is_correction_field_compliant := Some l1e_is_correction_field_compliant,
     h_require_precise_timestamp := Some l1e_require_precise_timestamp,
     h_get_tmo_lstate_detection := Some l1e_get_tmo_lstate_detection,
     h_extension_state_changed := Some (l1e_extension_state_changed (P\<lparr> ext_hooks := \<lambda>_. pp_hooks \<rparr>)) \<rparr>"

definition l1e_own_platform :: "platform \<Rightarrow> platform" where
  "l1e_own_platform P = P\<lparr> ext_hooks := \<lambda>_. l1e_own_hooks P \<rparr>"

definition l1e_ext_hooks :: "platform \<Rightarrow> pp_ext_hooks" where
  "l1e_ext_hooks P = (let Q = l1e_own_platform P in (l1e_own_hooks P)\<lparr>
     h_init := Some (l1e_init Q), h_open := Some l1e_open,
     h_handle_signaling := Some (l1e_handle_signaling Q),
     h_run_ext_state_machine := Some (l1e_run_state_machine Q),
     h_ready_for_slave := Some l1e_ready_for_slave, h_handle_resp := Some (l1e_handle_resp Q),
     h_handle_dreq := Some (l1e_handle_dreq Q), h_handle_sync := Some (l1e_sync_followup Q),
     h_handle_followup := Some (l1e_sync_followup Q), h_new_slave := Some (l1e_new_slave Q),
     h_handle_presp := Some (l1e_handle_presp Q), h_state_change := Some (l1e_state_change Q),
     h_servo_reset := Some wrh_servo_reset \<rparr>)"

section \<open>What the operations leave of the port data set\<close>

lemma L1_upd_inst [simp]:
  "ppi_l1e (f (INST ppg i)) = ppi_l1e (INST ppg i) \<Longrightarrow> L1E_DSPOR (upd_inst i f ppg) j = L1E_DSPOR ppg j"
  by (cases "i < length (pp_instances ppg)") (simp_all add: L1E_DSPOR_def upd_inst_beyond)

lemma tx_put_l1e [simp]: "ppi_l1e (tx_put off bs ppi) = ppi_l1e ppi"
  by (simp add: tx_put_def)

lemma L1_upd_bs [simp]:
  "i < length (pp_instances ppg) \<Longrightarrow> L1E_DSPOR_BS (upd_bs i f ppg) i = f (L1E_DSPOR_BS ppg i)"
  "i < length (pp_instances ppg) \<Longrightarrow> L1E_DSPOR_BS (set_l1_next i s ppg) i = (L1E_DSPOR_BS ppg i)\<lparr> l1_next_state := s \<rparr>"
  by (simp_all add: L1E_DSPOR_BS_def L1E_DSPOR_def upd_bs_def upd_l1e_def set_l1_next_def)

lemma L1_set_execute [simp]: "L1E_DSPOR_BS (set_execute i b ppg) j = L1E_DSPOR_BS ppg j"
  by (cases "i < length (pp_instances ppg)")
     (simp_all add: L1E_DSPOR_BS_def L1E_DSPOR_def upd_l1e_def set_execute_def upd_inst_beyond)

lemma L1_execute [simp]:
  "i < length (pp_instances ppg) \<Longrightarrow> l1_execute_state_machine (L1E_DSPOR (set_execute i b ppg) i) = b"
  "i < length (pp_instances ppg) \<Longrightarrow> l1_execute_state_machine (L1E_DSPOR (upd_bs i f ppg) i) = l1_execute_state_machine (L1E_DSPOR ppg i)"
  by (simp_all add: L1E_DSPOR_def set_execute_def upd_l1e_def upd_bs_def)

lemma L1_other [simp]:
  "L1E_DSPOR (log_event ev ppg) j = L1E_DSPOR ppg j"
  "L1E_DSPOR (upd_srv i f ppg) j = L1E_DSPOR ppg j"
  "L1E_DSPOR (upd_wrh i g ppg) j = L1E_DSPOR ppg j"
  "L1E_DSPOR (set_pdstate i ps ppg) j = L1E_DSPOR ppg j"
  "L1E_DSPOR (set_extState i es ppg) j = L1E_DSPOR ppg j"
  "L1E_DSPOR (setState i st ppg) j = L1E_DSPOR ppg j"
  "L1E_DSPOR (pp_timeout_set P ppg i t ms) j = L1E_DSPOR ppg j"
  "L1E_DSPOR (pp_timeout_reset P ppg i t) j = L1E_DSPOR ppg j"
  by (simp_all add: upd_srv_def upd_wrh_def set_pdstate_def set_extState_def setState_def) (simp_all add: L1E_DSPOR_def)

lemma L1_BS_upd_inst [simp]:
  "ppi_l1e (f (INST ppg i)) = ppi_l1e (INST ppg i) \<Longrightarrow> L1E_DSPOR_BS (upd_inst i f ppg) j = L1E_DSPOR_BS ppg j"
  by (simp add: L1E_DSPOR_BS_def)

lemma L1_servo [simp]:
  "L1E_DSPOR (pp_servo_init P ppg i) j = L1E_DSPOR ppg j"
  "L1E_DSPOR (l1e_servo_init P ppg i) j = L1E_DSPOR ppg j"
  "L1E_DSPOR (wrh_servo_reset ppg i) j = L1E_DSPOR ppg j"
  by (simp_all add: pp_servo_init_def l1e_servo_init_def wrh_servo_init_def wrh_servo_reset_def Let_def split: option.split)

lemma L1_send [simp]:
  "L1E_DSPOR (l1e_send_sync_msg P ppg i im) j = L1E_DSPOR ppg j"
  "L1E_DSPOR (snd (l1e_stay P ppg i)) j = L1E_DSPOR ppg j"
proof -
  have "ppi_l1e (snd (l1e_pack_signal ppi)) = ppi_l1e ppi" for ppi
    by (simp add: l1e_pack_signal_def msg_pack_signaling_no_fowardable_def msg_pack_signaling0_def pack_defs case_prod_beta)
  then show s: "L1E_DSPOR (l1e_send_sync_msg P ppg i im) j = L1E_DSPOR ppg j" for im
    by (simp add: l1e_send_sync_msg_def upd_pack_def send_and_log_def Let_def case_prod_beta)
  show "L1E_DSPOR (snd (l1e_stay P ppg i)) j = L1E_DSPOR ppg j" by (simp add: l1e_stay_def s Let_def)
qed

lemma L1_len [simp]:
  "length (pp_instances (upd_bs i f ppg)) = length (pp_instances ppg)"
  "length (pp_instances (set_l1_next i s ppg)) = length (pp_instances ppg)"
  "length (pp_instances (set_execute i b ppg)) = length (pp_instances ppg)"
  "length (pp_instances (wrh_servo_reset ppg i)) = length (pp_instances ppg)"
  "length (pp_instances (upd_srv i g ppg)) = length (pp_instances ppg)"
  "length (pp_instances (check_rx_tmo P ppg i)) = length (pp_instances ppg)"
  "length (pp_instances (l1e_servo_init P ppg i)) = length (pp_instances ppg)"
  by (simp_all add: upd_bs_def upd_l1e_def set_l1_next_def set_execute_def wrh_servo_reset_def upd_srv_def setState_def check_rx_tmo_def
    l1e_servo_init_def wrh_servo_init_def Let_def)

lemma L1_len_send [simp]: "length (pp_instances (l1e_send_sync_msg P ppg i im)) = length (pp_instances ppg)"
  by (simp add: l1e_send_sync_msg_def upd_pack_def send_and_log_def Let_def case_prod_beta)

lemma BS_cong: "L1E_DSPOR a i = L1E_DSPOR b i \<Longrightarrow> L1E_DSPOR_BS a i = L1E_DSPOR_BS b i"
  by (simp add: L1E_DSPOR_BS_def)

lemmas L1_BS [simp] = L1_other [THEN BS_cong] L1_servo [THEN BS_cong] L1_send [THEN BS_cong]

lemma rx_tmo_fields [simp]:
  assumes "i < length (pp_instances ppg)"
  shows "l1_next_state (L1E_DSPOR_BS (check_rx_tmo P ppg i) i) = l1_next_state (L1E_DSPOR_BS ppg i)"
    "l1_L1SyncState (L1E_DSPOR_BS (check_rx_tmo P ppg i) i) = l1_L1SyncState (L1E_DSPOR_BS ppg i)"
    "l1_execute_state_machine (L1E_DSPOR ppg i) \<Longrightarrow> l1_execute_state_machine (L1E_DSPOR (check_rx_tmo P ppg i) i)"
  using assms by (simp_all add: check_rx_tmo_def)

section \<open>The way to the state \<open>L1SYNC_UP\<close>\<close>








lemma follow_pll_fields [simp]:
  "l1_next_state (follow_pll P ppg i bs) = l1_next_state bs" "l1_L1SyncLinkAlive (follow_pll P ppg i bs) = l1_L1SyncLinkAlive bs"
  "l1_txCoherentIsRequired (follow_pll P ppg i bs) = l1_txCoherentIsRequired bs"
  "l1_rxCoherentIsRequired (follow_pll P ppg i bs) = l1_rxCoherentIsRequired bs"
  "l1_congruentIsRequired (follow_pll P ppg i bs) = l1_congruentIsRequired bs"
  "l1_peerTxCoherentIsRequired (follow_pll P ppg i bs) = l1_peerTxCoherentIsRequired bs"
  "l1_peerRxCoherentIsRequired (follow_pll P ppg i bs) = l1_peerRxCoherentIsRequired bs"
  "l1_peerCongruentIsRequired (follow_pll P ppg i bs) = l1_peerCongruentIsRequired bs"
  by (simp_all add: follow_pll_def Let_def)









definition l1e_example :: pp_globals where
  "l1e_example = upd_inst 0 (\<lambda>ppi. ppi\<lparr> ppi_state := PPS_MASTER, ppi_extState := PP_EXSTATE_ACTIVE, link_up := True,
     tmo_cfg := \<lambda>_. \<lparr> which_rand = TO_RAND_NONE, initValueMs = 0, tmo = 100 \<rparr>,
     ppi_l1e := l1e_ext_portDS_0\<lparr> l1_execute_state_machine := True,
       l1_basic := (l1_basic l1e_ext_portDS_0)\<lparr> l1_L1SyncEnabled := True, l1_L1SyncLinkAlive := True,
         l1_L1SyncState := L1SYNC_CONFIG_MATCH, l1_next_state := L1SYNC_CONFIG_MATCH,
         l1_txCoherentIsRequired := True, l1_peerTxCoherentIsRequired := True, l1_peerIsTxCoherent := True \<rparr> \<rparr> \<rparr>)
     (pp_globals_0 config_default 1)"


section \<open>The TLV on the wire\<close>

text \<open>The requirements and the state of the sender, as the receiver keeps them of its peer.\<close>

definition peer_copy :: "L1SyncBasicPortDS \<Rightarrow> L1SyncBasicPortDS \<Rightarrow> L1SyncBasicPortDS" where
  "peer_copy bs r = r\<lparr>
     l1_peerTxCoherentIsRequired := l1_txCoherentIsRequired bs, l1_peerRxCoherentIsRequired := l1_rxCoherentIsRequired bs,
     l1_peerCongruentIsRequired := l1_congruentIsRequired bs, l1_peerIsTxCoherent := l1_isTxCoherent bs,
     l1_peerIsRxCoherent := l1_isRxCoherent bs, l1_peerIsCongruent := l1_isCongruent bs \<rparr>"

lemma store_peer_local: "store_peer (local_config bs) (local_active bs) r = peer_copy bs r"
  by (simp add: store_peer_def peer_copy_def local_config_def local_active_def l1e_creat_L1Sync_bitmask_def
    l1e_const_defs Let_def)

text \<open>
  C18: an L1Sync message in the basic format tells the receiver the requirements and the state of the sender; a
  message in the extended format, which a port with optional parameters sends, is rejected by the receiver.  The
  transmit buffer holds at least 88 bytes.
\<close>

theorem l1sync_tlv:
  assumes "88 \<le> length (ppi_tx_ptp ppi)" and "j < length (pp_instances rx)"
  shows "let (len, ppi') = l1e_pack_signal ppi; n = nat (sint len); frame = take n (ppi_tx_ptp ppi');
             bs = l1_basic (ppi_l1e ppi)
         in hdr_messageLength (msg_header_of frame) = ucast len \<and>
            (if l1_optParamsEnabled bs
             then n = 88 \<and> l1e_unpack_signal rx j frame n = None
             else n = 50 \<and> (\<exists>rx'. l1e_unpack_signal rx j frame n = Some rx' \<and>
                    L1E_DSPOR_BS rx' j = peer_copy bs (L1E_DSPOR_BS rx j)))"
proof (cases "l1_optParamsEnabled (l1_basic (ppi_l1e ppi))")
  case True
  with assms show ?thesis
    by (simp add: l1e_pack_signal_def msg_pack_signaling_no_fowardable_def msg_pack_signaling0_def pack_defs case_prod_beta wire
      l1e_unpack_signal_def get16_def l1e_const_defs msg_header_of_def)
next
  case False
  with assms show ?thesis
    by (simp add: l1e_pack_signal_def msg_pack_signaling_no_fowardable_def msg_pack_signaling0_def pack_defs case_prod_beta wire
      l1e_unpack_signal_def get16_def l1e_const_defs msg_header_of_def store_peer_local)
qed

theorem l1sync_tlv_witness:
  "let (len, ppi') = l1e_pack_signal (INST l1e_example 0); n = nat (sint len)
   in n = 50 \<and> (\<exists>rx'. l1e_unpack_signal (pp_globals_0 config_default 1) 0 (take n (ppi_tx_ptp ppi')) n = Some rx' \<and>
     l1_peerTxCoherentIsRequired (L1E_DSPOR_BS rx' 0))"
proof -
  have "0 < length (pp_instances (pp_globals_0 config_default 1))" by (simp add: pp_globals_0_def)
  then have "ppi_tx_ptp (INST l1e_example 0) = replicate 108 0" "\<not> l1_optParamsEnabled (l1_basic (ppi_l1e (INST l1e_example 0)))"
    "l1_txCoherentIsRequired (l1_basic (ppi_l1e (INST l1e_example 0)))"
    by (simp_all add: l1e_example_def INST_0) (simp_all add: pp_instance_0_def l1e_ext_portDS_0_def L1SyncBasicPortDS_0_def)
  then show ?thesis
    using l1sync_tlv [of "INST l1e_example 0" 0 "pp_globals_0 config_default 1"]
    by (auto simp: Let_def case_prod_beta pp_globals_0_def peer_copy_def)
qed

end
