(* ===== verification/Open_Close.thy ===== *)
theory Open_Close
  imports Fsm
begin

text \<open>
  The default options and the start and the end of the daemon's protocol engine
  (\<^verbatim>\<open>proto-standard/open-close.c\<close>).  \<open>rt_opts\<close> is a pointer in the source: whether it is set before
  \<^verbatim>\<open>pp_init_globals\<close> is an argument of the model; when it is not, the clock takes the options passed.
\<close>

section \<open>Defaults\<close>

definition pp_default_rt_opts :: pp_runtime_opts where
  "pp_default_rt_opts = pp_runtime_opts_0\<lparr>
     opt_clock_quality_clockClass := PP_CLASS_DEFAULT,
     opt_clock_quality_clockAccuracy := - 1,
     opt_clock_quality_offsetScaledLogVariance := - 1,
     opt_timeSource := - 1,
     opt_ptpTimeScale := - 1, opt_frequencyTraceable := - 1, opt_timeTraceable := - 1,
     opt_flags := 0, opt_ap := 10, opt_ai := 1000, opt_s := 6,
     opt_priority1 := 128, opt_priority2 := 128, opt_domainNumber := 0, opt_ttl := 1,
     opt_externalPortConfigurationEnabled := False,
     opt_ptpPpsThresholdMs := 500, opt_gmDelayToGenPpsSec := 0,
     opt_forcePpsGen := False, opt_ptpFallbackPpsGen := False, opt_slaveOnly := False \<rparr>"

definition PPSI_PROFILE_PTP :: s32 where "PPSI_PROFILE_PTP = 0"

definition pp_default_instance_cfg :: pp_instance_cfg where
  "pp_default_instance_cfg = pp_instance_cfg_0\<lparr>
     cfg_profile := PPSI_PROFILE_PTP, cfg_delayMechanism := MECH_E2E,
     cfg_announce_interval := 1, cfg_announce_receipt_timeout := 3, cfg_sync_interval := 0,
     cfg_min_delay_req_interval := 0, cfg_min_pdelay_req_interval := 0,
     cfg_l1SyncEnabled := False, cfg_l1SyncRxCoherentIsRequired := False,
     cfg_l1SyncTxCoherentIsRequired := False, cfg_l1SyncCongruentIsRequired := False,
     cfg_l1SyncOptParamsEnabled := False, cfg_l1SyncOptParamsTimestampsCorrectedTx := False,
     cfg_l1syncInterval := 0, cfg_l1syncReceiptTimeout := 3,
     cfg_asymmetryCorrectionEnable := False, cfg_egressLatency_ps := 0, cfg_ingressLatency_ps := 0,
     cfg_constantAsymmetry_ps := 0, cfg_scaledDelayCoefficient := 0,
     cfg_desiredState := PPS_PASSIVE, cfg_masterOnly := False \<rparr>"

section \<open>Start\<close>

definition set_slaveOnly :: "bool \<Rightarrow> pp_globals \<Rightarrow> pp_globals" where
  "set_slaveOnly b ppg = ppg\<lparr> g_defaultDS := (g_defaultDS ppg)\<lparr> dd_slaveOnly := b \<rparr> \<rparr>"

text \<open>
  The clock class of the data set and the configured one, which the update of the clock quality would
  otherwise restore.
\<close>

definition force_clockClass :: "u8 \<Rightarrow> pp_globals \<Rightarrow> pp_globals" where
  "force_clockClass c ppg = ppg\<lparr>
     g_defaultDS := (g_defaultDS ppg)\<lparr> dd_clockQuality := (dd_clockQuality (g_defaultDS ppg))\<lparr> clockClass := c \<rparr> \<rparr>,
     rt_opts := (rt_opts ppg)\<lparr> opt_clock_quality_clockClass := ucast c \<rparr> \<rparr>"

text \<open>The ports of an ordinary clock share the protocol and the interface of the first one.\<close>

definition ordinary_clock :: "pp_globals \<Rightarrow> bool" where
  "ordinary_clock ppg \<longleftrightarrow>
     \<not> list_ex (\<lambda>i. ppi_proto (INST ppg 0) \<noteq> ppi_proto (INST ppg i) \<or>
                    cfg_iface_name (ppi_cfg (INST ppg 0)) \<noteq> cfg_iface_name (ppi_cfg (INST ppg i)))
         [1..<get_numberPorts ppg]"

definition init_slaveOnly :: "pp_globals \<Rightarrow> pp_globals" where
  "init_slaveOnly ppg =
     (let ppg = (if is_externalPortConfigurationEnabled ppg \<and> is_slaveOnly ppg then set_slaveOnly False ppg else ppg);
          ppg = set_slaveOnly (is_slaveOnly ppg) ppg
      in if is_slaveOnly ppg
         then let ppg = (if get_numberPorts ppg > 1 \<and> \<not> ordinary_clock ppg then set_slaveOnly False ppg else ppg)
              in if is_slaveOnly ppg then force_clockClass PP_CLASS_SLAVE_ONLY ppg else ppg
         else ppg)"

definition init_port :: "nat \<Rightarrow> pp_globals \<Rightarrow> pp_globals" where
  "init_port i = upd_inst i (\<lambda>ppi. pp_timeout_disable_all (ppi\<lparr>
     ppi_state := PPS_DISABLED, ppi_pdstate := PP_PDSTATE_NONE, ppi_current_state_item := None,
     port_idx := word_of_nat i, frgn_rec_best := - 1 \<rparr>))"

definition init_epc_port :: "nat \<Rightarrow> pp_globals \<Rightarrow> pp_globals" where
  "init_epc_port i ppg =
     upd_inst i (\<lambda>ppi. ppi\<lparr>
       ppi_portDS := (if is_masterOnly ppg i then (ppi_portDS ppi)\<lparr> por_masterOnly := False \<rparr> else ppi_portDS ppi),
       ppi_desiredState := cfg_desiredState (ppi_cfg ppi) \<rparr>) ppg"

definition slave_desired :: "pp_globals \<Rightarrow> bool" where
  "slave_desired ppg \<longleftrightarrow>
     list_ex (\<lambda>i. cfg_desiredState (ppi_cfg (INST ppg i)) = PPS_SLAVE \<or>
                  cfg_desiredState (ppi_cfg (INST ppg i)) = PPS_UNCALIBRATED) [0..<get_numberPorts ppg]"

definition init_epc :: "pp_globals \<Rightarrow> pp_globals" where
  "init_epc ppg =
     (if is_externalPortConfigurationEnabled ppg
      then let isSlavePresent = slave_desired ppg;
               ppg = fold init_epc_port [0..<get_numberPorts ppg] ppg
           in if clockClass (dd_clockQuality (g_defaultDS ppg)) < 128 \<and> isSlavePresent
              then force_clockClass PP_CLASS_DEFAULT ppg else ppg
      else ppg)"

text \<open>The hook of every port is called; the last failure is returned.\<close>

fun call_hooks :: "(nat \<Rightarrow> hook) \<Rightarrow> nat list \<Rightarrow> s32 \<Rightarrow> pp_globals \<Rightarrow> s32 \<times> pp_globals" where
  "call_hooks h [] ret ppg = (ret, ppg)"
| "call_hooks h (i # is) ret ppg =
     (case h i of
        Some f \<Rightarrow> let (r, ppg) = f ppg i in call_hooks h is (if r = 0 then ret else r) ppg
      | None \<Rightarrow> call_hooks h is ret ppg)"

definition pp_init_globals :: "platform \<Rightarrow> bool \<Rightarrow> pp_runtime_opts \<Rightarrow> pp_globals \<Rightarrow> s32 \<times> pp_globals" where
  "pp_init_globals P opts_set pp_rt_opts ppg =
     (let ppg = ppg\<lparr> g_defaultDS := (g_defaultDS ppg)\<lparr>
            dd_numberPorts := (if sint (g_nlinks ppg) > 0 then ucast (g_nlinks ppg) else 1) \<rparr> \<rparr>;
          ppg = (if opts_set then ppg else ppg\<lparr> rt_opts := pp_rt_opts \<rparr>);
          ppg = bmc_apply_configured_device_attributes (bmc_set_default_device_attributes ppg);
          ppg = ppg\<lparr> g_defaultDS := (g_defaultDS ppg)\<lparr>
            dd_externalPortConfigurationEnabled := opt_externalPortConfigurationEnabled pp_rt_opts,
            dd_slaveOnly := opt_slaveOnly (rt_opts ppg) \<rparr> \<rparr>;
          ppg = init_slaveOnly ppg;
          ppg = fold init_port [0..<get_numberPorts ppg] ppg;
          ppg = init_epc ppg
      in call_hooks (\<lambda>i. h_open (ext_hooks P i)) [0..<get_numberPorts ppg] 0 ppg)"

section \<open>End\<close>

definition pp_close_globals :: "platform \<Rightarrow> pp_globals \<Rightarrow> s32 \<times> pp_globals" where
  "pp_close_globals P ppg = call_hooks (\<lambda>i. h_close (ext_hooks P i)) [0..<get_numberPorts ppg] 0 ppg"

end
