(* ===== verification/Clock_Frame.thy ===== *)
theory Clock_Frame
  imports Open_Close
begin

text \<open>
  What the operations of the standard state machine keep of the state of a clock.  The relation
  \<open>keeps w a b\<close> says that the ports of \<open>b\<close> have the state, the link, the transmit buffer and the
  well-formed foreign master table they have in \<open>a\<close>, and that only the port \<open>w\<close>, if any, has gained a
  foreign master or asked for another state while it was not active.  It is reflexive and transitive,
  and each operation has one rule, collected in \<open>keeps_rules\<close>, so that the proof for a function that
  calls others is an application of the rules.  The contract of a protocol extension is the locale
  \<open>ext_keeps\<close>, which the hooks of the standard satisfy.
\<close>

named_theorems keeps_rules \<open>what an operation keeps of the clock state\<close>

section \<open>What an operation keeps\<close>

definition is_active :: "pp_std_states \<Rightarrow> bool" where
  "is_active s \<longleftrightarrow> s \<notin> {PPS_END_OF_TABLE, PPS_INITIALIZING, PPS_FAULTY, PPS_DISABLED}"

definition inst_keeps :: "bool \<Rightarrow> config \<Rightarrow> pp_instance \<Rightarrow> pp_instance \<Rightarrow> bool" where
  "inst_keeps quiet cf p q \<longleftrightarrow>
     ppi_state q = ppi_state p \<and> ppi_desiredState q = ppi_desiredState p \<and>
     link_up q = link_up p \<and> port_idx q = port_idx p \<and>
     length (ppi_tx_ptp q) = length (ppi_tx_ptp p) \<and>
     (frgn_wf cf p \<longrightarrow> frgn_wf cf q) \<and> (tx_ready p \<longrightarrow> tx_ready q) \<and>
     (ppi_next_state q = ppi_next_state p \<or> ppi_next_state q \<notin> {PPS_END_OF_TABLE, PPS_DISABLED}) \<and>
     (quiet \<longrightarrow> (frgn_rec_num p = 0 \<longrightarrow> frgn_rec_num q = 0) \<and>
        (\<not> is_active (ppi_state p) \<longrightarrow> ppi_next_state q = ppi_next_state p))"

definition keeps :: "nat option \<Rightarrow> pp_globals \<Rightarrow> pp_globals \<Rightarrow> bool" where
  "keeps w a b \<longleftrightarrow>
     length (pp_instances b) = length (pp_instances a) \<and> g_config b = g_config a \<and> g_nlinks b = g_nlinks a \<and>
     dd_numberPorts (g_defaultDS b) = dd_numberPorts (g_defaultDS a) \<and>
     dd_externalPortConfigurationEnabled (g_defaultDS b) = dd_externalPortConfigurationEnabled (g_defaultDS a) \<and>
     (\<forall>j < length (pp_instances a). inst_keeps (w \<noteq> Some j) (g_config a) (INST a j) (INST b j))"

lemma inst_keeps_refl [simp]: "inst_keeps quiet cf p p"
  by (simp add: inst_keeps_def)

lemma inst_keeps_trans: "inst_keeps quiet cf p q \<Longrightarrow> inst_keeps quiet cf q r \<Longrightarrow> inst_keeps quiet cf p r"
  by (cases quiet; cases "is_active (ppi_state p)"; clarsimp simp: inst_keeps_def; metis)

lemma keeps_refl [simp, keeps_rules]: "keeps w a a"
  by (simp add: keeps_def)

lemma keeps_trans: "keeps w a b \<Longrightarrow> keeps w b c \<Longrightarrow> keeps w a c"
  by (auto simp: keeps_def intro: inst_keeps_trans)

lemma keeps_quietD: "keeps None a b \<Longrightarrow> keeps w a b"
  by (auto simp: keeps_def inst_keeps_def)

lemma inst_keeps_same_tmo: "clear_tmo q = clear_tmo p \<Longrightarrow> inst_keeps quiet cf p q"
  using clear_tmo_eqD [of q p] by (auto simp: inst_keeps_def frgn_wf_def live_def tx_ready_def)

lemma keeps_same_but_tmo: "same_but_tmo a b \<Longrightarrow> keeps w a b"
  using same_but_tmo_fields [of a b]
  by (simp add: keeps_def) (simp add: same_but_tmo_def inst_keeps_same_tmo)

lemma keeps_if [keeps_rules]: "keeps w a b \<Longrightarrow> keeps w a c \<Longrightarrow> keeps w a (if x then b else c)"
  by simp

lemma keeps_option:
  "keeps w a b \<Longrightarrow> (\<And>x. y = Some x \<Longrightarrow> keeps w a (f x)) \<Longrightarrow> keeps w a (case y of None \<Rightarrow> b | Some x \<Rightarrow> f x)"
  by (cases y) simp_all

lemma keeps_upd_inst [keeps_rules]:
  assumes "inst_keeps (w \<noteq> Some i) (g_config b) (INST b i) (f (INST b i))" and "keeps w a b"
  shows "keeps w a (upd_inst i f b)"
proof -
  have "keeps w b (upd_inst i f b)"
    using assms(1) by (cases "i < length (pp_instances b)") (simp_all add: keeps_def upd_inst_beyond)
  with assms(2) show ?thesis by (rule keeps_trans)
qed

lemma keeps_globals [simp]:
  "keeps w a (b\<lparr> rt_opts := x1 \<rparr>) = keeps w a b"
  "keeps w a (b\<lparr> g_currentDS := x2 \<rparr>) = keeps w a b"
  "keeps w a (b\<lparr> g_parentDS := x3 \<rparr>) = keeps w a b"
  "keeps w a (b\<lparr> g_timePropertiesDS := x4 \<rparr>) = keeps w a b"
  "keeps w a (b\<lparr> ebest_idx := x5 \<rparr>) = keeps w a b"
  "keeps w a (b\<lparr> ebest_updated := x6 \<rparr>) = keeps w a b"
  "keeps w a (b\<lparr> g_errcount := x7 \<rparr>) = keeps w a b"
  "keeps w a (b\<lparr> g_lastTimingModeState := x8 \<rparr>) = keeps w a b"
  "keeps w a (b\<lparr> wrh_tracking_enabled := x9 \<rparr>) = keeps w a b"
  "keeps w a (log_event ev b) = keeps w a b"
  by (simp_all add: keeps_def INST_def log_event_def)

lemmas keeps_globals_rules [keeps_rules] = keeps_globals [THEN iffD2]

lemma inst_keeps_fields [simp]:
  "inst_keeps quiet cf p (q\<lparr> ppi_next_delay := x0 \<rparr>) = inst_keeps quiet cf p q"
  "inst_keeps quiet cf p (q\<lparr> ppi_is_new_state := x1 \<rparr>) = inst_keeps quiet cf p q"
  "inst_keeps quiet cf p (q\<lparr> ppi_current_state_item := x2 \<rparr>) = inst_keeps quiet cf p q"
  "inst_keeps quiet cf p (q\<lparr> ppi_protocol_extension := x3 \<rparr>) = inst_keeps quiet cf p q"
  "inst_keeps quiet cf p (q\<lparr> ppi_flags := x4 \<rparr>) = inst_keeps quiet cf p q"
  "inst_keeps quiet cf p (q\<lparr> ppi_proto := x5 \<rparr>) = inst_keeps quiet cf p q"
  "inst_keeps quiet cf p (q\<lparr> ppi_delayMechanism := x6 \<rparr>) = inst_keeps quiet cf p q"
  "inst_keeps quiet cf p (q\<lparr> ppi_gen_addr := x7 \<rparr>) = inst_keeps quiet cf p q"
  "inst_keeps quiet cf p (q\<lparr> ppi_peer := x8 \<rparr>) = inst_keeps quiet cf p q"
  "inst_keeps quiet cf p (q\<lparr> ppi_activePeer := x9 \<rparr>) = inst_keeps quiet cf p q"
  "inst_keeps quiet cf p (q\<lparr> ppi_peer_vid := x10 \<rparr>) = inst_keeps quiet cf p q"
  "inst_keeps quiet cf p (q\<lparr> ppi_t1 := x11 \<rparr>) = inst_keeps quiet cf p q"
  "inst_keeps quiet cf p (q\<lparr> ppi_t2 := x12 \<rparr>) = inst_keeps quiet cf p q"
  "inst_keeps quiet cf p (q\<lparr> ppi_t3 := x13 \<rparr>) = inst_keeps quiet cf p q"
  "inst_keeps quiet cf p (q\<lparr> ppi_t4 := x14 \<rparr>) = inst_keeps quiet cf p q"
  "inst_keeps quiet cf p (q\<lparr> ppi_t5 := x15 \<rparr>) = inst_keeps quiet cf p q"
  "inst_keeps quiet cf p (q\<lparr> ppi_t6 := x16 \<rparr>) = inst_keeps quiet cf p q"
  "inst_keeps quiet cf p (q\<lparr> ppi_syncCF := x17 \<rparr>) = inst_keeps quiet cf p q"
  "inst_keeps quiet cf p (q\<lparr> ppi_last_rcv_time := x18 \<rparr>) = inst_keeps quiet cf p q"
  "inst_keeps quiet cf p (q\<lparr> ppi_last_snt_time := x19 \<rparr>) = inst_keeps quiet cf p q"
  "inst_keeps quiet cf p (q\<lparr> frgn_master_time_window_ms := x20 \<rparr>) = inst_keeps quiet cf p q"
  "inst_keeps quiet cf p (q\<lparr> ppi_servo := x21 \<rparr>) = inst_keeps quiet cf p q"
  "inst_keeps quiet cf p (q\<lparr> ppi_asymmetryCorrectionPortDS := x22 \<rparr>) = inst_keeps quiet cf p q"
  "inst_keeps quiet cf p (q\<lparr> ppi_timestampCorrectionPortDS := x23 \<rparr>) = inst_keeps quiet cf p q"
  "inst_keeps quiet cf p (q\<lparr> tmo_cfg := x24 \<rparr>) = inst_keeps quiet cf p q"
  "inst_keeps quiet cf p (q\<lparr> recv_sync_sequence_id := x25 \<rparr>) = inst_keeps quiet cf p q"
  "inst_keeps quiet cf p (q\<lparr> sent_seq := x26 \<rparr>) = inst_keeps quiet cf p q"
  "inst_keeps quiet cf p (q\<lparr> received_ptp_header := x27 \<rparr>) = inst_keeps quiet cf p q"
  "inst_keeps quiet cf p (q\<lparr> ppi_vlans := x28 \<rparr>) = inst_keeps quiet cf p q"
  "inst_keeps quiet cf p (q\<lparr> ppi_cfg := x29 \<rparr>) = inst_keeps quiet cf p q"
  "inst_keeps quiet cf p (q\<lparr> ptp_tx_count := x30 \<rparr>) = inst_keeps quiet cf p q"
  "inst_keeps quiet cf p (q\<lparr> ptp_rx_count := x31 \<rparr>) = inst_keeps quiet cf p q"
  "inst_keeps quiet cf p (q\<lparr> received_dresp := x32 \<rparr>) = inst_keeps quiet cf p q"
  "inst_keeps quiet cf p (q\<lparr> received_dresp_fup := x33 \<rparr>) = inst_keeps quiet cf p q"
  "inst_keeps quiet cf p (q\<lparr> ppi_ptp_fallback := x34 \<rparr>) = inst_keeps quiet cf p q"
  "inst_keeps quiet cf p (q\<lparr> bmca_execute := x35 \<rparr>) = inst_keeps quiet cf p q"
  "inst_keeps quiet cf p (q\<lparr> ppi_pdstate := x36 \<rparr>) = inst_keeps quiet cf p q"
  "inst_keeps quiet cf p (q\<lparr> ppi_extState := x37 \<rparr>) = inst_keeps quiet cf p q"
  "inst_keeps quiet cf p (q\<lparr> ppi_wr := x38 \<rparr>) = inst_keeps quiet cf p q"
  "inst_keeps quiet cf p (q\<lparr> ppi_l1e := x39 \<rparr>) = inst_keeps quiet cf p q"
  "inst_keeps quiet cf p (q\<lparr> ppi_wrh_servo := x40 \<rparr>) = inst_keeps quiet cf p q"
  "inst_keeps quiet cf p (q\<lparr> ppi_wr_servo_ext := x41 \<rparr>) = inst_keeps quiet cf p q"
  by (simp_all add: inst_keeps_def frgn_wf_def live_def tx_ready_def)

lemma inst_keeps_portDS [simp]:
  "inst_keeps quiet cf p (p\<lparr> ppi_portDS := (ppi_portDS p)\<lparr> por_meanLinkDelay := x \<rparr> \<rparr>)"
  "inst_keeps quiet cf p (p\<lparr> ppi_portDS := (ppi_portDS p)\<lparr> por_delayAsymmetry := x \<rparr> \<rparr>)"
  "inst_keeps quiet cf p (p\<lparr> ppi_portDS := (ppi_portDS p)\<lparr> por_logMinDelayReqInterval := y \<rparr> \<rparr>)"
  by (simp_all add: inst_keeps_def frgn_wf_def live_def tx_ready_def)

lemma inst_keeps_next_state [simp]:
  "s \<notin> {PPS_END_OF_TABLE, PPS_DISABLED} \<Longrightarrow> inst_keeps False cf p q \<Longrightarrow> inst_keeps False cf p (q\<lparr> ppi_next_state := s \<rparr>)"
  by (auto simp: inst_keeps_def frgn_wf_def live_def tx_ready_def)

text \<open>Writes to the transmit buffer outside the fields that hold the version and the identity of the port.\<close>

lemma inst_keeps_tx_put [simp]:
  assumes "inst_keeps quiet cf p q" and "off + length bs \<le> 1 \<or> 2 \<le> off \<and> off + length bs \<le> 20 \<or> 30 \<le> off"
  shows "inst_keeps quiet cf p (tx_put off bs q)"
proof -
  have "tx_ready q \<Longrightarrow> tx_ready (tx_put off bs q)"
    using assms(2) by (auto simp: tx_ready_def peek_put_before peek_put_after nth_put)
  then show ?thesis using assms(1) by (auto simp: inst_keeps_def frgn_wf_def live_def tx_put_def)
qed

lemmas keeps_norm = Let_def case_prod_beta prod.sel if_distrib [of snd] option.case_distrib [of snd]

lemma pack_header_keeps [simp]:
  "inst_keeps quiet cf p q \<Longrightarrow> inst_keeps quiet cf p (snd (msg_pack_header mf q))"
  by (simp add: msg_pack_header_def Let_def)

lemma set_seq_id_keeps [simp]: "inst_keeps quiet cf p q \<Longrightarrow> inst_keeps quiet cf p (msg_set_seq_id mf q)"
  by (simp add: msg_set_seq_id_def Let_def)

lemma pack_origin_keeps [simp]: "inst_keeps quiet cf p q \<Longrightarrow> inst_keeps quiet cf p (pack_origin_timestamp t q)"
  by (simp add: pack_origin_timestamp_def Let_def)

lemma pack_keeps [simp]:
  "inst_keeps quiet cf p (snd (msg_pack_sync t p))"
  "inst_keeps quiet cf p (snd (msg_pack_follow_up t p))"
  "inst_keeps quiet cf p (snd (msg_pack_announce0 ppg p))"
  "inst_keeps quiet cf p (snd (msg_pack_pdelay_resp_follow_up t p))"
  "inst_keeps quiet cf p (snd (msg_pack_signaling0 fmt pid ty len p))"
  by (simp_all add: msg_pack_sync_def msg_pack_follow_up_def msg_pack_announce0_def msg_set_announce_flags_def
    msg_pack_pdelay_resp_follow_up_def msg_pack_signaling0_def Let_def case_prod_beta)

lemma pack_globals_keeps [keeps_rules]:
  "keeps w a b \<Longrightarrow> keeps w a (snd (msg_pack_delay_req P b i t))"
  "keeps w a b \<Longrightarrow> keeps w a (snd (msg_pack_delay_resp P b i t))"
  "keeps w a b \<Longrightarrow> keeps w a (snd (msg_pack_pdelay_req P b i t))"
  "keeps w a b \<Longrightarrow> keeps w a (snd (msg_pack_pdelay_resp P b i t))"
  by (simp_all add: msg_pack_delay_req_def msg_pack_delay_resp_def msg_pack_pdelay_req_def msg_pack_pdelay_resp_def
    Let_def case_prod_beta keeps_upd_inst)

lemma upd_pack_keeps [keeps_rules]:
  "inst_keeps (w \<noteq> Some i) (g_config b) (INST b i) (snd (f (INST b i))) \<Longrightarrow> keeps w a b \<Longrightarrow>
   keeps w a (snd (upd_pack f b i))"
  by (simp add: upd_pack_def case_prod_beta keeps_upd_inst)

lemma send_keeps [keeps_rules]: "keeps w a b \<Longrightarrow> keeps w a (snd (send_and_log P b i len ch fmt))"
  unfolding send_and_log_def keeps_norm by (intro keeps_rules) simp_all

lemma issue_keeps [keeps_rules]:
  "keeps w a b \<Longrightarrow> keeps w a (snd (msg_issue_sync_followup P b i))"
  "keeps w a b \<Longrightarrow> keeps w a (snd (msg_issue_request P b i))"
  "keeps w a b \<Longrightarrow> keeps w a (snd (msg_issue_delay_resp P b i t))"
  "keeps w a b \<Longrightarrow> keeps w a (snd (msg_issue_pdelay_resp_followup P b i t))"
  "keeps w a b \<Longrightarrow> keeps w a (snd (msg_issue_pdelay_resp P b i t))"
  unfolding msg_issue_sync_followup_def msg_issue_request_def msg_issue_delay_req_def msg_issue_pdelay_req_def
    msg_issue_delay_resp_def msg_issue_pdelay_resp_followup_def msg_issue_pdelay_resp_def keeps_norm
  by (intro keeps_rules; simp)+

section \<open>Timers, servo and data sets\<close>

lemma timers_keep [keeps_rules]:
  "keeps w a b \<Longrightarrow> keeps w a (pp_timeout_set P b i t ms)"
  "keeps w a b \<Longrightarrow> keeps w a (pp_timeout_disable P b i t)"
  "keeps w a b \<Longrightarrow> keeps w a (pp_timeout_reset_N P b i t n)"
  "keeps w a b \<Longrightarrow> keeps w a (pp_timeout_reset P b i t)"
  "keeps w a b \<Longrightarrow> keeps w a (pp_timeout_setall P b i)"
  "keeps w a b \<Longrightarrow> keeps w a (pp_timeout_init b i)"
  by (erule keeps_trans, rule keeps_same_but_tmo, rule pp_timeout_set_frame pp_timeout_disable_frame
    pp_timeout_reset_N_frame pp_timeout_reset_frame pp_timeout_setall_frame pp_timeout_init_frame)+

lemma upd_srv_keeps [keeps_rules]: "keeps w a b \<Longrightarrow> keeps w a (upd_srv i f b)"
  unfolding upd_srv_def by (intro keeps_rules) simp_all

lemma timestamps_keep [keeps_rules]: "keeps w a b \<Longrightarrow> keeps w a (snd (timestamps_incorrect ec m b i))"
  by (simp add: timestamps_incorrect_def case_prod_beta)

lemma servo_init_keeps [keeps_rules]: "keeps w a b \<Longrightarrow> keeps w a (pp_servo_init P b i)"
  unfolding pp_servo_init_def keeps_norm by (intro keeps_option keeps_rules)

lemma delayMM_keeps [keeps_rules]:
  "keeps w a b \<Longrightarrow> keeps w a (snd (calculate_p2p_delayMM b i))"
  "keeps w a b \<Longrightarrow> keeps w a (snd (calculate_e2e_delayMM b i))"
  unfolding calculate_p2p_delayMM_def calculate_e2e_delayMM_def keeps_norm by (intro keeps_rules; assumption)+

lemma update_meanDelay_keeps [keeps_rules]: "keeps w a b \<Longrightarrow> keeps w a (update_meanDelay b i md)"
  unfolding update_meanDelay_def update_meanDelay_p2p_def set_cur_meanDelay_def keeps_norm
  by (intro keeps_rules) simp_all

lemma calculate_delays_keeps [keeps_rules]: "keeps w a b \<Longrightarrow> keeps w a (snd (pp_servo_calculate_delays b i))"
  unfolding pp_servo_calculate_delays_def keeps_norm by (intro keeps_rules) simp_all

lemma servo_keeps [keeps_rules]:
  "keeps w a b \<Longrightarrow> keeps w a (control_timing_output b i)"
  "keeps w a b \<Longrightarrow> keeps w a (pp_servo_mpd_fltr b i)"
  "keeps w a b \<Longrightarrow> keeps w a (snd (pp_servo_offset_master P b i))"
  "keeps w a b \<Longrightarrow> keeps w a (snd (pp_servo_pi_controller b i))"
  unfolding control_timing_output_def pp_servo_mpd_fltr_def pp_servo_offset_master_def pp_servo_pi_controller_def keeps_norm
  by (intro keeps_rules; assumption)+

lemma servo_update_keeps [keeps_rules]: "keeps w a b \<Longrightarrow> keeps w a (pp_servo_update P b i)"
  unfolding pp_servo_update_def keeps_norm by (intro keeps_rules)

lemma servo_events_keep [keeps_rules]:
  "keeps w a b \<Longrightarrow> keeps w a (pp_servo_got_sync P b i x)"
  "keeps w a b \<Longrightarrow> keeps w a (snd (pp_servo_got_resp P b i x))"
  "keeps w a b \<Longrightarrow> keeps w a (snd (pp_servo_got_presp b i))"
  unfolding pp_servo_got_sync_def pp_servo_got_resp_def pp_servo_got_presp_def keeps_norm
  by (intro keeps_rules; assumption)+

lemma masters_keep [keeps_rules]:
  "keeps w a b \<Longrightarrow> keeps w a (bmc_m1 P b i)"
  "keeps w a b \<Longrightarrow> keeps w a (bmc_m2 P b i)"
  "keeps w a b \<Longrightarrow> keeps w a (bmc_m3 P b i)"
proof -
  have m1: "keeps w a (bmc_m1 P b i)" if "keeps w a b" for b
    unfolding bmc_m1_def keeps_norm using that by (intro keeps_rules) simp_all
  then show "keeps w a b \<Longrightarrow> keeps w a (bmc_m1 P b i)" .
  show "keeps w a b \<Longrightarrow> keeps w a (bmc_m2 P b i)"
    unfolding bmc_m2_def keeps_norm by (intro keeps_rules m1)
  show "keeps w a b \<Longrightarrow> keeps w a (bmc_m3 P b i)"
    unfolding bmc_m3_def keeps_norm by (intro keeps_rules)
qed

section \<open>The foreign master table\<close>

lemma inst_keeps_frgn:
  assumes "ppi_state q = ppi_state p" "ppi_next_state q = ppi_next_state p" "ppi_desiredState q = ppi_desiredState p"
    "link_up q = link_up p" "port_idx q = port_idx p" "ppi_tx_ptp q = ppi_tx_ptp p" "ppi_portDS q = ppi_portDS p"
    and "frgn_wf cf p \<Longrightarrow> frgn_wf cf q"
  shows "inst_keeps False cf p q"
  using assms by (simp add: inst_keeps_def tx_ready_def)

lemma own_clock_check_keeps:
  assumes "bmc_own_clock_check P ppg i = Some ppg'"
  shows "keeps (Some i) ppg ppg'"
proof -
  have "keeps (Some i) ppg (pp_timeout_reset P (upd_inst i (\<lambda>ppi. ppi\<lparr> ppi_next_state := PPS_PASSIVE \<rparr>) ppg) i PP_TO_ANN_RECEIPT)"
    by (intro keeps_rules) simp_all
  then show ?thesis using assms by (auto simp: bmc_own_clock_check_def Let_def split: if_splits)
qed

lemma select_slot_fields:
  assumes "bmc_select_slot ppg p fm = Some (k, q)"
  shows "ppi_state q = ppi_state p" "ppi_next_state q = ppi_next_state p" "ppi_desiredState q = ppi_desiredState p"
    "link_up q = link_up p" "port_idx q = port_idx p" "ppi_tx_ptp q = ppi_tx_ptp p" "ppi_portDS q = ppi_portDS p"
  using assms by (auto simp: bmc_select_slot_def Let_def split: if_splits)

lemma set_frgn_fields [simp]:
  "ppi_state (set_frgn k fm p) = ppi_state p" "ppi_next_state (set_frgn k fm p) = ppi_next_state p"
  "ppi_desiredState (set_frgn k fm p) = ppi_desiredState p" "link_up (set_frgn k fm p) = link_up p"
  "port_idx (set_frgn k fm p) = port_idx p" "ppi_tx_ptp (set_frgn k fm p) = ppi_tx_ptp p"
  "ppi_portDS (set_frgn k fm p) = ppi_portDS p"
  by (simp_all add: set_frgn_def)

lemma add_frgn_keeps0:
  assumes src: "fm_sourcePortIdentity fm = hdr_sourcePortIdentity (received_ptp_header (INST ppg i))"
  shows "keeps (Some i) ppg (snd (bmc_add_frgn_master P ppg i fm))"
proof (cases "is_externalPortConfigurationEnabled ppg")
  case True
  have "inst_keeps False (g_config ppg) p (set_frgn 0 fm (p\<lparr> frgn_rec_num := 1, frgn_rec_best := 0 \<rparr>))" for p
    by (rule inst_keeps_frgn) (simp_all add: single_frgn_wf)
  with True show ?thesis by (simp add: bmc_add_frgn_master_def Let_def keeps_upd_inst)
next
  case epc: False
  show ?thesis
  proof (cases "bmc_own_clock_check P ppg i")
    case (Some ppg')
    let ?pid = "hdr_sourcePortIdentity (received_ptp_header (INST ppg i))"
    note kp = own_clock_check_keeps [OF Some]
    show ?thesis
    proof (cases "bmc_find_frgn ?pid (INST ppg' i)")
      case None
      have "inst_keeps False (g_config ppg') (INST ppg' i)
          (set_frgn k (fm\<lparr> fm_qualified := b, fm_lastAnnounceMsgMs := t \<rparr>) q)"
        if s: "bmc_select_slot ppg' (INST ppg' i) fm' = Some (k, q)" for k q fm' b t
      proof (rule inst_keeps_frgn)
        assume "frgn_wf (g_config ppg') (INST ppg' i)"
        with select_slot_wf [OF this s] find_frgn_None [OF this None] src
        show "frgn_wf (g_config ppg') (set_frgn k (fm\<lparr> fm_qualified := b, fm_lastAnnounceMsgMs := t \<rparr>) q)" by simp
      qed (simp_all add: select_slot_fields [OF s])
      then show ?thesis using epc Some None kp
        by (auto simp: bmc_add_frgn_master_def Let_def keeps_upd_inst split: option.split prod.split)
    next
      case s: (Some k)
      have "inst_keeps False (g_config ppg') (INST ppg' i) (set_frgn k (bmc_refresh P ppg' i old fm) (INST ppg' i))" for old
        using find_frgn_Some [OF s] src
        by (intro inst_keeps_frgn set_frgn_wf) (simp_all add: bmc_refresh_def Let_def)
      then show ?thesis using epc Some s kp by (simp add: bmc_add_frgn_master_def Let_def keeps_upd_inst)
    qed
  qed (use epc in \<open>simp add: bmc_add_frgn_master_def Let_def\<close>)
qed

lemma add_frgn_keeps:
  assumes "keeps (Some i) a b" and "fm_sourcePortIdentity fm = hdr_sourcePortIdentity (received_ptp_header (INST b i))"
  shows "keeps (Some i) a (snd (bmc_add_frgn_master P b i fm))"
  using assms(1) add_frgn_keeps0 [OF assms(2)] by (rule keeps_trans)

lemma remove_step_fields [simp]:
  "ppi_state (fold (bmc_remove_step past k) ks p) = ppi_state p"
  "ppi_next_state (fold (bmc_remove_step past k) ks p) = ppi_next_state p"
  "ppi_desiredState (fold (bmc_remove_step past k) ks p) = ppi_desiredState p"
  "link_up (fold (bmc_remove_step past k) ks p) = link_up p"
  "port_idx (fold (bmc_remove_step past k) ks p) = port_idx p"
  "ppi_tx_ptp (fold (bmc_remove_step past k) ks p) = ppi_tx_ptp p"
  "ppi_portDS (fold (bmc_remove_step past k) ks p) = ppi_portDS p"
  by (induction ks arbitrary: p) (simp_all add: bmc_remove_step_def Let_def)

lemma flush_erbest_keeps [keeps_rules]: "keeps (Some i) a b \<Longrightarrow> keeps (Some i) a (bmc_flush_erbest P b i)"
proof (erule keeps_trans, cases "i < length (pp_instances b)")
  case True
  have "inst_keeps False (g_config b) (INST b i) (INST (bmc_flush_erbest P b i) i)"
    using True flush_erbest_wf [OF _ True]
    by (intro inst_keeps_frgn) (simp_all add: bmc_flush_erbest_def Let_def bmc_remove_foreign_master_def)
  then show "keeps (Some i) b (bmc_flush_erbest P b i)"
    using True by (simp add: bmc_flush_erbest_def keeps_upd_inst)
qed (simp add: bmc_flush_erbest_def upd_inst_beyond)

lemma set_next_keeps [keeps_rules]:
  "s \<notin> {PPS_END_OF_TABLE, PPS_DISABLED} \<Longrightarrow> keeps (Some i) a b \<Longrightarrow> keeps (Some i) a (set_next_state i s b)"
  "keeps w a b \<Longrightarrow> keeps w a (set_next_delay i d b)"
  unfolding set_next_state_def set_next_delay_def by (intro keeps_rules; simp)+

section \<open>The contract of an extension\<close>

text \<open>
  What the standard state machine relies on when it calls a hook: it keeps the clock state in the sense
  of \<^const>\<open>keeps\<close>, adds no foreign master, and asks for another state on active ports only.
\<close>

definition hook_keeps :: "hook \<Rightarrow> bool" where
  "hook_keeps h \<longleftrightarrow> (\<forall>f ppg i. h = Some f \<longrightarrow> keeps None ppg (snd (f ppg i)))"

definition hook_frame_keeps :: "hook_frame \<Rightarrow> bool" where
  "hook_frame_keeps h \<longleftrightarrow> (\<forall>f ppg i buf len. h = Some f \<longrightarrow> keeps None ppg (snd (f ppg i buf len)))"

locale ext_keeps =
  fixes P :: platform
  assumes frame_hooks: "hook_frame_keeps (h_init (ext_hooks P i))" "hook_frame_keeps (h_listening (ext_hooks P i))"
      "hook_frame_keeps (h_new_slave (ext_hooks P i))" "hook_frame_keeps (h_handle_signaling (ext_hooks P i))"
      "hook_frame_keeps (h_run_ext_state_machine (ext_hooks P i))"
    and hooks: "hook_keeps (h_handle_resp (ext_hooks P i))" "hook_keeps (h_handle_announce (ext_hooks P i))"
      "hook_keeps (h_handle_sync (ext_hooks P i))" "hook_keeps (h_handle_followup (ext_hooks P i))"
      "hook_keeps (h_handle_preq (ext_hooks P i))" "hook_keeps (h_handle_presp (ext_hooks P i))"
      "hook_keeps (h_handle_dreq (ext_hooks P i))" "hook_keeps (h_pack_announce (ext_hooks P i))"
      "hook_keeps (h_ready_for_slave (ext_hooks P i))" "hook_keeps (h_extension_state_changed (ext_hooks P i))"
      "hook_keeps (h_open (ext_hooks P i))" "hook_keeps (h_close (ext_hooks P i))"
    and state_change_hook: "h_state_change (ext_hooks P i) = Some g \<Longrightarrow> keeps None ppg (g ppg i)"
    and unpack_hook: "h_unpack_announce (ext_hooks P i) = Some u \<Longrightarrow> keeps None ppg (snd (u ppg i buf ann))"
    and s1_hook: "h_bmca_s1 (ext_hooks P i) = Some s \<Longrightarrow> keeps None ppg (snd (s ppg i fm loc))"
    and no_decision_hook: "h_state_decision (ext_hooks P i) = None"
    and init_succeeds: "h_init (ext_hooks P i) = Some f \<Longrightarrow> fst (f ppg i buf len) = 0"
begin

lemma call_hook: "hook_keeps h \<Longrightarrow> h = Some f \<Longrightarrow> keeps w a b \<Longrightarrow> keeps w a (snd (f b i))"
  by (erule keeps_trans) (simp add: hook_keeps_def keeps_quietD)

lemma call_frame_hook: "hook_frame_keeps h \<Longrightarrow> h = Some f \<Longrightarrow> keeps w a b \<Longrightarrow> keeps w a (snd (f b i buf len))"
  by (erule keeps_trans) (simp add: hook_frame_keeps_def keeps_quietD)

lemma hook_case:
  "hook_keeps h \<Longrightarrow> keeps w a b \<Longrightarrow> keeps w a c \<Longrightarrow>
   keeps w a (case h of None \<Rightarrow> c | Some f \<Rightarrow> snd (f b i))"
  "hook_frame_keeps h' \<Longrightarrow> keeps w a b \<Longrightarrow> keeps w a c \<Longrightarrow>
   keeps w a (case h' of None \<Rightarrow> c | Some f \<Rightarrow> snd (f b i buf len))"
  by (simp_all add: call_hook call_frame_hook split: option.split)

lemmas called = hook_case hooks frame_hooks

lemma announce_hooks:
  "keeps w a b \<Longrightarrow> keeps w a (snd (msg_pack_announce P b i))"
  "keeps w a b \<Longrightarrow> keeps w a (snd (msg_unpack_announce P b i buf))"
proof -
  assume ab: "keeps w a b"
  show "keeps w a (snd (msg_pack_announce P b i))"
    unfolding msg_pack_announce_def keeps_norm using ab by (intro keeps_rules called) simp_all
  show "keeps w a (snd (msg_unpack_announce P b i buf))"
    unfolding msg_unpack_announce_def keeps_norm
    by (intro keeps_option keeps_rules ab keeps_trans [OF ab keeps_quietD [OF unpack_hook]])
qed

lemma s1_keeps: "keeps w a b \<Longrightarrow> keeps w a (bmc_s1 P b i fm loc)"
proof -
  assume ab: "keeps w a b"
  have evs: "keeps w a c \<Longrightarrow> keeps w a (fold log_event evs c)" for evs c
    by (induction evs arbitrary: c) simp_all
  have hk: "keeps w a (snd (s c i fm loc))" if "keeps w a c" "h_bmca_s1 (ext_hooks P i) = Some s" for s c
    using that(1) keeps_quietD [OF s1_hook [OF that(2)]] by (rule keeps_trans)
  have sd: "keeps w a (s1_data_sets fm b)" using ab by (simp add: s1_data_sets_def)
  show ?thesis unfolding bmc_s1_def keeps_norm
    by (intro keeps_option keeps_rules evs hk sd)
qed
end

section \<open>The states\<close>

context ext_keeps
begin

lemma check_announce_timeout_keeps:
  "keeps (Some i) a b \<Longrightarrow> keeps (Some i) a (st_com_check_announce_receive_timeout P b i)"
  unfolding st_com_check_announce_receive_timeout_def keeps_norm by (intro keeps_rules) simp_all

lemma com_handlers_keep:
  "keeps w a b \<Longrightarrow> keeps w a (snd (st_com_handle_announce P b i))"
  "keeps w a b \<Longrightarrow> keeps w a (snd (st_com_handle_signaling P b i buf len))"
  unfolding st_com_handle_announce_def st_com_handle_signaling_def keeps_norm
  by (intro keeps_rules called; assumption)+

lemma presp_keeps: "keeps (Some i) a b \<Longrightarrow> keeps (Some i) a (snd (presp_call_servo P b i))"
  unfolding presp_call_servo_def keeps_norm by (intro keeps_rules called; assumption)

lemma peer_handlers_keep:
  "keeps (Some i) a b \<Longrightarrow> keeps (Some i) a (snd (st_com_peer_handle_pres P b i buf len))"
  "keeps (Some i) a b \<Longrightarrow> keeps (Some i) a (snd (st_com_peer_handle_pres_followup P b i buf len))"
  "keeps (Some i) a b \<Longrightarrow> keeps (Some i) a (snd (st_com_peer_handle_preq P b i buf len))"
  unfolding st_com_peer_handle_pres_def st_com_peer_handle_pres_followup_def st_com_peer_handle_preq_def keeps_norm
  by (intro keeps_rules called presp_keeps; simp)+

lemma vlan_issue_keeps:
  assumes "\<And>c. keeps (Some i) a c \<Longrightarrow> keeps (Some i) a (snd (issue c i))" and "keeps (Some i) a b"
  shows "keeps (Some i) a (snd (pp_vlan_issue issue b i))"
proof -
  have one: "keeps (Some i) a (snd (issue_on_vlan issue i v c))" if "keeps (Some i) a c" for v c
    unfolding issue_on_vlan_def using that by (intro assms(1) keeps_rules) simp_all
  then have "keeps (Some i) a (fold (\<lambda>v c. snd (issue_on_vlan issue i v c)) vs b)" for vs
    using assms(2) by (induction vs arbitrary: b) simp_all
  then show ?thesis unfolding pp_vlan_issue_def keeps_norm by (intro keeps_rules one assms(2))
qed

lemma may_issue_keeps:
  "keeps (Some i) a b \<Longrightarrow> keeps (Some i) a (snd (pp_lib_may_issue_sync P b i))"
  "keeps (Some i) a b \<Longrightarrow> keeps (Some i) a (snd (pp_lib_may_issue_announce P b i))"
  "keeps (Some i) a b \<Longrightarrow> keeps (Some i) a (snd (pp_lib_may_issue_request P b i))"
proof -
  assume ab: "keeps (Some i) a b"
  show "keeps (Some i) a (snd (pp_lib_may_issue_sync P b i))"
    unfolding pp_lib_may_issue_sync_def pp_vlan_issue_sync_followup_def keeps_norm
    by (intro keeps_rules vlan_issue_keeps ab)
  have utc: "keeps (Some i) a (announce_utc_check P c i)" if "keeps (Some i) a c" for c
    using that by (simp add: announce_utc_check_def Let_def split: option.split)
  show "keeps (Some i) a (snd (pp_lib_may_issue_announce P b i))"
    unfolding pp_lib_may_issue_announce_def pp_vlan_issue_announce_def msg_issue_announce_def keeps_norm
    by (intro keeps_rules vlan_issue_keeps ab utc announce_hooks)
  show "keeps (Some i) a (snd (pp_lib_may_issue_request P b i))"
    unfolding pp_lib_may_issue_request_def keeps_norm using ab by (intro keeps_rules) simp_all
qed

lemma hook_takes_over_keeps:
  assumes "hook_keeps h" and "\<And>c. keeps (Some i) a c \<Longrightarrow> keeps (Some i) a (d c)" and "keeps (Some i) a b"
  shows "keeps (Some i) a (snd (hook_takes_over h d b i))"
  unfolding hook_takes_over_def keeps_norm by (intro keeps_option keeps_rules assms call_hook [OF assms(1)])

lemma store_add_keeps:
  assumes "keeps (Some i) a b"
  shows "keeps (Some i) a (snd (bmc_add_frgn_master P (snd (bmc_store_frgn_master P b i buf)) i
    (fst (bmc_store_frgn_master P b i buf))))"
proof (rule add_frgn_keeps)
  show "keeps (Some i) a (snd (bmc_store_frgn_master P b i buf))"
    unfolding bmc_store_frgn_master_def keeps_norm by (intro announce_hooks assms)
qed (simp add: bmc_store_frgn_master_def Let_def case_prod_beta)

lemma announce_handlers_keep:
  "keeps (Some i) a b \<Longrightarrow> keeps (Some i) a (snd (listening_handle_announce P b i buf len))"
  "keeps (Some i) a b \<Longrightarrow> keeps (Some i) a (snd (passive_handle_announce P b i buf len))"
  "keeps (Some i) a b \<Longrightarrow> keeps (Some i) a (snd (master_handle_announce P b i buf len))"
  unfolding listening_handle_announce_def passive_handle_announce_def master_handle_announce_def keeps_norm
  by (intro keeps_rules com_handlers_keep store_add_keeps; assumption)+

lemma slave_handlers_keep:
  "keeps (Some i) a b \<Longrightarrow> keeps (Some i) a (snd (slave_handle_sync P b i buf len))"
  "keeps (Some i) a b \<Longrightarrow> keeps (Some i) a (snd (slave_handle_followup P b i buf len))"
  "keeps (Some i) a b \<Longrightarrow> keeps (Some i) a (snd (slave_handle_response P b i buf len))"
  "keeps (Some i) a b \<Longrightarrow> keeps (Some i) a (snd (master_handle_delay_request P b i buf len))"
  unfolding slave_handle_sync_def slave_handle_followup_def slave_handle_response_def
    master_handle_delay_request_def keeps_norm
  by (intro keeps_rules called hook_takes_over_keeps hooks; simp)+


lemma slave_announce_keeps: "keeps (Some i) a b \<Longrightarrow> keeps (Some i) a (snd (slave_handle_announce P b i buf len))"
proof -
  assume ab: "keeps (Some i) a b"
  define st where "st = snd (st_com_handle_announce P b i)"
  have st: "keeps (Some i) a st" unfolding st_def by (intro com_handlers_keep ab)
  define fm c where "fm = fst (bmc_store_frgn_master P st i buf)" and "c = snd (bmc_store_frgn_master P st i buf)"
  have c: "keeps (Some i) a c" unfolding c_def bmc_store_frgn_master_def keeps_norm by (intro announce_hooks st)
  have src: "fm_sourcePortIdentity fm = hdr_sourcePortIdentity (received_ptp_header (INST c i))"
    by (simp add: c_def fm_def bmc_store_frgn_master_def Let_def case_prod_beta)
  have add: "keeps (Some i) a (snd (bmc_add_frgn_master P c i fm))"
    "keeps (Some i) a (snd (bmc_add_frgn_master P (pp_timeout_reset P c i t) i fm))" for t
    using src by (simp_all add: add_frgn_keeps c timers_keep)
  show ?thesis
    unfolding slave_handle_announce_def keeps_norm st_def [symmetric] c_def [symmetric] fm_def [symmetric]
    by (cases "is_externalPortConfigurationEnabled c"; simp only: if_True if_False not_True_eq_False not_False_eq_True simp_thms)
      (intro keeps_option keeps_rules s1_keeps add st c; simp)+
qed

lemma actions_keep:
  "slave_actions P cf mt = Some f \<Longrightarrow> keeps (Some i) a b \<Longrightarrow> keeps (Some i) a (snd (f b i buf len))"
  "listening_actions P cf mt = Some f \<Longrightarrow> keeps (Some i) a b \<Longrightarrow> keeps (Some i) a (snd (f b i buf len))"
  "passive_actions P cf mt = Some f \<Longrightarrow> keeps (Some i) a b \<Longrightarrow> keeps (Some i) a (snd (f b i buf len))"
  "master_actions P cf mt = Some f \<Longrightarrow> keeps (Some i) a b \<Longrightarrow> keeps (Some i) a (snd (f b i buf len))"
  by (auto simp: slave_actions_def listening_actions_def passive_actions_def master_actions_def peer_action_def
    slave_handlers_keep slave_announce_keeps announce_handlers_keep peer_handlers_keep com_handlers_keep split: if_splits)

lemma run_action_keeps:
  assumes "\<And>cf mt f c. t cf mt = Some f \<Longrightarrow> keeps (Some i) a c \<Longrightarrow> keeps (Some i) a (snd (f c i buf len))"
    and "keeps (Some i) a b"
  shows "keeps (Some i) a (snd (run_action t e b i buf len))"
  using assms by (simp add: run_action_def split: option.split)

lemma run_actions_keep:
  "keeps (Some i) a b \<Longrightarrow> keeps (Some i) a (snd (run_action (slave_actions P) e b i buf len))"
  "keeps (Some i) a b \<Longrightarrow> keeps (Some i) a (snd (run_action (listening_actions P) e b i buf len))"
  "keeps (Some i) a b \<Longrightarrow> keeps (Some i) a (snd (run_action (passive_actions P) e b i buf len))"
  "keeps (Some i) a b \<Longrightarrow> keeps (Some i) a (snd (run_action (master_actions P) e b i buf len))"
  by (rule run_action_keeps, erule actions_keep, assumption+)+

lemma slave_upgrade_keeps: "keeps (Some i) a b \<Longrightarrow> keeps (Some i) a (slave_upgrade P u b i)"
proof -
  assume ab: "keeps (Some i) a b"
  have "keeps (Some i) a (snd (f b i))" if "h_ready_for_slave (ext_hooks P i) = Some f" for f
    using hooks(9) [of i] that ab by (rule call_hook)
  then show ?thesis unfolding slave_upgrade_def keeps_norm
    by (intro keeps_option keeps_rules ab; simp add: ab)
qed

lemma slave_keeps: "keeps (Some i) a b \<Longrightarrow> keeps (Some i) a (snd (pp_slave P b i buf len))"
  unfolding pp_slave_def slave_out_def keeps_norm
  by (intro keeps_rules called slave_upgrade_keeps may_issue_keeps run_actions_keep check_announce_timeout_keeps; simp)

lemma listening_keeps: "keeps (Some i) a b \<Longrightarrow> keeps (Some i) a (snd (pp_listening P b i buf len))"
  unfolding pp_listening_def listening_out_def listening_epc_out_def keeps_norm
  by (intro keeps_rules called may_issue_keeps run_actions_keep check_announce_timeout_keeps; simp)

lemma passive_keeps: "keeps (Some i) a b \<Longrightarrow> keeps (Some i) a (snd (pp_passive P b i buf len))"
  unfolding pp_passive_def keeps_norm
  by (intro keeps_rules called may_issue_keeps run_actions_keep check_announce_timeout_keeps; simp)

lemma master_keeps: "keeps (Some i) a b \<Longrightarrow> keeps (Some i) a (snd (pp_master P b i buf len))"
  unfolding pp_master_def keeps_norm
  by (intro keeps_rules called may_issue_keeps run_actions_keep; simp)


section \<open>Inactive ports\<close>

lemma disabled_keeps: "keeps w a b \<Longrightarrow> keeps w a (snd (pp_disabled b i buf len))"
  unfolding pp_disabled_def keeps_norm by (intro keeps_rules)

lemma faulty_keeps:
  "keeps None b (snd (pp_faulty P b i buf len)) \<or>
   (\<exists>c. keeps None b c \<and> snd (pp_faulty P b i buf len) = set_next_state i PPS_INITIALIZING c)"
proof (cases "\<not> (is_externalPortConfigurationEnabled b \<and> slave_not_allowed b i) \<and>
    \<not> ppi_is_new_state (INST b i) \<and> pp_timeout P b i PP_TO_IN_STATE")
  case True
  moreover have "keeps None b (pp_timeout_disable P b i PP_TO_IN_STATE)" by (intro keeps_rules)
  ultimately show ?thesis unfolding pp_faulty_def by (intro disjI2) auto
next
  case False
  then have "snd (pp_faulty P b i buf len) =
      (if is_externalPortConfigurationEnabled b \<and> slave_not_allowed b i then set_next_delay i 1000 b
       else let c = (if ppi_is_new_state (INST b i)
                     then pp_timeout_set P b i PP_TO_IN_STATE TIMEOUT_FAULTY_STATE_MS else b)
            in set_next_delay i (pp_next_delay_1 P c i PP_TO_IN_STATE) c)"
    by (auto simp: pp_faulty_def Let_def)
  also have "keeps None b \<dots>" unfolding Let_def by (intro keeps_rules)
  finally show ?thesis by blast
qed

lemma pdstate_keeps:
  "keeps w a b \<Longrightarrow> keeps w a (pdstate_disable_extension P b i)"
  "keeps w a b \<Longrightarrow> keeps w a (pdstate_set_state_pdetection P b i)"
  "keeps w a b \<Longrightarrow> keeps w a (pdstate_set_state_pdetected P b i)"
  "keeps w a b \<Longrightarrow> keeps w a (pdstate_enable_extension P b i)"
  unfolding pdstate_disable_extension_def pdstate_set_state_pdetection_def pdstate_set_state_pdetected_def
    pdstate_enable_extension_def ext_changed_def set_pdstate_def set_extState_def keeps_norm
  by (intro keeps_rules called; simp)+

lemma note_frame_keeps: "keeps w a b \<Longrightarrow> keeps w a (fsm_note_frame P b i len)"
  unfolding fsm_note_frame_def keeps_norm by (intro keeps_rules pdstate_keeps) simp_all

lemma check_protocol_keeps: "keeps w a b \<Longrightarrow> keeps w a (fsm_check_protocol P b i)"
  unfolding fsm_check_protocol_def by (intro keeps_rules pdstate_keeps)

section \<open>State decision\<close>

lemma s1_decision_keeps: "keeps w a b \<Longrightarrow> keeps w a (snd (slave_s1 P b i fm loc))"
  unfolding slave_s1_def keeps_norm by (intro keeps_rules s1_keeps)

lemma master_decisions_keep:
  "keeps w a b \<Longrightarrow> keeps w a (snd (to_listening P b i))"
  "keeps w a b \<Longrightarrow> keeps w a (snd (passive_p1 P b i))"
  "keeps w a b \<Longrightarrow> keeps w a (snd (passive_p2 P b i))"
  "keeps w a b \<Longrightarrow> keeps w a (snd (master_m1 P b i))"
  "keeps w a b \<Longrightarrow> keeps w a (snd (master_m2 P b i))"
  "keeps w a b \<Longrightarrow> keeps w a (snd (master_m3 P b i))"
  unfolding passive_p1_def passive_p2_def master_m1_def master_m2_def master_m3_def to_listening_def
    bmc_p1_def bmc_p2_def keeps_norm
  by (intro keeps_rules; assumption)+

lemma decision_keeps: "keeps w a b \<Longrightarrow> keeps w a (snd (bmc_state_decision P b i))"
  unfolding bmc_state_decision_def check_boundary_clk_def keeps_norm
  by (intro keeps_rules s1_decision_keeps master_decisions_keep; assumption)

lemma decision_epc_keeps: "keeps w a b \<Longrightarrow> keeps w a (snd (bmc_state_descision_epc P b i))"
  unfolding bmc_state_descision_epc_def keeps_norm by (intro keeps_rules s1_keeps)

lemma keeps_state: "keeps w a b \<Longrightarrow> i < length (pp_instances a) \<Longrightarrow> ppi_state (INST b i) = ppi_state (INST a i)"
  by (simp add: keeps_def inst_keeps_def)

lemma decision_states:
  assumes i: "i < length (pp_instances ppg)"
  shows "fst (bmc_state_decision P ppg i) \<in>
    {PPS_FAULTY, PPS_LISTENING, PPS_PASSIVE, PPS_PRE_MASTER, PPS_UNCALIBRATED, ppi_state (INST ppg i)}" (is "_ \<in> ?S")
proof -
  have st: "ppi_state (INST (bmc_m1 P ppg i) i) = ppi_state (INST ppg i)"
    "ppi_state (INST (bmc_m2 P ppg i) i) = ppi_state (INST ppg i)"
    "ppi_state (INST (bmc_m3 P ppg i) i) = ppi_state (INST ppg i)"
    "ppi_state (INST (bmc_s1 P ppg i fm loc) i) = ppi_state (INST ppg i)" for fm loc
    by (rule keeps_state [OF _ i], intro keeps_rules s1_keeps)+
  have m: "fst (to_listening P ppg i) \<in> ?S" "fst (passive_p1 P ppg i) \<in> ?S" "fst (passive_p2 P ppg i) \<in> ?S"
    "fst (master_m1 P ppg i) \<in> ?S" "fst (master_m2 P ppg i) \<in> ?S" "fst (master_m3 P ppg i) \<in> ?S"
    "fst (slave_s1 P ppg i fm loc) \<in> ?S" for fm loc
    by (simp_all add: to_listening_def passive_p1_def passive_p2_def master_m1_def master_m2_def master_m3_def
      slave_s1_def Let_def st)
  have ifm: "x \<in> ?S \<Longrightarrow> y \<in> ?S \<Longrightarrow> (if c then x else y) \<in> ?S" for c x y by simp
  show ?thesis
    unfolding bmc_state_decision_def check_boundary_clk_def Let_def if_distrib [of fst] prod.sel
    by (intro ifm m) simp_all
qed
end

section \<open>A clock without extension\<close>

definition std_platform :: "platform \<Rightarrow> platform" where
  "std_platform P = P\<lparr> ext_hooks := \<lambda>_. pp_hooks \<rparr>"

lemma pp_hooks_state_change_keeps: "keeps None ppg (pp_hooks_state_change ppg i)"
  unfolding pp_hooks_state_change_def by (intro keeps_rules)

interpretation std: ext_keeps "std_platform P" for P
  by unfold_locales
     (auto simp: std_platform_def pp_hooks_def hook_keeps_def hook_frame_keeps_def pp_hooks_state_change_keeps)

end
