(* ===== verification/Clock_Inv.thy ===== *)
theory Clock_Inv
  imports Clock_Frame
begin

text \<open>
  The invariant of the clock and its preservation by one activation of the state machine of a port.
  Every port keeps a well-formed foreign master table and a transmit buffer that carries its identity
  from its initialisation on; the numbers \<open>z\<close> of ports and of links do not change; the state of a port always has an entry in the table of states, so an
  activation never calls through the null pointer that ends the table.
\<close>

section \<open>The invariant of the clock\<close>

text \<open>
  A port is in order when its foreign master table is, its state has an entry in the table of states,
  its transmit buffer carries its identity (a port that has not been initialised knows no foreign
  master and is not active), and a disabled port has no link unless its state is configured from outside.
\<close>

definition port_ok :: "pp_globals \<Rightarrow> pp_instance \<Rightarrow> bool" where
  "port_ok ppg p \<longleftrightarrow>
     frgn_wf (g_config ppg) p \<and> 64 \<le> length (ppi_tx_ptp p) \<and> ppi_state p \<noteq> PPS_END_OF_TABLE \<and>
     (tx_ready p \<or> frgn_rec_num p = 0 \<and> \<not> is_active (ppi_state p)) \<and>
     (if is_externalPortConfigurationEnabled ppg then ppi_desiredState p \<noteq> PPS_END_OF_TABLE
      else ppi_state p = PPS_DISABLED \<longrightarrow> \<not> link_up p)"

definition clock_ok :: "nat \<times> s32 \<Rightarrow> pp_globals \<Rightarrow> bool" where
  "clock_ok z ppg \<longleftrightarrow> (length (pp_instances ppg), g_nlinks ppg) = z \<and> nat (sint (snd z)) \<le> fst z \<and>
     get_numberPorts ppg \<le> length (pp_instances ppg) \<and>
     (\<forall>j < length (pp_instances ppg). port_ok ppg (INST ppg j))"

text \<open>The next state of a port is one it may enter.\<close>

definition leave_ok :: "pp_globals \<Rightarrow> nat \<Rightarrow> bool" where
  "leave_ok ppg i \<longleftrightarrow>
     (let p = INST ppg i; s = ppi_next_state p
      in s \<noteq> PPS_END_OF_TABLE \<and> (is_active s \<longrightarrow> tx_ready p) \<and>
         (\<not> is_externalPortConfigurationEnabled ppg \<longrightarrow> s = PPS_DISABLED \<longrightarrow> \<not> link_up p))"

definition may_enter :: "pp_globals \<Rightarrow> nat \<Rightarrow> pp_std_states \<Rightarrow> bool" where
  "may_enter a i s \<longleftrightarrow> s \<noteq> PPS_END_OF_TABLE \<and> (is_active s \<longrightarrow> tx_ready (INST a i)) \<and>
     (\<not> is_externalPortConfigurationEnabled a \<longrightarrow> s = PPS_DISABLED \<longrightarrow> \<not> link_up (INST a i))"

lemma leave_ok_iff: "leave_ok a i = may_enter a i (ppi_next_state (INST a i))"
  by (simp add: leave_ok_def may_enter_def Let_def)

lemma keeps_globalsD:
  assumes "keeps w a b"
  shows "is_externalPortConfigurationEnabled b = is_externalPortConfigurationEnabled a"
    "get_numberPorts b = get_numberPorts a" "g_config b = g_config a"
    "length (pp_instances b) = length (pp_instances a)" "g_nlinks b = g_nlinks a"
  using assms by (simp_all add: keeps_def is_externalPortConfigurationEnabled_def get_numberPorts_def)

definition may_write :: "nat option \<Rightarrow> pp_globals \<Rightarrow> bool" where
  "may_write w a \<longleftrightarrow> (\<forall>i. w = Some i \<longrightarrow> is_active (ppi_state (INST a i)))"

lemma port_ok_keeps:
  assumes "port_ok a p" and "inst_keeps quiet (g_config a) p q" and "\<not> quiet \<Longrightarrow> is_active (ppi_state p)"
    and "is_externalPortConfigurationEnabled b = is_externalPortConfigurationEnabled a" and "g_config b = g_config a"
  shows "port_ok b q"
  using assms unfolding port_ok_def inst_keeps_def by (cases quiet) (simp_all, blast+)

lemma keeps_instD:
  "keeps w a b \<Longrightarrow> j < length (pp_instances a) \<Longrightarrow> inst_keeps (w \<noteq> Some j) (g_config a) (INST a j) (INST b j)"
  by (simp add: keeps_def)

lemma clock_okD: "clock_ok z a \<Longrightarrow> j < length (pp_instances a) \<Longrightarrow> port_ok a (INST a j)"
  by (simp add: clock_ok_def)

lemma clock_ok_keeps:
  assumes "clock_ok z a" and "keeps w a b" and "may_write w a"
  shows "clock_ok z b"
proof -
  have "port_ok b (INST b j)" if "j < length (pp_instances a)" for j
    by (rule port_ok_keeps [OF clock_okD [OF assms(1) that] keeps_instD [OF assms(2) that] _ keeps_globalsD(1,3) [OF assms(2)]])
       (use assms(3) in \<open>simp add: may_write_def\<close>)
  then show ?thesis using assms(1) keeps_globalsD [OF assms(2)] by (simp add: clock_ok_def)
qed

lemma leave_ok_keeps:
  assumes "clock_ok z a" and "i < length (pp_instances a)" and "leave_ok a i" and "keeps w a b" and "may_write w a"
  shows "leave_ok b i"
proof -
  have p: "port_ok a (INST a i)" and k: "inst_keeps (w \<noteq> Some i) (g_config a) (INST a i) (INST b i)"
    by (rule clock_okD [OF assms(1,2)], rule keeps_instD [OF assms(4,2)])
  have "is_active (ppi_state (INST a i)) \<Longrightarrow> tx_ready (INST b i)"
    using p k by (auto simp: port_ok_def inst_keeps_def)
  moreover have "\<not> is_active (ppi_state (INST a i)) \<Longrightarrow> ppi_next_state (INST b i) = ppi_next_state (INST a i)"
    using k assms(5) by (auto simp: inst_keeps_def may_write_def)
  ultimately show ?thesis
    using assms(3) k keeps_globalsD [OF assms(4)]
    unfolding leave_ok_def Let_def inst_keeps_def
    by (cases "is_active (ppi_state (INST a i))") (auto simp: is_active_def)
qed

lemma keeps_stateD: "keeps w a b \<Longrightarrow> i < length (pp_instances a) \<Longrightarrow> ppi_state (INST b i) = ppi_state (INST a i)"
  by (simp add: keeps_def inst_keeps_def)

text \<open>A change of the state of one port.\<close>

lemma clock_ok_upd_inst:
  assumes "clock_ok z a" and "i < length (pp_instances a) \<Longrightarrow> port_ok a (f (INST a i))"
  shows "clock_ok z (upd_inst i f a)"
proof (cases "i < length (pp_instances a)")
  case True
  have "port_ok (upd_inst i f a) p = port_ok a p" for p
    by (simp add: port_ok_def is_externalPortConfigurationEnabled_def)
  then show ?thesis using assms True by (auto simp: clock_ok_def get_numberPorts_def)
qed (use assms in \<open>simp add: upd_inst_beyond\<close>)

lemma may_enter_current: "clock_ok z a \<Longrightarrow> i < length (pp_instances a) \<Longrightarrow> may_enter a i (ppi_state (INST a i))"
  using clock_okD [of z a i] by (auto simp: port_ok_def may_enter_def)

lemma port_ok_fields [simp]:
  "port_ok a (p\<lparr> ppi_next_state := s \<rparr>) = port_ok a p"
  "port_ok a (p\<lparr> ppi_next_delay := d \<rparr>) = port_ok a p"
  by (simp_all add: port_ok_def frgn_wf_def live_def tx_ready_def)

lemma set_next_state_ok:
  assumes "clock_ok z a"
  shows "clock_ok z (set_next_state i s a)"
  unfolding set_next_state_def using assms by (intro clock_ok_upd_inst) (simp_all add: clock_okD)

lemma set_next_state_leave:
  "i < length (pp_instances a) \<Longrightarrow> leave_ok (set_next_state i s a) i = may_enter a i s"
  by (simp add: leave_ok_iff may_enter_def set_next_state_def is_externalPortConfigurationEnabled_def tx_ready_def)

text \<open>The port is initialised: its identity and its transmit buffer are new, all else is kept.\<close>

definition inst_same :: "config \<Rightarrow> pp_instance \<Rightarrow> pp_instance \<Rightarrow> bool" where
  "inst_same cf p q \<longleftrightarrow>
     ppi_state q = ppi_state p \<and> ppi_desiredState q = ppi_desiredState p \<and> link_up q = link_up p \<and>
     length (ppi_tx_ptp q) = length (ppi_tx_ptp p) \<and> (frgn_wf cf p \<longrightarrow> frgn_wf cf q)"

definition reinit :: "nat \<Rightarrow> pp_globals \<Rightarrow> pp_globals \<Rightarrow> bool" where
  "reinit i a b \<longleftrightarrow>
     length (pp_instances b) = length (pp_instances a) \<and> g_config b = g_config a \<and> g_nlinks b = g_nlinks a \<and>
     dd_numberPorts (g_defaultDS b) = dd_numberPorts (g_defaultDS a) \<and>
     dd_externalPortConfigurationEnabled (g_defaultDS b) = dd_externalPortConfigurationEnabled (g_defaultDS a) \<and>
     (\<forall>j < length (pp_instances a). j \<noteq> i \<longrightarrow> inst_keeps True (g_config a) (INST a j) (INST b j)) \<and>
     inst_same (g_config a) (INST a i) (INST b i)"

lemma keeps_reinit: "keeps None a b \<Longrightarrow> i < length (pp_instances a) \<Longrightarrow> reinit i a b"
  by (simp add: keeps_def reinit_def inst_keeps_def inst_same_def)

lemma inst_same_trans: "inst_same cf p q \<Longrightarrow> inst_same cf q r \<Longrightarrow> inst_same cf p r"
  by (simp add: inst_same_def)

lemma reinitD:
  assumes "reinit i a b"
  shows "length (pp_instances b) = length (pp_instances a)" "g_config b = g_config a"
    "g_nlinks b = g_nlinks a" "dd_numberPorts (g_defaultDS b) = dd_numberPorts (g_defaultDS a)"
    "dd_externalPortConfigurationEnabled (g_defaultDS b) = dd_externalPortConfigurationEnabled (g_defaultDS a)"
    "j < length (pp_instances a) \<Longrightarrow> j \<noteq> i \<Longrightarrow> inst_keeps True (g_config a) (INST a j) (INST b j)"
    "inst_same (g_config a) (INST a i) (INST b i)"
  using assms unfolding reinit_def by blast+

lemma reinit_trans:
  assumes "reinit i a b" and "reinit i b c"
  shows "reinit i a c"
  unfolding reinit_def reinitD(1-5) [OF assms(2)] reinitD(1-5) [OF assms(1)]
  using reinitD(6,7) [OF assms(1)] reinitD(6,7) [OF assms(2)] reinitD(1,2) [OF assms(1)]
  by (metis inst_keeps_trans inst_same_trans)

lemma reinit_upd:
  assumes "i < length (pp_instances a)" and "ppi_state (f (INST a i)) = ppi_state (INST a i)"
    and "ppi_desiredState (f (INST a i)) = ppi_desiredState (INST a i)" and "link_up (f (INST a i)) = link_up (INST a i)"
    and "length (ppi_tx_ptp (f (INST a i))) = length (ppi_tx_ptp (INST a i))"
    and "frgn_wf (g_config a) (INST a i) \<Longrightarrow> frgn_wf (g_config a) (f (INST a i))"
  shows "reinit i a (upd_inst i f a)"
  using assms by (simp add: reinit_def inst_same_def)

lemma reinit_ok:
  assumes ok: "clock_ok z a" and i: "i < length (pp_instances a)" and r: "reinit i a b" and t: "tx_ready (INST b i)"
  shows "clock_ok z b"
proof -
  have e: "is_externalPortConfigurationEnabled b = is_externalPortConfigurationEnabled a" "g_config b = g_config a"
    "get_numberPorts b = get_numberPorts a" "length (pp_instances b) = length (pp_instances a)"
    "g_nlinks b = g_nlinks a"
    using r by (simp_all add: reinit_def is_externalPortConfigurationEnabled_def get_numberPorts_def)
  have "port_ok b (INST b j)" if j: "j < length (pp_instances a)" for j
  proof (cases "j = i")
    case True
    then show ?thesis using clock_okD [OF ok i] reinitD(7) [OF r] t e by (simp add: port_ok_def inst_same_def)
  next
    case False
    then show ?thesis using reinitD(6) [OF r j]
      by (intro port_ok_keeps [OF clock_okD [OF ok j], where quiet = True] e) simp_all
  qed
  then show ?thesis using ok e by (simp add: clock_ok_def)
qed

lemma msg_init_header_ready:
  "i < length (pp_instances a) \<Longrightarrow> 64 \<le> length (ppi_tx_ptp (INST a i)) \<Longrightarrow>
   tx_ready ((INST a i)\<lparr> ppi_tx_ptp := msg_init_header a i (ppi_tx_ptp (INST a i)) \<rparr>)"
  by (simp add: tx_ready_def msg_init_header_def Let_def wire)

lemma length_msg_init_header [simp]: "length (msg_init_header a i buf) = length buf"
  by (simp add: msg_init_header_def Let_def)

text \<open>A frame is received: the port keeps its state, which is its next state as well.\<close>

lemma receive_ok:
  fixes buf :: "u8 list" and len :: s32
  assumes ok: "clock_ok z a" and i: "i < length (pp_instances a)"
  defines "b \<equiv> snd (snd (fsm_receive a i buf len))"
  shows "clock_ok z b \<and> leave_ok b i \<and> length (pp_instances b) = length (pp_instances a) \<and>
    ppi_state (INST b i) = ppi_state (INST a i) \<and> ppi_next_state (INST b i) = ppi_state (INST b i)"
proof -
  have item: "keeps None a (upd_inst i get_current_state_table_item c)" if "keeps None a c" for c
    using that by (intro keeps_upd_inst) (simp_all add: get_current_state_table_item_def)
  have hdr: "keeps None a (snd (fsm_unpack_verify_frame a i x y))" for x y
    unfolding fsm_unpack_verify_frame_def keeps_norm msg_unpack_header_def by (intro keeps_rules) simp_all
  define xy where "xy = (if sint len < int PP_HEADER_LENGTH then ([], 0) else (buf, nat (sint len)))"
  define c where "c = upd_inst i get_current_state_table_item (snd (fsm_unpack_verify_frame a i (fst xy) (snd xy)))"
  have c: "keeps None a c" unfolding c_def by (rule item [OF hdr])
  have b: "b = upd_inst i (\<lambda>p. p\<lparr> ppi_next_state := ppi_state p, ppi_next_delay := 0 \<rparr>) c"
    unfolding b_def fsm_receive_def xy_def [symmetric] by (simp add: Let_def case_prod_unfold c_def)
  have c': "clock_ok z c" "i < length (pp_instances c)"
    using clock_ok_keeps [OF ok c] keeps_globalsD(4) [OF c] i by (simp_all add: may_write_def)
  have "clock_ok z b" unfolding b using c'(1) by (intro clock_ok_upd_inst) (simp_all add: clock_okD)
  moreover have "ppi_state (INST b i) = ppi_state (INST a i)" "ppi_next_state (INST b i) = ppi_state (INST b i)"
    "length (pp_instances b) = length (pp_instances a)"
    using c'(2) keeps_stateD [OF c i] keeps_globalsD(4) [OF c] by (simp_all add: b)
  ultimately show ?thesis using may_enter_current [of z b i] i by (simp add: leave_ok_iff)
qed

context ext_keeps
begin

lemma leave_keeps_ok:
  assumes ok: "clock_ok z a" and i: "i < length (pp_instances a)" and lo: "leave_ok a i"
  shows "clock_ok z (snd (pp_leave_current_state P a i))"
proof -
  define b where "b = (case h_state_change (ext_hooks P i) of
                   Some g \<Rightarrow> g (if ppi_state (INST a i) = PPS_MASTER \<or> ppi_state (INST a i) = PPS_SLAVE
                        then upd_inst i (\<lambda>ppi. ppi\<lparr> ppi_activePeer := replicate 6 0 \<rparr>) a else a) i
                 | None \<Rightarrow> a)"
  have c: "keeps None a (if ppi_state (INST a i) = PPS_MASTER \<or> ppi_state (INST a i) = PPS_SLAVE
      then upd_inst i (\<lambda>ppi. ppi\<lparr> ppi_activePeer := replicate 6 0 \<rparr>) a else a)"
    by (intro keeps_rules) simp_all
  have ab: "keeps None a b" unfolding b_def
    by (intro keeps_option keeps_refl keeps_trans [OF c state_change_hook])
  have mw: "may_write None a" by (simp add: may_write_def)
  have b: "clock_ok z b" "leave_ok b i" "i < length (pp_instances b)"
    using clock_ok_keeps [OF ok ab mw] leave_ok_keeps [OF ok i lo ab mw] keeps_globalsD [OF ab] i by simp_all
  then have "port_ok b (INST b i)" by (simp add: clock_ok_def)
  then have "port_ok b ((INST b i)\<lparr> ppi_state := ppi_next_state (INST b i), ppi_pdstate := x, ppi_extState := y, ppi_flags := z \<rparr>)"
    "port_ok b ((INST b i)\<lparr> ppi_state := ppi_next_state (INST b i), ppi_flags := z \<rparr>)" for x y z
    using b(2) by (auto simp: port_ok_def leave_ok_def Let_def frgn_wf_def live_def tx_ready_def)
  then show ?thesis unfolding pp_leave_current_state_def b_def [symmetric] Let_def
    using b by (auto simp: upd_inst_twice intro!: clock_ok_upd_inst)
qed

text \<open>The decision of the best master clock algorithm is a state the port may enter.\<close>

lemma apply_decision_eq:
  "bmc_apply_state_descision P a i =
     (let (s, b) = (if \<not> link_up (INST a i) then (PPS_INITIALIZING, a)
                    else if is_externalPortConfigurationEnabled a then bmc_state_descision_epc P a i
                    else if get_numberPorts a > 1 \<and> bmc_check_frgn_master a i then (PPS_PASSIVE, bmc_p1 a i)
                    else bmc_state_decision P a i)
      in (if is_externalPortConfigurationEnabled b then ppi_state (INST b i) else s, b))"
  unfolding bmc_apply_state_descision_def no_decision_hook by (simp add: Let_def case_prod_unfold)

lemma apply_decision_keeps: "keeps w a b \<Longrightarrow> keeps w a (snd (bmc_apply_state_descision P b i))"
  unfolding apply_decision_eq bmc_p1_def keeps_norm
  by (intro keeps_rules decision_keeps decision_epc_keeps; assumption)

lemma decision_inactive:
  "ppi_state (INST a i) \<in> {PPS_FAULTY, PPS_INITIALIZING} \<Longrightarrow> fst (bmc_state_decision P a i) = ppi_state (INST a i)"
  by (auto simp: bmc_state_decision_def)

lemma check_frgn_num: "bmc_check_frgn_master a i \<Longrightarrow> frgn_rec_num (INST a i) \<noteq> 0"
  by (auto simp: bmc_check_frgn_master_def Let_def)


lemma decision_may_enter:
  assumes ok: "clock_ok z a" and i: "i < length (pp_instances a)" and l: "link_up (INST a i)"
    and e: "\<not> is_externalPortConfigurationEnabled a"
  shows "may_enter a i (fst (bmc_state_decision P a i))"
proof (cases "ppi_state (INST a i) \<in> {PPS_FAULTY, PPS_INITIALIZING}")
  case True
  then show ?thesis using may_enter_current [OF ok i] by (simp add: decision_inactive)
next
  case False
  then have "tx_ready (INST a i)" using clock_okD [OF ok i] l e by (auto simp: port_ok_def is_active_def)
  then show ?thesis using decision_states [OF i] may_enter_current [OF ok i]
    by (auto simp: may_enter_def is_active_def)
qed

lemma apply_decision_may_enter:
  assumes ok: "clock_ok z a" and i: "i < length (pp_instances a)"
  shows "may_enter a i (fst (bmc_apply_state_descision P a i))"
proof (cases "is_externalPortConfigurationEnabled a")
  case True
  have k: "keeps None a (snd (bmc_apply_state_descision P a i))" by (intro apply_decision_keeps keeps_refl)
  have "fst (bmc_apply_state_descision P a i) = ppi_state (INST (snd (bmc_apply_state_descision P a i)) i)"
    using keeps_globalsD(1) [OF k] True by (simp add: apply_decision_eq Let_def case_prod_unfold)
  then show ?thesis using may_enter_current [OF ok i] keeps_stateD [OF k i] by simp
next
  case False
  have k: "keeps None a (snd (bmc_apply_state_descision P a i))" by (intro apply_decision_keeps keeps_refl)
  have eq: "fst (bmc_apply_state_descision P a i) =
     (if \<not> link_up (INST a i) then PPS_INITIALIZING
      else if get_numberPorts a > 1 \<and> bmc_check_frgn_master a i then PPS_PASSIVE
      else fst (bmc_state_decision P a i))"
    using keeps_globalsD(1) [OF k] False by (simp add: apply_decision_eq Let_def case_prod_unfold)
  have "bmc_check_frgn_master a i \<Longrightarrow> tx_ready (INST a i)"
    using clock_okD [OF ok i] check_frgn_num by (auto simp: port_ok_def)
  then have "bmc_check_frgn_master a i \<Longrightarrow> may_enter a i PPS_PASSIVE" by (simp add: may_enter_def)
  moreover have "may_enter a i PPS_INITIALIZING" by (simp add: may_enter_def is_active_def)
  ultimately show ?thesis using decision_may_enter [OF ok i _ False] by (simp add: eq)
qed

lemma clock_identity_keeps: "keeps None a d \<Longrightarrow> keeps None a (init_clock_identity d i)"
proof -
  assume ad: "keeps None a d"
  have "keeps None d (d\<lparr> g_defaultDS := (g_defaultDS d)\<lparr> dd_clockIdentity := x \<rparr> \<rparr>)" for x
    by (simp add: keeps_def INST_def)
  then have di: "keeps None a (d\<lparr> g_defaultDS := (g_defaultDS d)\<lparr> dd_clockIdentity := x \<rparr> \<rparr>)" for x
    by (rule keeps_trans [OF ad])
  show ?thesis unfolding init_clock_identity_def init_parent_ds_def keeps_norm by (intro keeps_rules ad di)
qed

lemma port_ds_reinit:
  assumes i: "i < length (pp_instances e)"
  shows "reinit i e (init_port_ds P e i)"
proof -
  have k: "reinit i e (pp_timeout_setall P (pp_timeout_init b i) i)" if b: "reinit i e b" for b
    by (rule reinit_trans [OF b keeps_reinit], intro keeps_rules) (use b i in \<open>simp add: reinit_def\<close>)
  have u: "reinit i e (upd_inst i f b)"
    if "reinit i e b" "\<And>p. f p = p\<lparr> frgn_master_time_window_ms := x p, ppi_pdstate := y p, ppi_extState := z p \<rparr>" for f b x y z
    by (rule reinit_trans [OF that(1) keeps_reinit], intro keeps_rules)
       (use that i in \<open>simp_all add: reinit_def\<close>)
  show ?thesis unfolding init_port_ds_def Let_def
    by (rule u [OF k [OF reinit_upd [OF i]] refl]) (simp_all add: frgn_wf_def live_def)
qed

lemma init_outcome:
  "keeps None a (snd (pp_initializing P a i buf len)) \<or>
   (\<exists>e g. keeps None a e \<and> keeps None (init_port_ds P e i) g \<and>
     snd (pp_initializing P a i buf len) = set_next_state i (init_next_state (init_tx_header i g) i) (init_tx_header i g))"
proof -
  define d where "d = upd_inst i (\<lambda>ppi. ppi\<lparr> ppi_gen_addr := snd (n_init P a i) \<rparr>) a"
  define e where "e = init_clock_identity d i"
  have ad: "keeps None a d" unfolding d_def by (intro keeps_rules) simp
  have ae: "keeps None a e" unfolding e_def by (rule clock_identity_keeps [OF ad])
  have fail: "keeps None a (snd (init_failure d i))" "keeps None a (snd (init_failure a i))"
    unfolding init_failure_def prod.sel by (intro keeps_rules ad)+
  define r where "r = (case h_init (ext_hooks P i) of Some f \<Rightarrow> f (init_port_ds P e i) i buf len | None \<Rightarrow> (0, init_port_ds P e i))"
  have r: "fst r = 0" "keeps None (init_port_ds P e i) (snd r)"
    using init_succeeds frame_hooks(1) unfolding r_def by (auto simp: hook_frame_keeps_def split: option.split)
  have "pp_initializing P a i buf len =
      (if opt_clock_quality_clockClass (rt_opts a) = PP_PTP_CLASS_GM_LOCKED \<and>
         clockClass (dd_clockQuality (g_defaultDS a)) \<noteq> PP_PTP_CLASS_GM_LOCKED then init_failure a i
       else if sint (fst (n_init P a i)) < 0 then init_failure d i
       else if fst r \<noteq> 0 then init_failure (snd r) i
       else (0, set_next_state i (init_next_state (init_tx_header i (snd r)) i) (init_tx_header i (snd r))))"
    unfolding pp_initializing_def Let_def case_prod_unfold d_def [symmetric] e_def [symmetric] r_def [symmetric] by (rule refl)
  with r fail ae show ?thesis by (auto split: if_splits)
qed

lemma init_next_ok:
  assumes "clock_ok z a" and "i < length (pp_instances a)" and "tx_ready (INST a i)"
  shows "may_enter a i (init_next_state a i)"
  using clock_okD [OF assms(1,2)] assms(3) by (simp add: init_next_state_def may_enter_def port_ok_def)

lemma initializing_ok:
  fixes buf :: "u8 list" and len :: nat
  assumes ok: "clock_ok z a" and i: "i < length (pp_instances a)" and lo: "leave_ok a i"
  defines "b \<equiv> snd (pp_initializing P a i buf len)"
  shows "clock_ok z b \<and> leave_ok b i \<and> length (pp_instances b) = length (pp_instances a)"
proof (cases "keeps None a b")
  case True
  then show ?thesis
    using clock_ok_keeps [OF ok True] leave_ok_keeps [OF ok i lo True] keeps_globalsD(4) [OF True]
    by (simp add: may_write_def)
next
  case False
  then obtain e g where ae: "keeps None a e" and g: "keeps None (init_port_ds P e i) g"
    and b: "b = set_next_state i (init_next_state (init_tx_header i g) i) (init_tx_header i g)"
    unfolding b_def using init_outcome by blast
  have len: "length (pp_instances e) = length (pp_instances a)" by (rule keeps_globalsD(4) [OF ae])
  have pe: "reinit i e (init_port_ds P e i)" using i len by (simp add: port_ds_reinit)
  have ag: "reinit i a g"
    using reinit_trans [OF keeps_reinit [OF ae i] reinit_trans [OF pe keeps_reinit [OF g]]] pe i len
    by (simp add: reinit_def [of i e])
  then have ig: "i < length (pp_instances g)" and l: "64 \<le> length (ppi_tx_ptp (INST g i))"
    using i clock_okD [OF ok i] by (simp_all add: reinit_def inst_same_def port_ok_def)
  let ?c = "init_tx_header i g"
  have ac: "reinit i a ?c"
    by (rule reinit_trans [OF ag], unfold init_tx_header_def, rule reinit_upd)
       (use ig in \<open>simp_all add: frgn_wf_def live_def\<close>)
  have t: "tx_ready (INST ?c i)" using msg_init_header_ready [OF ig l] ig by (simp add: init_tx_header_def)
  have c: "clock_ok z ?c" by (rule reinit_ok [OF ok i ac t])
  have ic: "i < length (pp_instances ?c)" "length (pp_instances ?c) = length (pp_instances a)"
    using ac i by (simp_all add: reinit_def)
  show ?thesis unfolding b using set_next_state_ok [OF c] init_next_ok [OF c ic(1) t] ic
    by (simp add: set_next_state_leave) (simp add: set_next_state_def)
qed

text \<open>Each state function, the decision and the machine keep the clock in order.\<close>

lemma keeps_step_ok:
  assumes "clock_ok z a" and "i < length (pp_instances a)" and "leave_ok a i" and "keeps w a b" and "may_write w a"
  shows "clock_ok z b \<and> leave_ok b i \<and> length (pp_instances b) = length (pp_instances a)"
  using clock_ok_keeps leave_ok_keeps keeps_globalsD(4) assms by blast

lemma state_function_ok:
  fixes buf :: "u8 list" and len :: nat
  assumes ok: "clock_ok z a" and i: "i < length (pp_instances a)" and lo: "leave_ok a i"
    and f: "pp_state_table P (ppi_state (INST a i)) = Some f"
  defines "b \<equiv> snd (f a i buf len)"
  shows "clock_ok z b \<and> leave_ok b i \<and> length (pp_instances b) = length (pp_instances a)"
proof -
  note step = keeps_step_ok [OF ok i lo]
  have active: ?thesis if "is_active (ppi_state (INST a i))" "keeps (Some i) a b"
    by (rule step [OF that(2)]) (use that(1) in \<open>simp add: may_write_def\<close>)
  have quiet: ?thesis if "keeps None a b"
    by (rule step [OF that]) (simp add: may_write_def)
  show ?thesis
  proof (cases "ppi_state (INST a i)")
    case PPS_INITIALIZING
    then have b: "b = snd (pp_initializing P a i buf len)" using f by (simp add: pp_state_table_def b_def)
    show ?thesis unfolding b by (rule initializing_ok [OF ok i lo])
  next
    case PPS_FAULTY
    then have b: "b = snd (pp_faulty P a i buf len)" using f by (simp add: pp_state_table_def b_def)
    from faulty_keeps [of a i buf len] consider "keeps None a b"
      | c where "keeps None a c" "b = set_next_state i PPS_INITIALIZING c" unfolding b by blast
    then show ?thesis
    proof cases
      case (2 c)
      have "clock_ok z c" "length (pp_instances c) = length (pp_instances a)"
        using step [OF 2(1)] by (simp_all add: may_write_def)
      then show ?thesis using i unfolding 2(2)
        by (simp add: set_next_state_ok set_next_state_leave may_enter_def is_active_def) (simp add: set_next_state_def)
    qed (rule quiet)
  next
    case PPS_DISABLED
    then have b: "b = snd (pp_disabled a i buf len)" using f by (simp add: pp_state_table_def b_def)
    show ?thesis by (rule quiet) (unfold b, intro disabled_keeps keeps_refl)
  next
    case PPS_END_OF_TABLE
    then show ?thesis using f by (simp add: pp_state_table_def)
  qed (rule active; use f in \<open>auto simp: is_active_def pp_state_table_def b_def
         listening_keeps master_keeps passive_keeps slave_keeps\<close>)+
qed

lemma run_bmca_ok:
  assumes ok: "clock_ok z a" and i: "i < length (pp_instances a)" and lo: "leave_ok a i"
  shows "clock_ok z (fsm_run_bmca P a i) \<and> leave_ok (fsm_run_bmca P a i) i \<and>
    length (pp_instances (fsm_run_bmca P a i)) = length (pp_instances a)"
proof (cases "bmca_execute (INST a i)")
  case True
  define c where "c = upd_inst i (\<lambda>ppi. ppi\<lparr> bmca_execute := False \<rparr>) a"
  have ac: "keeps None a c" unfolding c_def by (intro keeps_rules) simp
  have c: "clock_ok z c" "i < length (pp_instances c)" "length (pp_instances c) = length (pp_instances a)"
    using keeps_step_ok [OF ok i lo ac] i by (simp_all add: may_write_def)
  define d where "d = snd (bmc_apply_state_descision P c i)"
  define s where "s = fst (bmc_apply_state_descision P c i)"
  have cd: "keeps None c d" unfolding d_def by (intro apply_decision_keeps keeps_refl)
  have s: "may_enter c i s" unfolding s_def by (rule apply_decision_may_enter [OF c(1,2)])
  have "clock_ok z (set_next_state i s c)" "leave_ok (set_next_state i s c) i"
    using set_next_state_ok [OF c(1)] s c(2) by (simp_all add: set_next_state_leave)
  have d: "clock_ok z d" "length (pp_instances d) = length (pp_instances c)"
    using clock_ok_keeps [OF c(1) cd] keeps_globalsD(4) [OF cd] by (simp_all add: may_write_def)
  have "may_enter d i s"
    using s keeps_instD [OF cd c(2)] keeps_globalsD(1) [OF cd] by (auto simp: may_enter_def inst_keeps_def)
  moreover have "fsm_run_bmca P a i = set_next_state i s d"
    using True by (simp add: fsm_run_bmca_def Let_def case_prod_unfold c_def s_def d_def)
  ultimately show ?thesis using d c by (simp add: set_next_state_ok set_next_state_leave) (simp add: set_next_state_def)
qed (use assms in \<open>simp add: fsm_run_bmca_def\<close>)

lemma run_extension_ok:
  assumes ok: "clock_ok z a" and i: "i < length (pp_instances a)" and lo: "leave_ok a i"
  shows "clock_ok z (snd (fsm_run_extension P a i buf len))"
proof (cases "h_run_ext_state_machine (ext_hooks P i)")
  case (Some f)
  have k: "keeps None a (snd (f a i buf len))" using frame_hooks(5) Some by (simp add: hook_frame_keeps_def)
  define b where "b = snd (f a i buf len)"
  have b: "clock_ok z b" "leave_ok b i" "i < length (pp_instances b)"
    using keeps_step_ok [OF ok i lo k] i unfolding b_def by (simp_all add: may_write_def)
  have "clock_ok z (set_next_delay i x b)" for x
    by (rule clock_ok_keeps [OF b(1), where w = None], intro keeps_rules) (simp add: may_write_def)
  then show ?thesis using Some b leave_keeps_ok [OF b(1,3,2)]
    by (simp add: fsm_run_extension_def Let_def case_prod_unfold b_def [symmetric])
qed (use ok in \<open>simp add: fsm_run_extension_def\<close>)

lemma finish_ok:
  assumes ok: "clock_ok z a" and i: "i < length (pp_instances a)" and lo: "leave_ok a i"
  shows "clock_ok z (snd (fsm_finish P a i buf len))"
proof (cases "state_changes a i")
  case False
  define b where "b = fsm_run_bmca P (fsm_check_protocol P a i) i"
  have "keeps None a (fsm_check_protocol P a i)" by (intro check_protocol_keeps keeps_refl)
  from keeps_step_ok [OF ok i lo this] i have "clock_ok z b" "leave_ok b i" "i < length (pp_instances b)"
    using run_bmca_ok [of z] unfolding b_def by (simp_all add: may_write_def)
  with False show ?thesis
    by (simp add: fsm_finish_def Let_def b_def [symmetric] leave_keeps_ok run_extension_ok)
qed (use assms in \<open>simp add: fsm_finish_def leave_keeps_ok\<close>)

lemma machine_ok:
  assumes ok: "clock_ok z a" and i: "i < length (pp_instances a)"
  shows "\<exists>delay b. pp_state_machine P a i buf len = Some (delay, b) \<and> clock_ok z b"
proof -
  obtain buf' len' r where r: "fsm_receive a i buf len = (buf', len', r)" by (metis prod_cases3)
  with receive_ok [OF ok i, of buf len] have
    ro: "clock_ok z r" "leave_ok r i" "i < length (pp_instances r)" "ppi_state (INST r i) = ppi_state (INST a i)"
    and st: "\<not> state_changes r i"
    using i by (simp_all add: state_changes_def)
  define n where "n = fsm_note_frame P r i len'"
  have rn: "keeps None r n" unfolding n_def by (intro note_frame_keeps keeps_refl)
  have n: "clock_ok z n" "leave_ok n i" "i < length (pp_instances n)" "ppi_state (INST n i) = ppi_state (INST a i)"
    using keeps_step_ok [OF ro(1,3,2) rn] ro keeps_stateD [OF rn ro(3)] by (simp_all add: may_write_def)
  have "ppi_state (INST n i) \<noteq> PPS_END_OF_TABLE" using clock_okD [OF n(1,3)] by (simp add: port_ok_def)
  then obtain f where f: "pp_state_table P (ppi_state (INST n i)) = Some f"
    by (cases "ppi_state (INST n i)") (auto simp: pp_state_table_def)
  define c where "c = snd (f n i buf' len')"
  have "clock_ok z (snd (fsm_finish P c i buf' len'))"
    using finish_ok state_function_ok [OF n(1,3,2) f, of buf' len'] n(3) unfolding c_def by simp
  moreover have "pp_state_machine P a i buf len = Some (fsm_finish P c i buf' len')"
    using st f n(4) by (simp add: pp_state_machine_def r Let_def n_def [symmetric] case_prod_unfold c_def)
  ultimately show ?thesis by (metis prod.collapse)
qed
end
end
