(* ===== verification/Main_Loop.thy ===== *)
theory Main_Loop
  imports Clock_Inv
begin

text \<open>
  The main loop of the POSIX architecture (\<^verbatim>\<open>arch-unix/main-loop.c\<close>): the state machines of all ports in
  turn, the calculation of the best master, and the frames the network delivers.  The loop is a step
  relation; the invariant of the clock holds when it is opened and in every state the loop reaches.
\<close>

section \<open>The state machines in turn\<close>

text \<open>The link of a port is found up: a port that was down starts again.\<close>

definition set_link_up :: "nat \<Rightarrow> pp_globals \<Rightarrow> pp_globals" where
  "set_link_up j = upd_inst j (\<lambda>ppi.
     if link_up ppi then ppi else ppi\<lparr> link_up := True, ppi_state := PPS_INITIALIZING \<rparr>)"

definition min_delay :: "s32 \<Rightarrow> s32 \<Rightarrow> s32" where
  "min_delay d e = (if sint e < sint d then e else d)"

fun run_links :: "platform \<Rightarrow> nat list \<Rightarrow> s32 \<Rightarrow> pp_globals \<Rightarrow> (s32 \<times> pp_globals) option" where
  "run_links P [] delay_ms ppg = Some (delay_ms, ppg)"
| "run_links P (j # js) delay_ms ppg =
     (case pp_state_machine P (set_link_up j ppg) j [] 0 of
        None \<Rightarrow> None
      | Some (delay_ms_j, ppg) \<Rightarrow>
          run_links P js (if j = 0 then delay_ms_j else min_delay delay_ms delay_ms_j) ppg)"

definition links :: "pp_globals \<Rightarrow> nat list" where
  "links ppg = [0..<nat (sint (g_nlinks ppg))]"

definition run_bmca :: "platform \<Rightarrow> s32 \<Rightarrow> pp_globals \<Rightarrow> s32 \<times> pp_globals" where
  "run_bmca P delay_ms ppg =
     (if pp_timeout P ppg 0 PP_TO_BMC
      then (0, pp_timeout_reset P (bmc_calculate_ebest P ppg) 0 PP_TO_BMC)
      else (min_delay delay_ms (pp_next_delay_1 P ppg 0 PP_TO_BMC), ppg))"

definition run_all_state_machines :: "platform \<Rightarrow> pp_globals \<Rightarrow> (s32 \<times> pp_globals) option" where
  "run_all_state_machines P ppg =
     (case run_links P (links ppg) 0 ppg of
        None \<Rightarrow> None
      | Some (delay_ms, ppg) \<Rightarrow> Some (run_bmca P delay_ms ppg))"

section \<open>Received frames\<close>

text \<open>
  What the network operation delivers for a port with a frame: its return value, the time stamp it
  leaves, the bytes at \<^verbatim>\<open>rx_ptp\<close> and the offset of these in the frame.
\<close>

record rx_frame =
  rx_ret :: s32
  rx_time :: pp_time
  rx_ptp :: "u8 list"
  rx_offset :: s32

definition PP_RECV_DROP :: s32 where "PP_RECV_DROP = - 2"

fun receive_links ::
  "platform \<Rightarrow> (nat \<Rightarrow> rx_frame option) \<Rightarrow> nat list \<Rightarrow> s32 \<Rightarrow> pp_globals \<Rightarrow> (s32 \<times> pp_globals) option" where
  "receive_links P rx [] delay_ms ppg = Some (delay_ms, ppg)"
| "receive_links P rx (j # js) delay_ms ppg =
     (case rx j of
        None \<Rightarrow> receive_links P rx js delay_ms ppg
      | Some f \<Rightarrow>
          let (i, t, ppg) = recv_and_count P ppg j (rx_ret f) (rx_time f);
              ppg = upd_inst j (\<lambda>ppi. ppi\<lparr> ppi_last_rcv_time := t \<rparr>) ppg
          in if i = PP_RECV_DROP \<or> i = - 1 then receive_links P rx js delay_ms ppg
             else (case pp_state_machine P ppg j (rx_ptp f) (i - rx_offset f) of
                     None \<Rightarrow> None
                   | Some (tmp_d, ppg) \<Rightarrow>
                       receive_links P rx js
                         (if delay_ms = - 1 \<or> sint tmp_d < sint delay_ms then tmp_d else delay_ms) ppg))"

definition receive_all :: "platform \<Rightarrow> (nat \<Rightarrow> rx_frame option) \<Rightarrow> pp_globals \<Rightarrow> (s32 \<times> pp_globals) option" where
  "receive_all P rx ppg = receive_links P rx (links ppg) (- 1) ppg"

section \<open>The loop\<close>

definition start_links :: "pp_globals \<Rightarrow> pp_globals" where
  "start_links ppg = fold (\<lambda>j. upd_inst j (\<lambda>ppi. ppi\<lparr> ppi_is_new_state := True \<rparr>)) (links ppg) ppg"

text \<open>
  One pass of the loop of \<^verbatim>\<open>unix_main_loop\<close> on the delay and the clock: the wait for a packet failed, ended
  without one, or found packets.  The platform may be another one in each pass, as time passes.
\<close>

inductive main_step :: "platform \<Rightarrow> s32 \<times> pp_globals \<Rightarrow> s32 \<times> pp_globals \<Rightarrow> bool" for P where
  wait_failed: "main_step P (d, a) (d, a)"
| idle: "run_all_state_machines P a = Some (d', b) \<Longrightarrow> main_step P (d, a) (d', b)"
| packets: "receive_all P rx a = Some (d', b) \<Longrightarrow> main_step P (d, a) (d', b)"

inductive_cases main_stepE: "main_step P s t"

text \<open>A state of the loop entered with the clock \<open>a\<close>, on platforms that satisfy \<open>allowed\<close>.\<close>

inductive main_reaches :: "(platform \<Rightarrow> bool) \<Rightarrow> pp_globals \<Rightarrow> s32 \<times> pp_globals \<Rightarrow> bool" for allowed a where
  enter: "allowed P \<Longrightarrow> run_all_state_machines P (start_links a) = Some s \<Longrightarrow> main_reaches allowed a s"
| again: "main_reaches allowed a s \<Longrightarrow> allowed P \<Longrightarrow> main_step P s t \<Longrightarrow> main_reaches allowed a t"

section \<open>The invariant\<close>

text \<open>The part of a port that the handling of the foreign master table leaves alone.\<close>

definition port_core :: "pp_instance \<Rightarrow> pp_std_states \<times> pp_std_states \<times> pp_std_states \<times> bool \<times> s32 \<times> u8 list \<times> portDS" where
  "port_core p = (ppi_state p, ppi_next_state p, ppi_desiredState p, link_up p, port_idx p, ppi_tx_ptp p, ppi_portDS p)"

lemma inst_keeps_core:
  assumes "port_core q = port_core p" and "frgn_wf cf p \<Longrightarrow> frgn_wf cf q" and "frgn_rec_num p = 0 \<Longrightarrow> frgn_rec_num q = 0"
  shows "inst_keeps quiet cf p q"
  using assms by (simp add: inst_keeps_def tx_ready_def port_core_def)

lemma remove_core [simp]: "port_core (bmc_remove_foreign_master cf past k p) = port_core p"
  by (simp add: port_core_def bmc_remove_foreign_master_def Let_def)

lemma age_loop_core: "port_core (bmc_age_loop P g i now k p) = port_core p"
proof (induction P g i now k p rule: bmc_age_loop.induct)
  case (1 P g i now k p)
  then show ?case
    by (subst bmc_age_loop.simps) (simp add: Let_def del: bmc_age_loop.simps)
qed

lemma age_keeps: "keeps w a (bmc_age_frgn_master P a i)"
proof (cases "i < length (pp_instances a)")
  case True
  let ?p = "INST a i" let ?q = "bmc_age_loop P a i (t_calc_timeout P a i 0) 0 ?p"
  have "frgn_wf (g_config a) ?p \<Longrightarrow> frgn_wf (g_config a) ?q"
    using age_frgn_wf [of a i P] True by (simp add: bmc_age_frgn_master_def)
  moreover have "frgn_rec_num ?p = 0 \<Longrightarrow> frgn_rec_num ?q = 0" by (subst bmc_age_loop.simps) simp
  ultimately show ?thesis unfolding bmc_age_frgn_master_def
    by (intro keeps_upd_inst keeps_refl inst_keeps_core age_loop_core)
qed (simp add: bmc_age_frgn_master_def upd_inst_beyond)

lemma keeps_fold:
  assumes "\<And>i b. keeps w b (f i b)" and "keeps w a b"
  shows "keeps w a (fold f is b)"
  using assms(2) by (induction "is" arbitrary: b) (auto intro: keeps_trans [OF _ assms(1)])

lemma erbest_core: "port_core (erbest_peer p) = port_core p" "port_core (erbest_choice g p) = port_core p"
  "port_core (bmc_flush_frgn_master cf p) = port_core p" "port_core (p\<lparr> frgn_rec_best := x \<rparr>) = port_core p"
  by (simp_all add: erbest_peer_def erbest_choice_def Let_def port_core_def bmc_flush_frgn_master_def)

lemma update_erbest_keeps: "keeps w a (bmc_update_erbest_inst a i)"
proof (cases "i < length (pp_instances a)")
  case True
  let ?q = "INST (bmc_update_erbest_inst a i) i"
  have eq: "bmc_update_erbest_inst a i = upd_inst i (\<lambda>_. ?q) a"
    using True by (simp add: bmc_update_erbest_inst_def Let_def upd_inst_def INST_def)
  have "port_core ?q = port_core (INST a i)" "frgn_rec_num (INST a i) = 0 \<Longrightarrow> frgn_rec_num ?q = 0"
    using True by (simp_all add: update_erbest_cases Let_def erbest_core)
  then have "inst_keeps (w \<noteq> Some i) (g_config a) (INST a i) ?q"
    using update_erbest_wf [OF _ True] by (intro inst_keeps_core)
  then show ?thesis by (subst eq) (intro keeps_upd_inst keeps_refl)
qed (simp add: bmc_update_erbest_inst_def Let_def upd_inst_beyond)

lemma clock_quality_keeps: "keeps w a (bmc_update_clock_quality P a)"
proof -
  have dds: "keeps w b (b\<lparr> g_defaultDS := d \<rparr>)"
    if "dd_numberPorts d = dd_numberPorts (g_defaultDS b)"
      "dd_externalPortConfigurationEnabled d = dd_externalPortConfigurationEnabled (g_defaultDS b)" for b d
    using that by (simp add: keeps_def INST_def)
  have "keeps w b (bmc_apply_configured_device_attributes b)" "keeps w b (bmc_degrade dev b)" for b dev
    unfolding bmc_apply_configured_device_attributes_def bmc_degrade_def Let_def keeps_globals
    by (intro dds; simp)+
  then show ?thesis unfolding bmc_update_clock_quality_def Let_def by (auto split: option.split)
qed

lemma calculate_ebest_keeps: "keeps w a (bmc_calculate_ebest P a)"
proof -
  have age: "keeps w a b \<Longrightarrow> keeps w a (bmc_age_frgn_masters P b)"
    and er: "keeps w a b \<Longrightarrow> keeps w a (bmc_update_erbest b)"
    and ex: "keeps w a b \<Longrightarrow> keeps w a (fold (\<lambda>i. upd_inst i (\<lambda>ppi. ppi\<lparr> bmca_execute := True \<rparr>)) js b)" for b js
    unfolding bmc_age_frgn_masters_def bmc_update_erbest_def
    by (intro keeps_fold age_keeps update_erbest_keeps keeps_upd_inst keeps_refl; simp)+
  have eb: "keeps w a b \<Longrightarrow> keeps w a (bmc_update_ebest b)" for b
    by (simp add: bmc_update_ebest_def Let_def)
  show ?thesis unfolding bmc_calculate_ebest_def Let_def
    by (intro keeps_option keeps_rules ex eb er age clock_quality_keeps)
qed

lemma set_link_up_ok: "clock_ok z a \<Longrightarrow> clock_ok z (set_link_up j a)"
  unfolding set_link_up_def
proof (intro clock_ok_upd_inst)
  assume "clock_ok z a" "j < length (pp_instances a)"
  then have "port_ok a (INST a j)" by (rule clock_okD)
  then show "port_ok a (if link_up (INST a j) then INST a j
      else (INST a j)\<lparr> link_up := True, ppi_state := PPS_INITIALIZING \<rparr>)"
    by (auto simp: port_ok_def frgn_wf_def live_def tx_ready_def is_active_def)
qed

lemma links_below: "clock_ok z a \<Longrightarrow> j \<in> set (links a) \<Longrightarrow> j < fst z"
  by (auto simp: clock_ok_def links_def)

lemma keeps_ok: "clock_ok z a \<Longrightarrow> keeps None a b \<Longrightarrow> clock_ok z b"
  by (rule clock_ok_keeps [where w = None]) (simp_all add: may_write_def)

context ext_keeps
begin

lemma run_links_ok:
  assumes "clock_ok z a" and "\<forall>j \<in> set js. j < fst z"
  shows "\<exists>d b. run_links P js d0 a = Some (d, b) \<and> clock_ok z b"
  using assms
proof (induction js arbitrary: a d0)
  case (Cons j js)
  then have "clock_ok z (set_link_up j a)" "j < length (pp_instances (set_link_up j a))"
    by (auto simp: set_link_up_ok) (auto simp: clock_ok_def set_link_up_def)
  from machine_ok [OF this, of "[]" 0] obtain d b
    where "pp_state_machine P (set_link_up j a) j [] 0 = Some (d, b)" "clock_ok z b" by blast
  with Cons.IH [of b] Cons.prems(2) show ?case by simp
qed simp

lemma run_all_ok:
  assumes "clock_ok z a"
  shows "\<exists>d b. run_all_state_machines P a = Some (d, b) \<and> clock_ok z b"
proof -
  obtain d b where r: "run_links P (links a) 0 a = Some (d, b)" "clock_ok z b"
    using run_links_ok [OF assms] links_below [OF assms] by blast
  have "keeps None b (snd (run_bmca P d b))"
    unfolding run_bmca_def keeps_norm by (intro keeps_rules calculate_ebest_keeps)
  with r(2) have "clock_ok z (snd (run_bmca P d b))" by (rule keeps_ok)
  then show ?thesis using r(1) by (cases "run_bmca P d b") (simp add: run_all_state_machines_def)
qed

lemma receive_links_ok:
  assumes "clock_ok z a" and "\<forall>j \<in> set js. j < fst z"
  shows "\<exists>d b. receive_links P rx js d0 a = Some (d, b) \<and> clock_ok z b"
  using assms
proof (induction js arbitrary: a d0)
  case (Cons j js)
  show ?case
  proof (cases "rx j")
    case (Some f)
    obtain i t c where r: "recv_and_count P a j (rx_ret f) (rx_time f) = (i, t, c)" by (metis prod_cases3)
    define b where "b = upd_inst j (\<lambda>ppi. ppi\<lparr> ppi_last_rcv_time := t \<rparr>) c"
    have "keeps None a c" using r
      by (auto simp: recv_and_count_def Let_def split: if_splits intro!: keeps_upd_inst)
    then have "keeps None a b" unfolding b_def by (intro keeps_upd_inst) simp_all
    with Cons.prems have b: "clock_ok z b" "j < length (pp_instances b)"
      using keeps_ok by (auto simp: clock_ok_def keeps_globalsD)
    from machine_ok [OF b, of "rx_ptp f" "i - rx_offset f"] obtain d e
      where "pp_state_machine P b j (rx_ptp f) (i - rx_offset f) = Some (d, e)" "clock_ok z e" by blast
    then show ?thesis using Some r Cons b(1) by (simp add: b_def [symmetric])
  qed (use Cons in simp)
qed simp

lemma receive_all_ok:
  assumes "clock_ok z a"
  shows "\<exists>d b. receive_all P rx a = Some (d, b) \<and> clock_ok z b"
  unfolding receive_all_def using receive_links_ok [OF assms] links_below [OF assms] by blast

lemma main_step_ok:
  assumes "main_step P s t" and "clock_ok z (snd s)"
  shows "clock_ok z (snd t)"
  using assms by (cases rule: main_step.cases) (metis run_all_ok receive_all_ok option.inject prod.inject snd_conv)+
end

lemma start_links_ok: "clock_ok z a \<Longrightarrow> clock_ok z (start_links a)"
  unfolding start_links_def by (erule keeps_ok) (intro keeps_fold keeps_upd_inst keeps_refl; simp)

text \<open>In every state the loop reaches the clock is in order, and the next pass, whatever it is, ends.\<close>

lemma main_loop_ok:
  assumes "\<And>P. allowed P \<Longrightarrow> ext_keeps P" and "clock_ok z a" and "main_reaches allowed a s"
  shows "clock_ok z (snd s)"
  using assms(3)
proof (induction rule: main_reaches.induct)
  case (enter P s)
  show ?case
    using ext_keeps.run_all_ok [OF assms(1) [OF enter(1)] start_links_ok [OF assms(2)]] enter(2) by force
next
  case (again s P t)
  then show ?case by (blast intro: ext_keeps.main_step_ok [OF assms(1)])
qed

lemma main_loop_progress:
  assumes "\<And>P. allowed P \<Longrightarrow> ext_keeps P" and "clock_ok z a" and "main_reaches allowed a s" and "allowed P"
  shows "(\<exists>t. run_all_state_machines P (snd s) = Some t \<and> main_reaches allowed a t) \<and>
    (\<exists>t. receive_all P rx (snd s) = Some t \<and> main_reaches allowed a t)"
proof -
  have ok: "clock_ok z (snd s)" by (rule main_loop_ok [OF assms(1-3)])
  have "main_reaches allowed a t" if "run_all_state_machines P (snd s) = Some t \<or> receive_all P rx (snd s) = Some t" for t
    using that assms(3,4) by (cases s; cases t) (auto intro: main_reaches.again main_step.intros)
  then show ?thesis
    using ext_keeps.run_all_ok [OF assms(1) ok, OF assms(4)] ext_keeps.receive_all_ok [OF assms(1) ok, OF assms(4)]
    by metis
qed

section \<open>The clock as it is opened\<close>

text \<open>
  What the start-up code hands to \<^const>\<open>pp_init_globals\<close>: cleared ports without a link, as many as links, with their
  configuration, a foreign master table of the size of the build and a transmit buffer that holds an announce message.
\<close>

definition configured :: "pp_globals \<Rightarrow> bool" where
  "configured ppg \<longleftrightarrow>
     0 < length (pp_instances ppg) \<and> length (pp_instances ppg) < 2 ^ 15 \<and>
     g_nlinks ppg = word_of_nat (length (pp_instances ppg)) \<and>
     (CONFIG_SINGLE_PORT (g_config ppg) \<longrightarrow> length (pp_instances ppg) = 1) \<and>
     0 < CONFIG_NR_FOREIGN_RECORDS (g_config ppg) \<and> CONFIG_NR_FOREIGN_RECORDS (g_config ppg) < 2 ^ 15 \<and>
     list_all (\<lambda>p. frgn_rec_num p = 0 \<and> length (frgn_master p) = CONFIG_NR_FOREIGN_RECORDS (g_config ppg) \<and>
       64 \<le> length (ppi_tx_ptp p) \<and> \<not> link_up p \<and> cfg_desiredState (ppi_cfg p) \<noteq> PPS_END_OF_TABLE) (pp_instances ppg)"

lemma INST_fold_upd:
  assumes "m \<le> length (pp_instances ppg)" and "\<And>i a. F i a = upd_inst i (f i (g_config a, g_defaultDS a)) a"
    and "j < length (pp_instances ppg)"
  shows "INST (fold F [0..<m] ppg) j =
      (if j < m then f j (g_config ppg, g_defaultDS ppg) (INST ppg j) else INST ppg j) \<and>
    length (pp_instances (fold F [0..<m] ppg)) = length (pp_instances ppg) \<and>
    g_config (fold F [0..<m] ppg) = g_config ppg \<and> g_defaultDS (fold F [0..<m] ppg) = g_defaultDS ppg \<and>
    g_nlinks (fold F [0..<m] ppg) = g_nlinks ppg"
  using assms(1)
proof (induction m)
  case (Suc m)
  then show ?case using assms(3) by (auto simp: assms(2) less_Suc_eq)
qed simp

text \<open>The settings of \<^const>\<open>pp_init_globals\<close> before the ports: they do not touch the ports.\<close>

lemma set_slaveOnly_fields [simp]:
  "pp_instances (set_slaveOnly x a) = pp_instances a" "g_config (set_slaveOnly x a) = g_config a"
  "g_nlinks (set_slaveOnly x a) = g_nlinks a"
  "dd_numberPorts (g_defaultDS (set_slaveOnly x a)) = dd_numberPorts (g_defaultDS a)"
  by (simp_all add: set_slaveOnly_def)

lemma force_clockClass_fields [simp]:
  "pp_instances (force_clockClass c a) = pp_instances a" "INST (force_clockClass c a) j = INST a j"
  "g_config (force_clockClass c a) = g_config a" "g_nlinks (force_clockClass c a) = g_nlinks a"
  "dd_numberPorts (g_defaultDS (force_clockClass c a)) = dd_numberPorts (g_defaultDS a)"
  "dd_externalPortConfigurationEnabled (g_defaultDS (force_clockClass c a)) =
     dd_externalPortConfigurationEnabled (g_defaultDS a)"
  by (simp_all add: force_clockClass_def INST_def)

lemma init_slaveOnly_fields:
  "pp_instances (init_slaveOnly a) = pp_instances a" "g_config (init_slaveOnly a) = g_config a"
  "g_nlinks (init_slaveOnly a) = g_nlinks a"
  "dd_numberPorts (g_defaultDS (init_slaveOnly a)) = dd_numberPorts (g_defaultDS a)"
  by (simp_all add: init_slaveOnly_def Let_def)

definition cold_port :: "pp_globals \<Rightarrow> pp_instance \<Rightarrow> bool" where
  "cold_port a p \<longleftrightarrow> frgn_rec_num p = 0 \<and> frgn_rec_best p = - 1 \<and>
     length (frgn_master p) = CONFIG_NR_FOREIGN_RECORDS (g_config a) \<and> 64 \<le> length (ppi_tx_ptp p) \<and> \<not> link_up p \<and>
     ppi_state p = PPS_DISABLED \<and>
     (is_externalPortConfigurationEnabled a \<longrightarrow> ppi_desiredState p \<noteq> PPS_END_OF_TABLE)"

lemma cold_clock_ok:
  assumes "configured a" and "g_config c = g_config a" and "g_nlinks c = g_nlinks a"
    and "length (pp_instances c) = length (pp_instances a)" and "get_numberPorts c = length (pp_instances a)"
    and "\<And>j. j < length (pp_instances a) \<Longrightarrow> cold_port c (INST c j)"
  shows "clock_ok (length (pp_instances a), g_nlinks a) c"
proof -
  have "port_ok c p" if "cold_port c p" for p
    using that assms(1,2) by (simp add: configured_def cold_port_def port_ok_def frgn_wf_def live_def is_active_def)
  then show ?thesis using assms by (simp add: clock_ok_def configured_def sint_of_nat32)
qed

lemma disable_all_fields [simp]:
  "ppi_state (pp_timeout_disable_all p) = ppi_state p" "link_up (pp_timeout_disable_all p) = link_up p"
  "frgn_rec_num (pp_timeout_disable_all p) = frgn_rec_num p" "frgn_rec_best (pp_timeout_disable_all p) = frgn_rec_best p"
  "frgn_master (pp_timeout_disable_all p) = frgn_master p" "ppi_tx_ptp (pp_timeout_disable_all p) = ppi_tx_ptp p"
  "ppi_cfg (pp_timeout_disable_all p) = ppi_cfg p"
  by (simp_all add: pp_timeout_disable_all_def)

definition epc_port :: "nat \<Rightarrow> config \<times> defaultDS \<Rightarrow> pp_instance \<Rightarrow> pp_instance" where
  "epc_port i g ppi = ppi\<lparr>
     ppi_portDS := (if \<not> CONFIG_MO_FORCE_DISABLED (fst g) \<and> por_masterOnly (ppi_portDS ppi)
                    then (ppi_portDS ppi)\<lparr> por_masterOnly := False \<rparr> else ppi_portDS ppi),
     ppi_desiredState := cfg_desiredState (ppi_cfg ppi) \<rparr>"

lemma init_epc_port_eq: "init_epc_port i a = upd_inst i (epc_port i (g_config a, g_defaultDS a)) a"
  by (simp add: init_epc_port_def epc_port_def upd_inst_def is_masterOnly_def)

lemma init_ports_ok:
  assumes cfg: "configured a" and b: "pp_instances b = pp_instances a" "g_config b = g_config a" "g_nlinks b = g_nlinks a"
    "get_numberPorts b = length (pp_instances a)"
  shows "clock_ok (length (pp_instances a), g_nlinks a) (init_epc (fold init_port [0..<get_numberPorts b] b))"
proof -
  let ?n = "length (pp_instances a)"
  define d where "d = fold init_port [0..<get_numberPorts b] b"
  have d: "INST d j = pp_timeout_disable_all ((INST b j)\<lparr> ppi_state := PPS_DISABLED, ppi_pdstate := PP_PDSTATE_NONE,
        ppi_current_state_item := None, port_idx := word_of_nat j, frgn_rec_best := - 1 \<rparr>)"
    "length (pp_instances d) = ?n" "g_config d = g_config a" "g_defaultDS d = g_defaultDS b" "g_nlinks d = g_nlinks a"
    if "j < ?n" for j
    using INST_fold_upd [of ?n b init_port "\<lambda>i _ ppi. pp_timeout_disable_all (ppi\<lparr>
        ppi_state := PPS_DISABLED, ppi_pdstate := PP_PDSTATE_NONE, ppi_current_state_item := None,
        port_idx := word_of_nat i, frgn_rec_best := - 1 \<rparr>)" j] that b
    unfolding d_def by (simp_all add: init_port_def)
  have n: "0 < ?n" using cfg by (simp add: configured_def)
  have nd: "get_numberPorts d = ?n"
    using d(3,4) [OF n] b(2,4) unfolding get_numberPorts_def by (simp split: if_splits)
  have cold: "\<not> is_externalPortConfigurationEnabled d \<Longrightarrow> cold_port d (INST d j)"
    "is_externalPortConfigurationEnabled d \<Longrightarrow> cold_port d (epc_port j g (INST d j))" if "j < ?n" for j g
    using cfg that d [OF that] b(1)
    by (auto simp: configured_def list_all_length INST_def cold_port_def epc_port_def)
  show ?thesis
  proof (cases "is_externalPortConfigurationEnabled d")
    case False
    then have "init_epc d = d" by (simp add: init_epc_def)
    then show ?thesis using cfg False nd d(2,3,5) [OF n] cold(1)
      by (simp add: d_def [symmetric] cold_clock_ok)
  next
    case True
    define e where "e = fold init_epc_port [0..<get_numberPorts d] d"
    have e: "INST e j = epc_port j (g_config d, g_defaultDS d) (INST d j)" "length (pp_instances e) = ?n"
      "g_config e = g_config d" "g_defaultDS e = g_defaultDS d" "g_nlinks e = g_nlinks d" if "j < ?n" for j
      using INST_fold_upd [of ?n d init_epc_port epc_port j, OF _ init_epc_port_eq] that d(2) [OF that] nd
      unfolding e_def by simp_all
    have "init_epc d = e \<or> init_epc d = force_clockClass PP_CLASS_DEFAULT e"
      using True by (simp add: init_epc_def Let_def e_def)
    moreover have "clock_ok (?n, g_nlinks a) c"
      if "g_config c = g_config e" "g_nlinks c = g_nlinks e" "\<And>j. INST c j = INST e j"
        "length (pp_instances c) = length (pp_instances e)"
        "dd_numberPorts (g_defaultDS c) = dd_numberPorts (g_defaultDS e)"
        "dd_externalPortConfigurationEnabled (g_defaultDS c) = dd_externalPortConfigurationEnabled (g_defaultDS e)" for c
    proof (rule cold_clock_ok [OF cfg])
      show "get_numberPorts c = ?n" using that e [OF n] nd by (simp add: get_numberPorts_def split: if_splits)
      show "cold_port c (INST c j)" if "j < ?n" for j
        using cold(2) [OF that True] e [OF that] \<open>\<And>j. INST c j = INST e j\<close> \<open>g_config c = g_config e\<close>
          \<open>dd_externalPortConfigurationEnabled (g_defaultDS c) = dd_externalPortConfigurationEnabled (g_defaultDS e)\<close>
        by (simp add: cold_port_def is_externalPortConfigurationEnabled_def)
    qed (use that e [OF n] d [OF n] in simp_all)
    ultimately show ?thesis by (auto simp: d_def [symmetric])
  qed
qed


context ext_keeps
begin

lemma call_hooks_keep:
  assumes "\<And>i. hook_keeps (h i)"
  shows "keeps None a (snd (call_hooks h is r a))"
proof (induction "is" arbitrary: r a)
  case (Cons i "is")
  have "keeps None a (snd (f a i))" if "h i = Some f" for f
    using assms [of i] that by (simp add: hook_keeps_def)
  then show ?case using Cons by (auto simp: case_prod_unfold Let_def split: option.split intro: keeps_trans)
qed simp

lemma opened_ok:
  assumes "configured a"
  shows "clock_ok (length (pp_instances a), g_nlinks a) (snd (pp_init_globals P opts_set opts a))"
proof -
  let ?n = "length (pp_instances a)"
  define b0 where "b0 = a\<lparr> g_defaultDS := (g_defaultDS a)\<lparr>
            dd_numberPorts := (if sint (g_nlinks a) > 0 then ucast (g_nlinks a) else 1) \<rparr> \<rparr>"
  define b1 where "b1 = (if opts_set then b0 else b0\<lparr> rt_opts := opts \<rparr>)"
  define b2 where "b2 = bmc_apply_configured_device_attributes (bmc_set_default_device_attributes b1)"
  define b where "b = init_slaveOnly (b2\<lparr> g_defaultDS := (g_defaultDS b2)\<lparr>
            dd_externalPortConfigurationEnabled := opt_externalPortConfigurationEnabled opts,
            dd_slaveOnly := opt_slaveOnly (rt_opts b2) \<rparr> \<rparr>)"
  have 1: "pp_instances b1 = pp_instances a" "g_config b1 = g_config a" "g_nlinks b1 = g_nlinks a"
    "dd_numberPorts (g_defaultDS b1) = (if sint (g_nlinks a) > 0 then ucast (g_nlinks a) else 1)"
    by (simp_all add: b1_def b0_def)
  have 2: "pp_instances b2 = pp_instances a" "g_config b2 = g_config a" "g_nlinks b2 = g_nlinks a"
    "dd_numberPorts (g_defaultDS b2) = (if sint (g_nlinks a) > 0 then ucast (g_nlinks a) else 1)"
    using 1 unfolding b2_def bmc_apply_configured_device_attributes_def bmc_set_default_device_attributes_def Let_def
    by simp_all
  have n: "0 < ?n" "?n < 2 ^ 15" "sint (g_nlinks a) = int ?n" "CONFIG_SINGLE_PORT (g_config a) \<Longrightarrow> ?n = 1"
    using assms by (simp_all add: configured_def sint_of_nat32)
  have "unat (ucast (g_nlinks a) :: u16) = ?n"
    using assms by (simp add: configured_def unsigned_ucast_eq unsigned_of_nat take_bit_nat_eq_self)
  then have b: "pp_instances b = pp_instances a" "g_config b = g_config a" "g_nlinks b = g_nlinks a"
    "get_numberPorts b = ?n"
    using 2 n by (simp_all add: b_def init_slaveOnly_fields get_numberPorts_def)
  have "snd (pp_init_globals P opts_set opts a) = snd (call_hooks (\<lambda>i. h_open (ext_hooks P i))
      [0..<get_numberPorts (init_epc (fold init_port [0..<get_numberPorts b] b))] 0
      (init_epc (fold init_port [0..<get_numberPorts b] b)))"
    unfolding pp_init_globals_def Let_def b0_def [symmetric] b1_def [symmetric] b2_def [symmetric] b_def [symmetric]
    by (rule refl)
  then show ?thesis using keeps_ok [OF init_ports_ok [OF assms b] call_hooks_keep [OF hooks(11)]] by simp
qed
end
end
