(* ===== verification/Ext_Frame.thy ===== *)
theory Ext_Frame
  imports L1e_Ext Main_Loop
begin

text \<open>
  The extensions satisfy the contract of the standard state machine.  The functions of White Rabbit and
  L1Sync are shown to keep the clock state on every platform whose hooks do, then the hook tables of the
  extensions are installed: a platform on which every port runs the standard protocol, White Rabbit or
  L1Sync interprets \<open>ext_keeps\<close>.
\<close>

section \<open>The servo\<close>

lemma ext_data_keeps [keeps_rules]:
  "keeps w a b \<Longrightarrow> keeps w a (upd_wrh i f b)"
  "keeps w a b \<Longrightarrow> keeps w a (upd_wr i g b)"
  "keeps w a b \<Longrightarrow> keeps w a (upd_wre i h b)"
  "keeps w a b \<Longrightarrow> keeps w a (upd_l1e i k b)"
  unfolding upd_wrh_def upd_wr_def upd_wre_def upd_l1e_def by (intro keeps_rules; simp)+

lemma ext_setters_keep [keeps_rules]:
  "keeps w a b \<Longrightarrow> keeps w a (setState i st b)"
  "keeps w a b \<Longrightarrow> keeps w a (wait_hw i b)"
  "keeps w a b \<Longrightarrow> keeps w a (set_wr_next i wst b)"
  "keeps w a b \<Longrightarrow> keeps w a (wr_reset_process i role b)"
  "keeps w a b \<Longrightarrow> keeps w a (set_doRestart i x b)"
  "keeps w a b \<Longrightarrow> keeps w a (set_parentDetection i d b)"
  "keeps w a b \<Longrightarrow> keeps w a (upd_bs i f b)"
  "keeps w a b \<Longrightarrow> keeps w a (set_l1_next i lst b)"
  "keeps w a b \<Longrightarrow> keeps w a (set_execute i x b)"
  "keeps w a b \<Longrightarrow> keeps w a (calculate_raw_delayMM i t1 t2 t3 t4 b)"
  unfolding setState_def wait_hw_def set_wr_next_def wr_reset_process_def set_doRestart_def set_parentDetection_def
    upd_bs_def set_l1_next_def set_execute_def calculate_raw_delayMM_def by (intro keeps_rules; assumption)+

lemma get_timer_keeps [keeps_rules]: "keeps w a b \<Longrightarrow> keeps w a (snd (pp_timeout_get_timer b i t r))"
  by (erule keeps_trans, rule keeps_same_but_tmo, rule pp_timeout_get_timer_frame)

lemma set_pdstate_keeps [keeps_rules]: "keeps w a b \<Longrightarrow> keeps w a (set_pdstate i s b)"
  unfolding set_pdstate_def by (intro keeps_rules) simp_all

lemma wrh_init_keeps [keeps_rules]:
  "keeps w a b \<Longrightarrow> keeps w a (snd (wrh_servo_init P b i))"
  "keeps w a b \<Longrightarrow> keeps w a (wrh_servo_reset b i)"
  unfolding wrh_servo_init_def wrh_servo_reset_def keeps_norm by (intro keeps_rules; simp)+

lemma wrh_act_keeps [keeps_rules]:
  "keeps w a b \<Longrightarrow> keeps w a (wrh_take_delays P b i)"
  "keeps w a b \<Longrightarrow> keeps w a (wrh_choose_state P b i)"
  "keeps w a b \<Longrightarrow> keeps w a (wrh_account d b i)"
  "keeps w a b \<Longrightarrow> keeps w a (wrh_act P parts b i)"
  unfolding wrh_take_delays_def wrh_choose_state_def wrh_account_def wrh_act_def wrh_sync_phase_def wrh_wait_stable_def
    wrh_track_phase_def keeps_norm by (intro keeps_rules; assumption)+

lemma wrh_update_keeps [keeps_rules]: "keeps w a b \<Longrightarrow> keeps w a (snd (wrh_servo_update P b i))"
  unfolding wrh_servo_update_def keeps_norm by (intro keeps_rules)

lemma wrh_got_keeps [keeps_rules]:
  "keeps w a b \<Longrightarrow> keeps w a (wrh_servo_got_sync P b i)"
  "keeps w a b \<Longrightarrow> keeps w a (snd (wrh_servo_got_resp P b i))"
  "keeps w a b \<Longrightarrow> keeps w a (snd (wrh_servo_got_presp b i))"
  unfolding wrh_servo_got_sync_def wrh_servo_got_resp_def wrh_servo_got_presp_def keeps_norm
  by (intro keeps_rules; assumption)+

lemma wr_servo_keeps [keeps_rules]:
  "keeps w a b \<Longrightarrow> keeps w a (snd (wr_servo_init P b i))"
  "keeps w a b \<Longrightarrow> keeps w a (wr_servo_reset b i)"
  "keeps w a b \<Longrightarrow> keeps w a (wr_servo_got_sync P b i)"
  "keeps w a b \<Longrightarrow> keeps w a (snd (wr_servo_got_resp P b i))"
  "keeps w a b \<Longrightarrow> keeps w a (snd (wr_servo_got_presp b i))"
  unfolding wr_servo_init_def wr_servo_reset_def wr_servo_got_sync_def wr_servo_got_resp_def wr_servo_got_presp_def
    keeps_norm by (intro keeps_rules; simp)+

section \<open>Messages\<close>

lemma wr_pack_inst_keeps [simp]:
  "inst_keeps quiet cf p (snd (msg_pack_wrsig pid m p))"
  "inst_keeps quiet cf p (msg_pack_announce_wr_tlv p)"
  "inst_keeps quiet cf p (snd (l1e_pack_signal p))"
  by (simp_all add: msg_pack_wrsig_def wrsig_payload_def wr_put_id_def msg_pack_announce_wr_tlv_def l1e_pack_signal_def
    msg_pack_signaling_no_fowardable_def be16_def be32_def Let_def case_prod_beta)

lemma wr_msgs_keep [keeps_rules]:
  "keeps w a b \<Longrightarrow> keeps w a (snd (msg_issue_wrsig P b i m))"
  "keeps w a b \<Longrightarrow> keeps w a (l1e_send_sync_msg P b i im)"
  "keeps w a b \<Longrightarrow> keeps w a (snd (wr_pack_announce b i))"
  unfolding msg_issue_wrsig_def l1e_send_sync_msg_def wr_pack_announce_def keeps_norm
  by (intro keeps_rules; simp)+

lemma recalibrate_keeps [keeps_rules]: "keeps w a b \<Longrightarrow> keeps w a (recalibrate i b)"
proof -
  have "ppi_state p = PPS_SLAVE \<Longrightarrow> inst_keeps q cf p (p\<lparr> ppi_next_state := PPS_UNCALIBRATED \<rparr>)" for p q cf
    by (simp add: inst_keeps_def is_active_def frgn_wf_def live_def tx_ready_def)
  then show "keeps w a b \<Longrightarrow> keeps w a (recalibrate i b)"
    by (simp add: recalibrate_def set_next_state_def keeps_upd_inst)
qed

lemma mark_treated_keeps [keeps_rules]: "keeps w a b \<Longrightarrow> keeps w a (mark_treated loc b)"
proof -
  have "map fm_sourcePortIdentity (take n (xs[k := (xs ! k)\<lparr> fm_ext_specific := e \<rparr>])) =
      map fm_sourcePortIdentity (take n xs)" for n k e and xs :: "pp_frgn_master list"
    by (cases "k < length xs") (auto simp: list_eq_iff_nth_eq nth_list_update)
  then have "inst_keeps q cf p (p\<lparr> frgn_master := (frgn_master p)[k := (frgn_master p ! k)\<lparr> fm_ext_specific := e \<rparr>] \<rparr>)"
    for q cf p k e
    by (simp add: inst_keeps_def frgn_wf_def live_def tx_ready_def)
  then show "keeps w a b \<Longrightarrow> keeps w a (mark_treated loc b)" by (simp add: mark_treated_def keeps_upd_inst)
qed

lemma s1_hook_keeps: "keeps w a b \<Longrightarrow> keeps w a (snd (wr_bmca_s1 b i fm loc))"
  unfolding wr_bmca_s1_def keeps_norm by (intro keeps_rules)

section \<open>The functions of White Rabbit\<close>

context ext_keeps
begin

lemma wr_common_keeps:
  "keeps w a b \<Longrightarrow> keeps w a (wr_handshake_fail P b i)"
  "keeps w a b \<Longrightarrow> keeps w a (snd (wr_handshake_retry b i))"
  "keeps w a b \<Longrightarrow> keeps w a (snd (msg_unpack_wrsig P b i buf))"
  "keeps w a b \<Longrightarrow> keeps w a (snd (wr_received P b i buf))"
  "keeps w a b \<Longrightarrow> keeps w a (wr_enter P t b i)"
  "keeps w a b \<Longrightarrow> keeps w a (snd (wr_send P t m x b i))"
  unfolding wr_handshake_fail_def wr_handshake_retry_def msg_unpack_wrsig_def wr_received_def wr_enter_def wr_send_def keeps_norm
  by (intro keeps_rules pdstate_keeps; assumption)+

lemma wr_check_tmo_keeps: "keeps w a b \<Longrightarrow> keeps w a (snd (wr_check_tmo P t b i))"
  unfolding wr_check_tmo_def keeps_norm by (intro keeps_rules wr_common_keeps)

lemma wr_exchange_keeps:
  assumes "keeps w a b"
  shows "keeps w a (snd (wr_exchange P t m nx b i buf))"
proof -
  obtain r c where r: "wr_received P b i buf = (r, c)" by (cases "wr_received P b i buf")
  with wr_common_keeps(4) [OF assms, of i buf] have c: "keeps w a c" by simp
  obtain s d where s: "wr_check_tmo P t c i = (s, d)" by (cases "wr_check_tmo P t c i")
  with wr_check_tmo_keeps [OF c, of t i] have "keeps w a d" by simp
  with r s c show ?thesis
    by (auto simp: wr_exchange_def intro: ext_setters_keep wr_common_keeps(6) split: option.split wr_tmo.split)
qed

lemma wr_resp_calib_keeps:
  assumes "keeps w a b"
  shows "keeps w a (snd (wr_resp_calib_req P b i buf new))"
proof -
  let ?b = "if new then wr_enter P WR_RESP_CALIB_REQ_TIMEOUT_MS b i else b"
  have b: "keeps w a ?b" using assms by (simp add: wr_common_keeps)
  obtain r c where r: "wr_received P ?b i buf = (r, c)" by (cases "wr_received P ?b i buf")
  with wr_common_keeps(4) [OF b, of i buf] have c: "keeps w a c" by simp
  obtain s d where s: "wr_check_tmo P WR_RESP_CALIB_REQ_TIMEOUT_MS c i = (s, d)"
    by (cases "wr_check_tmo P WR_RESP_CALIB_REQ_TIMEOUT_MS c i")
  with wr_check_tmo_keeps [OF c, of WR_RESP_CALIB_REQ_TIMEOUT_MS i] have "keeps w a d" by simp
  moreover have "keeps w a (take_other_deltas i c)"
    unfolding take_other_deltas_def keeps_norm by (intro keeps_rules c)
  ultimately show ?thesis using r s c
    unfolding wr_resp_calib_req_def Let_def by (auto split: option.split wr_tmo.split)
qed

lemma wr_idle_keeps: "keeps w a b \<Longrightarrow> keeps w a (snd (wr_idle P b i buf))"
proof -
  assume b: "keeps w a b"
  obtain r c where r: "wr_received P b i buf = (r, c)" by (cases "wr_received P b i buf")
  with wr_common_keeps(4) [OF b, of i buf] have "keeps w a c" by simp
  with r have "keeps w a (snd (wr_idle_master P b i buf))"
    by (auto simp: wr_idle_master_def intro: ext_setters_keep pdstate_keeps split: option.split)
  then show ?thesis unfolding wr_idle_def keeps_norm by (intro keeps_rules pdstate_keeps b)
qed

lemma wr_states_keep:
  "keeps w a b \<Longrightarrow> keeps w a (snd (wr_present P b i buf new))"
  "keeps w a b \<Longrightarrow> keeps w a (snd (wr_m_lock P b i buf new))"
  "keeps w a b \<Longrightarrow> keeps w a (snd (wr_locked P b i buf new))"
  "keeps w a b \<Longrightarrow> keeps w a (snd (wr_calibrated_state P b i buf new))"
  "keeps w a b \<Longrightarrow> keeps w a (snd (wr_s_lock P b i buf new))"
  "keeps w a b \<Longrightarrow> keeps w a (snd (wr_calibration P b i))"
  "keeps w a b \<Longrightarrow> keeps w a (snd (wr_link_on P b i))"
  unfolding wr_present_def wr_m_lock_def wr_locked_def wr_calibrated_state_def wr_s_lock_def s_lock_enable_def
    wr_calibration_def wr_link_on_def keeps_norm
  by (intro keeps_rules wr_common_keeps wr_exchange_keeps; assumption)+

lemma wr_run_keeps: "keeps w a b \<Longrightarrow> keeps w a (snd (wr_run_state_machine P b i buf len))"
proof -
  assume b: "keeps w a b"
  have act: "keeps w a c \<Longrightarrow> keeps w a (snd (wr_state_actions P s c i buf new))" for c s new
    by (cases s) (simp_all add: wr_state_actions_def wr_states_keep wr_idle_keeps wr_resp_calib_keeps)
  show ?thesis unfolding wr_run_state_machine_def keeps_norm by (intro act keeps_rules b)
qed

lemma wr_hooks_keep:
  "keeps w a b \<Longrightarrow> keeps w a (snd (wr_init P b i buf len))"
  "keeps w a b \<Longrightarrow> keeps w a (snd (wr_new_slave P b i buf len))"
  "keeps w a b \<Longrightarrow> keeps w a (snd (wr_handle_resp P b i))"
  "keeps w a b \<Longrightarrow> keeps w a (snd (wr_handle_dreq P b i))"
  "keeps w a b \<Longrightarrow> keeps w a (snd (wr_sync_followup P b i))"
  "keeps w a b \<Longrightarrow> keeps w a (snd (wr_handle_presp P b i))"
  "keeps w a b \<Longrightarrow> keeps w a (snd (wr_open b i))"
  "keeps w a b \<Longrightarrow> keeps w a (snd (wr_ready_for_slave b i))"
  unfolding wr_init_def wr_new_slave_def wr_handle_resp_def wr_handle_dreq_def wr_sync_followup_def wr_handle_presp_def
    wr_open_def wr_ready_for_slave_def keep_detected_def keeps_norm
  by (intro keeps_rules pdstate_keeps wr_common_keeps; assumption)+

lemma wr_enter_state_keeps: "keeps w a b \<Longrightarrow> keeps w a (wr_enter_state P b i)"
  unfolding wr_enter_state_def keeps_norm by (intro keeps_rules pdstate_keeps wr_common_keeps)

lemma wr_state_change_keeps: "keeps w a b \<Longrightarrow> keeps w a (wr_state_change P b i)"
  unfolding wr_state_change_def keeps_norm by (intro keeps_rules pdstate_keeps wr_enter_state_keeps)

end

section \<open>The functions of L1Sync\<close>

text \<open>A run whose action keeps the clock state keeps it; the run into the disabled state needs no hook.\<close>

lemma l1e_run_keeps:
  assumes act: "\<And>s c new. keeps w a c \<Longrightarrow> keeps w a (snd (act s c i new))" and b: "keeps w a b"
  shows "keeps w a (snd (l1e_run act P b i))"
  unfolding l1e_run_def l1e_prepare_def check_rx_tmo_def keeps_norm by (intro act keeps_rules b)

lemma l1e_disabled_keeps [keeps_rules]:
  "keeps w a b \<Longrightarrow> keeps w a (snd (l1e_handle_state_disabled P b i new))"
  unfolding l1e_handle_state_disabled_def keeps_norm by (intro keeps_rules)

lemma l1e_changed_keeps [keeps_rules]:
  "keeps w a b \<Longrightarrow> keeps w a (l1e_servo_init P b i)"
  "keeps w a b \<Longrightarrow> keeps w a (snd (l1e_extension_state_changed P b i))"
  unfolding l1e_servo_init_def l1e_extension_state_changed_def l1e_run_disabled_def keeps_norm
  by (intro l1e_run_keeps keeps_rules; assumption)+

lemma l1e_stay_keeps [keeps_rules]:
  "keeps w a b \<Longrightarrow> keeps w a (snd (l1e_stay P b i))"
  "keeps w a b \<Longrightarrow> keeps w a (snd (le1_evt_STATE_OK P b i))"
  "keeps w a b \<Longrightarrow> keeps w a (config_match_enter P b i)"
  unfolding l1e_stay_def le1_evt_STATE_OK_def config_match_enter_def keeps_norm by (intro keeps_rules; assumption)+

lemma l1e_small_states_keep [keeps_rules]:
  "keeps w a b \<Longrightarrow> keeps w a (snd (l1e_handle_state_link_alive P b i new))"
  "keeps w a b \<Longrightarrow> keeps w a (snd (l1e_handle_state_config_match P b i new))"
  unfolding l1e_handle_state_link_alive_def l1e_handle_state_config_match_def keeps_norm
  by (intro keeps_rules; assumption)+

context ext_keeps
begin

lemma l1e_idle_keeps: "keeps w a b \<Longrightarrow> keeps w a (snd (l1e_handle_state_idle P b i new))"
  unfolding l1e_handle_state_idle_def keeps_norm by (intro keeps_rules pdstate_keeps)

lemma l1e_up_next_keeps: "keeps w a b \<Longrightarrow> keeps w a (snd (up_next P b i))"
  unfolding up_next_def keeps_norm by (intro keeps_rules pdstate_keeps)

lemma l1e_up_keeps:
  assumes "keeps w a b"
  shows "keeps w a (snd (l1e_handle_state_up P b i new))"
proof -
  let ?b = "if new then upd_wrh i (\<lambda>s. s\<lparr> wrh_readyForSync := True \<rparr>) (log_event (Ev_enable_ptracker i) b) else b"
  obtain s c where s: "up_next P ?b i = (s, c)" by (cases "up_next P ?b i")
  have "keeps w a ?b" by (intro keeps_rules assms)
  with l1e_up_next_keeps [of w a ?b i] s have c: "keeps w a c" by simp
  then have "keeps w a (snd (l1e_stay P (if new then pdstate_enable_extension P c i else c) i))"
    by (intro keeps_rules pdstate_keeps)
  moreover have "keeps w a (set_l1_next i x c)" "keeps w a (wrh_servo_reset (log_event (Ev_locking_disable i) (set_l1_next i x c)) i)" for x
    using c by (intro keeps_rules; assumption)+
  ultimately show ?thesis using s
    unfolding l1e_handle_state_up_def Let_def by (auto split: option.split)
qed

lemma l1e_machine_keeps: "keeps w a b \<Longrightarrow> keeps w a (snd (l1e_run_state_machine P b i buf len))"
proof -
  assume b: "keeps w a b"
  have "keeps w a c \<Longrightarrow> keeps w a (snd (le1_state_actions P s c i new))" for c s new
    by (cases s) (simp_all add: le1_state_actions_def l1e_idle_keeps l1e_up_keeps l1e_disabled_keeps l1e_small_states_keep)
  then show ?thesis unfolding l1e_run_state_machine_def by (intro l1e_run_keeps b)
qed

lemma l1e_signaling_keeps: "keeps w a b \<Longrightarrow> keeps w a (snd (l1e_handle_signaling P b i buf len))"
proof -
  assume b: "keeps w a b"
  have "keeps w a c" if "l1e_unpack_signal b i buf len = Some c" for c
    using that b by (auto simp: l1e_unpack_signal_def ext_setters_keep split: if_splits)
  then show ?thesis unfolding l1e_handle_signaling_def keeps_norm by (intro keeps_option keeps_rules pdstate_keeps b)
qed

lemma l1e_hooks_keep:
  "keeps w a b \<Longrightarrow> keeps w a (snd (l1e_init P b i buf len))"
  "keeps w a b \<Longrightarrow> keeps w a (snd (l1e_new_slave P b i buf len))"
  "keeps w a b \<Longrightarrow> keeps w a (snd (l1e_handle_resp P b i))"
  "keeps w a b \<Longrightarrow> keeps w a (snd (l1e_handle_dreq P b i))"
  "keeps w a b \<Longrightarrow> keeps w a (snd (l1e_sync_followup P b i))"
  "keeps w a b \<Longrightarrow> keeps w a (snd (l1e_handle_presp P b i))"
  "keeps w a b \<Longrightarrow> keeps w a (l1e_leave_slave b i)"
  "keeps w a b \<Longrightarrow> keeps w a (snd (l1e_open b i))"
  "keeps w a b \<Longrightarrow> keeps w a (snd (l1e_ready_for_slave b i))"
  unfolding l1e_init_def l1e_new_slave_def l1e_handle_resp_def l1e_handle_dreq_def l1e_sync_followup_def
    l1e_handle_presp_def l1e_open_def l1e_ready_for_slave_def l1e_leave_slave_def keep_detected_def keeps_norm
  by (intro keeps_rules pdstate_keeps; assumption)+

lemma l1e_state_change_keeps: "keeps w a b \<Longrightarrow> keeps w a (l1e_state_change P b i)"
  unfolding l1e_state_change_def keeps_norm by (intro keeps_rules pdstate_keeps l1e_machine_keeps l1e_hooks_keep)

end

section \<open>The hook tables\<close>

interpretation wr_own: ext_keeps "wr_own_platform P" for P
  by unfold_locales
     (auto simp: wr_own_platform_def wr_own_hooks_def pp_hooks_def hook_keeps_def hook_frame_keeps_def
       wr_extension_state_changed_def intro: keeps_rules)

interpretation l1e_own: ext_keeps "l1e_own_platform P" for P
  by unfold_locales
     (auto simp: l1e_own_platform_def l1e_own_hooks_def pp_hooks_def hook_keeps_def hook_frame_keeps_def intro: keeps_rules)

text \<open>The platforms on which every port runs the standard protocol or one of the two extensions.\<close>

definition supported :: "platform \<Rightarrow> bool" where
  "supported P \<longleftrightarrow> (\<forall>i. ext_hooks P i \<in> {pp_hooks, wr_ext_hooks P, l1e_ext_hooks P})"

lemma wr_hooks_ext_keeps:
  "hook_frame_keeps (h_init (wr_ext_hooks P))" "hook_frame_keeps (h_listening (wr_ext_hooks P))"
  "hook_frame_keeps (h_new_slave (wr_ext_hooks P))" "hook_frame_keeps (h_handle_signaling (wr_ext_hooks P))"
  "hook_frame_keeps (h_run_ext_state_machine (wr_ext_hooks P))"
  "hook_keeps (h_handle_resp (wr_ext_hooks P))" "hook_keeps (h_handle_announce (wr_ext_hooks P))"
  "hook_keeps (h_handle_sync (wr_ext_hooks P))" "hook_keeps (h_handle_followup (wr_ext_hooks P))"
  "hook_keeps (h_handle_preq (wr_ext_hooks P))" "hook_keeps (h_handle_presp (wr_ext_hooks P))"
  "hook_keeps (h_handle_dreq (wr_ext_hooks P))" "hook_keeps (h_pack_announce (wr_ext_hooks P))"
  "hook_keeps (h_ready_for_slave (wr_ext_hooks P))" "hook_keeps (h_extension_state_changed (wr_ext_hooks P))"
  "hook_keeps (h_open (wr_ext_hooks P))" "hook_keeps (h_close (wr_ext_hooks P))"
  by (simp_all add: wr_ext_hooks_def wr_own_hooks_def pp_hooks_def Let_def hook_keeps_def hook_frame_keeps_def
    wr_own.wr_hooks_keep wr_own.wr_run_keeps wr_msgs_keep wr_extension_state_changed_def ext_setters_keep)

lemma l1e_hooks_ext_keeps:
  "hook_frame_keeps (h_init (l1e_ext_hooks P))" "hook_frame_keeps (h_listening (l1e_ext_hooks P))"
  "hook_frame_keeps (h_new_slave (l1e_ext_hooks P))" "hook_frame_keeps (h_handle_signaling (l1e_ext_hooks P))"
  "hook_frame_keeps (h_run_ext_state_machine (l1e_ext_hooks P))"
  "hook_keeps (h_handle_resp (l1e_ext_hooks P))" "hook_keeps (h_handle_announce (l1e_ext_hooks P))"
  "hook_keeps (h_handle_sync (l1e_ext_hooks P))" "hook_keeps (h_handle_followup (l1e_ext_hooks P))"
  "hook_keeps (h_handle_preq (l1e_ext_hooks P))" "hook_keeps (h_handle_presp (l1e_ext_hooks P))"
  "hook_keeps (h_handle_dreq (l1e_ext_hooks P))" "hook_keeps (h_pack_announce (l1e_ext_hooks P))"
  "hook_keeps (h_ready_for_slave (l1e_ext_hooks P))" "hook_keeps (h_extension_state_changed (l1e_ext_hooks P))"
  "hook_keeps (h_open (l1e_ext_hooks P))" "hook_keeps (h_close (l1e_ext_hooks P))"
  by (simp_all add: l1e_ext_hooks_def l1e_own_hooks_def pp_hooks_def Let_def hook_keeps_def hook_frame_keeps_def
    l1e_own.l1e_hooks_keep l1e_own.l1e_machine_keeps l1e_own.l1e_signaling_keeps l1e_changed_keeps)

lemma std_hooks_ext_keeps:
  "hook_keeps None" "hook_frame_keeps None"
  by (simp_all add: hook_keeps_def hook_frame_keeps_def)

lemma ext_special_hooks:
  "h_state_change (wr_ext_hooks P) = Some (wr_state_change (wr_own_platform P))"
  "h_state_change (l1e_ext_hooks P) = Some (l1e_state_change (l1e_own_platform P))"
  "h_unpack_announce (wr_ext_hooks P) = Some wr_unpack_announce" "h_unpack_announce (l1e_ext_hooks P) = None"
  "h_bmca_s1 (wr_ext_hooks P) = Some wr_bmca_s1" "h_bmca_s1 (l1e_ext_hooks P) = None"
  "h_state_decision (wr_ext_hooks P) = None" "h_state_decision (l1e_ext_hooks P) = None"
  "h_init (wr_ext_hooks P) = Some (wr_init (wr_own_platform P))" "h_init (l1e_ext_hooks P) = Some (l1e_init (l1e_own_platform P))"
  by (simp_all add: wr_ext_hooks_def l1e_ext_hooks_def wr_own_hooks_def l1e_own_hooks_def pp_hooks_def Let_def)

text \<open>The contract holds on every supported platform.\<close>

lemma supported_ext_keeps:
  assumes "supported P"
  shows "ext_keeps P"
proof -
  have "\<exists>A B. \<forall>i. ext_hooks P i = (if A i then pp_hooks else if B i then wr_ext_hooks P else l1e_ext_hooks P)"
    by (rule exI [of _ "\<lambda>i. ext_hooks P i = pp_hooks"], rule exI [of _ "\<lambda>i. ext_hooks P i = wr_ext_hooks P"])
       (use assms in \<open>auto simp: supported_def\<close>)
  then obtain A B where
    e: "\<And>i. ext_hooks P i = (if A i then pp_hooks else if B i then wr_ext_hooks P else l1e_ext_hooks P)" by blast
  show ?thesis
    by unfold_locales
       (auto simp: e pp_hooks_def std_hooks_ext_keeps wr_hooks_ext_keeps l1e_hooks_ext_keeps ext_special_hooks
         wr_hooks_ext_keeps(1) [unfolded ext_special_hooks] l1e_hooks_ext_keeps(1) [unfolded ext_special_hooks]
         pp_hooks_state_change_keeps wr_own.wr_state_change_keeps l1e_own.l1e_state_change_keeps s1_hook_keeps
         wr_unpack_announce_def wr_init_def l1e_init_def Let_def case_prod_beta split: if_splits)
qed

text \<open>Any choice of the protocols of the ports is supported.\<close>

datatype protocol = Proto_std | Proto_wr | Proto_l1e

definition with_protocols :: "(nat \<Rightarrow> protocol) \<Rightarrow> platform \<Rightarrow> platform" where
  "with_protocols pr P = P\<lparr> ext_hooks := \<lambda>i.
     case pr i of Proto_std \<Rightarrow> pp_hooks | Proto_wr \<Rightarrow> wr_ext_hooks P | Proto_l1e \<Rightarrow> l1e_ext_hooks P \<rparr>"

lemma hooks_of_extended [simp]:
  "wr_ext_hooks (P\<lparr> ext_hooks := h \<rparr>) = wr_ext_hooks P"
  "l1e_ext_hooks (P\<lparr> ext_hooks := h \<rparr>) = l1e_ext_hooks P"
  by (simp_all add: wr_ext_hooks_def wr_own_platform_def l1e_ext_hooks_def l1e_own_platform_def l1e_own_hooks_def)

lemma with_protocols_supported: "supported (with_protocols pr P)"
  by (auto simp: supported_def with_protocols_def split: protocol.split)

end
