(* ===== verification/Spec2Isabelle.thy ===== *)
theory Spec2Isabelle
  imports Ext_Frame
begin

text \<open>
  A verification development for ppsi, a portable Precision Time Protocol (IEEE 1588) daemon: the standard protocol
  with its best master clock algorithm and its servo, the White Rabbit and the L1Sync extension, and the main loop
  of the POSIX architecture.  File names below are relative to \<^verbatim>\<open>src/\<close>.

  \<^bold>\<open>The program.\<close>  A clock (\<^verbatim>\<open>struct pp_globals\<close>) has ports (\<^verbatim>\<open>struct pp_instance\<close>).  The main loop passes each received
  frame, or the end of a wait, to the state machine of a port (\<^verbatim>\<open>fsm.c\<close>), which checks and decodes the frame, lets
  the function of the port's state act on it and handles the extension.  State functions issue messages, start
  timers, record foreign masters and feed the servo with timestamps.  On a timer, and when a frame changed the set of
  masters, the best master clock algorithm compares the foreign masters and decides the state of every port.
  The extensions act through a table of hooks.  The platform (network, clock, servo hardware) is a table of operations.

  \<^bold>\<open>How it is modelled.\<close>  The state is one record \<open>pp_globals\<close> with the list of its ports; \<open>INST ppg i\<close> stands for
  the pointer \<^verbatim>\<open>INST(ppg, i)\<close> and \<open>upd_inst\<close> for a store through it.  Every function of the source is a definition of the same
  name that takes and returns the state.  Integers keep their width (\<open>u8\<close> to \<open>u64\<close>, \<open>s8\<close> to \<open>s64\<close>) and wrap around.
  Errors are the codes the source returns, or \<open>None\<close>.  What the source calls and does not define, the operations of the
  network, of the time source and of the hardware, is the record \<open>platform\<close>: their answers are arbitrary functions
  of the state, their effects are recorded in order in the list \<open>g_events\<close>.  The hooks of the extensions are a
  record of optional functions, chosen for each port, as in the source.

  \<^bold>\<open>The theories.\<close>
  \<^item> \<open>Ppsi_Prelude\<close>, \<open>Wire_Bytes\<close>: integer types, exactness of arithmetic that does not wrap around, the routines of
    \<^verbatim>\<open>lib/libc-functions.c\<close>, reads and writes on byte buffers in network byte order.
  \<^item> \<open>Div64\<close> (\<^verbatim>\<open>lib/div64.c\<close>): the division by shift and subtraction is division.
  \<^item> \<open>Pp_Time\<close> (\<^verbatim>\<open>lib/time-arith.c\<close>): sums, differences, halving and conversions of times, exact or with their exact error.
  \<^item> \<open>Ppsi_Types\<close> (\<^verbatim>\<open>include/ppsi/\<close>): the data of the protocol, of the ports, of the extensions and of the platform.
  \<^item> \<open>Timeout\<close> (\<^verbatim>\<open>timeout.c\<close>, \<^verbatim>\<open>time-unix/unix-time.c\<close>): timers over a millisecond counter that wraps around.  The locale
    \<open>ms_counter\<close> is what they need of the counter; the POSIX counter is an instance.
  \<^item> \<open>Bmc_Cmp\<close>, \<open>Bmc_Frgn\<close>, \<open>Bmc_Decision\<close> (\<^verbatim>\<open>proto-standard/bmc.c\<close>): the comparison of data sets, which is a total order on
    consistent records (locale \<open>key_cmp\<close>); the table of foreign masters, its invariant, removal and ageing (locales \<open>record_table\<close> and
    \<open>swept_table\<close>); Erbest and Ebest; the state decision and the updates of the data sets.
  \<^item> \<open>Clock_Quality\<close> (\<^verbatim>\<open>proto-standard/bmc_clock_quality.c\<close>): the default and the degraded attributes of the local clock.
  \<^item> \<open>Msg\<close> (\<^verbatim>\<open>proto-standard/msg.c\<close>, \<^verbatim>\<open>msg-p2p.c\<close>, \<^verbatim>\<open>common-fun.c\<close>): packing and unpacking of every message, issuing it and logging its timestamp;
    round trips through the bytes of the frame.
  \<^item> \<open>Servo\<close> (\<^verbatim>\<open>proto-standard/servo.c\<close>): fixed-point multiplication, the asymmetry model, delays and offset, filter and PI controller,
    with error bounds of the computed values.
  \<^item> \<open>Fsm_Lib\<close>, \<open>States\<close>, \<open>Fsm\<close>, \<open>Open_Close\<close> (\<^verbatim>\<open>proto-standard/common-fun.c\<close>, \<^verbatim>\<open>state-*.c\<close>, \<^verbatim>\<open>fsm.c\<close>, \<^verbatim>\<open>open-close.c\<close>): the states of
    a port, one activation of its state machine, the start and the end.
  \<^item> \<open>Clock_Frame\<close>, \<open>Clock_Inv\<close>: the relation \<open>keeps\<close> between clock states, the locale \<open>ext_keeps\<close> of the platforms whose hooks respect it,
    and the invariant \<open>clock_ok\<close> that every activation preserves.
  \<^item> \<open>Main_Loop\<close> (\<^verbatim>\<open>arch-unix/main-loop.c\<close>): the passes of the main loop as a step relation, the states it reaches, progress.
  \<^item> \<open>Wrh_Servo\<close> (\<^verbatim>\<open>proto-ext-common/wrh-servo.c\<close>): the servo of both extensions.
  \<^item> \<open>Wr_Msg\<close>, \<open>Wr_Ext\<close> (\<^verbatim>\<open>proto-ext-whiterabbit/\<close>): messages, handshake and hooks of White Rabbit; the handshake refines an automaton.
  \<^item> \<open>L1e_Ext\<close> (\<^verbatim>\<open>proto-ext-l1sync/\<close>): messages, states and hooks of L1Sync.
  \<^item> \<open>Ext_Frame\<close>: both extensions satisfy \<open>ext_keeps\<close>, so the invariant and the progress of the main loop hold with them.
  The properties of one component stand in its theory; those that span components stand below.

  \<^bold>\<open>Bounds and termination.\<close>  Every loop of the source is a structural recursion, a fold or a function with a termination
  proof, except where the source may not end: the expansion of the asymmetry coefficient is a \<open>partial_function\<close> and is shown to end, and one
  activation of a state machine returns an option, where \<open>None\<close> is the missing entry in the table of states; it is
  shown never to occur from a configured clock.  A configured clock has from 1 to \<open>2 ^ 15 - 1\<close> ports, as many foreign
  master records, buffers of at least 64 bytes and empty tables, as the start-up code leaves it.

  \<^bold>\<open>Assumptions.\<close>  The host is little-endian with 32-bit \<^verbatim>\<open>int\<close>, 64-bit \<^verbatim>\<open>long\<close> and arithmetic right shifts; a signed overflow wraps
  around.  Build options that change the code outside the modelled architecture are off (\<^verbatim>\<open>CONFIG_ABSCAL\<close>,
  \<^verbatim>\<open>CONFIG_ARCH_IS_WRS\<close>, \<^verbatim>\<open>CONFIG_ARCH_IS_WRPC\<close>); those that select features of the protocol are members of the record
  of the configuration.

  \<^bold>\<open>Not modelled.\<close>  Diagnostics, dumps and text output, which change no state of the protocol; the sockets, system
  calls and hardware registers behind the operations of the platform (\<^verbatim>\<open>time-*\<close>, \<^verbatim>\<open>arch-*\<close>), which are its parameters;
  the locking of the memory shared with monitoring tools; the parsing of the configuration files and of the command
  line (\<^verbatim>\<open>lib/conf.c\<close>, \<^verbatim>\<open>lib/cmdline.c\<close>), whose result is the configured clock; the simulator, the tools, the
  \<^verbatim>\<open>mini-rpc\<close> library and the build system.
\<close>

section \<open>Properties across the components\<close>

lemma s1_data_kept:
  assumes "h_bmca_s1 (ext_hooks P i) = None"
  shows "g_parentDS (bmc_s1 P ppg i fm loc) = g_parentDS (s1_data_sets fm ppg)"
    "g_currentDS (bmc_s1 P ppg i fm loc) = g_currentDS (s1_data_sets fm ppg)"
    "tp_timeSource (g_timePropertiesDS (bmc_s1 P ppg i fm loc)) = fm_timeSource fm"
proof -
  have f: "g_parentDS (fold log_event evs a) = g_parentDS a" "g_currentDS (fold log_event evs a) = g_currentDS a" for evs a
    by (induction evs arbitrary: a) simp_all
  have t: "g_parentDS (pp_timeout_disable P a j x) = g_parentDS a" "g_currentDS (pp_timeout_disable P a j x) = g_currentDS a"
      "g_timePropertiesDS (pp_timeout_disable P a j x) = g_timePropertiesDS a" for a j x
    by (simp_all add: pp_timeout_disable_def upd_counter_def upd_tmo_def)
  show "g_parentDS (bmc_s1 P ppg i fm loc) = g_parentDS (s1_data_sets fm ppg)"
    "g_currentDS (bmc_s1 P ppg i fm loc) = g_currentDS (s1_data_sets fm ppg)"
    "tp_timeSource (g_timePropertiesDS (bmc_s1 P ppg i fm loc)) = fm_timeSource fm"
    using assms by (simp_all add: bmc_s1_def s1_properties_def Let_def case_prod_beta f t)
qed

lemma s1_ports_kept:
  assumes "h_bmca_s1 (ext_hooks P i) = None"
  shows "ppi_tx_ptp (INST (bmc_s1 P ppg i fm loc) j) = ppi_tx_ptp (INST ppg j)"
    "ppi_portDS (INST (bmc_s1 P ppg i fm loc) j) = ppi_portDS (INST ppg j)"
    "length (pp_instances (bmc_s1 P ppg i fm loc)) = length (pp_instances ppg)"
proof -
  have f: "pp_instances (fold log_event evs a) = pp_instances a" for evs a
    by (induction evs arbitrary: a) (simp_all add: log_event_def)
  have i: "INST (a\<lparr> g_timePropertiesDS := x \<rparr>) j = INST a j" for a x by (simp add: INST_def)
  have e: "INST (fold log_event evs a) j = INST a j" for evs a by (simp add: INST_def f)
  have u: "INST (upd_counter n x c a) j =
      (if j = counter_owner n x \<and> j < length (pp_instances a) then upd_tmo x c (INST a j) else INST a j)" for n x c a
    by (auto simp: upd_counter_def INST_def upd_inst_def list_update_beyond)
  have l: "length (pp_instances (upd_counter n x c a)) = length (pp_instances a)" for n x c a by (simp add: upd_counter_def)
  have t: "ppi_tx_ptp (INST (pp_timeout_disable P a n x) j) = ppi_tx_ptp (INST a j)"
      "ppi_portDS (INST (pp_timeout_disable P a n x) j) = ppi_portDS (INST a j)"
      "length (pp_instances (pp_timeout_disable P a n x)) = length (pp_instances a)" for a n x
    by (simp_all add: pp_timeout_disable_def pp_timeout_set_def pp_timeout_set0_def u l) (simp_all add: upd_tmo_def)
  show "ppi_tx_ptp (INST (bmc_s1 P ppg i fm loc) j) = ppi_tx_ptp (INST ppg j)"
    "ppi_portDS (INST (bmc_s1 P ppg i fm loc) j) = ppi_portDS (INST ppg j)"
    "length (pp_instances (bmc_s1 P ppg i fm loc)) = length (pp_instances ppg)"
    using assms by (simp_all add: bmc_s1_def Let_def case_prod_beta t f i e) (simp_all add: s1_data_sets_def INST_def)
qed


lemma s1_flags_kept:
  assumes "h_bmca_s1 (ext_hooks P i) = None" and "k \<in> {2, 3, 4, 5}"
  shows "bit (announce_flags (g_timePropertiesDS (bmc_s1 P ppg i fm loc))) k \<longleftrightarrow> bit (fm_flagField1 fm) k"
proof -
  have t: "g_timePropertiesDS (pp_timeout_disable P a j x) = g_timePropertiesDS a" for a j x
    by (simp add: pp_timeout_disable_def upd_counter_def upd_tmo_def)
  have b: "(w AND 2 ^ n \<noteq> 0) = bit w n" if "n < 8" for w :: u8 and n
    using that by (simp add: and_exp_eq_0_iff_not_bit)
  have m: "(w AND FFB_UTCV \<noteq> 0) = bit w 2" "(w AND FFB_PTP \<noteq> 0) = bit w 3" "(w AND FFB_TTRA \<noteq> 0) = bit w 4"
      "(w AND FFB_FTRA \<noteq> 0) = bit w 5" for w
    using b [of 2 w] b [of 3 w] b [of 4 w] b [of 5 w] by (simp_all add: ffb_defs)
  have f: "(flag_of x \<noteq> 0) = x" for x by (simp add: flag_of_def)
  define q where "q = g_timePropertiesDS (bmc_s1 P ppg i fm loc)"
  have e: "bit (if c then 2 ^ n else 0 :: u8) k = (c \<and> n = k)" if "n < 8" for c n
    using that by (auto simp: bit_exp_iff)
  have "announce_flags q = (if tp_leap61 q \<noteq> 0 then 2 ^ 0 else 0) OR (if tp_leap59 q \<noteq> 0 then 2 ^ 1 else 0) OR
     (if tp_currentUtcOffsetValid q \<noteq> 0 then 2 ^ 2 else 0) OR (if tp_ptpTimescale q \<noteq> 0 then 2 ^ 3 else 0) OR
     (if tp_timeTraceable q \<noteq> 0 then 2 ^ 4 else 0) OR (if tp_frequencyTraceable q \<noteq> 0 then 2 ^ 5 else 0)"
    by (simp only: announce_flags_def power_0 power_one_right) simp
  then have a: "bit (announce_flags q) k = (tp_leap61 q \<noteq> 0 \<and> 0 = k \<or> tp_leap59 q \<noteq> 0 \<and> 1 = k \<or>
      tp_currentUtcOffsetValid q \<noteq> 0 \<and> 2 = k \<or> tp_ptpTimescale q \<noteq> 0 \<and> 3 = k \<or>
      tp_timeTraceable q \<noteq> 0 \<and> 4 = k \<or> tp_frequencyTraceable q \<noteq> 0 \<and> 5 = k)"
    by (simp only: bit_or_iff e disj_assoc)
  have q: "tp_currentUtcOffsetValid q = flag_of (bit (fm_flagField1 fm) 2)" "tp_ptpTimescale q = flag_of (bit (fm_flagField1 fm) 3)"
      "tp_timeTraceable q = flag_of (bit (fm_flagField1 fm) 4)" "tp_frequencyTraceable q = flag_of (bit (fm_flagField1 fm) 5)"
    unfolding q_def using assms(1) by (simp_all add: bmc_s1_def s1_properties_def Let_def case_prod_beta t m)
  show ?thesis unfolding q_def [symmetric] a q f using assms(2) by auto
qed

text \<open>
  C4: the grandmaster propagates.  When a port decides for the master \<open>fm\<close>, the next announce message of any port of
  the clock carries to its receiver the identity, the priorities and the quality of the grandmaster of \<open>fm\<close>, its
  time source and its flags on the time scale, traceability and validity of the UTC offset, one step further away
  and under the identity of the sending port.  The transmit buffer of that port is initialised, and no hooks of an
  extension take part.
\<close>

theorem grandmaster_propagates:
  assumes "j < length (pp_instances ppg)" and "tx_ready (INST ppg j)"
    and "h_bmca_s1 (ext_hooks P i) = None" and "h_pack_announce (ext_hooks P j) = None"
    and "h_unpack_announce (ext_hooks P' k) = None"
  shows "let ppg1 = bmc_s1 P ppg i fm loc; frame = ppi_tx_ptp (INST (snd (msg_pack_announce P ppg1 j)) j);
             h = msg_header_of frame; ann = fst (msg_unpack_announce P' peer k frame)
    in ann_grandmasterIdentity ann = fm_grandmasterIdentity fm \<and>
       ann_grandmasterClockQuality ann = fm_grandmasterClockQuality fm \<and>
       ann_grandmasterPriority1 ann = fm_grandmasterPriority1 fm \<and>
       ann_grandmasterPriority2 ann = fm_grandmasterPriority2 fm \<and>
       ann_stepsRemoved ann = fm_stepsRemoved fm + 1 \<and> ann_timeSource ann = fm_timeSource fm \<and>
       (\<forall>b \<in> {2, 3, 4, 5}. bit (hdr_flagField1 h) b \<longleftrightarrow> bit (fm_flagField1 fm) b) \<and>
       hdr_sourcePortIdentity h = por_portIdentity (ppi_portDS (INST ppg j))"
proof -
  define g where "g = bmc_s1 P ppg i fm loc"
  have r: "tx_ready (INST g j)" "j < length (pp_instances g)"
    using s1_ports_kept [OF assms(3), where ppg = ppg and fm = fm and loc = loc] assms(1,2) by (simp_all add: g_def tx_ready_def)
  have fl: "\<forall>b \<in> {2, 3, 4, 5}. bit (announce_flags (g_timePropertiesDS g)) b \<longleftrightarrow> bit (fm_flagField1 fm) b"
    unfolding g_def using s1_flags_kept [OF assms(3)] by blast
  obtain len q where p: "msg_pack_announce0 g (INST g j) = (len, q)" by fastforce
  have frame: "ppi_tx_ptp (INST (snd (msg_pack_announce P g j)) j) = ppi_tx_ptp q"
    "fst (msg_unpack_announce P' peer k (ppi_tx_ptp q)) = msg_announce_of (ppi_tx_ptp q)"
    using p r(2) assms(4,5) by (simp_all add: msg_pack_announce_def msg_unpack_announce_def)
  note ann = announce_of_packed [OF r(1), of g, unfolded p snd_conv]
    and flags = flags_of_announce [OF r(1), of g, unfolded p snd_conv]
    and src = header_of_announce(3) [OF r(1), of g, unfolded p snd_conv]
    and data = s1_data_kept [OF assms(3), of ppg fm loc, folded g_def]
  show ?thesis
    unfolding Let_def g_def [symmetric] frame ann flags src using fl data s1_ports_kept(2) [OF assms(3), of ppg fm loc j, folded g_def]
    by (simp add: s1_data_sets_def)
qed


theorem grandmaster_propagates_witness:
  "let ppg1 = bmc_s1 platform_idle (pp_globals_0 config_default 2) 0 (example_master 10 7 3) (0, 0);
       ann = fst (msg_unpack_announce platform_idle ppg1 0 (ppi_tx_ptp (INST (snd (msg_pack_announce platform_idle ppg1 1)) 1)))
   in ann_grandmasterIdentity ann = ClockId 7 0 0 0 0 0 0 0 \<and> ann_stepsRemoved ann = 4"
proof -
  let ?g = "pp_globals_0 config_default 2"
  have i: "1 < length (pp_instances ?g)" by (simp add: pp_globals_0_def)
  have "INST ?g 1 = pp_instance_0 config_default" by (simp add: INST_def pp_globals_0_def)
  then have r: "tx_ready (INST ?g 1)" using tx_ready_0 [of config_default] by simp
  have h: "h_bmca_s1 (ext_hooks platform_idle 0) = None" "h_pack_announce (ext_hooks platform_idle 1) = None"
    "h_unpack_announce (ext_hooks platform_idle 0) = None" by (simp_all add: platform_idle_def pp_hooks_def)
  show ?thesis
    using grandmaster_propagates [OF i r h, of "example_master 10 7 3" "(0, 0)"]
    by (simp add: Let_def example_master_def)
qed

text \<open>
  C2: the state of the daemon stays well-formed.  After start-up on a configured clock, one with up to \<open>2 ^ 15 - 1\<close>
  ports and foreign master records, empty tables, buffers of at least 64 bytes and no link, whatever the platform
  answers, whatever frames arrive and however the passes of the main loop are interleaved, with each port running
  the plain protocol, White Rabbit or L1Sync: the number of ports does not change, and every port has a state of the
  table of states, a foreign master table that is well-formed, and a transmit buffer that holds the longest standard
  message and, once the port is active or knows a master, carries its identity; a disabled port has no link
  unless its state is configured from outside.
\<close>

theorem clock_stays_well_formed:
  assumes "configured a" and "supported P" and "opened = snd (pp_init_globals P opts_set opts a)"
    and "main_reaches supported opened (d, ppg)"
  shows "length (pp_instances ppg) = length (pp_instances a) \<and> g_nlinks ppg = g_nlinks a \<and>
    get_numberPorts ppg \<le> length (pp_instances ppg) \<and>
    (\<forall>j < length (pp_instances ppg). let p = INST ppg j
      in ppi_state p \<noteq> PPS_END_OF_TABLE \<and> frgn_wf (g_config ppg) p \<and> 64 \<le> length (ppi_tx_ptp p) \<and>
         (tx_ready p \<or> frgn_rec_num p = 0 \<and> \<not> is_active (ppi_state p)) \<and>
         (ppi_state p = PPS_DISABLED \<longrightarrow> \<not> link_up p \<or> is_externalPortConfigurationEnabled ppg))"
proof -
  have "clock_ok (length (pp_instances a), g_nlinks a) opened"
    using ext_keeps.opened_ok [OF supported_ext_keeps [OF assms(2)] assms(1)] by (simp add: assms(3))
  from main_loop_ok [where allowed = supported, OF supported_ext_keeps this assms(4)] show ?thesis
    unfolding clock_ok_def port_ok_def Let_def by (auto split: if_splits)
qed

text \<open>The cleared clock with two ports, as the start-up code configures it.\<close>

definition two_ports :: pp_globals where
  "two_ports = (pp_globals_0 config_default 2)\<lparr> g_nlinks := 2, pp_instances :=
     replicate 2 ((pp_instance_0 config_default)\<lparr> ppi_cfg := pp_instance_cfg_0\<lparr> cfg_desiredState := PPS_MASTER \<rparr> \<rparr>) \<rparr>"

lemma two_ports_configured: "configured two_ports"
  by (simp add: configured_def two_ports_def pp_globals_0_def config_default_def pp_instance_0_def list_all_iff)

lemma opened_runs:
  assumes "configured a" and "supported P" and "supported Q" and "opened = snd (pp_init_globals P opts_set opts a)"
  shows "\<exists>d ppg. run_all_state_machines Q (start_links opened) = Some (d, ppg) \<and> main_reaches supported opened (d, ppg)"
proof -
  have "clock_ok (length (pp_instances a), g_nlinks a) (start_links opened)"
    using ext_keeps.opened_ok [OF supported_ext_keeps [OF assms(2)] assms(1)] by (simp add: assms(4) start_links_ok)
  from ext_keeps.run_all_ok [OF supported_ext_keeps [OF assms(3)] this] show ?thesis
    using main_reaches.enter [where allowed = supported and P = Q, OF assms(3)] by blast
qed

theorem clock_stays_well_formed_witness:
  "\<exists>d ppg. let P = with_protocols (\<lambda>i. if i = 0 then Proto_wr else Proto_l1e) platform_idle;
      opened = snd (pp_init_globals P False pp_runtime_opts_0 two_ports)
    in main_reaches supported opened (d, ppg) \<and> length (pp_instances ppg) = 2 \<and> frgn_wf (g_config ppg) (INST ppg 1)"
proof -
  let ?P = "with_protocols (\<lambda>i. if i = 0 then Proto_wr else Proto_l1e) platform_idle"
  have s: "supported ?P" by (rule with_protocols_supported)
  let ?o = "snd (pp_init_globals ?P False pp_runtime_opts_0 two_ports)"
  obtain d ppg where r: "main_reaches supported ?o (d, ppg)"
    using opened_runs [OF two_ports_configured s s refl] by blast
  have n: "length (pp_instances two_ports) = 2" by (simp add: two_ports_def)
  have "length (pp_instances ppg) = 2 \<and> frgn_wf (g_config ppg) (INST ppg 1)"
    using clock_stays_well_formed [OF two_ports_configured s refl r] n by (simp add: Let_def)
  with r show ?thesis by (auto simp: Let_def)
qed

text \<open>
  C3: the daemon never gets stuck.  On a configured clock, whichever of the protocols each port runs, the first
  run of the state machines ends, and from every state the main loop reaches both the run of all state machines
  and the handling of any received frames, of any content and length, end in a state from which the loop goes on.
\<close>

theorem main_loop_never_stuck:
  assumes "configured a" and "supported P" and "opened = snd (pp_init_globals P opts_set opts a)" and "supported Q"
  shows "(\<exists>t. run_all_state_machines Q (start_links opened) = Some t \<and> main_reaches supported opened t) \<and>
    (\<forall>s rx. main_reaches supported opened s \<longrightarrow>
      (\<exists>t. run_all_state_machines Q (snd s) = Some t \<and> main_reaches supported opened t) \<and>
      (\<exists>t. receive_all Q rx (snd s) = Some t \<and> main_reaches supported opened t))"
proof -
  have "clock_ok (length (pp_instances a), g_nlinks a) opened"
    using ext_keeps.opened_ok [OF supported_ext_keeps [OF assms(2)] assms(1)] by (simp add: assms(3))
  from main_loop_progress [where allowed = supported, OF supported_ext_keeps this _ assms(4)] opened_runs [OF assms(1,2,4,3)] show ?thesis by blast
qed

theorem main_loop_never_stuck_witness:
  "let P = with_protocols (\<lambda>i. if i = 0 then Proto_wr else Proto_l1e) platform_idle;
       opened = snd (pp_init_globals P False pp_runtime_opts_0 two_ports)
   in configured two_ports \<and> supported P \<and> (\<exists>t. run_all_state_machines P (start_links opened) = Some t)"
proof -
  let ?P = "with_protocols (\<lambda>i. if i = 0 then Proto_wr else Proto_l1e) platform_idle"
  have s: "supported ?P" by (rule with_protocols_supported)
  show ?thesis unfolding Let_def
    using main_loop_never_stuck [OF two_ports_configured s refl s, of False pp_runtime_opts_0] two_ports_configured s by blast
qed

end
